(* ===== verification/Prelude.thy ===== *)
theory Prelude
  imports Main "HOL-Library.Word" "HOL-Library.Char_ord" "HOL-Library.List_Lexorder"
begin

text \<open>
  Shared material of the development: the machine integer types of the C++ sources, the
  exceptions they throw, the error monad in which fallible code is written (\<open>Inl\<close> is the
  exception), the decimal conversions of the standard library (\<open>std::to_string\<close>,
  \<open>std::stoull\<close>, \<open>std::stoll\<close>) and generic facts about lists.
\<close>

section \<open>Machine integers\<close>

type_synonym u8 = "8 word"
type_synonym u16 = "16 word"
type_synonym u32 = "32 word"
type_synonym u64 = "64 word"

text \<open>The automation of the development: unfolding of the error monad, and the component rules.\<close>

named_theorems exn_simps
named_theorems model_defs

section \<open>Exceptions and the error monad\<close>

text \<open>
  The exception classes the sources throw or catch by name. \<open>Json_error\<close> stands for
  \<open>nlohmann::json::exception\<close>, \<open>Reply_error\<close> for \<open>sw::redis::ReplyError\<close>; each carries the text of \<open>what()\<close>.
  Two outcomes are no exceptions of the program, and no handler catches them: \<open>Never_returns\<close>, a loop that
  does not end, and \<open>Exit_process\<close>, a call of \<open>std::_Exit\<close>.
\<close>

datatype exn =
    Invalid_argument string
  | Runtime_error string
  | Logic_error string
  | Out_of_range string
  | Json_error string
  | Reply_error string
  | Never_returns
  | Exit_process int

fun what :: "exn \<Rightarrow> string" where
  "what (Invalid_argument m) = m"
| "what (Runtime_error m) = m"
| "what (Logic_error m) = m"
| "what (Out_of_range m) = m"
| "what (Json_error m) = m"
| "what (Reply_error m) = m"
| "what Never_returns = []"
| "what (Exit_process code) = []"

fun std_exception :: "exn \<Rightarrow> bool" where
  "std_exception Never_returns = False"
| "std_exception (Exit_process code) = False"
| "std_exception e = True"

type_synonym 'a result = "exn + 'a"

fun bindE :: "'e + 'a \<Rightarrow> ('a \<Rightarrow> 'e + 'b) \<Rightarrow> 'e + 'b" where
  "bindE (Inl e) f = Inl e"
| "bindE (Inr x) f = f x"

definition throwIf :: "bool \<Rightarrow> 'e \<Rightarrow> 'e + unit" where
  "throwIf b e = (if b then Inl e else Inr ())"

fun mapE :: "('a \<Rightarrow> 'e + 'b) \<Rightarrow> 'a list \<Rightarrow> 'e + 'b list" where
  "mapE f [] = Inr []"
| "mapE f (x # xs) = bindE (f x) (\<lambda>y. bindE (mapE f xs) (\<lambda>ys. Inr (y # ys)))"

lemma bindE_Inr_conv [exn_simps]:
  "bindE m f = Inr y \<longleftrightarrow> (\<exists>x. m = Inr x \<and> f x = Inr y)"
  by (cases m) auto

lemma bindE_Inl_conv [exn_simps]:
  "bindE m f = Inl e \<longleftrightarrow> m = Inl e \<or> (\<exists>x. m = Inr x \<and> f x = Inl e)"
  by (cases m) auto

lemma bindE_assoc: "bindE (bindE m f) g = bindE m (\<lambda>x. bindE (f x) g)"
  by (cases m) auto

lemma throwIf_Inr [simp]: "throwIf b e = Inr u \<longleftrightarrow> \<not> b"
  by (simp add: throwIf_def)

lemma throwIf_Inl [simp]: "throwIf b e = Inl e' \<longleftrightarrow> b \<and> e' = e"
  by (auto simp: throwIf_def)

lemma throwIf_simps [simp]: "throwIf True e = Inl e" "throwIf False e = Inr ()"
  by (simp_all add: throwIf_def)

lemma mapE_all_Inr:
  "(\<And>x. x \<in> set xs \<Longrightarrow> f x = Inr (g x)) \<Longrightarrow> mapE f xs = Inr (map g xs)"
  by (induction xs) auto

lemma mapE_map: "mapE f (map g xs) = mapE (\<lambda>x. f (g x)) xs"
  by (induction xs) simp_all

lemma mapE_Inr_length: "mapE f xs = Inr ys \<Longrightarrow> length ys = length xs"
  by (induction xs arbitrary: ys) (auto simp: exn_simps)

lemma mapE_Inr_nth:
  "mapE f xs = Inr ys \<Longrightarrow> i < length xs \<Longrightarrow> f (xs ! i) = Inr (ys ! i)"
proof (induction xs arbitrary: ys i)
  case (Cons x xs)
  then show ?case by (cases i) (auto simp: exn_simps)
qed simp

lemma mapE_Inr_set:
  "mapE f xs = Inr ys \<Longrightarrow> y \<in> set ys \<Longrightarrow> \<exists>x \<in> set xs. f x = Inr y"
  by (metis mapE_Inr_length mapE_Inr_nth in_set_conv_nth)

section \<open>Strings\<close>

text \<open>\<open>std::string::starts_with\<close>, \<open>ends_with\<close> and \<open>rfind\<close> on byte strings.\<close>

definition starts_with :: "string \<Rightarrow> string \<Rightarrow> bool" where
  "starts_with s p = (take (length p) s = p)"

definition ends_with :: "string \<Rightarrow> string \<Rightarrow> bool" where
  "ends_with s p = (length p \<le> length s \<and> drop (length s - length p) s = p)"

lemma starts_with_append [simp]: "starts_with (p @ s) p"
  by (simp add: starts_with_def)

lemma starts_with_iff: "starts_with s p \<longleftrightarrow> (\<exists>t. s = p @ t)"
  by (metis append_take_drop_id starts_with_append starts_with_def)

lemma ends_with_append [simp]: "ends_with (s @ p) p"
  by (simp add: ends_with_def)

fun rfind_char :: "string \<Rightarrow> char \<Rightarrow> nat option" where
  "rfind_char [] c = None"
| "rfind_char (x # xs) c =
     (case rfind_char xs c of Some i \<Rightarrow> Some (Suc i)
      | None \<Rightarrow> if x = c then Some 0 else None)"

lemma rfind_char_None: "rfind_char s c = None \<longleftrightarrow> c \<notin> set s"
  by (induction s) (auto split: option.splits)

lemma rfind_char_snoc:
  "c \<notin> set t \<Longrightarrow> rfind_char (s @ c # t) c = Some (length s)"
  by (induction s) (auto simp: rfind_char_None split: option.splits)

section \<open>Decimal conversions of the standard library\<close>

definition digit_char :: "nat \<Rightarrow> char" where
  "digit_char d = char_of (48 + d)"

fun nat_to_string :: "nat \<Rightarrow> string" where
  "nat_to_string n =
     (if n < 10 then [digit_char n] else nat_to_string (n div 10) @ [digit_char (n mod 10)])"

declare nat_to_string.simps [simp del]

definition to_string_u64 :: "u64 \<Rightarrow> string" where
  "to_string_u64 w = nat_to_string (unat w)"

definition to_string_u32 :: "u32 \<Rightarrow> string" where
  "to_string_u32 w = nat_to_string (unat w)"

definition to_string_u16 :: "u16 \<Rightarrow> string" where
  "to_string_u16 w = nat_to_string (unat w)"

definition to_string_int :: "int \<Rightarrow> string" where
  "to_string_int i = (if i < 0 then CHR ''-'' # nat_to_string (nat (- i)) else nat_to_string (nat i))"

definition is_space :: "char \<Rightarrow> bool" where
  "is_space c = (let n = (of_char c :: nat) in n = 32 \<or> (9 \<le> n \<and> n \<le> 13))"

definition is_digit :: "char \<Rightarrow> bool" where
  "is_digit c = (let n = (of_char c :: nat) in 48 \<le> n \<and> n \<le> 57)"

definition digits_value :: "string \<Rightarrow> nat" where
  "digits_value = foldl (\<lambda>v c. 10 * v + (of_char c - 48)) 0"

text \<open>
  The common part of \<open>strtoull\<close> and \<open>strtoll\<close> in base 10: leading white space, an optional
  sign, the longest run of digits; \<open>None\<close> where no digit follows. The result is the sign and the
  magnitude; text after the digits is ignored.
\<close>

definition strto_parse :: "string \<Rightarrow> (bool \<times> nat) option" where
  "strto_parse s =
     (let t = dropWhile is_space s;
          neg = (t \<noteq> [] \<and> hd t = CHR ''-'');
          u = (if t \<noteq> [] \<and> (hd t = CHR ''-'' \<or> hd t = CHR ''+'') then tl t else t);
          ds = takeWhile is_digit u
      in if ds = [] then None else Some (neg, digits_value ds))"

definition stoull :: "string \<Rightarrow> u64 result" where
  "stoull s =
     (case strto_parse s of
        None \<Rightarrow> Inl (Invalid_argument ''stoull'')
      | Some (neg, v) \<Rightarrow>
          if v \<ge> 2 ^ 64 then Inl (Out_of_range ''stoull'')
          else Inr (if neg then - of_nat v else of_nat v))"

text \<open>\<open>unsigned long\<close> has 64 bits on the platforms of the build.\<close>

definition stoul :: "string \<Rightarrow> u64 result" where
  "stoul s =
     (case strto_parse s of
        None \<Rightarrow> Inl (Invalid_argument ''stoul'')
      | Some (neg, v) \<Rightarrow>
          if v \<ge> 2 ^ 64 then Inl (Out_of_range ''stoul'')
          else Inr (if neg then - of_nat v else of_nat v))"

definition stoll :: "string \<Rightarrow> int result" where
  "stoll s =
     (case strto_parse s of
        None \<Rightarrow> Inl (Invalid_argument ''stoll'')
      | Some (neg, v) \<Rightarrow>
          let i = (if neg then - int v else int v) in
          if i < - (2 ^ 63) \<or> i \<ge> 2 ^ 63 then Inl (Out_of_range ''stoll'') else Inr i)"

lemma of_char_digit_char: "d < 10 \<Longrightarrow> (of_char (digit_char d) :: nat) = 48 + d"
  by (simp add: digit_char_def)

lemma is_digit_digit_char [simp]: "d < 10 \<Longrightarrow> is_digit (digit_char d)"
  by (simp add: is_digit_def of_char_digit_char)

lemma digits_value_snoc: "digits_value (s @ [c]) = 10 * digits_value s + (of_char c - 48)"
  by (simp add: digits_value_def)

lemma digits_value_nat_to_string [simp]: "digits_value (nat_to_string n) = n"
proof (induction n rule: nat_to_string.induct)
  case (1 n)
  show ?case
  proof (cases "n < 10")
    case True
    then show ?thesis
      by (simp add: nat_to_string.simps [of n] digits_value_def of_char_digit_char)
  next
    case False
    with 1 show ?thesis
      by (simp add: nat_to_string.simps [of n] digits_value_snoc of_char_digit_char)
  qed
qed

lemma nat_to_string_digits: "c \<in> set (nat_to_string n) \<Longrightarrow> is_digit c"
proof (induction n rule: nat_to_string.induct)
  case (1 n)
  then show ?case
    by (cases "n < 10") (auto simp: nat_to_string.simps [of n])
qed

lemma nat_to_string_not_Nil [simp]: "nat_to_string n \<noteq> []"
  by (subst nat_to_string.simps) simp

lemma nat_to_string_inj [simp]: "nat_to_string m = nat_to_string n \<longleftrightarrow> m = n"
  by (metis digits_value_nat_to_string)

lemma digit_not_special:
  "is_digit c \<Longrightarrow> \<not> is_space c \<and> c \<noteq> CHR ''-'' \<and> c \<noteq> CHR ''+'' \<and> c \<noteq> CHR ''|'' \<and> c \<noteq> CHR '':''"
  by (auto simp: is_digit_def is_space_def Let_def)

lemma takeWhile_nat_to_string [simp]: "takeWhile is_digit (nat_to_string n) = nat_to_string n"
  using nat_to_string_digits by (auto simp: takeWhile_eq_all_conv)

lemma dropWhile_nat_to_string [simp]: "dropWhile is_space (nat_to_string n) = nat_to_string n"
  using nat_to_string_digits [of "hd (nat_to_string n)" n] digit_not_special
  by (auto simp: dropWhile_eq_self_iff)

lemma hd_nat_to_string [simp]:
  "hd (nat_to_string n) \<noteq> CHR ''-''" "hd (nat_to_string n) \<noteq> CHR ''+''"
  using nat_to_string_digits [of "hd (nat_to_string n)" n] digit_not_special by auto

lemma strto_parse_nat_to_string [simp]: "strto_parse (nat_to_string n) = Some (False, n)"
  by (simp add: strto_parse_def)

lemma stoull_nat_to_string: "n < 2 ^ 64 \<Longrightarrow> stoull (nat_to_string n) = Inr (of_nat n)"
  by (simp add: stoull_def)

lemma stoull_to_string_u64 [simp]: "stoull (to_string_u64 w) = Inr w"
  using unsigned_less [of w, where 'a = nat] by (simp add: to_string_u64_def stoull_nat_to_string)

lemma stoul_to_string_u32 [simp]: "stoul (to_string_u32 w) = Inr (ucast w)"
proof -
  have "unat w < 2 ^ 32" using unsigned_less [of w, where 'a = nat] by simp
  then have "unat w < 2 ^ 64" by simp
  then show ?thesis by (simp add: to_string_u32_def stoul_def)
qed

lemma stoull_to_string_u16 [simp]: "stoull (to_string_u16 w) = Inr (ucast w)"
proof -
  have "unat w < 2 ^ 16" using unsigned_less [of w, where 'a = nat] by simp
  then have "unat w < 2 ^ 64" by simp
  then show ?thesis by (simp add: to_string_u16_def stoull_nat_to_string)
qed

lemma strto_parse_minus [simp]: "strto_parse (CHR ''-'' # nat_to_string n) = Some (True, n)"
  by (simp add: strto_parse_def is_space_def)

lemma stoll_to_string_int [simp]:
  "- (2 ^ 63) \<le> i \<Longrightarrow> i < 2 ^ 63 \<Longrightarrow> stoll (to_string_int i) = Inr i"
  by (auto simp: stoll_def to_string_int_def)

lemma to_string_u64_inj [simp]: "to_string_u64 v = to_string_u64 w \<longleftrightarrow> v = w"
  by (simp add: to_string_u64_def word_unat_eq_iff)

section \<open>Lists\<close>

lemma distinct_sorted_unique:
  fixes f :: "'a \<Rightarrow> 'k::linorder"
  assumes "sorted (map f xs)" "sorted (map f ys)" "set xs = set ys"
    "distinct (map f xs)" "distinct (map f ys)"
  shows "xs = ys"
proof -
  have "inj_on f (set xs)" using assms(4) by (simp add: distinct_map)
  moreover have "map f xs = map f ys"
    by (rule sorted_distinct_set_unique) (use assms in auto)
  ultimately show ?thesis using assms(3)
    by (metis Un_absorb map_inj_on)
qed

end
