(* ===== verification/Connection_State_Machine.thy ===== *)
theory Connection_State_Machine
  imports Prelude
begin

text \<open>
  The centralised connection lifecycle (\<open>cpp/src/connection_state_machine.cpp\<close>): the status
  type, its stable names, the transition table and the guard that throws on a forbidden
  transition; then the lifecycle as a step relation and what every run of it satisfies.
\<close>

section \<open>Model\<close>

datatype ConnectionApplyStatus =
    kAbsent
  | kPendingCreate
  | kApplying
  | kActive
  | kPendingUpdate
  | kPendingDelete
  | kRemoving
  | kFailed
  | kRetryWait
  | kDrifted
  | kReconciling

fun Status_toString :: "ConnectionApplyStatus \<Rightarrow> string" where
  "Status_toString kAbsent = ''ABSENT''"
| "Status_toString kPendingCreate = ''PENDING_CREATE''"
| "Status_toString kApplying = ''APPLYING''"
| "Status_toString kActive = ''ACTIVE''"
| "Status_toString kPendingUpdate = ''PENDING_UPDATE''"
| "Status_toString kPendingDelete = ''PENDING_DELETE''"
| "Status_toString kRemoving = ''REMOVING''"
| "Status_toString kFailed = ''FAILED''"
| "Status_toString kRetryWait = ''RETRY_WAIT''"
| "Status_toString kDrifted = ''DRIFTED''"
| "Status_toString kReconciling = ''RECONCILING''"

definition connectionApplyStatusFromString :: "string \<Rightarrow> ConnectionApplyStatus result" where
  "connectionApplyStatusFromString v =
     (if v = ''ABSENT'' then Inr kAbsent
      else if v = ''PENDING_CREATE'' then Inr kPendingCreate
      else if v = ''APPLYING'' then Inr kApplying
      else if v = ''ACTIVE'' then Inr kActive
      else if v = ''PENDING_UPDATE'' then Inr kPendingUpdate
      else if v = ''PENDING_DELETE'' then Inr kPendingDelete
      else if v = ''REMOVING'' then Inr kRemoving
      else if v = ''FAILED'' then Inr kFailed
      else if v = ''RETRY_WAIT'' then Inr kRetryWait
      else if v = ''DRIFTED'' then Inr kDrifted
      else if v = ''RECONCILING'' then Inr kReconciling
      else Inl (Invalid_argument (''unknown connection apply status: '' @ v)))"

definition canTransition :: "ConnectionApplyStatus \<Rightarrow> ConnectionApplyStatus \<Rightarrow> bool" where
  "canTransition from to =
     (case from of
        kAbsent \<Rightarrow> to = kPendingCreate
      | kPendingCreate \<Rightarrow> to = kApplying \<or> to = kFailed
      | kPendingUpdate \<Rightarrow> to = kApplying \<or> to = kFailed
      | kApplying \<Rightarrow> to = kActive \<or> to = kFailed
      | kActive \<Rightarrow> to = kPendingUpdate \<or> to = kPendingDelete \<or> to = kDrifted
      | kPendingDelete \<Rightarrow> to = kRemoving \<or> to = kFailed
      | kRemoving \<Rightarrow> to = kAbsent \<or> to = kFailed
      | kFailed \<Rightarrow> to = kRetryWait
      | kRetryWait \<Rightarrow> to = kApplying \<or> to = kRemoving
      | kDrifted \<Rightarrow> to = kReconciling
      | kReconciling \<Rightarrow> to = kActive \<or> to = kFailed)"

definition requireTransition :: "ConnectionApplyStatus \<Rightarrow> ConnectionApplyStatus \<Rightarrow> unit result" where
  "requireTransition from to =
     throwIf (\<not> canTransition from to)
       (Logic_error (''invalid connection state transition: '' @ Status_toString from @
          '' -> '' @ Status_toString to))"

section \<open>The statuses as a finite, enumerable type\<close>

instantiation ConnectionApplyStatus :: enum
begin

definition enum_ConnectionApplyStatus :: "ConnectionApplyStatus list" where
  "enum_ConnectionApplyStatus =
     [kAbsent, kPendingCreate, kApplying, kActive, kPendingUpdate, kPendingDelete,
      kRemoving, kFailed, kRetryWait, kDrifted, kReconciling]"

definition enum_all_ConnectionApplyStatus :: "(ConnectionApplyStatus \<Rightarrow> bool) \<Rightarrow> bool" where
  "enum_all_ConnectionApplyStatus P = list_all P enum_class.enum"

definition enum_ex_ConnectionApplyStatus :: "(ConnectionApplyStatus \<Rightarrow> bool) \<Rightarrow> bool" where
  "enum_ex_ConnectionApplyStatus P = list_ex P enum_class.enum"

instance
proof
  show U: "(UNIV :: ConnectionApplyStatus set) = set enum_class.enum"
    by (auto simp: enum_ConnectionApplyStatus_def intro: ConnectionApplyStatus.exhaust)
  show "distinct (enum_class.enum :: ConnectionApplyStatus list)"
    by (simp add: enum_ConnectionApplyStatus_def)
  show "\<And>P :: ConnectionApplyStatus \<Rightarrow> bool. enum_class.enum_all P \<longleftrightarrow> Ball UNIV P"
    by (simp add: U enum_all_ConnectionApplyStatus_def list_all_iff)
  show "\<And>P :: ConnectionApplyStatus \<Rightarrow> bool. enum_class.enum_ex P \<longleftrightarrow> Bex UNIV P"
    by (simp add: U enum_ex_ConnectionApplyStatus_def list_ex_iff)
qed

end

section \<open>Facts\<close>

lemma StatusFromString_toString [simp]:
  "connectionApplyStatusFromString (Status_toString s) = Inr s"
  by (cases s) (simp_all add: connectionApplyStatusFromString_def)

lemma Status_toString_inj [simp]: "Status_toString s = Status_toString t \<longleftrightarrow> s = t"
  by (metis StatusFromString_toString sum.inject(2))

lemma StatusFromString_Inr:
  "connectionApplyStatusFromString v = Inr s \<longleftrightarrow> v = Status_toString s"
proof
  assume "connectionApplyStatusFromString v = Inr s"
  then show "v = Status_toString s"
    unfolding connectionApplyStatusFromString_def by (simp split: if_split_asm; force)
qed simp

lemma requireTransition_Inr [simp]: "requireTransition a b = Inr u \<longleftrightarrow> canTransition a b"
  by (simp add: requireTransition_def)

text \<open>The lifecycle as a step relation: one rule per arrow of \<open>docs/data-model.md\<close>.\<close>

inductive lifecycle_step :: "ConnectionApplyStatus \<Rightarrow> ConnectionApplyStatus \<Rightarrow> bool" where
  create: "lifecycle_step kAbsent kPendingCreate"
| start_create: "lifecycle_step kPendingCreate kApplying"
| activate: "lifecycle_step kApplying kActive"
| update: "lifecycle_step kActive kPendingUpdate"
| start_update: "lifecycle_step kPendingUpdate kApplying"
| delete: "lifecycle_step kActive kPendingDelete"
| start_delete: "lifecycle_step kPendingDelete kRemoving"
| remove: "lifecycle_step kRemoving kAbsent"
| fail: "s \<in> {kPendingCreate, kPendingUpdate, kPendingDelete, kApplying, kRemoving} \<Longrightarrow>
    lifecycle_step s kFailed"
| backoff: "lifecycle_step kFailed kRetryWait"
| retry_apply: "lifecycle_step kRetryWait kApplying"
| retry_remove: "lifecycle_step kRetryWait kRemoving"
| drift: "lifecycle_step kActive kDrifted"
| reconcile: "lifecycle_step kDrifted kReconciling"
| reconciled: "lifecycle_step kReconciling kActive"
| reconcile_fail: "lifecycle_step kReconciling kFailed"

inductive_simps lifecycle_step_simps [simp]:
  "lifecycle_step kAbsent t" "lifecycle_step kPendingCreate t" "lifecycle_step kApplying t"
  "lifecycle_step kActive t" "lifecycle_step kPendingUpdate t" "lifecycle_step kPendingDelete t"
  "lifecycle_step kRemoving t" "lifecycle_step kFailed t" "lifecycle_step kRetryWait t"
  "lifecycle_step kDrifted t" "lifecycle_step kReconciling t"

text \<open>A run of guarded transitions: every consecutive pair passed \<open>requireTransition\<close>.\<close>

fun lifecycle_run :: "ConnectionApplyStatus \<Rightarrow> ConnectionApplyStatus list \<Rightarrow> bool" where
  "lifecycle_run s [] = True"
| "lifecycle_run s (t # ts) = (canTransition s t \<and> lifecycle_run t ts)"

lemma lifecycle_run_append:
  "lifecycle_run s (ts @ us) \<longleftrightarrow> lifecycle_run s ts \<and> lifecycle_run (last (s # ts)) us"
  by (induction ts arbitrary: s) auto

text \<open>
  Which statuses a run can visit before it has executed a command on the device: the states
  reached from \<open>kAbsent\<close> without passing \<open>kApplying\<close>, \<open>kRemoving\<close> or \<open>kReconciling\<close>.
\<close>

definition executing :: "ConnectionApplyStatus \<Rightarrow> bool" where
  "executing s = (s = kApplying \<or> s = kRemoving \<or> s = kReconciling)"

lemma run_before_execution:
  "s \<in> {kAbsent, kPendingCreate, kFailed, kRetryWait} \<Longrightarrow> lifecycle_run s ts \<Longrightarrow>
     \<forall>t \<in> set ts. \<not> executing t \<Longrightarrow> set ts \<subseteq> {kAbsent, kPendingCreate, kFailed, kRetryWait}"
proof (induction ts arbitrary: s)
  case (Cons t ts)
  then have "t \<in> {kAbsent, kPendingCreate, kFailed, kRetryWait}"
    by (auto simp: canTransition_def executing_def split: ConnectionApplyStatus.splits)
  with Cons show ?case by simp
qed simp

text \<open>Every status can still be brought to both stable ends of the lifecycle.\<close>

definition path_to_active :: "ConnectionApplyStatus \<Rightarrow> ConnectionApplyStatus list" where
  "path_to_active s =
     (case s of
        kAbsent \<Rightarrow> [kPendingCreate, kApplying, kActive]
      | kPendingCreate \<Rightarrow> [kApplying, kActive]
      | kPendingUpdate \<Rightarrow> [kApplying, kActive]
      | kApplying \<Rightarrow> [kActive]
      | kActive \<Rightarrow> []
      | kPendingDelete \<Rightarrow> [kFailed, kRetryWait, kApplying, kActive]
      | kRemoving \<Rightarrow> [kFailed, kRetryWait, kApplying, kActive]
      | kFailed \<Rightarrow> [kRetryWait, kApplying, kActive]
      | kRetryWait \<Rightarrow> [kApplying, kActive]
      | kDrifted \<Rightarrow> [kReconciling, kActive]
      | kReconciling \<Rightarrow> [kActive])"

lemma path_to_active_run:
  "lifecycle_run s (path_to_active s)" "last (s # path_to_active s) = kActive"
  by (cases s; simp add: path_to_active_def canTransition_def)+

lemma path_to_absent_run:
  "lifecycle_run s (path_to_active s @ [kPendingDelete, kRemoving, kAbsent])"
  by (cases s; simp add: path_to_active_def canTransition_def)

section \<open>Properties\<close>

lemma canTransition_lifecycle: "canTransition s t \<longleftrightarrow> lifecycle_step s t"
  by (cases s; cases t) (simp_all add: canTransition_def)

text \<open>C19: the transitions the code accepts are exactly the arrows of the documented lifecycle;
  \<open>requireTransition\<close> throws a logic error for every other pair of statuses.\<close>

theorem transitions_are_documented:
  "(requireTransition s t = Inr () \<longleftrightarrow> lifecycle_step s t) \<and>
   (\<not> lifecycle_step s t \<longleftrightarrow> (\<exists>m. requireTransition s t = Inl (Logic_error m)))"
  by (simp add: requireTransition_def canTransition_lifecycle throwIf_def)

text \<open>The textual statuses of the database are read back as written, every status has its own
  text, and any other text is an invalid argument naming the text.\<close>

lemma status_text_roundtrip:
  "(connectionApplyStatusFromString v = Inr s \<longleftrightarrow> v = Status_toString s) \<and>
   (connectionApplyStatusFromString v = Inl (Invalid_argument (''unknown connection apply status: '' @ v)) \<longleftrightarrow>
      v \<notin> range Status_toString)"
proof
  show "connectionApplyStatusFromString v = Inr s \<longleftrightarrow> v = Status_toString s" by (rule StatusFromString_Inr)
  have "connectionApplyStatusFromString v = Inl (Invalid_argument (''unknown connection apply status: '' @ v))"
    if "v \<notin> range Status_toString"
  proof -
    have n: "v \<noteq> Status_toString s" for s using that by auto
    show ?thesis
      using n [of kAbsent] n [of kPendingCreate] n [of kApplying] n [of kActive] n [of kPendingUpdate]
        n [of kPendingDelete] n [of kRemoving] n [of kFailed] n [of kRetryWait] n [of kDrifted] n [of kReconciling]
      by (simp add: connectionApplyStatusFromString_def)
  qed
  then show "connectionApplyStatusFromString v = Inl (Invalid_argument (''unknown connection apply status: '' @ v))
      \<longleftrightarrow> v \<notin> range Status_toString"
    by auto
qed

text \<open>A run of guarded transitions that starts without a connection reports it ACTIVE only after
  it has been in an executing status: APPLYING, REMOVING or RECONCILING.\<close>

lemma active_only_after_execution:
  assumes "lifecycle_run kAbsent (ts @ [kActive])"
  shows "\<exists>t \<in> set ts. executing t"
proof (rule ccontr)
  assume n: "\<not> (\<exists>t \<in> set ts. executing t)"
  then have "\<forall>t \<in> set (ts @ [kActive]). \<not> executing t" by (auto simp: executing_def)
  from run_before_execution [OF _ assms this] show False by auto
qed

end
