(* ===== verification/Errors.thy ===== *)
theory Errors
  imports Prelude
begin

text \<open>
  The error codes of \<open>cpp/include/ocs/errors.hpp\<close> and their stable names
  (\<open>cpp/src/errors.cpp\<close>), the values every component reports failures with.
\<close>

section \<open>Error codes\<close>

datatype ErrorCode =
    kOk
  | kInvalidArgument
  | kInvalidPort
  | kConnectionNotFound
  | kConnectionExists
  | kInputConflict
  | kOutputConflict
  | kPortDisabled
  | kPortDown
  | kDeviceNotReady
  | kApplyTimeout
  | kApplyFailed
  | kVersionStale
  | kProtocolMalformed
  | kProtocolVersion
  | kPayloadTooLarge
  | kUnsupported
  | kInternalError

fun ErrorCode_toString :: "ErrorCode \<Rightarrow> string" where
  "ErrorCode_toString kOk = ''OCS_OK''"
| "ErrorCode_toString kInvalidArgument = ''OCS_INVALID_ARGUMENT''"
| "ErrorCode_toString kInvalidPort = ''OCS_INVALID_PORT''"
| "ErrorCode_toString kConnectionNotFound = ''OCS_CONNECTION_NOT_FOUND''"
| "ErrorCode_toString kConnectionExists = ''OCS_CONNECTION_EXISTS''"
| "ErrorCode_toString kInputConflict = ''OCS_INPUT_CONFLICT''"
| "ErrorCode_toString kOutputConflict = ''OCS_OUTPUT_CONFLICT''"
| "ErrorCode_toString kPortDisabled = ''OCS_PORT_DISABLED''"
| "ErrorCode_toString kPortDown = ''OCS_PORT_DOWN''"
| "ErrorCode_toString kDeviceNotReady = ''OCS_DEVICE_NOT_READY''"
| "ErrorCode_toString kApplyTimeout = ''OCS_APPLY_TIMEOUT''"
| "ErrorCode_toString kApplyFailed = ''OCS_APPLY_FAILED''"
| "ErrorCode_toString kVersionStale = ''OCS_VERSION_STALE''"
| "ErrorCode_toString kProtocolMalformed = ''OCS_PROTOCOL_MALFORMED''"
| "ErrorCode_toString kProtocolVersion = ''OCS_PROTOCOL_VERSION''"
| "ErrorCode_toString kPayloadTooLarge = ''OCS_PAYLOAD_TOO_LARGE''"
| "ErrorCode_toString kUnsupported = ''OCS_UNSUPPORTED''"
| "ErrorCode_toString kInternalError = ''OCS_INTERNAL_ERROR''"

definition ErrorCode_values :: "ErrorCode list" where
  "ErrorCode_values =
     [kOk, kInvalidArgument, kInvalidPort, kConnectionNotFound, kConnectionExists,
      kInputConflict, kOutputConflict, kPortDisabled, kPortDown, kDeviceNotReady,
      kApplyTimeout, kApplyFailed, kVersionStale, kProtocolMalformed, kProtocolVersion,
      kPayloadTooLarge, kUnsupported, kInternalError]"

definition errorCodeFromString :: "string \<Rightarrow> ErrorCode" where
  "errorCodeFromString value =
     (case find (\<lambda>code. ErrorCode_toString code = value) ErrorCode_values of
        Some code \<Rightarrow> code
      | None \<Rightarrow> kInternalError)"

record Error =
  err_code :: ErrorCode
  err_message :: string

definition Error_success :: Error where
  "Error_success = \<lparr>err_code = kOk, err_message = []\<rparr>"

definition Error_ok :: "Error \<Rightarrow> bool" where
  "Error_ok e = (err_code e = kOk)"

definition makeError :: "ErrorCode \<Rightarrow> string \<Rightarrow> Error" where
  "makeError c m = \<lparr>err_code = c, err_message = m\<rparr>"

section \<open>Facts\<close>

lemma Error_ok_success [simp]: "Error_ok Error_success"
  by (simp add: Error_ok_def Error_success_def)

lemma err_code_success [simp]: "err_code Error_success = kOk" "err_message Error_success = []"
  by (simp_all add: Error_success_def)

lemma makeError_sel [simp]: "err_code (makeError c m) = c" "err_message (makeError c m) = m"
  by (simp_all add: makeError_def)

lemma Error_ok_makeError [simp]: "Error_ok (makeError c m) \<longleftrightarrow> c = kOk"
  by (simp add: Error_ok_def)

lemma errorCodeFromString_toString [simp]: "errorCodeFromString (ErrorCode_toString c) = c"
  by (cases c) (simp_all add: errorCodeFromString_def ErrorCode_values_def)

lemma errorCodeFromString_unknown:
  "(\<And>c. ErrorCode_toString c \<noteq> v) \<Longrightarrow> errorCodeFromString v = kInternalError"
  by (simp add: errorCodeFromString_def ErrorCode_values_def)

lemma errorCodeFromString_kOk:
  "errorCodeFromString v = kOk \<longleftrightarrow> v = ''OCS_OK''"
proof
  assume ok: "errorCodeFromString v = kOk"
  show "v = ''OCS_OK''"
  proof (cases "find (\<lambda>code. ErrorCode_toString code = v) ErrorCode_values")
    case None
    with ok show ?thesis by (simp add: errorCodeFromString_def)
  next
    case (Some c)
    then have "ErrorCode_toString c = v" by (auto simp: find_Some_iff)
    moreover from Some ok have "c = kOk" by (simp add: errorCodeFromString_def)
    ultimately show ?thesis by auto
  qed
next
  assume "v = ''OCS_OK''"
  then show "errorCodeFromString v = kOk"
    using errorCodeFromString_toString [of kOk] by simp
qed

end
