(* ===== verification/Std_Map.thy ===== *)
theory Std_Map
  imports Prelude
begin

text \<open>
  \<open>std::map\<close> as the sources use it: the list of its entries in iteration order, that is sorted by
  key with no key twice. Because the representation is canonical, equality of maps is equality of
  lists, and iterating is recursion over the list.
\<close>

section \<open>Operations\<close>

type_synonym ('k, 'v) smap = "('k \<times> 'v) list"

definition smap_ok :: "('k::linorder, 'v) smap \<Rightarrow> bool" where
  "smap_ok m = sorted_wrt (<) (map fst m)"

fun insert_or_assign :: "'k::linorder \<Rightarrow> 'v \<Rightarrow> ('k, 'v) smap \<Rightarrow> ('k, 'v) smap" where
  "insert_or_assign k v [] = [(k, v)]"
| "insert_or_assign k v ((k', v') # m) =
     (if k < k' then (k, v) # (k', v') # m
      else if k = k' then (k, v) # m
      else (k', v') # insert_or_assign k v m)"

fun map_erase :: "'k \<Rightarrow> ('k, 'v) smap \<Rightarrow> ('k, 'v) smap" where
  "map_erase k [] = []"
| "map_erase k ((k', v') # m) = (if k = k' then m else (k', v') # map_erase k m)"

definition emplace :: "'k::linorder \<Rightarrow> 'v \<Rightarrow> ('k, 'v) smap \<Rightarrow> ('k, 'v) smap" where
  "emplace k v m = (case map_of m k of None \<Rightarrow> insert_or_assign k v m | Some _ \<Rightarrow> m)"

definition map_at :: "('k, 'v) smap \<Rightarrow> 'k \<Rightarrow> 'v result" where
  "map_at m k = (case map_of m k of None \<Rightarrow> Inl (Out_of_range ''map::at'') | Some v \<Rightarrow> Inr v)"

definition smap_of_list :: "('k::linorder \<times> 'v) list \<Rightarrow> ('k, 'v) smap" where
  "smap_of_list kvs = foldl (\<lambda>m (k, v). emplace k v m) [] kvs"

section \<open>Lookup laws\<close>

lemma map_of_insert_or_assign [simp]:
  "map_of (insert_or_assign k v m) = (map_of m)(k \<mapsto> v)"
  by (induction k v m rule: insert_or_assign.induct) auto

lemma smap_ok_Nil [simp]: "smap_ok []"
  by (simp add: smap_ok_def)

lemma smap_ok_Cons [simp]:
  "smap_ok ((k, v) # m) \<longleftrightarrow> (\<forall>k' \<in> fst ` set m. k < k') \<and> smap_ok m"
  by (simp add: smap_ok_def)

lemma smap_ok_distinct: "smap_ok m \<Longrightarrow> distinct (map fst m)"
  by (simp add: smap_ok_def strict_sorted_iff)

lemma map_of_map_erase [simp]:
  "smap_ok m \<Longrightarrow> map_of (map_erase k m) = (map_of m)(k := None)"
  by (induction k m rule: map_erase.induct) (force simp: fun_eq_iff map_of_eq_None_iff)+

lemma fst_set_insert_or_assign:
  "fst ` set (insert_or_assign k v m) = insert k (fst ` set m)"
  by (induction k v m rule: insert_or_assign.induct) auto

lemma set_map_erase_subset: "set (map_erase k m) \<subseteq> set m"
  by (induction k m rule: map_erase.induct) auto

lemma smap_ok_insert_or_assign [simp]: "smap_ok m \<Longrightarrow> smap_ok (insert_or_assign k v m)"
  by (induction k v m rule: insert_or_assign.induct)
     (auto simp: fst_set_insert_or_assign)

lemma smap_ok_map_erase [simp]: "smap_ok m \<Longrightarrow> smap_ok (map_erase k m)"
proof (induction k m rule: map_erase.induct)
  case (2 k k' v' m)
  then show ?case using set_map_erase_subset [of k m] by auto
qed simp

lemma map_of_emplace [simp]:
  "map_of (emplace k v m) = (case map_of m k of None \<Rightarrow> (map_of m)(k \<mapsto> v) | Some _ \<Rightarrow> map_of m)"
  by (simp add: emplace_def split: option.splits)

lemma smap_ok_emplace [simp]: "smap_ok m \<Longrightarrow> smap_ok (emplace k v m)"
  by (simp add: emplace_def split: option.splits)

lemma set_insert_or_assign:
  "smap_ok m \<Longrightarrow> set (insert_or_assign k v m) = insert (k, v) {e \<in> set m. fst e \<noteq> k}"
  by (induction k v m rule: insert_or_assign.induct) force+

lemma set_map_erase:
  "smap_ok m \<Longrightarrow> set (map_erase k m) = {e \<in> set m. fst e \<noteq> k}"
  by (induction k m rule: map_erase.induct) force+

lemma smap_lookup_iff: "smap_ok m \<Longrightarrow> map_of m k = Some v \<longleftrightarrow> (k, v) \<in> set m"
  by (simp add: smap_ok_distinct)

lemma length_insert_or_assign_new:
  "map_of m k = None \<Longrightarrow> length (insert_or_assign k v m) = Suc (length m)"
  by (induction k v m rule: insert_or_assign.induct) (auto split: if_splits)

lemma length_map_erase:
  "length (map_erase k m) = (if map_of m k = None then length m else length m - 1)"
proof (induction k m rule: map_erase.induct)
  case (2 k k' v' m)
  then show ?case by (cases m) (auto split: if_splits)
qed simp

lemma smap_eqI:
  "smap_ok m \<Longrightarrow> smap_ok n \<Longrightarrow> map_of m = map_of n \<Longrightarrow> m = n"
proof -
  assume ok: "smap_ok m" "smap_ok n" and eq: "map_of m = map_of n"
  have "set m = set n"
    using ok eq by (metis smap_ok_distinct map_of_eqI map_of_inject_set)
  then show ?thesis
    by (intro distinct_sorted_unique [where f = fst])
       (use ok in \<open>auto simp: smap_ok_def strict_sorted_iff\<close>)
qed

lemma insert_or_assign_same:
  "smap_ok m \<Longrightarrow> map_of m k = Some v \<Longrightarrow> insert_or_assign k v m = m"
  by (rule smap_eqI) auto

lemma smap_ok_foldl_emplace:
  "smap_ok m \<Longrightarrow> smap_ok (foldl (\<lambda>m (k, v). emplace k v m) m kvs)"
  by (induction kvs arbitrary: m) auto

lemma smap_ok_smap_of_list [simp]: "smap_ok (smap_of_list kvs)"
  by (simp add: smap_of_list_def smap_ok_foldl_emplace)

lemma map_of_foldl_emplace:
  "map_of (foldl (\<lambda>m (k, v). emplace k v m) m kvs) x =
     (case map_of m x of Some y \<Rightarrow> Some y | None \<Rightarrow> map_of kvs x)"
  by (induction kvs arbitrary: m) (auto split: option.splits)

lemma map_of_smap_of_list [simp]: "map_of (smap_of_list kvs) = map_of kvs"
  by (simp add: smap_of_list_def map_of_foldl_emplace fun_eq_iff)

section \<open>The interface\<close>

text \<open>
  What the sources rely on of an ordered map: a lookup view, the effect of the two mutators on it,
  and iteration in key order without repetition.
\<close>

locale ordered_map =
  fixes lookup :: "'m \<Rightarrow> 'k::linorder \<Rightarrow> 'v option"
    and assign :: "'k \<Rightarrow> 'v \<Rightarrow> 'm \<Rightarrow> 'm"
    and erase :: "'k \<Rightarrow> 'm \<Rightarrow> 'm"
    and entries :: "'m \<Rightarrow> ('k \<times> 'v) list"
    and ok :: "'m \<Rightarrow> bool"
  assumes lookup_assign: "ok m \<Longrightarrow> lookup (assign k v m) = (lookup m)(k \<mapsto> v)"
    and lookup_erase: "ok m \<Longrightarrow> lookup (erase k m) = (lookup m)(k := None)"
    and entries_lookup: "ok m \<Longrightarrow> (k, v) \<in> set (entries m) \<longleftrightarrow> lookup m k = Some v"
    and entries_sorted: "ok m \<Longrightarrow> sorted_wrt (<) (map fst (entries m))"
    and ok_assign: "ok m \<Longrightarrow> ok (assign k v m)"
    and ok_erase: "ok m \<Longrightarrow> ok (erase k m)"
begin

lemma finite_lookup: "ok m \<Longrightarrow> finite (dom (lookup m))"
proof -
  assume ok: "ok m"
  have "dom (lookup m) \<subseteq> fst ` set (entries m)"
    using entries_lookup [OF ok] by force
  then show ?thesis
    by (rule finite_subset) simp
qed

lemma assign_commute:
  "ok m \<Longrightarrow> k \<noteq> k' \<Longrightarrow>
     lookup (assign k v (assign k' v' m)) = lookup (assign k' v' (assign k v m))"
  by (simp add: lookup_assign ok_assign fun_upd_twist)

lemma erase_assign: "ok m \<Longrightarrow> lookup m k = None \<Longrightarrow> lookup (erase k (assign k v m)) = lookup m"
  by (auto simp: lookup_assign lookup_erase ok_assign)

lemma entries_determined: "ok m \<Longrightarrow> ok n \<Longrightarrow> lookup m = lookup n \<Longrightarrow> entries m = entries n"
proof -
  assume ok: "ok m" "ok n" and eq: "lookup m = lookup n"
  have "set (entries m) = set (entries n)"
    using ok eq by (auto simp: entries_lookup)
  then show ?thesis
    by (intro distinct_sorted_unique [where f = fst])
       (use ok entries_sorted in \<open>auto simp: strict_sorted_iff\<close>)
qed

end

interpretation std_map: ordered_map map_of insert_or_assign map_erase "\<lambda>m. m" smap_ok
  by unfold_locales (auto simp: smap_lookup_iff smap_ok_def [symmetric])

end
