(* ===== verification/Device_Types.thy ===== *)
theory Device_Types
  imports Errors Std_Map Complex_Main
begin

text \<open>
  The data of \<open>cpp/include/ocs/connection.hpp\<close>, \<open>device_types.hpp\<close> and the batch of
  \<open>device_command.hpp\<close>. Fields keep their names behind a prefix for the structure they belong to,
  since record fields are global constants. \<open>std::chrono::milliseconds\<close> is an \<open>int\<close>. The only
  floating point values of the program are optical powers, which it copies and never computes
  with: they are rationals.
\<close>

section \<open>Connections\<close>

type_synonym PortId = u16
type_synonym double = rat

datatype ConnectionOperation = kUpsert | kRemove

record ConnectionCommand =
  cc_operation :: ConnectionOperation
  cc_id :: string
  cc_input_port :: PortId
  cc_output_port :: PortId
  cc_desired_version :: u64

record AppliedConnection =
  ac_id :: string
  ac_input_port :: PortId
  ac_output_port :: PortId
  ac_applied_version :: u64

section \<open>Device and ports\<close>

datatype DeviceOperStatus = kInit | kReady | kDegraded | kDeviceFailed | kResetting

datatype PortDirection = kInput | kOutput

datatype PortOperStatus = kUp | kDown | kLowPower | kFault | kUnknown

record DeviceInfo =
  di_name :: string
  di_input_port_count :: PortId
  di_output_port_count :: PortId
  di_model :: string
  di_serial_number :: string
  di_firmware_version :: string
  di_generation :: u64

record DeviceHealth =
  dh_status :: DeviceOperStatus
  dh_last_error :: Error

record PortState =
  ps_id :: PortId
  ps_direction :: PortDirection
  ps_admin_enabled :: bool
  ps_oper_status :: PortOperStatus
  ps_optical_power_dbm :: double

section \<open>Requests and results\<close>

record ApplyOptions =
  opt_atomic :: bool
  opt_timeout :: int
  opt_operation_id :: string

definition default_ApplyOptions :: ApplyOptions where
  "default_ApplyOptions = \<lparr>opt_atomic = True, opt_timeout = 1000, opt_operation_id = []\<rparr>"

record ApplyResult =
  ar_error :: Error
  ar_connections :: "AppliedConnection list"

definition ApplyResult_ok :: "ApplyResult \<Rightarrow> bool" where
  "ApplyResult_ok r = Error_ok (ar_error r)"

datatype ResetMode = kSoft | kHard

record ResetResult =
  rr_error :: Error
  rr_generation :: u64

datatype FaultType =
    kNextApplyError
  | kNextApplyTimeout
  | kInputPortDown
  | kOutputPortDown
  | kOutOfBandDrift
  | kAll

record FaultSpec =
  fs_type :: FaultType
  fs_port_id :: PortId

type_synonym FaultSelector = FaultSpec

record FaultResult =
  fr_error :: Error

record DeviceCommandBatch =
  batch_commands :: "ConnectionCommand list"
  batch_options :: ApplyOptions

end
