(* ===== verification/Simulated_Device.thy ===== *)
theory Simulated_Device
  imports Device_Types
begin

text \<open>
  The simulated optical switch (\<open>cpp/src/simulated_ocs_device.cpp\<close>): a mutex-protected object
  whose methods are functions on its state. \<open>std::map\<close> members are sorted association lists,
  \<open>std::vector\<close> members are lists, the deque of cached operation ids is a list with its front
  first. A method that may throw returns the exception beside the state it leaves behind.
\<close>

section \<open>State\<close>

record SimulatedOcsDevice =
  dev_info :: DeviceInfo
  dev_health :: DeviceHealth
  dev_connections :: "(string, AppliedConnection) smap"
  dev_last_versions :: "(string, u64) smap"
  dev_input_to_output :: "PortId option list"
  dev_output_to_input :: "PortId option list"
  dev_input_ports :: "PortState list"
  dev_output_ports :: "PortState list"
  dev_apply_results :: "(string, ApplyResult) smap"
  dev_apply_result_order :: "string list"
  dev_fail_next_apply :: bool
  dev_timeout_next_apply :: bool

definition kMaxCachedApplyResults :: nat where
  "kMaxCachedApplyResults = 4096"

text \<open>
  \<open>makePorts\<close>: the loop counter is a \<open>PortId\<close>, so \<open>++id\<close> wraps at 16 bits; \<open>None\<close> is a loop
  that does not end.
\<close>

definition new_port :: "PortDirection \<Rightarrow> PortId \<Rightarrow> PortState" where
  "new_port direction i = \<lparr>ps_id = i, ps_direction = direction, ps_admin_enabled = True,
     ps_oper_status = kUp, ps_optical_power_dbm = - 3\<rparr>"

partial_function (option) makePorts_loop ::
    "PortDirection \<Rightarrow> PortId \<Rightarrow> PortId \<Rightarrow> PortState list \<Rightarrow> PortState list option" where
  "makePorts_loop direction count i ports =
     (if i \<le> count then makePorts_loop direction count (i + 1) (ports @ [new_port direction i])
      else Some ports)"

definition makePorts :: "PortDirection \<Rightarrow> PortId \<Rightarrow> PortState list option" where
  "makePorts direction count = makePorts_loop direction count 1 []"

text \<open>
  The constructor: member initialisers first, then the check of the port counts. The outer
  option is termination, the inner result the exception of the body.
\<close>

definition SimulatedOcsDevice_new :: "DeviceInfo \<Rightarrow> SimulatedOcsDevice result option" where
  "SimulatedOcsDevice_new info =
     (case makePorts kInput (di_input_port_count info) of
        None \<Rightarrow> None
      | Some ins \<Rightarrow>
     (case makePorts kOutput (di_output_port_count info) of
        None \<Rightarrow> None
      | Some outs \<Rightarrow>
          Some (if di_input_port_count info = 0 \<or> di_output_port_count info = 0
                then Inl (Invalid_argument ''device port counts must be positive'')
                else Inr \<lparr>dev_info = info,
                      dev_health = \<lparr>dh_status = kReady, dh_last_error = Error_success\<rparr>,
                      dev_connections = [],
                      dev_last_versions = [],
                      dev_input_to_output = replicate (unat (di_input_port_count info)) None,
                      dev_output_to_input = replicate (unat (di_output_port_count info)) None,
                      dev_input_ports = ins,
                      dev_output_ports = outs,
                      dev_apply_results = [],
                      dev_apply_result_order = [],
                      dev_fail_next_apply = False,
                      dev_timeout_next_apply = False\<rparr>)))"

section \<open>Port checks\<close>

definition port_count :: "PortDirection \<Rightarrow> SimulatedOcsDevice \<Rightarrow> PortId" where
  "port_count direction d =
     (if direction = kInput then di_input_port_count (dev_info d)
      else di_output_port_count (dev_info d))"

definition ports_of :: "PortDirection \<Rightarrow> SimulatedOcsDevice \<Rightarrow> PortState list" where
  "ports_of direction d = (if direction = kInput then dev_input_ports d else dev_output_ports d)"

definition validatePort :: "PortDirection \<Rightarrow> PortId \<Rightarrow> SimulatedOcsDevice \<Rightarrow> Error" where
  "validatePort direction i d =
     (if i = 0 \<or> i > port_count direction d
      then makeError kInvalidPort ''port is outside the configured matrix''
      else Error_success)"

text \<open>
  \<open>vector::at(id - 1)\<close> for a port number: \<open>id - 1\<close> is computed in \<open>int\<close>, so port 0 and ports
  past the end both fall out of range and throw.
\<close>

definition vector_at :: "'a list \<Rightarrow> PortId \<Rightarrow> 'a result" where
  "vector_at xs p =
     (if p = 0 \<or> unat p > length xs then Inl (Out_of_range ''vector::_M_range_check'')
      else Inr (xs ! (unat p - 1)))"

definition validatePortAvailable ::
    "PortDirection \<Rightarrow> PortId \<Rightarrow> SimulatedOcsDevice \<Rightarrow> Error result" where
  "validatePortAvailable direction i d =
     (let error = validatePort direction i d in
      if \<not> Error_ok error then Inr error
      else bindE (vector_at (ports_of direction d) i) (\<lambda>port.
        Inr (if \<not> ps_admin_enabled port
             then makeError kPortDisabled ''port is administratively disabled''
             else if ps_oper_status port \<noteq> kUp
             then makeError kPortDown ''port is not operationally up''
             else Error_success)))"

section \<open>Queries\<close>

definition getDeviceInfo :: "SimulatedOcsDevice \<Rightarrow> DeviceInfo" where
  "getDeviceInfo d = dev_info d"

definition getHealth :: "SimulatedOcsDevice \<Rightarrow> DeviceHealth" where
  "getHealth d = dev_health d"

definition getConnections :: "SimulatedOcsDevice \<Rightarrow> AppliedConnection list" where
  "getConnections d = map snd (dev_connections d)"

definition getPortState ::
    "PortDirection \<Rightarrow> PortId \<Rightarrow> SimulatedOcsDevice \<Rightarrow> PortState result" where
  "getPortState direction i d =
     (if \<not> Error_ok (validatePort direction i d)
      then Inr \<lparr>ps_id = i, ps_direction = direction, ps_admin_enabled = False,
                ps_oper_status = kUnknown, ps_optical_power_dbm = 0\<rparr>
      else vector_at (ports_of direction d) i)"

section \<open>Applying a batch\<close>

text \<open>
  The \<open>finish\<close> lambda: results of operations with an id are cached, the oldest one evicted first.
  \<open>front()\<close> of an empty deque, which the invariant below excludes, leaves the cache unchanged.
\<close>

definition finish ::
    "ApplyOptions \<Rightarrow> ApplyResult \<Rightarrow> SimulatedOcsDevice \<Rightarrow> ApplyResult result \<times> SimulatedOcsDevice" where
  "finish options r d =
     (if opt_operation_id options = [] then (Inr r, d)
      else
        let (results, order) =
              (if length (dev_apply_results d) \<ge> kMaxCachedApplyResults
               then (case dev_apply_result_order d of
                       [] \<Rightarrow> (dev_apply_results d, [])
                     | oldest # rest \<Rightarrow> (map_erase oldest (dev_apply_results d), rest))
               else (dev_apply_results d, dev_apply_result_order d))
        in (Inr r, d\<lparr>dev_apply_results := insert_or_assign (opt_operation_id options) r results,
                  dev_apply_result_order := order @ [opt_operation_id options]\<rparr>))"

text \<open>The first loop: a versioned command older than the last accepted version of its id.\<close>

definition stale_command :: "SimulatedOcsDevice \<Rightarrow> ConnectionCommand \<Rightarrow> bool" where
  "stale_command d c =
     (cc_desired_version c \<noteq> 0 \<and>
      (case map_of (dev_last_versions d) (cc_id c) of
         None \<Rightarrow> False
       | Some last_version \<Rightarrow> last_version > cc_desired_version c))"

definition applied_of :: "ConnectionCommand \<Rightarrow> AppliedConnection" where
  "applied_of c = \<lparr>ac_id = cc_id c, ac_input_port = cc_input_port c,
     ac_output_port = cc_output_port c, ac_applied_version = cc_desired_version c\<rparr>"

text \<open>
  The second loop, over the commands, on a copy of the connection map. The outer result is a
  thrown exception, the inner one the \<open>Error\<close> the method returns early with.
\<close>

fun build_candidate ::
    "SimulatedOcsDevice \<Rightarrow> ConnectionCommand list \<Rightarrow> (string, AppliedConnection) smap \<Rightarrow>
     (Error + (string, AppliedConnection) smap) result" where
  "build_candidate d [] cand = Inr (Inr cand)"
| "build_candidate d (c # cs) cand =
     (if cc_id c = []
      then Inr (Inl (makeError kInvalidArgument ''connection id must not be empty''))
      else if cc_operation c = kRemove
      then build_candidate d cs (map_erase (cc_id c) cand)
      else
        bindE (validatePortAvailable kInput (cc_input_port c) d) (\<lambda>ein.
          if \<not> Error_ok ein then Inr (Inl ein)
          else bindE (validatePortAvailable kOutput (cc_output_port c) d) (\<lambda>eout.
            if \<not> Error_ok eout then Inr (Inl eout)
            else build_candidate d cs (insert_or_assign (cc_id c) (applied_of c) cand))))"

text \<open>The third loop: the two port tables of the candidate, with the conflict checks.\<close>

definition vector_set :: "'a list \<Rightarrow> PortId \<Rightarrow> 'a \<Rightarrow> 'a list" where
  "vector_set xs p v = xs[unat p - 1 := v]"

fun build_matrix ::
    "(string, AppliedConnection) smap \<Rightarrow> PortId option list \<Rightarrow> PortId option list \<Rightarrow>
     (Error + PortId option list \<times> PortId option list) result" where
  "build_matrix [] i2o o2i = Inr (Inr (i2o, o2i))"
| "build_matrix ((k, c) # es) i2o o2i =
     bindE (vector_at i2o (ac_input_port c)) (\<lambda>x.
       if x \<noteq> None
       then Inr (Inl (makeError kInputConflict ''input port is already connected''))
       else bindE (vector_at o2i (ac_output_port c)) (\<lambda>y.
         if y \<noteq> None
         then Inr (Inl (makeError kOutputConflict ''output port is already connected''))
         else build_matrix es
                (vector_set i2o (ac_input_port c) (Some (ac_output_port c)))
                (vector_set o2i (ac_output_port c) (Some (ac_input_port c)))))"

text \<open>The commit: swap the candidates in, record versions, report the connections touched.\<close>

definition record_versions ::
    "ConnectionCommand list \<Rightarrow> (string, u64) smap \<Rightarrow> (string, u64) smap" where
  "record_versions cs m =
     foldl (\<lambda>m c. if cc_desired_version c \<noteq> 0
                 then insert_or_assign (cc_id c) (cc_desired_version c) m else m) m cs"

definition changed_connections ::
    "ConnectionCommand list \<Rightarrow> (string, AppliedConnection) smap \<Rightarrow> AppliedConnection list" where
  "changed_connections cs conns = List.map_filter (\<lambda>c. map_of conns (cc_id c)) cs"

definition failed_result :: "Error \<Rightarrow> ApplyResult" where
  "failed_result e = \<lparr>ar_error = e, ar_connections = []\<rparr>"

definition apply_uncached ::
    "ConnectionCommand list \<Rightarrow> ApplyOptions \<Rightarrow> SimulatedOcsDevice \<Rightarrow>
     ApplyResult result \<times> SimulatedOcsDevice" where
  "apply_uncached commands options d =
     (if \<not> opt_atomic options
      then finish options (failed_result (makeError kUnsupported ''non-atomic apply is not supported'')) d
      else if list_ex (stale_command d) commands
      then finish options (failed_result (makeError kVersionStale ''connection version is stale'')) d
      else case build_candidate d commands (dev_connections d) of
        Inl e \<Rightarrow> (Inl e, d)
      | Inr (Inl error) \<Rightarrow> finish options (failed_result error) d
      | Inr (Inr candidate) \<Rightarrow>
          (case build_matrix candidate
                  (replicate (unat (di_input_port_count (dev_info d))) None)
                  (replicate (unat (di_output_port_count (dev_info d))) None) of
             Inl e \<Rightarrow> (Inl e, d)
           | Inr (Inl error) \<Rightarrow> finish options (failed_result error) d
           | Inr (Inr (i2o, o2i)) \<Rightarrow>
               if dev_fail_next_apply d
               then finish options
                      (failed_result (makeError kApplyFailed ''injected next-apply failure''))
                      (d\<lparr>dev_fail_next_apply := False\<rparr>)
               else if dev_timeout_next_apply d
               then finish options
                      (failed_result (makeError kApplyTimeout ''injected next-apply timeout''))
                      (d\<lparr>dev_timeout_next_apply := False\<rparr>)
               else finish options
                      \<lparr>ar_error = Error_success,
                       ar_connections = changed_connections commands candidate\<rparr>
                      (d\<lparr>dev_connections := candidate,
                         dev_input_to_output := i2o,
                         dev_output_to_input := o2i,
                         dev_last_versions := record_versions commands (dev_last_versions d)\<rparr>)))"

definition applyConnections ::
    "ConnectionCommand list \<Rightarrow> ApplyOptions \<Rightarrow> SimulatedOcsDevice \<Rightarrow>
     ApplyResult result \<times> SimulatedOcsDevice" where
  "applyConnections commands options d =
     (case (if opt_operation_id options \<noteq> []
            then map_of (dev_apply_results d) (opt_operation_id options) else None) of
        Some cached \<Rightarrow> (Inr cached, d)
      | None \<Rightarrow> apply_uncached commands options d)"

section \<open>Reset, faults, administrative state\<close>

definition reset ::
    "ResetMode \<Rightarrow> SimulatedOcsDevice \<Rightarrow> (ResetResult \<times> SimulatedOcsDevice) option" where
  "reset mode d =
     (case makePorts kInput (di_input_port_count (dev_info d)) of
        None \<Rightarrow> None
      | Some ins \<Rightarrow>
     (case makePorts kOutput (di_output_port_count (dev_info d)) of
        None \<Rightarrow> None
      | Some outs \<Rightarrow>
          let info = (if mode = kHard
                      then (dev_info d)\<lparr>di_generation := di_generation (dev_info d) + 1\<rparr>
                      else dev_info d);
              d' = d\<lparr>dev_connections := [],
                     dev_last_versions := [],
                     dev_input_to_output := map (\<lambda>_. None) (dev_input_to_output d),
                     dev_output_to_input := map (\<lambda>_. None) (dev_output_to_input d),
                     dev_input_ports := ins,
                     dev_output_ports := outs,
                     dev_fail_next_apply := False,
                     dev_timeout_next_apply := False,
                     dev_apply_results := [],
                     dev_apply_result_order := [],
                     dev_info := info,
                     dev_health := \<lparr>dh_status = kReady, dh_last_error = Error_success\<rparr>\<rparr>
          in Some (\<lparr>rr_error = Error_success, rr_generation = di_generation info\<rparr>, d')))"

text \<open>Updating one port in place: \<open>ports.at(id - 1).field = v\<close>.\<close>

definition update_port ::
    "PortDirection \<Rightarrow> PortId \<Rightarrow> (PortState \<Rightarrow> PortState) \<Rightarrow> SimulatedOcsDevice \<Rightarrow>
     unit result \<times> SimulatedOcsDevice" where
  "update_port direction i f d =
     (case vector_at (ports_of direction d) i of
        Inl e \<Rightarrow> (Inl e, d)
      | Inr port \<Rightarrow>
          (Inr (), if direction = kInput
                   then d\<lparr>dev_input_ports := vector_set (dev_input_ports d) i (f port)\<rparr>
                   else d\<lparr>dev_output_ports := vector_set (dev_output_ports d) i (f port)\<rparr>))"

definition fault_ok :: "SimulatedOcsDevice \<Rightarrow> FaultResult result \<times> SimulatedOcsDevice" where
  "fault_ok d = (Inr \<lparr>fr_error = Error_success\<rparr>, d)"

definition fault_error :: "Error \<Rightarrow> SimulatedOcsDevice \<Rightarrow> FaultResult result \<times> SimulatedOcsDevice" where
  "fault_error e d = (Inr \<lparr>fr_error = e\<rparr>, d)"

definition set_oper_status ::
    "PortDirection \<Rightarrow> PortId \<Rightarrow> PortOperStatus \<Rightarrow> SimulatedOcsDevice \<Rightarrow>
     FaultResult result \<times> SimulatedOcsDevice" where
  "set_oper_status direction i st d =
     (let error = validatePort direction i d in
      if \<not> Error_ok error then fault_error error d
      else case update_port direction i (\<lambda>p. p\<lparr>ps_oper_status := st\<rparr>) d of
          (Inl e, d') \<Rightarrow> (Inl e, d')
        | (Inr _, d') \<Rightarrow> fault_ok d')"

definition drop_first_connection ::
    "SimulatedOcsDevice \<Rightarrow> FaultResult result \<times> SimulatedOcsDevice" where
  "drop_first_connection d =
     (case dev_connections d of
        [] \<Rightarrow> fault_error (makeError kInvalidArgument ''drift target connection was not found'') d
      | (k, c) # rest \<Rightarrow>
          (case vector_at (dev_input_to_output d) (ac_input_port c) of
             Inl e \<Rightarrow> (Inl e, d)
           | Inr _ \<Rightarrow>
             let d1 = d\<lparr>dev_input_to_output :=
                          vector_set (dev_input_to_output d) (ac_input_port c) None\<rparr> in
             (case vector_at (dev_output_to_input d1) (ac_output_port c) of
                Inl e \<Rightarrow> (Inl e, d1)
              | Inr _ \<Rightarrow>
                fault_ok (d1\<lparr>dev_output_to_input :=
                               vector_set (dev_output_to_input d1) (ac_output_port c) None,
                             dev_connections := rest\<rparr>))))"

definition injectFault :: "FaultSpec \<Rightarrow> SimulatedOcsDevice \<Rightarrow> FaultResult result \<times> SimulatedOcsDevice" where
  "injectFault fault d =
     (case fs_type fault of
        kAll \<Rightarrow> fault_error (makeError kInvalidArgument ''ALL is only valid when clearing faults'') d
      | kNextApplyError \<Rightarrow> fault_ok (d\<lparr>dev_fail_next_apply := True\<rparr>)
      | kNextApplyTimeout \<Rightarrow> fault_ok (d\<lparr>dev_timeout_next_apply := True\<rparr>)
      | kOutOfBandDrift \<Rightarrow> drop_first_connection d
      | kInputPortDown \<Rightarrow> set_oper_status kInput (fs_port_id fault) kDown d
      | kOutputPortDown \<Rightarrow> set_oper_status kOutput (fs_port_id fault) kDown d)"

definition clearFault :: "FaultSelector \<Rightarrow> SimulatedOcsDevice \<Rightarrow> FaultResult result \<times> SimulatedOcsDevice" where
  "clearFault selector d =
     (case fs_type selector of
        kAll \<Rightarrow> fault_ok (d\<lparr>dev_fail_next_apply := False, dev_timeout_next_apply := False,
                   dev_input_ports := map (\<lambda>p. p\<lparr>ps_oper_status := kUp\<rparr>) (dev_input_ports d),
                   dev_output_ports := map (\<lambda>p. p\<lparr>ps_oper_status := kUp\<rparr>) (dev_output_ports d)\<rparr>)
      | kNextApplyError \<Rightarrow> fault_ok (d\<lparr>dev_fail_next_apply := False\<rparr>)
      | kNextApplyTimeout \<Rightarrow> fault_ok (d\<lparr>dev_timeout_next_apply := False\<rparr>)
      | kOutOfBandDrift \<Rightarrow> fault_ok d
      | kInputPortDown \<Rightarrow> set_oper_status kInput (fs_port_id selector) kUp d
      | kOutputPortDown \<Rightarrow> set_oper_status kOutput (fs_port_id selector) kUp d)"

definition setPortAdminState ::
    "PortDirection \<Rightarrow> PortId \<Rightarrow> bool \<Rightarrow> SimulatedOcsDevice \<Rightarrow> Error result \<times> SimulatedOcsDevice" where
  "setPortAdminState direction i enabled d =
     (let error = validatePort direction i d in
      if \<not> Error_ok error then (Inr error, d)
      else case update_port direction i (\<lambda>p. p\<lparr>ps_admin_enabled := enabled\<rparr>) d of
          (Inl e, d') \<Rightarrow> (Inl e, d')
        | (Inr _, d') \<Rightarrow> (Inr Error_success, d'))"


section \<open>Ports: the construction loop\<close>

lemma makePorts_loop_returns:
  assumes "count \<noteq> - 1" "i \<noteq> 0" "unat i \<le> Suc (unat count)"
  shows "makePorts_loop direction count i ps =
    Some (ps @ map (\<lambda>j. new_port direction (of_nat j)) [unat i..<Suc (unat count)])"
  using assms(2,3)
proof (induction "Suc (unat count) - unat i" arbitrary: i ps)
  case 0
  then have "unat i = Suc (unat count)" by simp
  moreover from this have "\<not> i \<le> count" by (simp add: word_le_nat_alt)
  ultimately show ?case by (simp add: makePorts_loop.simps [of _ _ i])
next
  case (Suc n)
  then have le: "i \<le> count" and lt: "unat i < Suc (unat count)"
    by (simp_all add: word_le_nat_alt)
  have "unat count < 2 ^ 16 - 1"
  proof -
    have "unat count \<noteq> unat (- 1 :: PortId)" using assms(1) by (simp add: word_unat_eq_iff)
    moreover have "unat count \<le> 2 ^ 16 - 1" using unsigned_less [of count, where 'a = nat] by simp
    ultimately show ?thesis by (simp add: unsigned_minus_1_eq_mask mask_eq_exp_minus_1)
  qed
  with lt have inc: "unat (i + 1) = Suc (unat i)"
    by (simp add: unat_word_ariths)
  then have "i + 1 \<noteq> 0" by (metis nat.simps(3) unsigned_0)
  moreover have "n = Suc (unat count) - unat (i + 1)" using Suc.hyps(2) inc by simp
  ultimately have "makePorts_loop direction count (i + 1) (ps @ [new_port direction i]) =
      Some ((ps @ [new_port direction i]) @
        map (\<lambda>j. new_port direction (of_nat j)) [unat (i + 1)..<Suc (unat count)])"
    using Suc.hyps(1) [of "i + 1" "ps @ [new_port direction i]"] lt inc by simp
  moreover have "[unat i..<Suc (unat count)] = unat i # [Suc (unat i)..<Suc (unat count)]"
    using lt by (rule upt_conv_Cons)
  ultimately show ?case using le by (simp add: makePorts_loop.simps [of _ _ i] inc)
qed

lemma makePorts_returns:
  "count \<noteq> - 1 \<Longrightarrow>
     makePorts direction count =
       Some (map (\<lambda>j. new_port direction (of_nat j)) [1..<Suc (unat count)])"
  using makePorts_loop_returns [of count 1 direction "[]"] by (simp add: makePorts_def)

lemma makePorts_loop_bound:
  assumes "makePorts_loop direction count i ps = Some r"
  shows "count \<noteq> - 1"
proof (rule makePorts_loop.raw_induct
    [where P = "\<lambda>direction count i ps r. count \<noteq> - 1", OF _ assms])
  fix f :: "PortDirection \<Rightarrow> PortId \<Rightarrow> PortId \<Rightarrow> PortState list \<Rightarrow> PortState list option"
    and direction count i ports r
  assume "\<And>direction count i ps r. f direction count i ps = Some r \<Longrightarrow> count \<noteq> - 1"
    and "(if i \<le> count then f direction count (i + 1) (ports @ [new_port direction i])
          else Some ports) = Some r"
  then show "count \<noteq> - 1" by (cases "i \<le> count") auto
qed

lemma makePorts_Some_iff: "(\<exists>ps. makePorts direction count = Some ps) \<longleftrightarrow> count \<noteq> - 1"
  using makePorts_loop_bound makePorts_returns by (force simp: makePorts_def)

definition valid_ports :: "PortDirection \<Rightarrow> PortId \<Rightarrow> PortState list \<Rightarrow> bool" where
  "valid_ports direction count ps \<longleftrightarrow>
     length ps = unat count \<and>
     (\<forall>j < length ps. ps_id (ps ! j) = of_nat (Suc j) \<and> ps_direction (ps ! j) = direction)"

lemma valid_ports_makePorts:
  "makePorts direction count = Some ps \<Longrightarrow> valid_ports direction count ps"
proof -
  assume eq: "makePorts direction count = Some ps"
  then have "count \<noteq> - 1" using makePorts_Some_iff by blast
  with eq have "ps = map (\<lambda>j. new_port direction (of_nat j)) [1..<Suc (unat count)]"
    by (simp add: makePorts_returns)
  then show ?thesis
    by (auto simp: valid_ports_def new_port_def nth_append simp del: upt_Suc)
qed

lemma valid_ports_update:
  "valid_ports direction count ps \<Longrightarrow> (\<And>p. ps_id (f p) = ps_id p \<and> ps_direction (f p) = ps_direction p) \<Longrightarrow>
     j < length ps \<Longrightarrow> valid_ports direction count (ps[j := f (ps ! j)])"
  by (auto simp: valid_ports_def nth_list_update)

lemma valid_ports_map:
  "valid_ports direction count ps \<Longrightarrow> (\<And>p. ps_id (f p) = ps_id p \<and> ps_direction (f p) = ps_direction p) \<Longrightarrow>
     valid_ports direction count (map f ps)"
  by (auto simp: valid_ports_def)

lemma vector_at_ok: "p \<noteq> 0 \<Longrightarrow> unat p \<le> length xs \<Longrightarrow> vector_at xs p = Inr (xs ! (unat p - 1))"
  by (simp add: vector_at_def)

lemma length_vector_set [simp]: "length (vector_set xs p v) = length xs"
  by (simp add: vector_set_def)

section \<open>The candidate of a batch\<close>

text \<open>What the second loop computes when no command is rejected, and when that is so.\<close>

definition candidate_of ::
    "ConnectionCommand list \<Rightarrow> (string, AppliedConnection) smap \<Rightarrow> (string, AppliedConnection) smap" where
  "candidate_of cs m =
     foldl (\<lambda>m c. if cc_operation c = kRemove then map_erase (cc_id c) m
                 else insert_or_assign (cc_id c) (applied_of c) m) m cs"

definition port_available :: "PortDirection \<Rightarrow> PortId \<Rightarrow> SimulatedOcsDevice \<Rightarrow> bool" where
  "port_available direction i d \<longleftrightarrow>
     i \<noteq> 0 \<and> i \<le> port_count direction d \<and>
     ps_admin_enabled (ports_of direction d ! (unat i - 1)) \<and>
     ps_oper_status (ports_of direction d ! (unat i - 1)) = kUp"

definition command_valid :: "SimulatedOcsDevice \<Rightarrow> ConnectionCommand \<Rightarrow> bool" where
  "command_valid d c \<longleftrightarrow>
     cc_id c \<noteq> [] \<and>
     (cc_operation c = kUpsert \<longrightarrow>
        port_available kInput (cc_input_port c) d \<and> port_available kOutput (cc_output_port c) d)"

lemma not_kRemove [simp]: "op \<noteq> kRemove \<longleftrightarrow> op = kUpsert"
  by (cases op) auto

definition ports_ok :: "SimulatedOcsDevice \<Rightarrow> bool" where
  "ports_ok d \<longleftrightarrow>
     valid_ports kInput (di_input_port_count (dev_info d)) (dev_input_ports d) \<and>
     valid_ports kOutput (di_output_port_count (dev_info d)) (dev_output_ports d)"

lemma ports_of_length: "ports_ok d \<Longrightarrow> length (ports_of direction d) = unat (port_count direction d)"
  by (cases direction) (auto simp: ports_ok_def ports_of_def port_count_def valid_ports_def)

lemma validatePortAvailable_cases:
  assumes "ports_ok d"
  shows "\<exists>e. validatePortAvailable direction i d = Inr e \<and> (Error_ok e \<longleftrightarrow> port_available direction i d)"
proof (cases "Error_ok (validatePort direction i d)")
  case True
  then have "i \<noteq> 0" "i \<le> port_count direction d"
    by (auto simp: validatePort_def split: if_splits)
  with assms True show ?thesis
    by (simp add: validatePortAvailable_def vector_at_ok ports_of_length word_le_nat_alt
        port_available_def Let_def)
next
  case False
  then have "i = 0 \<or> i > port_count direction d"
    by (auto simp: validatePort_def split: if_splits)
  with False show ?thesis
    by (auto simp: validatePortAvailable_def port_available_def Let_def)
qed

lemma build_candidate_cases:
  assumes "ports_ok d"
  shows "(if list_all (command_valid d) cs
          then build_candidate d cs m = Inr (Inr (candidate_of cs m))
          else \<exists>e. build_candidate d cs m = Inr (Inl e) \<and> \<not> Error_ok e)"
proof (induction cs arbitrary: m)
  case Nil
  then show ?case by (simp add: candidate_of_def)
next
  case (Cons c cs)
  obtain ein where ein: "validatePortAvailable kInput (cc_input_port c) d = Inr ein"
      "Error_ok ein \<longleftrightarrow> port_available kInput (cc_input_port c) d"
    using validatePortAvailable_cases [OF assms] by blast
  obtain eout where eout: "validatePortAvailable kOutput (cc_output_port c) d = Inr eout"
      "Error_ok eout \<longleftrightarrow> port_available kOutput (cc_output_port c) d"
    using validatePortAvailable_cases [OF assms] by blast
  show ?case
  proof (cases "command_valid d c")
    case True
    then show ?thesis
      using Cons.IH ein eout by (auto simp: command_valid_def candidate_of_def)
  next
    case False
    then show ?thesis
      using ein eout by (auto simp: command_valid_def)
  qed
qed

lemma smap_ok_candidate_of [simp]: "smap_ok m \<Longrightarrow> smap_ok (candidate_of cs m)"
  by (induction cs arbitrary: m) (auto simp: candidate_of_def)

text \<open>The abstract effect of a command, on the lookup view of the connection map.\<close>

definition cmd_effect ::
    "(string \<rightharpoonup> AppliedConnection) \<Rightarrow> ConnectionCommand \<Rightarrow> (string \<rightharpoonup> AppliedConnection)" where
  "cmd_effect m c = (if cc_operation c = kRemove then m(cc_id c := None)
                     else m(cc_id c \<mapsto> applied_of c))"

lemma map_of_candidate_of:
  "smap_ok m \<Longrightarrow> map_of (candidate_of cs m) = foldl cmd_effect (map_of m) cs"
  by (induction cs arbitrary: m) (auto simp: candidate_of_def cmd_effect_def)

text \<open>A connection of the candidate is an old one, or that of some UPSERT of the batch.\<close>

lemma foldl_cmd_effect_origin:
  "foldl cmd_effect m cs k = Some a \<Longrightarrow>
     m k = Some a \<or> (\<exists>c \<in> set cs. cc_operation c = kUpsert \<and> cc_id c = k \<and> a = applied_of c)"
proof (induction cs arbitrary: m)
  case (Cons c cs)
  then have "cmd_effect m c k = Some a \<or>
      (\<exists>c \<in> set cs. cc_operation c = kUpsert \<and> cc_id c = k \<and> a = applied_of c)"
    by simp
  then show ?case
    by (auto simp: cmd_effect_def split: if_splits)
qed simp

lemma foldl_cmd_effect_frame:
  "k \<notin> cc_id ` set cs \<Longrightarrow> foldl cmd_effect m cs k = m k"
  by (induction cs arbitrary: m) (auto simp: cmd_effect_def)

lemma foldl_cmd_effect_last:
  "c \<in> set cs \<Longrightarrow> distinct (map cc_id cs) \<Longrightarrow>
     foldl cmd_effect m cs (cc_id c) = (if cc_operation c = kRemove then None else Some (applied_of c))"
proof (induction cs arbitrary: m)
  case (Cons x xs)
  show ?case
  proof (cases "c = x")
    case True
    then have "cmd_effect m x (cc_id c) = (if cc_operation c = kRemove then None else Some (applied_of c))"
      by (simp add: cmd_effect_def)
    with True Cons.prems show ?thesis by (simp add: foldl_cmd_effect_frame)
  next
    case False
    with Cons show ?thesis by simp
  qed
qed simp

section \<open>The port tables\<close>

definition conn_in_range :: "nat \<Rightarrow> nat \<Rightarrow> AppliedConnection \<Rightarrow> bool" where
  "conn_in_range n m c \<longleftrightarrow>
     ac_input_port c \<noteq> 0 \<and> unat (ac_input_port c) \<le> n \<and>
     ac_output_port c \<noteq> 0 \<and> unat (ac_output_port c) \<le> m"

definition one_to_one :: "AppliedConnection list \<Rightarrow> bool" where
  "one_to_one cs \<longleftrightarrow> distinct (map ac_input_port cs) \<and> distinct (map ac_output_port cs)"

definition matrix_of ::
    "AppliedConnection list \<Rightarrow> nat \<Rightarrow> nat \<Rightarrow> PortId option list \<Rightarrow> PortId option list \<Rightarrow> bool" where
  "matrix_of cs n m i2o o2i \<longleftrightarrow>
     length i2o = n \<and> length o2i = m \<and>
     (\<forall>j < n. \<forall>q. i2o ! j = Some q \<longleftrightarrow>
        (\<exists>c \<in> set cs. unat (ac_input_port c) = Suc j \<and> ac_output_port c = q)) \<and>
     (\<forall>j < m. \<forall>p. o2i ! j = Some p \<longleftrightarrow>
        (\<exists>c \<in> set cs. unat (ac_output_port c) = Suc j \<and> ac_input_port c = p))"

lemma matrix_of_replicate: "matrix_of [] n m (replicate n None) (replicate m None)"
  by (simp add: matrix_of_def)

lemma unat_pred: "(p :: PortId) \<noteq> 0 \<Longrightarrow> Suc (unat p - Suc 0) = unat p"
  by (simp add: unat_gt_0)

lemma matrix_of_lookup:
  assumes "matrix_of cs n m i2o o2i" "conn_in_range n m c"
  shows "vector_at i2o (ac_input_port c) = Inr (i2o ! (unat (ac_input_port c) - 1))"
    and "vector_at o2i (ac_output_port c) = Inr (o2i ! (unat (ac_output_port c) - 1))"
    and "i2o ! (unat (ac_input_port c) - 1) = None \<longleftrightarrow> ac_input_port c \<notin> ac_input_port ` set cs"
    and "o2i ! (unat (ac_output_port c) - 1) = None \<longleftrightarrow> ac_output_port c \<notin> ac_output_port ` set cs"
proof -
  have r: "ac_input_port c \<noteq> 0" "unat (ac_input_port c) - 1 < n"
      "ac_output_port c \<noteq> 0" "unat (ac_output_port c) - 1 < m"
    using assms(2) by (auto simp: conn_in_range_def unat_gt_0 less_eq_Suc_le unat_pred)
  show "vector_at i2o (ac_input_port c) = Inr (i2o ! (unat (ac_input_port c) - 1))"
    "vector_at o2i (ac_output_port c) = Inr (o2i ! (unat (ac_output_port c) - 1))"
    using assms by (auto simp: matrix_of_def conn_in_range_def vector_at_ok)
  have "(\<exists>q. i2o ! (unat (ac_input_port c) - 1) = Some q) \<longleftrightarrow>
      (\<exists>x \<in> set cs. unat (ac_input_port x) = unat (ac_input_port c))"
    using assms(1) r by (auto simp: matrix_of_def unat_pred)
  then have "i2o ! (unat (ac_input_port c) - 1) = None \<longleftrightarrow>
      \<not> (\<exists>x \<in> set cs. unat (ac_input_port x) = unat (ac_input_port c))"
    by (cases "i2o ! (unat (ac_input_port c) - 1)") auto
  then show "i2o ! (unat (ac_input_port c) - 1) = None \<longleftrightarrow> ac_input_port c \<notin> ac_input_port ` set cs"
    by (simp add: image_iff word_unat_eq_iff eq_commute)
  have "(\<exists>p. o2i ! (unat (ac_output_port c) - 1) = Some p) \<longleftrightarrow>
      (\<exists>x \<in> set cs. unat (ac_output_port x) = unat (ac_output_port c))"
    using assms(1) r by (auto simp: matrix_of_def unat_pred)
  then have "o2i ! (unat (ac_output_port c) - 1) = None \<longleftrightarrow>
      \<not> (\<exists>x \<in> set cs. unat (ac_output_port x) = unat (ac_output_port c))"
    by (cases "o2i ! (unat (ac_output_port c) - 1)") auto
  then show "o2i ! (unat (ac_output_port c) - 1) = None \<longleftrightarrow> ac_output_port c \<notin> ac_output_port ` set cs"
    by (simp add: image_iff word_unat_eq_iff eq_commute)
qed

lemma matrix_of_snoc:
  assumes mat: "matrix_of cs n m i2o o2i" and range: "conn_in_range n m c"
    and fresh: "ac_input_port c \<notin> ac_input_port ` set cs" "ac_output_port c \<notin> ac_output_port ` set cs"
  shows "matrix_of (cs @ [c]) n m
    (vector_set i2o (ac_input_port c) (Some (ac_output_port c)))
    (vector_set o2i (ac_output_port c) (Some (ac_input_port c)))"
proof -
  have r: "Suc (unat (ac_input_port c) - 1) = unat (ac_input_port c)"
      "Suc (unat (ac_output_port c) - 1) = unat (ac_output_port c)"
    using range by (auto simp: conn_in_range_def unat_pred)
  have i: "\<And>j. (unat (ac_input_port c) - Suc 0 = j) = (unat (ac_input_port c) = Suc j)"
      "\<And>j. (unat (ac_output_port c) - Suc 0 = j) = (unat (ac_output_port c) = Suc j)"
    using r by auto
  have f: "\<And>x. x \<in> set cs \<Longrightarrow> unat (ac_input_port x) \<noteq> unat (ac_input_port c)"
      "\<And>x. x \<in> set cs \<Longrightarrow> unat (ac_output_port x) \<noteq> unat (ac_output_port c)"
    using fresh by (metis image_eqI word_unat_eq_iff)+
  have "unat (ac_input_port c) - Suc 0 < length i2o" "unat (ac_output_port c) - Suc 0 < length o2i"
    using mat range r by (auto simp: matrix_of_def conn_in_range_def)
  note upd = nth_list_update [OF this(1)] nth_list_update [OF this(2)]
  show ?thesis
    using mat f unfolding matrix_of_def vector_set_def
    by (auto simp: upd i split: if_splits)
qed

lemma one_to_one_snoc:
  "one_to_one (cs @ [c]) \<longleftrightarrow>
     one_to_one cs \<and> ac_input_port c \<notin> ac_input_port ` set cs \<and>
     ac_output_port c \<notin> ac_output_port ` set cs"
  by (auto simp: one_to_one_def)

lemma one_to_one_append: "one_to_one (cs @ ds) \<Longrightarrow> one_to_one cs"
  by (simp add: one_to_one_def)

text \<open>The third loop, from tables that already hold the connections \<open>cs\<close>.\<close>

lemma build_matrix_cases:
  assumes "matrix_of cs n m i2o o2i" "one_to_one cs" "list_all (conn_in_range n m) (map snd es)"
  shows "(if one_to_one (cs @ map snd es)
          then \<exists>i2o' o2i'. build_matrix es i2o o2i = Inr (Inr (i2o', o2i')) \<and>
                 matrix_of (cs @ map snd es) n m i2o' o2i'
          else \<exists>e. build_matrix es i2o o2i = Inr (Inl e) \<and>
                 (err_code e = kInputConflict \<or> err_code e = kOutputConflict))"
  using assms
proof (induction es arbitrary: cs i2o o2i)
  case Nil
  then show ?case by simp
next
  case (Cons e es)
  obtain k c where e: "e = (k, c)" by force
  have range: "conn_in_range n m c" using Cons.prems(3) e by simp
  note look = matrix_of_lookup [OF Cons.prems(1) range]
  show ?case
  proof (cases "one_to_one (cs @ [c])")
    case True
    then have fresh: "ac_input_port c \<notin> ac_input_port ` set cs"
        "ac_output_port c \<notin> ac_output_port ` set cs"
      by (simp_all add: one_to_one_snoc)
    from Cons.IH [OF matrix_of_snoc [OF Cons.prems(1) range fresh] True] Cons.prems(3)
    show ?thesis
      using look fresh e by (simp split: if_split_asm)
  next
    case False
    then have "\<not> one_to_one (cs @ c # map snd es)"
      using one_to_one_append [of "cs @ [c]" "map snd es"] by auto
    moreover from False Cons.prems(2) have
      "ac_input_port c \<in> ac_input_port ` set cs \<or> ac_output_port c \<in> ac_output_port ` set cs"
      by (simp add: one_to_one_snoc)
    ultimately show ?thesis using look e by auto
  qed
qed

section \<open>The invariant\<close>

text \<open>
  \<^item> every connection is filed under its own, non-empty id, inside the matrix, and no port carries
    two connections; the two port tables are exactly the two directions of that assignment;
  \<^item> the replay cache holds at most \<open>kMaxCachedApplyResults\<close> results, and the deque lists exactly
    its keys, once each;
  \<^item> the port vectors have one entry per port, numbered from 1.
\<close>

definition connections_ok :: "SimulatedOcsDevice \<Rightarrow> bool" where
  "connections_ok d \<longleftrightarrow>
     smap_ok (dev_connections d) \<and>
     (\<forall>(k, c) \<in> set (dev_connections d). k = ac_id c \<and> k \<noteq> [] \<and>
        conn_in_range (unat (di_input_port_count (dev_info d)))
                      (unat (di_output_port_count (dev_info d))) c) \<and>
     one_to_one (getConnections d) \<and>
     matrix_of (getConnections d)
       (unat (di_input_port_count (dev_info d))) (unat (di_output_port_count (dev_info d)))
       (dev_input_to_output d) (dev_output_to_input d)"

definition cache_ok :: "SimulatedOcsDevice \<Rightarrow> bool" where
  "cache_ok d \<longleftrightarrow>
     smap_ok (dev_apply_results d) \<and>
     distinct (dev_apply_result_order d) \<and>
     set (dev_apply_result_order d) = fst ` set (dev_apply_results d) \<and>
     length (dev_apply_results d) \<le> kMaxCachedApplyResults"

definition counts_ok :: "SimulatedOcsDevice \<Rightarrow> bool" where
  "counts_ok d \<longleftrightarrow>
     di_input_port_count (dev_info d) \<noteq> 0 \<and> di_input_port_count (dev_info d) \<noteq> - 1 \<and>
     di_output_port_count (dev_info d) \<noteq> 0 \<and> di_output_port_count (dev_info d) \<noteq> - 1"

definition device_ok :: "SimulatedOcsDevice \<Rightarrow> bool" where
  "device_ok d \<longleftrightarrow>
     counts_ok d \<and> ports_ok d \<and> connections_ok d \<and> cache_ok d \<and> smap_ok (dev_last_versions d)"

lemmas device_ok_defs = device_ok_def counts_ok_def ports_ok_def connections_ok_def cache_ok_def

lemma device_ok_new:
  "SimulatedOcsDevice_new info = Some (Inr d) \<Longrightarrow> device_ok d"
proof -
  assume eq: "SimulatedOcsDevice_new info = Some (Inr d)"
  then obtain ins outs where ins: "makePorts kInput (di_input_port_count info) = Some ins"
      and outs: "makePorts kOutput (di_output_port_count info) = Some outs"
    by (auto simp: SimulatedOcsDevice_new_def split: option.splits)
  then have "di_input_port_count info \<noteq> - 1" "di_output_port_count info \<noteq> - 1"
    using makePorts_Some_iff by blast+
  with eq ins outs show ?thesis
    by (auto simp: SimulatedOcsDevice_new_def device_ok_defs valid_ports_makePorts getConnections_def
        one_to_one_def matrix_of_replicate kMaxCachedApplyResults_def split: if_splits)
qed

subsection \<open>The replay cache\<close>

lemma finish_frame:
  "finish options r d = (res, d') \<Longrightarrow>
     res = Inr r \<and> dev_info d' = dev_info d \<and> dev_health d' = dev_health d \<and>
     dev_connections d' = dev_connections d \<and> dev_last_versions d' = dev_last_versions d \<and>
     dev_input_to_output d' = dev_input_to_output d \<and> dev_output_to_input d' = dev_output_to_input d \<and>
     dev_input_ports d' = dev_input_ports d \<and> dev_output_ports d' = dev_output_ports d \<and>
     dev_fail_next_apply d' = dev_fail_next_apply d \<and>
     dev_timeout_next_apply d' = dev_timeout_next_apply d"
  by (auto simp: finish_def Let_def split: if_splits list.splits)

lemma finish_cached:
  "finish options r d = (res, d') \<Longrightarrow> opt_operation_id options \<noteq> [] \<Longrightarrow>
     map_of (dev_apply_results d') (opt_operation_id options) = Some r"
  by (auto simp: finish_def Let_def split: if_splits list.splits)

lemma cache_ok_length: "cache_ok d \<Longrightarrow> length (dev_apply_result_order d) = length (dev_apply_results d)"
  by (metis cache_ok_def distinct_card length_map set_map smap_ok_distinct)

lemma finish_cache_ok:
  assumes "cache_ok d" "finish options r d = (res, d')"
    "opt_operation_id options \<noteq> [] \<Longrightarrow> map_of (dev_apply_results d) (opt_operation_id options) = None"
  shows "cache_ok d'"
proof (cases "opt_operation_id options = []")
  case True
  with assms show ?thesis by (simp add: finish_def)
next
  case False
  let ?k = "opt_operation_id options"
  have new: "?k \<notin> fst ` set (dev_apply_results d)"
    using assms(3) [OF False] by (simp add: map_of_eq_None_iff)
  have ok: "smap_ok (dev_apply_results d)" using assms(1) by (simp add: cache_ok_def)
  show ?thesis
  proof (cases "length (dev_apply_results d) \<ge> kMaxCachedApplyResults")
    case full: True
    then obtain x xs where order: "dev_apply_result_order d = x # xs"
      using cache_ok_length [OF assms(1)] by (cases "dev_apply_result_order d")
        (auto simp: kMaxCachedApplyResults_def)
    then have keys: "fst ` set (map_erase x (dev_apply_results d)) = set xs"
      using assms(1) ok by (auto simp: cache_ok_def set_map_erase image_iff)
    have x: "map_of (dev_apply_results d) x \<noteq> None"
      using assms(1) order by (auto simp: cache_ok_def map_of_eq_None_iff)
    have notin: "map_of (map_erase x (dev_apply_results d)) ?k = None"
      using ok assms(3) [OF False] by auto
    have d': "dev_apply_results d' = insert_or_assign ?k r (map_erase x (dev_apply_results d))"
        "dev_apply_result_order d' = xs @ [?k]"
      using assms(2) False full order by (auto simp: finish_def)
    have "?k \<notin> set xs" using new keys set_map_erase_subset [of x] by blast
    moreover have "length (dev_apply_results d') \<le> kMaxCachedApplyResults"
      using assms(1) d' x notin
      by (auto simp: length_insert_or_assign_new length_map_erase cache_ok_def kMaxCachedApplyResults_def)
    ultimately show ?thesis
      using assms(1) d' order keys ok by (simp add: cache_ok_def fst_set_insert_or_assign)
  next
    case notfull: False
    then have d': "dev_apply_results d' = insert_or_assign ?k r (dev_apply_results d)"
        "dev_apply_result_order d' = dev_apply_result_order d @ [?k]"
      using assms(2) False by (auto simp: finish_def)
    with assms(1) notfull ok new assms(3) [OF False] show ?thesis
      by (simp add: cache_ok_def fst_set_insert_or_assign length_insert_or_assign_new)
  qed
qed

subsection \<open>What a batch does\<close>

text \<open>The whole-batch condition for success, and the state a successful batch leaves.\<close>

definition batch_accepted :: "ConnectionCommand list \<Rightarrow> ApplyOptions \<Rightarrow> SimulatedOcsDevice \<Rightarrow> bool" where
  "batch_accepted cs options d \<longleftrightarrow>
     opt_atomic options \<and> \<not> list_ex (stale_command d) cs \<and> list_all (command_valid d) cs \<and>
     one_to_one (map snd (candidate_of cs (dev_connections d)))"

lemma candidate_in_range:
  assumes "device_ok d" "list_all (command_valid d) cs" "(k, a) \<in> set (candidate_of cs (dev_connections d))"
  shows "k = ac_id a \<and> k \<noteq> [] \<and>
    conn_in_range (unat (di_input_port_count (dev_info d))) (unat (di_output_port_count (dev_info d))) a"
proof -
  have ok: "smap_ok (dev_connections d)"
    using assms(1) by (simp add: device_ok_defs)
  with assms(3) have "foldl cmd_effect (map_of (dev_connections d)) cs k = Some a"
    by (metis map_of_candidate_of smap_lookup_iff smap_ok_candidate_of)
  from foldl_cmd_effect_origin [OF this] show ?thesis
  proof
    assume "map_of (dev_connections d) k = Some a"
    then have "(k, a) \<in> set (dev_connections d)" by (rule map_of_SomeD)
    with assms(1) show ?thesis by (auto simp: device_ok_defs)
  next
    assume "\<exists>c \<in> set cs. cc_operation c = kUpsert \<and> cc_id c = k \<and> a = applied_of c"
    then obtain c where c: "c \<in> set cs" "cc_operation c = kUpsert" "cc_id c = k" "a = applied_of c"
      by blast
    with assms(2) have "command_valid d c" by (auto simp: list_all_iff)
    with c show ?thesis
      by (auto simp: command_valid_def port_available_def port_count_def applied_of_def
          conn_in_range_def word_le_nat_alt)
  qed
qed

text \<open>
  The four ways an uncached call ends: rejected, failed by an injected error, timed out by an
  injected timeout, or committed. In none of them is an exception thrown.
\<close>

lemma apply_uncached_cases:
  assumes "device_ok d"
  obtains
    (rejected) e where "\<not> batch_accepted cs options d" "\<not> Error_ok e"
      "apply_uncached cs options d = finish options (failed_result e) d"
  | (failed) "batch_accepted cs options d" "dev_fail_next_apply d"
      "apply_uncached cs options d =
         finish options (failed_result (makeError kApplyFailed ''injected next-apply failure''))
           (d\<lparr>dev_fail_next_apply := False\<rparr>)"
  | (timed_out) "batch_accepted cs options d" "\<not> dev_fail_next_apply d" "dev_timeout_next_apply d"
      "apply_uncached cs options d =
         finish options (failed_result (makeError kApplyTimeout ''injected next-apply timeout''))
           (d\<lparr>dev_timeout_next_apply := False\<rparr>)"
  | (committed) cand i2o o2i where "batch_accepted cs options d"
      "\<not> dev_fail_next_apply d" "\<not> dev_timeout_next_apply d"
      "cand = candidate_of cs (dev_connections d)"
      "matrix_of (map snd cand) (unat (di_input_port_count (dev_info d)))
         (unat (di_output_port_count (dev_info d))) i2o o2i"
      "apply_uncached cs options d =
         finish options \<lparr>ar_error = Error_success, ar_connections = changed_connections cs cand\<rparr>
           (d\<lparr>dev_connections := cand, dev_input_to_output := i2o, dev_output_to_input := o2i,
              dev_last_versions := record_versions cs (dev_last_versions d)\<rparr>)"
proof -
  let ?n = "unat (di_input_port_count (dev_info d))" and ?m = "unat (di_output_port_count (dev_info d))"
  let ?cand = "candidate_of cs (dev_connections d)"
  have ports: "ports_ok d" using assms by (simp add: device_ok_def)
  note bc = build_candidate_cases [OF ports, of cs "dev_connections d"]
  consider (early) "\<not> opt_atomic options \<or> list_ex (stale_command d) cs"
    | (invalid) "opt_atomic options" "\<not> list_ex (stale_command d) cs" "\<not> list_all (command_valid d) cs"
    | (valid) "opt_atomic options" "\<not> list_ex (stale_command d) cs" "list_all (command_valid d) cs"
    by blast
  then show thesis
  proof cases
    case early
    then show thesis
      using rejected [of "makeError kUnsupported ''non-atomic apply is not supported''"]
        rejected [of "makeError kVersionStale ''connection version is stale''"]
      by (cases "opt_atomic options") (auto simp: apply_uncached_def batch_accepted_def)
  next
    case invalid
    with bc obtain e where "build_candidate d cs (dev_connections d) = Inr (Inl e)" "\<not> Error_ok e"
      by auto
    with invalid show thesis
      by (intro rejected [of e]) (auto simp: apply_uncached_def batch_accepted_def)
  next
    case valid
    with bc have cand: "build_candidate d cs (dev_connections d) = Inr (Inr ?cand)" by simp
    have "list_all (conn_in_range ?n ?m) (map snd ?cand)"
      using candidate_in_range [OF assms valid(3)] by (auto simp: list_all_iff)
    note bm = build_matrix_cases [OF matrix_of_replicate _ this]
    have nil: "one_to_one []" by (simp add: one_to_one_def)
    show thesis
    proof (cases "one_to_one (map snd ?cand)")
      case False
      with bm [OF nil] obtain e where
        "build_matrix ?cand (replicate ?n None) (replicate ?m None) = Inr (Inl e)"
        "err_code e = kInputConflict \<or> err_code e = kOutputConflict"
        by auto
      with valid cand False show thesis
        by (intro rejected [of e]) (auto simp: apply_uncached_def batch_accepted_def Error_ok_def)
    next
      case True
      with bm [OF nil] obtain i2o o2i where
        mat: "build_matrix ?cand (replicate ?n None) (replicate ?m None) = Inr (Inr (i2o, o2i))"
        "matrix_of (map snd ?cand) ?n ?m i2o o2i"
        by auto
      have acc: "batch_accepted cs options d"
        using valid True by (simp add: batch_accepted_def)
      have step: "apply_uncached cs options d =
          (if dev_fail_next_apply d
           then finish options
                  (failed_result (makeError kApplyFailed ''injected next-apply failure''))
                  (d\<lparr>dev_fail_next_apply := False\<rparr>)
           else if dev_timeout_next_apply d
           then finish options
                  (failed_result (makeError kApplyTimeout ''injected next-apply timeout''))
                  (d\<lparr>dev_timeout_next_apply := False\<rparr>)
           else finish options
                  \<lparr>ar_error = Error_success, ar_connections = changed_connections cs ?cand\<rparr>
                  (d\<lparr>dev_connections := ?cand, dev_input_to_output := i2o, dev_output_to_input := o2i,
                     dev_last_versions := record_versions cs (dev_last_versions d)\<rparr>))"
        using valid cand mat by (simp add: apply_uncached_def)
      show thesis
        using acc mat(2) step failed timed_out committed [of ?cand i2o o2i]
        by (cases "dev_fail_next_apply d"; cases "dev_timeout_next_apply d") simp_all
    qed
  qed
qed

subsection \<open>Every operation keeps the invariant\<close>

lemma smap_ok_record_versions [simp]: "smap_ok m \<Longrightarrow> smap_ok (record_versions cs m)"
  by (induction cs arbitrary: m) (auto simp: record_versions_def)

lemma device_ok_flags [simp]:
  "device_ok (d\<lparr>dev_fail_next_apply := b\<rparr>) = device_ok d"
  "device_ok (d\<lparr>dev_timeout_next_apply := b\<rparr>) = device_ok d"
  by (simp_all add: device_ok_defs getConnections_def)

lemma device_ok_finish:
  assumes "device_ok d" "finish options r d = (res, d')"
    "opt_operation_id options \<noteq> [] \<Longrightarrow> map_of (dev_apply_results d) (opt_operation_id options) = None"
  shows "device_ok d'"
proof -
  have "cache_ok d'"
    by (rule finish_cache_ok [OF _ assms(2,3)]) (use assms(1) in \<open>simp_all add: device_ok_def\<close>)
  with assms(1) finish_frame [OF assms(2)] show ?thesis
    by (simp add: device_ok_def counts_ok_def ports_ok_def connections_ok_def getConnections_def)
qed

lemma device_ok_apply_uncached:
  assumes "device_ok d" "apply_uncached cs options d = (res, d')"
    "opt_operation_id options \<noteq> [] \<Longrightarrow> map_of (dev_apply_results d) (opt_operation_id options) = None"
  shows "device_ok d'"
  using assms(1)
proof (cases rule: apply_uncached_cases [where cs = cs and options = options])
  case (rejected e)
  with assms show ?thesis by (auto intro: device_ok_finish)
next
  case failed
  show ?thesis
    by (rule device_ok_finish [OF _ failed(3) [symmetric, THEN trans, OF assms(2)]])
       (use assms in simp_all)
next
  case timed_out
  show ?thesis
    by (rule device_ok_finish [OF _ timed_out(4) [symmetric, THEN trans, OF assms(2)]])
       (use assms in simp_all)
next
  case (committed cand i2o o2i)
  let ?d = "d\<lparr>dev_connections := cand, dev_input_to_output := i2o, dev_output_to_input := o2i,
              dev_last_versions := record_versions cs (dev_last_versions d)\<rparr>"
  have range: "\<forall>(k, c) \<in> set cand. k = ac_id c \<and> k \<noteq> [] \<and>
      conn_in_range (unat (di_input_port_count (dev_info d)))
        (unat (di_output_port_count (dev_info d))) c"
    using candidate_in_range [OF assms(1)] committed(1,4) by (auto simp: batch_accepted_def)
  have "smap_ok cand" "one_to_one (map snd cand)"
    using committed(1,4) assms(1) by (simp_all add: batch_accepted_def device_ok_def connections_ok_def)
  with committed(5) range have "connections_ok ?d"
    by (simp add: connections_ok_def getConnections_def)
  then have "device_ok ?d"
    using assms(1) by (simp add: device_ok_def counts_ok_def ports_ok_def cache_ok_def)
  moreover have "opt_operation_id options \<noteq> [] \<Longrightarrow>
      map_of (dev_apply_results ?d) (opt_operation_id options) = None"
    using assms(3) by simp
  ultimately show ?thesis
    using committed(6) assms(2) device_ok_finish by metis
qed

lemma device_ok_applyConnections:
  assumes "device_ok d" "applyConnections cs options d = (res, d')"
  shows "device_ok d'"
proof (cases "opt_operation_id options \<noteq> [] \<and>
    map_of (dev_apply_results d) (opt_operation_id options) \<noteq> None")
  case True
  with assms show ?thesis by (auto simp: applyConnections_def)
next
  case False
  then have "apply_uncached cs options d = (res, d')"
    using assms(2) by (auto simp: applyConnections_def split: if_splits option.splits)
  then show ?thesis
    by (rule device_ok_apply_uncached [OF assms(1)]) (use False in auto)
qed

lemma device_ok_reset:
  assumes "device_ok d" "reset mode d = Some (r, d')"
  shows "device_ok d'"
proof -
  obtain ins outs where "makePorts kInput (di_input_port_count (dev_info d)) = Some ins"
      "makePorts kOutput (di_output_port_count (dev_info d)) = Some outs"
    using assms(2) by (auto simp: reset_def split: option.splits)
  moreover from this have "valid_ports kInput (di_input_port_count (dev_info d)) ins"
      "valid_ports kOutput (di_output_port_count (dev_info d)) outs"
    by (simp_all add: valid_ports_makePorts)
  moreover have "matrix_of [] (unat (di_input_port_count (dev_info d)))
      (unat (di_output_port_count (dev_info d)))
      (map (\<lambda>_. None) (dev_input_to_output d)) (map (\<lambda>_. None) (dev_output_to_input d))"
    using assms(1) by (auto simp: device_ok_defs matrix_of_def)
  ultimately show ?thesis
    using assms
    by (cases mode) (auto simp: reset_def device_ok_defs Let_def getConnections_def one_to_one_def)
qed

lemma reset_returns: "device_ok d \<Longrightarrow> \<exists>r d'. reset mode d = Some (r, d')"
  by (simp add: device_ok_def counts_ok_def reset_def makePorts_returns Let_def)

lemma update_port_cases:
  assumes "device_ok d" "Error_ok (validatePort direction i d)"
    "\<And>p. ps_id (f p) = ps_id p \<and> ps_direction (f p) = ps_direction p"
  obtains d' where "update_port direction i f d = (Inr (), d')" "device_ok d'"
    "dev_info d' = dev_info d" "dev_connections d' = dev_connections d"
    "dev_last_versions d' = dev_last_versions d"
    "ports_of direction d' = vector_set (ports_of direction d) i (f (ports_of direction d ! (unat i - 1)))"
proof -
  have i: "i \<noteq> 0" "i \<le> port_count direction d"
    using assms(2) by (auto simp: validatePort_def split: if_splits)
  then have at: "vector_at (ports_of direction d) i = Inr (ports_of direction d ! (unat i - 1))"
    using assms(1) by (simp add: vector_at_ok ports_of_length device_ok_def word_le_nat_alt)
  have lt: "unat i - Suc 0 < length (ports_of direction d)"
    using assms(1) i by (simp add: ports_of_length device_ok_def word_le_nat_alt less_eq_Suc_le unat_pred)
  show thesis
  proof (cases direction)
    case kInput
    have "valid_ports kInput (di_input_port_count (dev_info d))
        (vector_set (dev_input_ports d) i (f (dev_input_ports d ! (unat i - 1))))"
      using assms(1,3) lt kInput
      by (auto simp: vector_set_def device_ok_def ports_ok_def ports_of_def intro!: valid_ports_update)
    with at assms(1) kInput show thesis
      by (intro that [of "d\<lparr>dev_input_ports :=
            vector_set (dev_input_ports d) i (f (dev_input_ports d ! (unat i - 1)))\<rparr>"])
         (simp_all add: update_port_def ports_of_def device_ok_defs getConnections_def)
  next
    case kOutput
    have "valid_ports kOutput (di_output_port_count (dev_info d))
        (vector_set (dev_output_ports d) i (f (dev_output_ports d ! (unat i - 1))))"
      using assms(1,3) lt kOutput
      by (auto simp: vector_set_def device_ok_def ports_ok_def ports_of_def intro!: valid_ports_update)
    with at assms(1) kOutput show thesis
      by (intro that [of "d\<lparr>dev_output_ports :=
            vector_set (dev_output_ports d) i (f (dev_output_ports d ! (unat i - 1)))\<rparr>"])
         (simp_all add: update_port_def ports_of_def device_ok_defs getConnections_def)
  qed
qed

lemma matrix_of_tl:
  assumes mat: "matrix_of (c # cs) n m i2o o2i" and one: "one_to_one (c # cs)" and range: "conn_in_range n m c"
  shows "matrix_of cs n m (vector_set i2o (ac_input_port c) None) (vector_set o2i (ac_output_port c) None)"
proof -
  have r: "Suc (unat (ac_input_port c) - Suc 0) = unat (ac_input_port c)"
      "Suc (unat (ac_output_port c) - Suc 0) = unat (ac_output_port c)"
    using range by (auto simp: conn_in_range_def unat_pred)
  then have "unat (ac_input_port c) - Suc 0 < length i2o" "unat (ac_output_port c) - Suc 0 < length o2i"
    using mat range by (auto simp: matrix_of_def conn_in_range_def)
  note upd = nth_list_update [OF this(1)] nth_list_update [OF this(2)]
  have i: "\<And>j. (unat (ac_input_port c) - Suc 0 = j) = (unat (ac_input_port c) = Suc j)"
      "\<And>j. (unat (ac_output_port c) - Suc 0 = j) = (unat (ac_output_port c) = Suc j)"
    using r by auto
  have "ac_input_port c \<notin> ac_input_port ` set cs" "ac_output_port c \<notin> ac_output_port ` set cs"
    using one by (simp_all add: one_to_one_def)
  then have f: "\<And>x. x \<in> set cs \<Longrightarrow> unat (ac_input_port x) \<noteq> unat (ac_input_port c)"
      "\<And>x. x \<in> set cs \<Longrightarrow> unat (ac_output_port x) \<noteq> unat (ac_output_port c)"
    by (metis image_eqI word_unat_eq_iff)+
  show ?thesis
    using mat f unfolding matrix_of_def vector_set_def
    by (auto simp: upd i split: if_splits)
qed

lemma device_ok_drop_first_connection:
  assumes "device_ok d" "drop_first_connection d = (res, d')"
  shows "device_ok d' \<and> (\<exists>r. res = Inr r)"
proof (cases "dev_connections d")
  case Nil
  with assms show ?thesis by (auto simp: drop_first_connection_def fault_error_def)
next
  case (Cons e rest)
  obtain k c where e: "e = (k, c)" by force
  let ?n = "unat (di_input_port_count (dev_info d))" and ?m = "unat (di_output_port_count (dev_info d))"
  have ok: "conn_in_range ?n ?m c" "one_to_one (c # map snd rest)"
      "matrix_of (c # map snd rest) ?n ?m (dev_input_to_output d) (dev_output_to_input d)"
      "smap_ok rest" "one_to_one (map snd rest)"
    using assms(1) Cons e by (auto simp: device_ok_defs getConnections_def one_to_one_def)
  note look = matrix_of_lookup(1,2) [OF ok(3,1)]
  have "d' = d\<lparr>dev_input_to_output := vector_set (dev_input_to_output d) (ac_input_port c) None,
      dev_output_to_input := vector_set (dev_output_to_input d) (ac_output_port c) None,
      dev_connections := rest\<rparr> \<and> (\<exists>r. res = Inr r)"
    using assms(2) Cons e look by (auto simp: drop_first_connection_def fault_ok_def)
  moreover note matrix_of_tl [OF ok(3,2,1)]
  ultimately show ?thesis
    using assms(1) Cons ok by (auto simp: device_ok_defs getConnections_def)
qed

lemma device_ok_set_oper_status:
  assumes "device_ok d" "set_oper_status direction i st d = (res, d')"
  shows "device_ok d' \<and> (\<exists>r. res = Inr r)"
proof (cases "Error_ok (validatePort direction i d)")
  case True
  then obtain d'' where "update_port direction i (\<lambda>p. p\<lparr>ps_oper_status := st\<rparr>) d = (Inr (), d'')"
      "device_ok d''"
    using update_port_cases [OF assms(1) True, of "\<lambda>p. p\<lparr>ps_oper_status := st\<rparr>"] by auto
  with True assms show ?thesis by (auto simp: set_oper_status_def fault_ok_def Let_def)
next
  case False
  with assms show ?thesis by (auto simp: set_oper_status_def fault_error_def Let_def)
qed

lemma device_ok_injectFault:
  assumes "device_ok d" "injectFault fault d = (res, d')"
  shows "device_ok d' \<and> (\<exists>r. res = Inr r)"
  using assms device_ok_drop_first_connection [OF assms(1)] device_ok_set_oper_status [OF assms(1)]
  by (cases "fs_type fault") (auto simp: injectFault_def fault_ok_def fault_error_def)

lemma device_ok_clearFault:
  assumes "device_ok d" "clearFault sel d = (res, d')"
  shows "device_ok d' \<and> (\<exists>r. res = Inr r)"
proof (cases "fs_type sel")
  case kAll
  have "valid_ports kInput (di_input_port_count (dev_info d))
        (map (\<lambda>p. p\<lparr>ps_oper_status := kUp\<rparr>) (dev_input_ports d))"
      "valid_ports kOutput (di_output_port_count (dev_info d))
        (map (\<lambda>p. p\<lparr>ps_oper_status := kUp\<rparr>) (dev_output_ports d))"
    using assms(1) by (auto simp: device_ok_def ports_ok_def intro!: valid_ports_map)
  with assms(1) have "device_ok (d\<lparr>dev_fail_next_apply := False, dev_timeout_next_apply := False,
      dev_input_ports := map (\<lambda>p. p\<lparr>ps_oper_status := kUp\<rparr>) (dev_input_ports d),
      dev_output_ports := map (\<lambda>p. p\<lparr>ps_oper_status := kUp\<rparr>) (dev_output_ports d)\<rparr>)"
    by (simp add: device_ok_defs getConnections_def)
  with assms(2) kAll show ?thesis by (auto simp: clearFault_def fault_ok_def)
qed (use assms device_ok_set_oper_status [OF assms(1)] in \<open>auto simp: clearFault_def fault_ok_def\<close>)

lemma device_ok_setPortAdminState:
  assumes "device_ok d" "setPortAdminState direction i b d = (res, d')"
  shows "device_ok d' \<and> (\<exists>r. res = Inr r)"
proof (cases "Error_ok (validatePort direction i d)")
  case True
  then obtain d'' where "update_port direction i (\<lambda>p. p\<lparr>ps_admin_enabled := b\<rparr>) d = (Inr (), d'')"
      "device_ok d''"
    using update_port_cases [OF assms(1) True, of "\<lambda>p. p\<lparr>ps_admin_enabled := b\<rparr>"] by auto
  with True assms show ?thesis by (auto simp: setPortAdminState_def Let_def)
next
  case False
  with assms show ?thesis by (auto simp: setPortAdminState_def Let_def)
qed

lemma applyConnections_no_throw:
  assumes "device_ok d"
  shows "\<exists>r d'. applyConnections cs options d = (Inr r, d')"
proof (cases "\<exists>r. map_of (dev_apply_results d) (opt_operation_id options) = Some r \<and> opt_operation_id options \<noteq> []")
  case True
  then show ?thesis by (auto simp: applyConnections_def)
next
  case False
  then have eq: "applyConnections cs options d = apply_uncached cs options d"
    by (auto simp: applyConnections_def split: option.splits)
  have fin: "\<And>r d. \<exists>d'. finish options r d = (Inr r, d')"
    using finish_frame by (metis surj_pair)
  show ?thesis
    using assms
    by (cases rule: apply_uncached_cases [where cs = cs and options = options])
       (use eq fin in metis)+
qed

section \<open>Runs of the device\<close>

text \<open>
  The calls a client can make, as a step relation: one rule per mutating method. A state is
  reachable when some construction and some sequence of calls lead to it.
\<close>

inductive device_step :: "SimulatedOcsDevice \<Rightarrow> SimulatedOcsDevice \<Rightarrow> bool" where
  apply_step: "applyConnections cs options d = (res, d') \<Longrightarrow> device_step d d'"
| reset_step: "reset mode d = Some (r, d') \<Longrightarrow> device_step d d'"
| inject_step: "injectFault fault d = (fres, d') \<Longrightarrow> device_step d d'"
| clear_step: "clearFault sel d = (fres, d') \<Longrightarrow> device_step d d'"
| admin_step: "setPortAdminState direction i b d = (eres, d') \<Longrightarrow> device_step d d'"

inductive device_reachable :: "SimulatedOcsDevice \<Rightarrow> bool" where
  constructed: "SimulatedOcsDevice_new info = Some (Inr d) \<Longrightarrow> device_reachable d"
| stepped: "device_reachable d \<Longrightarrow> device_step d d' \<Longrightarrow> device_reachable d'"

lemma device_ok_step: "device_step d d' \<Longrightarrow> device_ok d \<Longrightarrow> device_ok d'"
  by (induction rule: device_step.induct)
     (auto dest: device_ok_applyConnections device_ok_reset device_ok_injectFault
        device_ok_clearFault device_ok_setPortAdminState)

lemma device_ok_reachable: "device_reachable d \<Longrightarrow> device_ok d"
  by (induction rule: device_reachable.induct) (auto intro: device_ok_new device_ok_step)

section \<open>Effects, seen from a client\<close>

lemma applyConnections_uncached:
  "opt_operation_id options = [] \<or> map_of (dev_apply_results d) (opt_operation_id options) = None \<Longrightarrow>
     applyConnections cs options d = apply_uncached cs options d"
  by (auto simp: applyConnections_def)

lemma applyConnections_cases:
  assumes "applyConnections cs options d = (res, d')"
  obtains (cached) r where "opt_operation_id options \<noteq> []"
      "map_of (dev_apply_results d) (opt_operation_id options) = Some r" "res = Inr r" "d' = d"
  | (uncached) "opt_operation_id options = [] \<or>
        map_of (dev_apply_results d) (opt_operation_id options) = None"
      "apply_uncached cs options d = (res, d')"
  using assms by (auto simp: applyConnections_def split: if_splits option.splits)

text \<open>The switching state of a device: all that an optical path depends on.\<close>

definition switching_state ::
    "SimulatedOcsDevice \<Rightarrow> (string, AppliedConnection) smap \<times> (string, u64) smap \<times>
       PortId option list \<times> PortId option list \<times> PortState list \<times> PortState list \<times> DeviceInfo" where
  "switching_state d = (dev_connections d, dev_last_versions d, dev_input_to_output d,
     dev_output_to_input d, dev_input_ports d, dev_output_ports d, dev_info d)"

lemma switching_state_finish:
  "finish options r d = (res, d') \<Longrightarrow> switching_state d' = switching_state d"
  using finish_frame [of options r d res d'] by (simp add: switching_state_def)

lemma switching_state_flags [simp]:
  "switching_state (d\<lparr>dev_fail_next_apply := b\<rparr>) = switching_state d"
  "switching_state (d\<lparr>dev_timeout_next_apply := b\<rparr>) = switching_state d"
  by (simp_all add: switching_state_def)

lemma finish_result: "finish options r d = (Inr r', d') \<Longrightarrow> r' = r"
  using finish_frame by fastforce

lemma failed_result_not_ok [simp]: "ApplyResult_ok (failed_result e) \<longleftrightarrow> Error_ok e"
  by (simp add: ApplyResult_ok_def failed_result_def)

lemma apply_uncached_failure:
  assumes "device_ok d" "apply_uncached cs options d = (Inr r, d')" "\<not> ApplyResult_ok r"
  shows "switching_state d' = switching_state d"
  using assms(1)
proof (cases rule: apply_uncached_cases [where cs = cs and options = options])
  case (committed cand i2o o2i)
  then have "r = \<lparr>ar_error = Error_success, ar_connections = changed_connections cs cand\<rparr>"
    using assms(2) by (metis finish_result)
  with assms(3) show ?thesis by (simp add: ApplyResult_ok_def)
qed (use assms(2) in \<open>metis switching_state_finish switching_state_flags\<close>)+

lemma applyConnections_failure:
  assumes "device_ok d" "applyConnections cs options d = (Inr r, d')" "\<not> ApplyResult_ok r"
  shows "switching_state d' = switching_state d"
  using assms(2)
proof (cases rule: applyConnections_cases)
  case uncached
  then show ?thesis using apply_uncached_failure [OF assms(1)] assms(3) by blast
qed simp

lemma apply_uncached_success:
  assumes "device_ok d" "apply_uncached cs options d = (Inr r, d')" "ApplyResult_ok r"
  shows "batch_accepted cs options d \<and>
    dev_connections d' = candidate_of cs (dev_connections d) \<and>
    dev_last_versions d' = record_versions cs (dev_last_versions d) \<and>
    ar_connections r = changed_connections cs (dev_connections d') \<and>
    \<not> dev_fail_next_apply d \<and> \<not> dev_timeout_next_apply d"
  using assms(1)
proof (cases rule: apply_uncached_cases [where cs = cs and options = options])
  case (committed cand i2o o2i)
  then show ?thesis
    using assms(2) finish_frame [OF committed(6) [symmetric, THEN trans, OF assms(2)]] by auto
next
  case (rejected e)
  then have "r = failed_result e" using assms(2) by (metis finish_result)
  with rejected assms(3) show ?thesis by simp
next
  case failed
  then have "r = failed_result (makeError kApplyFailed ''injected next-apply failure'')"
    using assms(2) by (metis finish_result)
  with assms(3) show ?thesis by simp
next
  case timed_out
  then have "r = failed_result (makeError kApplyTimeout ''injected next-apply timeout'')"
    using assms(2) by (metis finish_result)
  with assms(3) show ?thesis by simp
qed

lemma record_versions_monotone:
  assumes "smap_ok m" "\<forall>c \<in> set cs. cc_desired_version c \<noteq> 0 \<longrightarrow>
      (\<forall>v. map_of m (cc_id c) = Some v \<longrightarrow> v \<le> cc_desired_version c)"
    and "map_of m k = Some v"
  shows "\<exists>v'. map_of (record_versions cs m) k = Some v' \<and> v \<le> v'"
proof -
  have "\<exists>v'. map_of (record_versions cs m') k = Some v' \<and> v \<le> v'"
    if "\<exists>v'. map_of m' k = Some v' \<and> v \<le> v'" for m'
    using that assms(2)
  proof (induction cs arbitrary: m')
    case Nil
    then show ?case by (simp add: record_versions_def)
  next
    case (Cons c cs)
    let ?m = "if cc_desired_version c \<noteq> 0 then insert_or_assign (cc_id c) (cc_desired_version c) m' else m'"
    have "\<exists>v'. map_of ?m k = Some v' \<and> v \<le> v'"
      using Cons.prems assms(3) by auto
    from Cons.IH [OF this] Cons.prems(2) show ?case by (simp add: record_versions_def)
  qed
  with assms(3) show ?thesis by blast
qed

lemma not_stale: "\<not> stale_command d c \<Longrightarrow> cc_desired_version c \<noteq> 0 \<Longrightarrow>
    map_of (dev_last_versions d) (cc_id c) = Some v \<Longrightarrow> v \<le> cc_desired_version c"
  by (simp add: stale_command_def not_less)

end
