(* ===== verification/Device_Api.thy ===== *)
theory Device_Api
  imports Simulated_Device
begin

text \<open>
  The abstract class \<open>OcsDeviceApi\<close> (\<open>cpp/include/ocs/device_api.hpp\<close>) as the record of its
  virtual functions over the state of an implementation, the in-process implementation
  (\<open>cpp/src/in_process_sim_backend.cpp\<close>) that forwards every call to the simulated device, and the
  contract a client of the interface relies on. A virtual function may throw, and a const one may
  still change hidden state (the socket of the remote implementation), so each returns a result
  and the new state. \<open>reset\<close> may fail to return (\<open>None\<close>).
\<close>

section \<open>The abstract class\<close>

record 'd OcsDeviceApi =
  api_getDeviceInfo :: "'d \<Rightarrow> DeviceInfo result \<times> 'd"
  api_getHealth :: "'d \<Rightarrow> DeviceHealth result \<times> 'd"
  api_applyConnections :: "ConnectionCommand list \<Rightarrow> ApplyOptions \<Rightarrow> 'd \<Rightarrow> ApplyResult result \<times> 'd"
  api_getConnections :: "'d \<Rightarrow> AppliedConnection list result \<times> 'd"
  api_getInputPortState :: "PortId \<Rightarrow> 'd \<Rightarrow> PortState result \<times> 'd"
  api_getOutputPortState :: "PortId \<Rightarrow> 'd \<Rightarrow> PortState result \<times> 'd"
  api_reset :: "ResetMode \<Rightarrow> 'd \<Rightarrow> (ResetResult result \<times> 'd) option"
  api_injectFault :: "FaultSpec \<Rightarrow> 'd \<Rightarrow> FaultResult result \<times> 'd"
  api_clearFault :: "FaultSelector \<Rightarrow> 'd \<Rightarrow> FaultResult result \<times> 'd"

section \<open>The in-process backend\<close>

definition InProcessSimBackend :: "SimulatedOcsDevice OcsDeviceApi" where
  "InProcessSimBackend =
     \<lparr>api_getDeviceInfo = (\<lambda>d. (Inr (getDeviceInfo d), d)),
      api_getHealth = (\<lambda>d. (Inr (getHealth d), d)),
      api_applyConnections = applyConnections,
      api_getConnections = (\<lambda>d. (Inr (getConnections d), d)),
      api_getInputPortState = (\<lambda>i d. (getPortState kInput i d, d)),
      api_getOutputPortState = (\<lambda>i d. (getPortState kOutput i d, d)),
      api_reset = (\<lambda>mode d. map_option (\<lambda>(r, d'). (Inr r, d')) (reset mode d)),
      api_injectFault = injectFault,
      api_clearFault = clearFault\<rparr>"

section \<open>The contract\<close>

text \<open>
  What a client may rely on of a backend whose calls arrive: applying never throws, a failed apply
  leaves the reported connections alone, a successful one makes every UPSERT of the batch that no
  later command of the batch overrides visible with the requested ports and version and removes every
  connection whose last command is a REMOVE, an operation id is answered once and for all, and the
  connections reported have distinct ids.
\<close>

definition conn_map :: "AppliedConnection list \<Rightarrow> string \<rightharpoonup> AppliedConnection" where
  "conn_map cs = map_of (map (\<lambda>c. (ac_id c, c)) cs)"

locale device_contract =
  fixes api :: "'d OcsDeviceApi"
    and ok :: "'d \<Rightarrow> bool"
    and answered :: "string \<Rightarrow> 'd \<Rightarrow> bool"
  assumes reads: "ok d \<Longrightarrow> \<exists>cs. api_getConnections api d = (Inr cs, d) \<and> distinct (map ac_id cs)"
    and applies: "ok d \<Longrightarrow> \<exists>r d'. api_applyConnections api cs options d = (Inr r, d') \<and> ok d'"
    and fails: "ok d \<Longrightarrow> api_applyConnections api cs options d = (Inr r, d') \<Longrightarrow>
        \<not> ApplyResult_ok r \<Longrightarrow> fst (api_getConnections api d') = fst (api_getConnections api d)"
    and succeeds: "ok d \<Longrightarrow> \<not> answered (opt_operation_id options) d \<Longrightarrow>
        api_applyConnections api cs options d = (Inr r, d') \<Longrightarrow> ApplyResult_ok r \<Longrightarrow>
        api_getConnections api d = (Inr before, d) \<Longrightarrow> api_getConnections api d' = (Inr after, d') \<Longrightarrow>
        conn_map after = foldl cmd_effect (conn_map before) cs"
    and replays: "ok d \<Longrightarrow> opt_operation_id options \<noteq> [] \<Longrightarrow>
        opt_operation_id options' = opt_operation_id options \<Longrightarrow>
        api_applyConnections api cs options d = (Inr r, d') \<Longrightarrow>
        api_applyConnections api cs' options' d' = (Inr r, d')"
begin

text \<open>
  A client that crashed after sending a batch may send it again under the same id: it gets the same
  answer, and the connections are those after the first time.
\<close>

lemma resend_is_harmless:
  assumes "ok d" "opt_operation_id options \<noteq> []"
    "api_applyConnections api cs options d = (Inr r, d1)"
  shows "fst (api_applyConnections api cs options d1) = Inr r \<and>
    api_getConnections api (snd (api_applyConnections api cs options d1)) = api_getConnections api d1"
  using replays [OF assms(1,2) refl assms(3), of cs] by simp

text \<open>After a successful batch with distinct ids, every command of it is visible.\<close>

lemma success_is_visible:
  assumes "ok d" "\<not> answered (opt_operation_id options) d" "distinct (map cc_id cs)"
    "api_applyConnections api cs options d = (Inr r, d')" "ApplyResult_ok r" "c \<in> set cs"
    "api_getConnections api d' = (Inr after, d')"
  shows "conn_map after (cc_id c) = (if cc_operation c = kRemove then None else Some (applied_of c))"
proof -
  obtain before where "api_getConnections api d = (Inr before, d)" using reads [OF assms(1)] by blast
  from succeeds [OF assms(1,2,4,5) this assms(7)] show ?thesis
    using foldl_cmd_effect_last [OF assms(6,3)] by simp
qed

end

lemma conn_map_getConnections:
  assumes "device_ok d"
  shows "conn_map (getConnections d) = map_of (dev_connections d)"
proof -
  have "map (\<lambda>c. (ac_id c, c)) (map snd (dev_connections d)) = dev_connections d"
    using assms by (auto simp: device_ok_def connections_ok_def intro!: map_idI)
  then show ?thesis by (simp add: conn_map_def getConnections_def)
qed

lemma distinct_getConnections: "device_ok d \<Longrightarrow> distinct (map ac_id (getConnections d))"
proof -
  assume ok: "device_ok d"
  then have "map ac_id (getConnections d) = map fst (dev_connections d)"
    by (auto simp: device_ok_def connections_ok_def getConnections_def)
  with ok show ?thesis by (simp add: smap_ok_distinct device_ok_def connections_ok_def)
qed

lemma applyConnections_replay:
  assumes "device_ok d" "opt_operation_id options \<noteq> []"
    "opt_operation_id options' = opt_operation_id options"
    "applyConnections cs options d = (Inr r, d')"
  shows "applyConnections cs' options' d' = (Inr r, d')"
proof -
  have "map_of (dev_apply_results d') (opt_operation_id options) = Some r"
    using assms(4)
  proof (cases rule: applyConnections_cases)
    case uncached
    with assms(1) show ?thesis
      by (cases rule: apply_uncached_cases [where cs = cs and options = options])
         (use uncached assms(2) finish_cached finish_result in metis)+
  qed auto
  with assms(2,3) show ?thesis by (simp add: applyConnections_def)
qed

interpretation in_process: device_contract InProcessSimBackend device_ok
  "\<lambda>i d. i \<noteq> [] \<and> map_of (dev_apply_results d) i \<noteq> None"
proof (unfold_locales, goal_cases)
  case (1 d)
  then show ?case by (simp add: InProcessSimBackend_def distinct_getConnections)
next
  case (2 d cs options)
  then show ?case
    using applyConnections_no_throw device_ok_applyConnections
    by (simp add: InProcessSimBackend_def) metis
next
  case (3 d cs options r d')
  then show ?case
    using applyConnections_failure [of d cs options r d']
    by (simp add: InProcessSimBackend_def switching_state_def getConnections_def)
next
  case (4 d options cs r d' before after)
  have app: "applyConnections cs options d = (Inr r, d')"
    using 4(3) by (simp add: InProcessSimBackend_def)
  have ok: "device_ok d'" by (rule device_ok_applyConnections [OF 4(1) app])
  have "applyConnections cs options d = apply_uncached cs options d"
    using 4(2) by (cases "opt_operation_id options = []") (simp_all add: applyConnections_uncached)
  with app have "apply_uncached cs options d = (Inr r, d')" by simp
  from apply_uncached_success [OF 4(1) this 4(4)]
  have "dev_connections d' = candidate_of cs (dev_connections d)" by blast
  moreover have "before = getConnections d" "after = getConnections d'"
    using 4(5,6) by (simp_all add: InProcessSimBackend_def)
  moreover have "smap_ok (dev_connections d)"
    using 4(1) by (simp add: device_ok_def connections_ok_def)
  ultimately show ?case
    by (simp only: conn_map_getConnections [OF 4(1)] conn_map_getConnections [OF ok]
        map_of_candidate_of)
next
  case (5 d options options' cs r d' cs')
  then show ?case
    using applyConnections_replay [of d options options' cs r d' cs']
    by (simp add: InProcessSimBackend_def)
qed

end
