(* ===== verification/Device_Properties.thy ===== *)
theory Device_Properties
  imports Device_Api
begin

text \<open>
  The properties of the simulated device, over every state that a construction and a sequence of
  client calls can reach, and the concrete 2x2 device their witnesses run on.
\<close>

section \<open>A concrete device\<close>

definition example_info :: DeviceInfo where
  "example_info = \<lparr>di_name = ''ocs0'', di_input_port_count = 2, di_output_port_count = 2,
     di_model = ''SIM-2X2'', di_serial_number = ''SIM-0001'', di_firmware_version = ''sim-1.0.0'',
     di_generation = 7\<rparr>"

definition example_device :: SimulatedOcsDevice where
  "example_device =
     \<lparr>dev_info = example_info,
      dev_health = \<lparr>dh_status = kReady, dh_last_error = Error_success\<rparr>,
      dev_connections = [], dev_last_versions = [],
      dev_input_to_output = [None, None], dev_output_to_input = [None, None],
      dev_input_ports = [new_port kInput 1, new_port kInput 2],
      dev_output_ports = [new_port kOutput 1, new_port kOutput 2],
      dev_apply_results = [], dev_apply_result_order = [],
      dev_fail_next_apply = False, dev_timeout_next_apply = False\<rparr>"

definition upsert :: "string \<Rightarrow> PortId \<Rightarrow> PortId \<Rightarrow> u64 \<Rightarrow> ConnectionCommand" where
  "upsert i p q v = \<lparr>cc_operation = kUpsert, cc_id = i, cc_input_port = p, cc_output_port = q,
     cc_desired_version = v\<rparr>"

definition atomic_op :: "string \<Rightarrow> ApplyOptions" where
  "atomic_op i = \<lparr>opt_atomic = True, opt_timeout = 1000, opt_operation_id = i\<rparr>"

definition example_connected :: SimulatedOcsDevice where
  "example_connected = snd (applyConnections [upsert ''a'' 1 2 5, upsert ''b'' 2 1 5]
     (atomic_op ''op1'') example_device)"

lemma example_device_new: "SimulatedOcsDevice_new example_info = Some (Inr example_device)"
proof -
  have "makePorts direction 2 = Some [new_port direction 1, new_port direction 2]" for direction
    by (simp add: makePorts_returns upt_rec)
  moreover have "replicate (unat (2 :: PortId)) x = [x, x]" for x :: "PortId option"
  proof -
    have "unat (2 :: PortId) = Suc (Suc 0)" by simp
    then show ?thesis by (simp only: replicate.simps)
  qed
  ultimately show ?thesis
    by (simp only: SimulatedOcsDevice_new_def example_info_def example_device_def
        DeviceInfo.select_convs option.case) simp
qed

lemma example_reachable: "device_reachable example_device" "device_reachable example_connected"
proof -
  show d: "device_reachable example_device"
    using example_device_new by (rule device_reachable.constructed)
  show "device_reachable example_connected"
    unfolding example_connected_def
    by (rule device_reachable.stepped [OF d], rule device_step.apply_step, rule surjective_pairing)
qed

lemma example_connected_code:
  "map (\<lambda>c. (ac_id c, ac_input_port c, ac_output_port c)) (getConnections example_connected) =
     [(''a'', 1, 2), (''b'', 2, 1)]"
  by code_simp

section \<open>The crossbar\<close>

text \<open>C1: no two connections of a reachable device share an input port or share an output port,
  so the matrix is a partial one-to-one assignment of inputs to outputs.\<close>

theorem crossbar_one_to_one:
  assumes "device_reachable d" "c \<in> set (getConnections d)" "c' \<in> set (getConnections d)"
    "ac_input_port c = ac_input_port c' \<or> ac_output_port c = ac_output_port c'"
  shows "c = c'"
proof -
  have "inj_on ac_input_port (set (getConnections d))" "inj_on ac_output_port (set (getConnections d))"
    using device_ok_reachable [OF assms(1)]
    by (auto simp: device_ok_def connections_ok_def one_to_one_def distinct_map)
  with assms(2-4) show ?thesis by (auto dest: inj_onD)
qed

lemma example_first_connection:
  "\<lparr>ac_id = ''a'', ac_input_port = 1, ac_output_port = 2, ac_applied_version = 5\<rparr>
     \<in> set (getConnections example_connected)"
  by code_simp

theorem crossbar_one_to_one_witness:
  "\<exists>c \<in> set (getConnections example_connected).
     \<forall>c' \<in> set (getConnections example_connected). ac_output_port c' = 2 \<longrightarrow> c = c'"
proof
  let ?c = "\<lparr>ac_id = ''a'', ac_input_port = 1, ac_output_port = 2, ac_applied_version = 5\<rparr>"
  show "?c \<in> set (getConnections example_connected)" by (rule example_first_connection)
  show "\<forall>c' \<in> set (getConnections example_connected). ac_output_port c' = 2 \<longrightarrow> ?c = c'"
    using crossbar_one_to_one [OF example_reachable(2) example_first_connection] by simp
qed

text \<open>The two port tables of a reachable device describe exactly its connections: input port
  \<open>p\<close> is routed to \<open>q\<close> in the one table, and \<open>q\<close> back to \<open>p\<close> in the other, when and only when a
  connection from \<open>p\<close> to \<open>q\<close> is configured.\<close>

lemma port_tables_agree:
  assumes "device_reachable d" "p \<noteq> 0" "p \<le> di_input_port_count (getDeviceInfo d)"
    "q \<noteq> 0" "q \<le> di_output_port_count (getDeviceInfo d)"
  shows "(dev_input_to_output d ! (unat p - 1) = Some q) =
      (\<exists>c \<in> set (getConnections d). ac_input_port c = p \<and> ac_output_port c = q) \<and>
    (dev_output_to_input d ! (unat q - 1) = Some p) =
      (\<exists>c \<in> set (getConnections d). ac_input_port c = p \<and> ac_output_port c = q)"
proof -
  have mat: "matrix_of (getConnections d) (unat (di_input_port_count (dev_info d)))
      (unat (di_output_port_count (dev_info d))) (dev_input_to_output d) (dev_output_to_input d)"
    using device_ok_reachable [OF assms(1)] by (simp add: device_ok_def connections_ok_def)
  have pq: "Suc (unat p - Suc 0) = unat p" "unat p \<le> unat (di_input_port_count (dev_info d))"
      "Suc (unat q - Suc 0) = unat q" "unat q \<le> unat (di_output_port_count (dev_info d))"
    using assms(2-5) by (auto simp: unat_pred word_le_nat_alt getDeviceInfo_def)
  then have "unat p - Suc 0 < unat (di_input_port_count (dev_info d))"
      "unat q - Suc 0 < unat (di_output_port_count (dev_info d))"
    by linarith+
  with mat pq show ?thesis
    by (auto simp: matrix_of_def word_unat_eq_iff)
qed

text \<open>C23: no method of a reachable device throws, and a reset returns: every vector access of the
  implementation is in range and every loop ends.\<close>

theorem device_never_throws:
  assumes "device_reachable d"
  shows "(\<exists>r d'. applyConnections cs options d = (Inr r, d')) \<and>
    (\<exists>r d'. reset mode d = Some (r, d')) \<and>
    (\<exists>r d'. injectFault fault d = (Inr r, d')) \<and>
    (\<exists>r d'. clearFault sel d = (Inr r, d')) \<and>
    (\<exists>e d'. setPortAdminState direction i b d = (Inr e, d')) \<and>
    (\<exists>ps. getPortState direction i d = Inr ps)"
proof -
  have ok: "device_ok d" using assms by (rule device_ok_reachable)
  have "\<exists>ps. getPortState direction i d = Inr ps"
    using ports_of_length [of d direction] ok
    by (auto simp: getPortState_def validatePort_def vector_at_def device_ok_def word_less_nat_alt
        split: if_splits)
  then show ?thesis
    using applyConnections_no_throw [OF ok] reset_returns [OF ok] device_ok_injectFault [OF ok]
      device_ok_clearFault [OF ok] device_ok_setPortAdminState [OF ok]
    by (metis surj_pair)
qed

theorem device_never_throws_witness:
  "\<exists>r d'. applyConnections [upsert ''c'' 9 9 1] (atomic_op ''op2'') example_connected = (Inr r, d')"
  using device_never_throws [OF example_reachable(2)] by blast

section \<open>Applying a batch\<close>

text \<open>C3: apply is atomic. Whatever makes a batch fail, the connections, the port tables, the
  accepted versions, the ports and the identity of the device are what they were before.\<close>

theorem apply_failure_changes_nothing:
  assumes "device_reachable d" "applyConnections cs options d = (Inr r, d')" "\<not> ApplyResult_ok r"
  shows "switching_state d' = switching_state d"
  using applyConnections_failure [OF device_ok_reachable [OF assms(1)] assms(2,3)] .

lemma example_conflict:
  "fst (applyConnections [upsert ''c'' 1 1 6] (atomic_op ''op3'') example_connected) =
     Inr \<lparr>ar_error = makeError kInputConflict ''input port is already connected'',
          ar_connections = []\<rparr>"
  by code_simp

theorem apply_failure_changes_nothing_witness:
  "switching_state (snd (applyConnections [upsert ''c'' 1 1 6] (atomic_op ''op3'') example_connected)) =
     switching_state example_connected"
proof -
  let ?res = "applyConnections [upsert ''c'' 1 1 6] (atomic_op ''op3'') example_connected"
  have "?res = (Inr (failed_result (makeError kInputConflict ''input port is already connected'')), snd ?res)"
    using example_conflict by (metis failed_result_def prod.collapse)
  then show ?thesis
    by (rule apply_failure_changes_nothing [OF example_reachable(2)]) simp
qed

text \<open>
  The result recorded for the operation id of a call; calls without an id are never recorded.
\<close>

definition recorded_result :: "ApplyOptions \<Rightarrow> SimulatedOcsDevice \<Rightarrow> ApplyResult option" where
  "recorded_result options d =
     (if opt_operation_id options = [] then None else map_of (dev_apply_results d) (opt_operation_id options))"

lemma applyConnections_recorded:
  "applyConnections cs options d =
     (case recorded_result options d of Some r \<Rightarrow> (Inr r, d) | None \<Rightarrow> apply_uncached cs options d)"
  by (simp add: applyConnections_def recorded_result_def)

text \<open>C4: a successful batch whose operation id has no recorded result has exactly the effect of its commands
  in order, each UPSERT setting and each REMOVE clearing the entry of its id, on the map from ids to
  connections; the result lists the connections the batch touched as they now are. A successful batch with
  a recorded operation id is a replay: it returns that record and changes nothing at all.\<close>

theorem apply_success_effect:
  assumes "device_reachable d" "applyConnections cs options d = (Inr r, d')" "ApplyResult_ok r"
  shows "case recorded_result options d of
      None \<Rightarrow> map_of (dev_connections d') = foldl cmd_effect (map_of (dev_connections d)) cs \<and>
        ar_connections r = List.map_filter (\<lambda>c. map_of (dev_connections d') (cc_id c)) cs
    | Some recorded \<Rightarrow> r = recorded \<and> d' = d"
proof (cases "recorded_result options d")
  case None
  have ok: "device_ok d" using assms(1) by (rule device_ok_reachable)
  have "apply_uncached cs options d = (Inr r, d')"
    using assms(2) None by (simp add: applyConnections_recorded)
  from apply_uncached_success [OF ok this assms(3)] ok None show ?thesis
    by (simp add: map_of_candidate_of device_ok_def connections_ok_def changed_connections_def)
qed (use assms(2) in \<open>simp add: applyConnections_recorded\<close>)

lemma example_apply_ok:
  "fst (applyConnections [upsert ''a'' 1 2 5, upsert ''b'' 2 1 5] (atomic_op ''op1'') example_device) =
     Inr \<lparr>ar_error = Error_success,
          ar_connections = [applied_of (upsert ''a'' 1 2 5), applied_of (upsert ''b'' 2 1 5)]\<rparr>"
  by code_simp

lemma example_unrecorded: "recorded_result (atomic_op ''op1'') example_device = None"
  by (simp add: recorded_result_def example_device_def)

theorem apply_success_effect_witness:
  "map_of (dev_connections example_connected) =
     [''a'' \<mapsto> applied_of (upsert ''a'' 1 2 5), ''b'' \<mapsto> applied_of (upsert ''b'' 2 1 5)]"
proof -
  let ?cs = "[upsert ''a'' 1 2 5, upsert ''b'' 2 1 5]"
  have eq: "applyConnections ?cs (atomic_op ''op1'') example_device =
      (Inr \<lparr>ar_error = Error_success, ar_connections = map applied_of ?cs\<rparr>, example_connected)"
    using example_apply_ok by (simp add: example_connected_def prod_eq_iff)
  have "map_of (dev_connections example_connected) =
      foldl cmd_effect (map_of (dev_connections example_device)) ?cs"
    using apply_success_effect [OF example_reachable(1) eq] example_unrecorded
    by (simp add: ApplyResult_ok_def)
  then show ?thesis by (simp add: example_device_def cmd_effect_def upsert_def)
qed

text \<open>C2: when a batch succeeds, for every call on a reachable device. If the operation id has a recorded
  result, the call succeeds if and only if that result was a success. Otherwise it succeeds if and only if
  no injected failure or timeout is pending, the batch is atomic, no command of it is older than the last
  accepted version of its id, every id is non-empty, every port of an UPSERT exists, is enabled and up, and
  the resulting assignment is one-to-one.\<close>

theorem apply_succeeds_iff:
  assumes "device_reachable d"
  shows "(\<exists>r d'. applyConnections cs options d = (Inr r, d') \<and> ApplyResult_ok r) =
    (case recorded_result options d of
       Some recorded \<Rightarrow> ApplyResult_ok recorded
     | None \<Rightarrow> \<not> dev_fail_next_apply d \<and> \<not> dev_timeout_next_apply d \<and> batch_accepted cs options d)"
proof (cases "recorded_result options d")
  case None
  have ok: "device_ok d" using assms(1) by (rule device_ok_reachable)
  have eq: "applyConnections cs options d = apply_uncached cs options d"
    using None by (simp add: applyConnections_recorded)
  have "\<exists>r d'. applyConnections cs options d = (Inr r, d') \<and> ApplyResult_ok r"
    if acc: "\<not> dev_fail_next_apply d" "\<not> dev_timeout_next_apply d" "batch_accepted cs options d"
    using ok
  proof (cases rule: apply_uncached_cases [where cs = cs and options = options])
    case (committed cand i2o o2i)
    then show ?thesis
      using eq finish_frame by (metis ApplyResult.select_convs(1) ApplyResult_ok_def
          Error_ok_success surj_pair)
  qed (use acc in auto)
  then show ?thesis
    using apply_uncached_success [OF ok] eq None by auto
qed (simp add: applyConnections_recorded)

theorem apply_succeeds_iff_witness:
  "batch_accepted [upsert ''a'' 1 2 5, upsert ''b'' 2 1 5] (atomic_op ''op1'') example_device"
proof -
  have "\<exists>r d'. applyConnections [upsert ''a'' 1 2 5, upsert ''b'' 2 1 5] (atomic_op ''op1'') example_device
      = (Inr r, d') \<and> ApplyResult_ok r"
    using example_apply_ok by (metis ApplyResult.select_convs(1) ApplyResult_ok_def Error_ok_success
        prod.collapse)
  then show ?thesis
    using apply_succeeds_iff [OF example_reachable(1),
        of "[upsert ''a'' 1 2 5, upsert ''b'' 2 1 5]" "atomic_op ''op1''"]
    by (simp add: example_unrecorded)
qed

text \<open>C15: replaying an operation is idempotent. Once a batch with an operation id was answered, the
  same id is answered with the recorded result, success or failure, and the device does not change,
  whatever commands the replay carries.\<close>

theorem apply_replay_idempotent:
  assumes "applyConnections cs options d = (Inr r, d')" "opt_operation_id options \<noteq> []"
    "opt_operation_id options' = opt_operation_id options" "device_reachable d"
  shows "applyConnections cs' options' d' = (Inr r, d')"
  using applyConnections_replay [OF device_ok_reachable [OF assms(4)] assms(2,3,1)] .

theorem apply_replay_idempotent_witness:
  "applyConnections [] (atomic_op ''op1'') example_connected =
     (Inr \<lparr>ar_error = Error_success,
           ar_connections = [applied_of (upsert ''a'' 1 2 5), applied_of (upsert ''b'' 2 1 5)]\<rparr>,
      example_connected)"
proof (rule apply_replay_idempotent [OF _ _ _ example_reachable(1)])
  show "applyConnections [upsert ''a'' 1 2 5, upsert ''b'' 2 1 5] (atomic_op ''op1'') example_device =
     (Inr \<lparr>ar_error = Error_success,
           ar_connections = [applied_of (upsert ''a'' 1 2 5), applied_of (upsert ''b'' 2 1 5)]\<rparr>,
      example_connected)"
    using example_apply_ok by (simp add: example_connected_def prod_eq_iff)
qed (simp_all add: atomic_op_def)

text \<open>What a call records: every uncached call ends in \<open>finish\<close> with the cache it began with.\<close>

lemma apply_uncached_finish:
  assumes "device_ok d"
  obtains r e where "apply_uncached cs options d = finish options r e"
    "dev_apply_results e = dev_apply_results d" "dev_apply_result_order e = dev_apply_result_order d"
  using assms
  by (cases rule: apply_uncached_cases [where cs = cs and options = options]) (use that in simp_all)

lemma apply_stale_rejected:
  assumes "list_ex (stale_command d) cs" "recorded_result options d = None"
    "applyConnections cs options d = (res, d')"
  shows "\<exists>e. res = Inr (failed_result e) \<and> \<not> Error_ok e \<and>
    (opt_atomic options \<longrightarrow> e = makeError kVersionStale ''connection version is stale'')"
proof -
  have "apply_uncached cs options d = (res, d')" using assms(2,3) by (simp add: applyConnections_recorded)
  with assms(1) show ?thesis
    by (cases "opt_atomic options") (auto simp: apply_uncached_def dest: finish_frame)
qed

text \<open>C16: the version fence. A call with an unrecorded operation id that carries a command with a version
  older than the last accepted one of its connection id is rejected as a whole, as stale when it is atomic
  (a batch that is not atomic is rejected for that reason), and the connections, the port tables, the
  accepted versions, the ports and the identity of the device are what they were before. And accepted
  versions never go backwards: across any call of apply, whatever its outcome, the version recorded for a
  connection id stays recorded and only grows.\<close>

theorem apply_version_fence:
  assumes "device_reachable d" "applyConnections cs options d = (res, d')"
  shows "(recorded_result options d = None \<and>
      (\<exists>c \<in> set cs. \<exists>v. cc_desired_version c \<noteq> 0 \<and> map_of (dev_last_versions d) (cc_id c) = Some v \<and>
         cc_desired_version c < v) \<longrightarrow>
      (\<exists>r. res = Inr r \<and> \<not> ApplyResult_ok r \<and> ar_connections r = [] \<and>
         (opt_atomic options \<longrightarrow> err_code (ar_error r) = kVersionStale)) \<and>
      switching_state d' = switching_state d) \<and>
    (\<forall>k v. map_of (dev_last_versions d) k = Some v \<longrightarrow>
      (\<exists>v'. map_of (dev_last_versions d') k = Some v' \<and> v \<le> v'))"
proof -
  have ok: "device_ok d" using assms(1) by (rule device_ok_reachable)
  obtain r where res: "res = Inr r"
    using applyConnections_no_throw [OF ok] assms(2) by (metis prod.inject)
  note failure = applyConnections_failure [OF ok assms(2) [unfolded res]]
  have fence: "\<exists>v'. map_of (dev_last_versions d') k = Some v' \<and> v \<le> v'"
    if kv: "map_of (dev_last_versions d) k = Some v" for k v
  proof (cases "ApplyResult_ok r")
    case False
    with failure kv show ?thesis by (simp add: switching_state_def)
  next
    case True
    from assms(2) show ?thesis
    proof (cases rule: applyConnections_cases)
      case uncached
      from apply_uncached_success [OF ok uncached(2) [unfolded res] True]
      have acc: "batch_accepted cs options d"
        and last: "dev_last_versions d' = record_versions cs (dev_last_versions d)" by auto
      have "\<forall>c \<in> set cs. cc_desired_version c \<noteq> 0 \<longrightarrow>
          (\<forall>v. map_of (dev_last_versions d) (cc_id c) = Some v \<longrightarrow> v \<le> cc_desired_version c)"
        using acc not_stale by (auto simp: batch_accepted_def list_ex_iff)
      from record_versions_monotone [OF _ this kv] ok last show ?thesis
        by (simp add: device_ok_def)
    qed (use kv in auto)
  qed
  have "list_ex (stale_command d) cs"
    if "\<exists>c \<in> set cs. \<exists>v. cc_desired_version c \<noteq> 0 \<and> map_of (dev_last_versions d) (cc_id c) = Some v \<and>
         cc_desired_version c < v"
    using that by (auto simp: list_ex_iff stale_command_def)
  with apply_stale_rejected [OF _ _ assms(2)] fence failure res show ?thesis
    by (fastforce simp: failed_result_def ApplyResult_ok_def)
qed

theorem apply_version_fence_witness:
  "\<exists>r d'. applyConnections [upsert ''b'' 2 2 9, upsert ''a'' 1 1 3] (atomic_op ''op4'') example_connected = (Inr r, d') \<and>
     err_code (ar_error r) = kVersionStale \<and> switching_state d' = switching_state example_connected"
proof -
  let ?cs = "[upsert ''b'' 2 2 9, upsert ''a'' 1 1 3]"
  obtain res d' where run: "applyConnections ?cs (atomic_op ''op4'') example_connected = (res, d')"
    by (rule prod.exhaust)
  have "recorded_result (atomic_op ''op4'') example_connected = None" by code_simp
  moreover have "map_of (dev_last_versions example_connected) ''a'' = Some 5" by code_simp
  ultimately show ?thesis
    using apply_version_fence [OF example_reachable(2) run] run by (auto simp: upsert_def atomic_op_def)
qed

section \<open>Construction, reset and the replay cache\<close>

text \<open>C24: the three outcomes of a construction. The loop that builds the port vectors ends exactly for port
  counts below 65535, the largest \<open>PortId\<close>: at 65535 the 16-bit counter wraps to 0 and the condition
  \<open>id <= count\<close> stays true, so construction does not return if a count is 65535. If it returns, it throws an
  invalid argument exactly when a count is 0, and otherwise yields a device with the given identity, no
  connection, and one enabled port that is up for each number from 1 to the count.\<close>

theorem construction_returns_iff:
  "if di_input_port_count info = 65535 \<or> di_output_port_count info = 65535
   then SimulatedOcsDevice_new info = None
   else if di_input_port_count info = 0 \<or> di_output_port_count info = 0
   then SimulatedOcsDevice_new info = Some (Inl (Invalid_argument ''device port counts must be positive''))
   else \<exists>d. SimulatedOcsDevice_new info = Some (Inr d) \<and> getDeviceInfo d = info \<and> getConnections d = [] \<and>
     dev_input_ports d = map (\<lambda>i. new_port kInput (of_nat i)) [1..<Suc (unat (di_input_port_count info))] \<and>
     dev_output_ports d = map (\<lambda>i. new_port kOutput (of_nat i)) [1..<Suc (unat (di_output_port_count info))]"
proof -
  have m: "(65535 :: PortId) = - 1" by simp
  have none: "makePorts direction (- 1) = None" for direction
    using makePorts_Some_iff [of direction "- 1"] by auto
  have "makePorts direction n \<noteq> None" if "n \<noteq> - 1" for direction n
    using that makePorts_Some_iff by blast
  with none show ?thesis
    unfolding m
    by (auto simp: SimulatedOcsDevice_new_def getDeviceInfo_def getConnections_def makePorts_returns
        simp del: upt_Suc split: option.splits)
qed

text \<open>C40: a reset of a reachable device returns with no connection, no recorded version, an empty
  replay cache, every port enabled and up; a hard reset advances the generation by one (modulo
  \<open>2^64\<close>), a soft reset keeps it, and the result reports the new generation.\<close>

theorem reset_effect:
  assumes "device_reachable d"
  shows "\<exists>r d'. reset mode d = Some (r, d') \<and>
    getConnections d' = [] \<and> dev_last_versions d' = [] \<and> dev_apply_results d' = [] \<and>
    (\<forall>direction i. i \<noteq> 0 \<and> i \<le> port_count direction d \<longrightarrow> port_available direction i d') \<and>
    rr_generation r = di_generation (getDeviceInfo d') \<and>
    di_generation (getDeviceInfo d') =
      di_generation (getDeviceInfo d) + (if mode = kHard then 1 else 0)"
proof -
  have ok: "device_ok d" using assms by (rule device_ok_reachable)
  obtain r d' where r: "reset mode d = Some (r, d')" using reset_returns [OF ok] by blast
  have ports: "ports_of direction d' = map (\<lambda>j. new_port direction (of_nat j)) [1..<Suc (unat (port_count direction d))]"
    for direction
    using r ok by (cases direction)
      (auto simp: reset_def device_ok_def counts_ok_def makePorts_returns ports_of_def port_count_def
        Let_def simp del: upt_Suc)
  have counts: "port_count direction d' = port_count direction d" for direction
    using r by (cases mode) (auto simp: reset_def port_count_def Let_def split: option.splits)
  have up: "port_available direction i d'" if "i \<noteq> 0" "i \<le> port_count direction d" for direction i
  proof -
    have "unat i - Suc 0 < unat (port_count direction d)"
      using that by (metis Suc_le_lessD unat_pred word_le_nat_alt)
    with that show ?thesis
      by (simp add: port_available_def counts ports new_port_def del: upt_Suc)
  qed
  show ?thesis
    using r up
    by (intro exI [of _ r] exI [of _ d'])
       (cases mode; auto simp: reset_def Let_def getConnections_def getDeviceInfo_def split: option.splits)
qed

theorem reset_effect_witness:
  "\<exists>r d'. reset kHard example_connected = Some (r, d') \<and> getConnections d' = [] \<and> rr_generation r = 8"
proof -
  have "di_generation (getDeviceInfo example_connected) = 7" by code_simp
  with reset_effect [OF example_reachable(2), of kHard] show ?thesis by auto
qed

lemma finish_cache:
  assumes "cache_ok d" "finish options r d = (res, d')" "opt_operation_id options \<noteq> []"
    "map_of (dev_apply_results d) (opt_operation_id options) = None"
  shows "dev_apply_result_order d' =
      (if length (dev_apply_result_order d) < 4096 then dev_apply_result_order d else tl (dev_apply_result_order d)) @
      [opt_operation_id options] \<and>
    map_of (dev_apply_results d') = (map_of (dev_apply_results d) |` set (dev_apply_result_order d'))
      (opt_operation_id options \<mapsto> r)"
proof -
  have ok: "smap_ok (dev_apply_results d)" "distinct (dev_apply_result_order d)"
    and keys: "dom (map_of (dev_apply_results d)) = set (dev_apply_result_order d)"
    using assms(1) by (auto simp: cache_ok_def dom_map_of_conv_image_fst)
  have le: "length (dev_apply_result_order d) \<le> 4096"
    using assms(1) cache_ok_length [OF assms(1)] by (simp add: cache_ok_def kMaxCachedApplyResults_def)
  have absent: "map_of (dev_apply_results d) x = None" if "x \<notin> set (dev_apply_result_order d)" for x
    using that keys by (metis domIff)
  have restrict: "(map_of (dev_apply_results d) |` insert k (set (dev_apply_result_order d)))(k \<mapsto> r) =
      (map_of (dev_apply_results d))(k \<mapsto> r)" for k
    using absent by (auto simp: restrict_map_def fun_eq_iff)
  show ?thesis
  proof (cases "length (dev_apply_result_order d) < 4096")
    case True
    with assms ok restrict show ?thesis
      by (auto simp: finish_def kMaxCachedApplyResults_def cache_ok_length)
  next
    case False
    then obtain x xs where order: "dev_apply_result_order d = x # xs"
      by (cases "dev_apply_result_order d") auto
    have "(map_of (dev_apply_results d) |` insert k (set xs))(k \<mapsto> r) =
        (map_of (dev_apply_results d))(x := None, k \<mapsto> r)" for k
      using absent ok(2) order by (auto simp: restrict_map_def fun_eq_iff)
    moreover have "kMaxCachedApplyResults \<le> length (dev_apply_results d)"
      using False cache_ok_length [OF assms(1)] by (simp add: kMaxCachedApplyResults_def)
    then have "dev_apply_results d' = insert_or_assign (opt_operation_id options) r (map_erase x (dev_apply_results d))"
      "dev_apply_result_order d' = xs @ [opt_operation_id options]"
      using assms(2,3) order by (auto simp: finish_def)
    ultimately show ?thesis using False ok order by simp
  qed
qed

text \<open>C25: the replay cache of a reachable device never holds more than 4096 results, and the eviction
  queue lists each cached operation id exactly once. A call with a new operation id enters it at the back of
  the queue; only if the queue then is too long does it evict, and it evicts exactly the id at the front, the
  one that arrived first. Every other result stays recorded as it was. A call without an id, or with one
  that is recorded, changes neither the queue nor the results.\<close>

theorem replay_cache_bounded:
  assumes "device_reachable d" "applyConnections cs options d = (Inr r, d')"
  shows "length (dev_apply_results d) \<le> 4096 \<and> distinct (dev_apply_result_order d) \<and>
    set (dev_apply_result_order d) = fst ` set (dev_apply_results d) \<and>
    (if opt_operation_id options = [] \<or> opt_operation_id options \<in> set (dev_apply_result_order d)
     then dev_apply_result_order d' = dev_apply_result_order d \<and> dev_apply_results d' = dev_apply_results d
     else dev_apply_result_order d' =
         (if length (dev_apply_result_order d) < 4096 then dev_apply_result_order d
          else tl (dev_apply_result_order d)) @ [opt_operation_id options] \<and>
       map_of (dev_apply_results d') = (map_of (dev_apply_results d) |` set (dev_apply_result_order d'))
         (opt_operation_id options \<mapsto> r))"
proof -
  have ok: "device_ok d" using assms(1) by (rule device_ok_reachable)
  then have cache: "cache_ok d" by (simp add: device_ok_def)
  have mem: "opt_operation_id options \<in> set (dev_apply_result_order d) \<longleftrightarrow>
      map_of (dev_apply_results d) (opt_operation_id options) \<noteq> None"
    using cache by (auto simp: cache_ok_def map_of_eq_None_iff)
  obtain x e where e: "apply_uncached cs options d = finish options x e"
    "dev_apply_results e = dev_apply_results d" "dev_apply_result_order e = dev_apply_result_order d"
    using apply_uncached_finish [OF ok] .
  have cache': "cache_ok e" using cache e(2,3) by (simp add: cache_ok_def)
  have bounds: "length (dev_apply_results d) \<le> 4096 \<and> distinct (dev_apply_result_order d) \<and>
      set (dev_apply_result_order d) = fst ` set (dev_apply_results d)"
    using cache by (simp add: cache_ok_def kMaxCachedApplyResults_def)
  show ?thesis
  proof (cases "recorded_result options d")
    case None
    then have fin: "finish options x e = (Inr r, d')" using assms(2) e(1) by (simp add: applyConnections_recorded)
    then have "x = r" using finish_result by blast
    show ?thesis
    proof (cases "opt_operation_id options = []")
      case True
      then have "d' = e" using fin by (simp add: finish_def)
      with True bounds e(2,3) show ?thesis by simp
    next
      case False
      then have new: "map_of (dev_apply_results d) (opt_operation_id options) = None"
        using None by (simp add: recorded_result_def)
      from finish_cache [OF cache' fin False] new e(2,3) \<open>x = r\<close> False mem bounds show ?thesis by simp
    qed
  next
    case (Some a)
    then have "d' = d" "opt_operation_id options \<in> set (dev_apply_result_order d)"
      using assms(2) mem by (auto simp: applyConnections_recorded recorded_result_def split: if_splits)
    with bounds show ?thesis by simp
  qed
qed

theorem replay_cache_bounded_witness:
  "length (dev_apply_results example_connected) \<le> 4096 \<and>
   dev_apply_result_order (snd (applyConnections [upsert ''a'' 1 1 3] (atomic_op ''op4'') example_connected)) =
     [''op1'', ''op4'']"
proof -
  obtain r d' where run: "applyConnections [upsert ''a'' 1 1 3] (atomic_op ''op4'') example_connected = (Inr r, d')"
    using applyConnections_no_throw [OF device_ok_reachable [OF example_reachable(2)]] by blast
  have "dev_apply_result_order example_connected = [''op1'']" by code_simp
  with replay_cache_bounded [OF example_reachable(2) run] run show ?thesis by (simp add: atomic_op_def)
qed

end
