(* ===== verification/Reconciler.thy ===== *)
theory Reconciler
  imports Device_Api
begin

text \<open>
  The reconciliation plan (\<open>cpp/src/reconciler.cpp\<close>): from the desired connections and the actual
  ones, the list of differences and the batch that removes them. \<open>std::ranges::sort\<close> with the id as
  projection is \<open>sort_key\<close>; the two agree on the inputs that survive the duplicate check, where the
  order by id is unique.
\<close>

section \<open>Model\<close>

datatype ConnectionDriftKind = kMissing | kMismatched | kUnexpected

record ConnectionDrift =
  drift_id :: string
  drift_kind :: ConnectionDriftKind
  drift_desired :: ConnectionCommand
  drift_actual :: AppliedConnection

record ReconciliationPlan =
  plan_full_snapshot :: DeviceCommandBatch
  plan_drifts :: "ConnectionDrift list"

definition converged :: "ReconciliationPlan \<Rightarrow> bool" where
  "converged plan = (plan_drifts plan = [])"

definition no_connection :: AppliedConnection where
  "no_connection = \<lparr>ac_id = [], ac_input_port = 0, ac_output_port = 0, ac_applied_version = 0\<rparr>"

text \<open>\<open>std::ranges::adjacent_find\<close> with an id projection finds something.\<close>

fun adjacent_equal :: "'a list \<Rightarrow> bool" where
  "adjacent_equal (x # y # zs) = (x = y \<or> adjacent_equal (y # zs))"
| "adjacent_equal _ = False"

definition index_by_id :: "AppliedConnection list \<Rightarrow> (string, AppliedConnection) smap" where
  "index_by_id cs = foldl (\<lambda>m c. emplace (ac_id c) c m) [] cs"

text \<open>The loop over the desired connections; matched ids are erased from the index.\<close>

fun diff_desired ::
    "ConnectionCommand list \<Rightarrow> (string, AppliedConnection) smap \<Rightarrow>
     ConnectionDrift list \<times> (string, AppliedConnection) smap" where
  "diff_desired [] actual_by_id = ([], actual_by_id)"
| "diff_desired (c # cs) actual_by_id =
     (case map_of actual_by_id (cc_id c) of
        None \<Rightarrow>
          (let (ds, rest) = diff_desired cs actual_by_id in
           (\<lparr>drift_id = cc_id c, drift_kind = kMissing, drift_desired = c,
             drift_actual = no_connection\<rparr> # ds, rest))
      | Some found \<Rightarrow>
          (let (ds, rest) = diff_desired cs (map_erase (cc_id c) actual_by_id) in
           (if ac_input_port found \<noteq> cc_input_port c \<or> ac_output_port found \<noteq> cc_output_port c \<or>
               ac_applied_version found \<noteq> cc_desired_version c
            then (\<lparr>drift_id = cc_id c, drift_kind = kMismatched, drift_desired = c,
                   drift_actual = found\<rparr> # ds, rest)
            else (ds, rest))))"

definition removal_of :: "AppliedConnection \<Rightarrow> ConnectionCommand" where
  "removal_of a = \<lparr>cc_operation = kRemove, cc_id = ac_id a, cc_input_port = 0, cc_output_port = 0,
     cc_desired_version = max (ac_applied_version a) 1\<rparr>"

definition unexpected_drift :: "string \<times> AppliedConnection \<Rightarrow> ConnectionDrift" where
  "unexpected_drift e = \<lparr>drift_id = fst e, drift_kind = kUnexpected,
     drift_desired = (removal_of (snd e))\<lparr>cc_id := fst e\<rparr>, drift_actual = snd e\<rparr>"

definition buildReconciliationPlan ::
    "ConnectionCommand list \<Rightarrow> AppliedConnection list \<Rightarrow> ReconciliationPlan result" where
  "buildReconciliationPlan desired actual =
     (let desired = sort_key cc_id desired;
          actual = sort_key ac_id actual
      in if adjacent_equal (map cc_id desired) \<or> adjacent_equal (map ac_id actual)
         then Inl (Invalid_argument ''reconciliation snapshots contain duplicate connection IDs'')
         else
           let (drifts, rest) = diff_desired desired (index_by_id actual);
               removals = map (\<lambda>e. (removal_of (snd e))\<lparr>cc_id := fst e\<rparr>) rest
           in Inr \<lparr>plan_full_snapshot =
                     \<lparr>batch_commands = sort_key cc_id (desired @ removals),
                      batch_options = \<lparr>opt_atomic = True, opt_timeout = 1000, opt_operation_id = []\<rparr>\<rparr>,
                   plan_drifts = sort_key drift_id (drifts @ map unexpected_drift rest)\<rparr>)"

section \<open>The duplicate check\<close>

lemma adjacent_equal_sorted:
  fixes xs :: "'a::linorder list"
  shows "sorted xs \<Longrightarrow> adjacent_equal xs \<longleftrightarrow> \<not> distinct xs"
  by (induction xs rule: adjacent_equal.induct) force+

lemma sort_key_distinct:
  "distinct (map f (sort_key f xs)) \<longleftrightarrow> distinct (map f xs)"
  by (metis distinct_map distinct_sort set_sort)

lemma sort_key_Nil_iff [simp]: "sort_key f xs = [] \<longleftrightarrow> xs = []"
  by (metis length_0_conv length_sort)

lemma duplicate_check:
  fixes f :: "'a \<Rightarrow> 'k::linorder"
  shows "adjacent_equal (map f (sort_key f xs)) \<longleftrightarrow> \<not> distinct (map f xs)"
  using adjacent_equal_sorted [of "map f (sort_key f xs)"] by (simp add: sort_key_distinct)

section \<open>The index and the difference\<close>

lemma smap_ok_foldl_index: "smap_ok m \<Longrightarrow> smap_ok (foldl (\<lambda>m c. emplace (ac_id c) c m) m cs)"
  by (induction cs arbitrary: m) auto

lemma smap_ok_index_by_id [simp]: "smap_ok (index_by_id cs)"
  by (simp add: index_by_id_def smap_ok_foldl_index)

lemma map_of_foldl_index:
  "map_of (foldl (\<lambda>m c. emplace (ac_id c) c m) m cs) k =
     (case map_of m k of Some a \<Rightarrow> Some a | None \<Rightarrow> conn_map cs k)"
  by (induction cs arbitrary: m) (auto simp: conn_map_def split: option.splits)

lemma map_of_index_by_id: "map_of (index_by_id cs) = conn_map cs"
  by (simp add: index_by_id_def map_of_foldl_index fun_eq_iff)

lemma conn_map_ac_id: "conn_map cs k = Some a \<Longrightarrow> ac_id a = k \<and> a \<in> set cs"
  by (auto simp: conn_map_def dest!: map_of_SomeD)

lemma conn_map_Some: "distinct (map ac_id cs) \<Longrightarrow> conn_map cs k = Some a \<longleftrightarrow> a \<in> set cs \<and> ac_id a = k"
  by (auto simp: conn_map_def comp_def image_iff)

lemma conn_map_None: "conn_map cs k = None \<longleftrightarrow> k \<notin> ac_id ` set cs"
  by (auto simp: conn_map_def map_of_eq_None_iff image_iff)

text \<open>What a desired connection contributes, seen from the whole index.\<close>

definition drift_of :: "(string \<rightharpoonup> AppliedConnection) \<Rightarrow> ConnectionCommand \<Rightarrow> ConnectionDrift option" where
  "drift_of m c =
     (case m (cc_id c) of
        None \<Rightarrow> Some \<lparr>drift_id = cc_id c, drift_kind = kMissing, drift_desired = c,
                      drift_actual = no_connection\<rparr>
      | Some a \<Rightarrow>
          if ac_input_port a \<noteq> cc_input_port c \<or> ac_output_port a \<noteq> cc_output_port c \<or>
             ac_applied_version a \<noteq> cc_desired_version c
          then Some \<lparr>drift_id = cc_id c, drift_kind = kMismatched, drift_desired = c, drift_actual = a\<rparr>
          else None)"

lemma map_filter_cong_fun:
  "(\<And>x. x \<in> set xs \<Longrightarrow> f x = g x) \<Longrightarrow> List.map_filter f xs = List.map_filter g xs"
  by (induction xs) (auto simp: List.map_filter_simps split: option.splits)

lemma diff_desired_spec:
  assumes "smap_ok m" "distinct (map cc_id cs)"
  shows "fst (diff_desired cs m) = List.map_filter (drift_of (map_of m)) cs \<and>
    smap_ok (snd (diff_desired cs m)) \<and>
    map_of (snd (diff_desired cs m)) = (map_of m) |` (- cc_id ` set cs)"
  using assms
proof (induction cs arbitrary: m)
  case Nil
  then show ?case by (simp add: List.map_filter_simps)
next
  case (Cons c cs)
  have notin: "cc_id c \<notin> cc_id ` set cs" using Cons.prems by simp
  show ?case
  proof (cases "map_of m (cc_id c)")
    case None
    then have c: "drift_of (map_of m) c = Some \<lparr>drift_id = cc_id c, drift_kind = kMissing,
        drift_desired = c, drift_actual = no_connection\<rparr>"
      by (simp add: drift_of_def)
    have "map_of (snd (diff_desired cs m)) = (map_of m) |` (- cc_id ` set (c # cs))"
      using Cons.IH [of m] Cons.prems None by (auto simp: restrict_map_def fun_eq_iff)
    with Cons.IH [of m] Cons.prems None c show ?thesis
      by (simp add: Let_def split_def List.map_filter_simps)
  next
    case (Some a)
    let ?m = "map_erase (cc_id c) m"
    have same: "List.map_filter (drift_of (map_of ?m)) cs = List.map_filter (drift_of (map_of m)) cs"
    proof (rule map_filter_cong_fun)
      fix x assume "x \<in> set cs"
      with notin have "cc_id x \<noteq> cc_id c" by (metis image_eqI)
      with Cons.prems(1) show "drift_of (map_of ?m) x = drift_of (map_of m) x"
        by (simp add: drift_of_def)
    qed
    have c: "drift_of (map_of m) c =
        (if ac_input_port a \<noteq> cc_input_port c \<or> ac_output_port a \<noteq> cc_output_port c \<or>
            ac_applied_version a \<noteq> cc_desired_version c
         then Some \<lparr>drift_id = cc_id c, drift_kind = kMismatched, drift_desired = c, drift_actual = a\<rparr>
         else None)"
      using Some by (simp add: drift_of_def)
    have IH: "fst (diff_desired cs ?m) = List.map_filter (drift_of (map_of m)) cs"
        "smap_ok (snd (diff_desired cs ?m))"
        "map_of (snd (diff_desired cs ?m)) = (map_of ?m) |` (- cc_id ` set cs)"
    proof -
      have "smap_ok ?m" "distinct (map cc_id cs)" using Cons.prems by simp_all
      note I = Cons.IH [OF this]
      show "fst (diff_desired cs ?m) = List.map_filter (drift_of (map_of m)) cs"
        using I same by metis
      show "smap_ok (snd (diff_desired cs ?m))"
          "map_of (snd (diff_desired cs ?m)) = (map_of ?m) |` (- cc_id ` set cs)"
        using I by blast+
    qed
    have "map_of (snd (diff_desired cs ?m)) = (map_of m) |` (- cc_id ` set (c # cs))"
      using IH(3) Cons.prems(1) by (auto simp: restrict_map_def fun_eq_iff)
    then show ?thesis
      using Some IH(1,2) c by (simp add: Let_def split_def List.map_filter_simps)
  qed
qed

lemma drift_of_None:
  "drift_of m c = None \<longleftrightarrow> (\<exists>a. m (cc_id c) = Some a \<and> ac_input_port a = cc_input_port c \<and>
      ac_output_port a = cc_output_port c \<and> ac_applied_version a = cc_desired_version c)"
  by (auto simp: drift_of_def split: option.splits)

lemma map_filter_Nil: "List.map_filter f xs = [] \<longleftrightarrow> (\<forall>x \<in> set xs. f x = None)"
  by (induction xs) (auto simp: List.map_filter_simps split: option.splits)

section \<open>What the plan holds\<close>

lemma plan_cases:
  assumes "distinct (map cc_id desired)" "distinct (map ac_id actual)"
  obtains plan rest where "buildReconciliationPlan desired actual = Inr plan"
    "smap_ok rest" "map_of rest = (conn_map actual) |` (- cc_id ` set desired)"
    "batch_commands (plan_full_snapshot plan) =
       sort_key cc_id (sort_key cc_id desired @ map (\<lambda>e. removal_of (snd e)) rest)"
    "opt_atomic (batch_options (plan_full_snapshot plan))"
    "plan_drifts plan =
       sort_key drift_id (List.map_filter (drift_of (conn_map actual)) (sort_key cc_id desired) @
         map unexpected_drift rest)"
proof -
  let ?d = "sort_key cc_id desired" and ?a = "sort_key ac_id actual"
  have sets: "set ?d = set desired" "set ?a = set actual" by simp_all
  have da: "distinct (map ac_id ?a)" "distinct (map cc_id ?d)"
    using assms by (simp_all add: sort_key_distinct)
  have cm: "conn_map ?a = conn_map actual"
  proof
    fix k
    show "conn_map ?a k = conn_map actual k"
      using conn_map_Some [OF da(1)] conn_map_Some [OF assms(2)] sets(2)
      by (cases "conn_map ?a k"; cases "conn_map actual k") (metis option.distinct(1) option.inject)+
  qed
  obtain drifts rest where dr: "diff_desired ?d (index_by_id ?a) = (drifts, rest)" by force
  then have spec: "drifts = List.map_filter (drift_of (conn_map actual)) ?d" "smap_ok rest"
      "map_of rest = (conn_map actual) |` (- cc_id ` set desired)"
    using diff_desired_spec [OF smap_ok_index_by_id [of ?a] da(2)] sets cm
    by (simp_all add: map_of_index_by_id)
  have "fst e = ac_id (snd e)" if "e \<in> set rest" for e
  proof -
    have "map_of rest (fst e) = Some (snd e)" using that spec(2) by (simp add: smap_lookup_iff)
    then have "conn_map actual (fst e) = Some (snd e)"
      using spec(3) by (auto simp: restrict_map_def split: if_splits)
    then show ?thesis by (simp add: conn_map_ac_id)
  qed
  then have "map (\<lambda>e. (removal_of (snd e))\<lparr>cc_id := fst e\<rparr>) rest = map (\<lambda>e. removal_of (snd e)) rest"
    by (simp add: removal_of_def)
  with that dr spec assms show thesis
    by (simp add: buildReconciliationPlan_def duplicate_check Let_def)
qed

lemma removals_outside_desired:
  assumes "smap_ok rest" "map_of rest = (conn_map actual) |` (- cc_id ` set desired)" "e \<in> set rest"
  shows "ac_id (snd e) \<notin> cc_id ` set desired" "conn_map actual (ac_id (snd e)) = Some (snd e)"
    "fst e = ac_id (snd e)"
proof -
  have "map_of rest (fst e) = Some (snd e)" using assms(1,3) by (simp add: smap_lookup_iff)
  then have m: "fst e \<notin> cc_id ` set desired" "conn_map actual (fst e) = Some (snd e)"
    using assms(2) by (auto simp: restrict_map_def split: if_splits)
  show "fst e = ac_id (snd e)" using conn_map_ac_id [OF m(2)] by simp
  with m show "ac_id (snd e) \<notin> cc_id ` set desired" "conn_map actual (ac_id (snd e)) = Some (snd e)"
    by simp_all
qed

lemma plan_commands:
  assumes "distinct (map cc_id desired)" "distinct (map ac_id actual)"
    "buildReconciliationPlan desired actual = Inr plan"
  shows "distinct (map cc_id (batch_commands (plan_full_snapshot plan))) \<and>
    sorted (map cc_id (batch_commands (plan_full_snapshot plan))) \<and>
    set (batch_commands (plan_full_snapshot plan)) =
      set desired \<union> {removal_of a | a. a \<in> set actual \<and> ac_id a \<notin> cc_id ` set desired}"
proof -
  from plan_cases [OF assms(1,2)] obtain plan' rest where p: "buildReconciliationPlan desired actual = Inr plan'"
    "smap_ok rest" "map_of rest = (conn_map actual) |` (- cc_id ` set desired)"
    "batch_commands (plan_full_snapshot plan') =
       sort_key cc_id (sort_key cc_id desired @ map (\<lambda>e. removal_of (snd e)) rest)" by blast
  note out = removals_outside_desired [OF p(2,3)]
  have plan: "plan' = plan" using p(1) assms(3) by simp
  have ids: "map cc_id (map (\<lambda>e. removal_of (snd e)) rest) = map fst rest"
    using out(3) by (simp add: removal_of_def)
  have "cc_id ` set desired \<inter> fst ` set rest = {}"
    using out(1,3) by fastforce
  then have d: "distinct (map cc_id (sort_key cc_id desired @ map (\<lambda>e. removal_of (snd e)) rest))"
    using smap_ok_distinct [OF p(2)] assms(1) ids by (simp add: sort_key_distinct del: map_map)
  have "(\<lambda>e. removal_of (snd e)) ` set rest =
      {removal_of a | a. a \<in> set actual \<and> ac_id a \<notin> cc_id ` set desired}" (is "?L = ?R")
  proof
    show "?L \<subseteq> ?R" using out(1,2) conn_map_ac_id by fastforce
    show "?R \<subseteq> ?L"
    proof
      fix x assume "x \<in> ?R"
      then obtain a where a: "x = removal_of a" "a \<in> set actual" "ac_id a \<notin> cc_id ` set desired" by blast
      then have "map_of rest (ac_id a) = Some a"
        using p(3) assms(2) by (simp add: conn_map_Some restrict_map_def)
      then have "(ac_id a, a) \<in> set rest" by (rule map_of_SomeD)
      with a(1) show "x \<in> ?L" by force
    qed
  qed
  with d p(4) plan show ?thesis by (simp add: sort_key_distinct)
qed

section \<open>Properties\<close>

lemma plan_defined_iff:
  "(\<exists>plan. buildReconciliationPlan desired actual = Inr plan) =
     (distinct (map cc_id desired) \<and> distinct (map ac_id actual))"
proof (cases "distinct (map cc_id desired) \<and> distinct (map ac_id actual)")
  case True
  then show ?thesis by (auto elim: plan_cases)
next
  case False
  then show ?thesis by (auto simp: buildReconciliationPlan_def duplicate_check Let_def)
qed

text \<open>A plan is built exactly for snapshots without repeated connection ids; otherwise the
  function throws an invalid argument.\<close>

lemma plan_exists_iff:
  "if distinct (map cc_id desired) \<and> distinct (map ac_id actual)
   then \<exists>plan. buildReconciliationPlan desired actual = Inr plan
   else \<exists>m. buildReconciliationPlan desired actual = Inl (Invalid_argument m)"
proof (cases "distinct (map cc_id desired) \<and> distinct (map ac_id actual)")
  case True
  then show ?thesis using plan_defined_iff by auto
next
  case False
  then show ?thesis by (auto simp: buildReconciliationPlan_def duplicate_check Let_def)
qed

lemma plan_converged:
  assumes "buildReconciliationPlan desired actual = Inr plan"
  shows "converged plan = (conn_map actual = conn_map (map applied_of desired))"
proof -
  have dist: "distinct (map cc_id desired)" "distinct (map ac_id actual)"
    using plan_defined_iff assms by blast+
  from plan_cases [OF dist] obtain plan' rest where p: "buildReconciliationPlan desired actual = Inr plan'"
    "smap_ok rest" "map_of rest = (conn_map actual) |` (- cc_id ` set desired)"
    "plan_drifts plan' =
       sort_key drift_id (List.map_filter (drift_of (conn_map actual)) (sort_key cc_id desired) @
         map unexpected_drift rest)" by metis
  have "distinct (map ac_id (map applied_of desired))"
    using dist(1) by (simp add: applied_of_def comp_def)
  note want = conn_map_Some [OF this]
  have "converged plan \<longleftrightarrow> (\<forall>c \<in> set desired. drift_of (conn_map actual) c = None) \<and> rest = []"
    using p(1,4) assms by (auto simp: converged_def map_filter_Nil)
  also have "\<dots> \<longleftrightarrow> (\<forall>c \<in> set desired. conn_map actual (cc_id c) = Some (applied_of c)) \<and>
      (\<forall>k. k \<notin> cc_id ` set desired \<longrightarrow> conn_map actual k = None)"
  proof -
    have "drift_of (conn_map actual) c = None \<longleftrightarrow> conn_map actual (cc_id c) = Some (applied_of c)" for c
      unfolding drift_of_None
      by (auto simp: applied_of_def intro!: AppliedConnection.equality) (metis conn_map_ac_id)
    moreover have "rest = [] \<longleftrightarrow> (\<forall>k. k \<notin> cc_id ` set desired \<longrightarrow> conn_map actual k = None)"
    proof -
      have "rest = [] \<longleftrightarrow> map_of rest = Map.empty" by simp
      also have "\<dots> \<longleftrightarrow> (\<forall>k. k \<notin> cc_id ` set desired \<longrightarrow> conn_map actual k = None)"
        unfolding p(3) by (auto simp: restrict_map_def fun_eq_iff)
      finally show ?thesis .
    qed
    ultimately show ?thesis by simp
  qed
  also have "\<dots> \<longleftrightarrow> conn_map actual = conn_map (map applied_of desired)"
  proof -
    have in_d: "conn_map (map applied_of desired) (cc_id c) = Some (applied_of c)" if "c \<in> set desired" for c
      using that want [of "cc_id c" "applied_of c"] by (simp add: applied_of_def)
    have out_d: "conn_map (map applied_of desired) k = None" if "k \<notin> cc_id ` set desired" for k
      using that by (auto simp: conn_map_None applied_of_def image_iff)
    show ?thesis
    proof
      assume h: "(\<forall>c \<in> set desired. conn_map actual (cc_id c) = Some (applied_of c)) \<and>
        (\<forall>k. k \<notin> cc_id ` set desired \<longrightarrow> conn_map actual k = None)"
      show "conn_map actual = conn_map (map applied_of desired)"
      proof
        fix k show "conn_map actual k = conn_map (map applied_of desired) k"
          using h in_d out_d by (cases "k \<in> cc_id ` set desired") auto
      qed
    qed (use in_d out_d in auto)
  qed
  finally show ?thesis .
qed

lemma plan_effect:
  assumes "buildReconciliationPlan desired actual = Inr plan"
    "\<forall>c \<in> set desired. cc_operation c = kUpsert"
  shows "foldl cmd_effect (conn_map actual) (batch_commands (plan_full_snapshot plan)) =
      conn_map (map applied_of desired)"
proof -
  let ?cs = "batch_commands (plan_full_snapshot plan)"
  have dist: "distinct (map cc_id desired)" "distinct (map ac_id actual)"
    using plan_defined_iff assms(1) by blast+
  note pc = plan_commands [OF dist assms(1)]
  then have d: "distinct (map cc_id ?cs)" and S: "set ?cs =
      set desired \<union> {removal_of a | a. a \<in> set actual \<and> ac_id a \<notin> cc_id ` set desired}" by auto
  have "distinct (map ac_id (map applied_of desired))"
    using dist(1) by (simp add: applied_of_def comp_def)
  note want = conn_map_Some [OF this]
  have "foldl cmd_effect (conn_map actual) ?cs k = conn_map (map applied_of desired) k" for k
  proof (cases "k \<in> cc_id ` set desired")
    case True
    then obtain c where c: "c \<in> set desired" "k = cc_id c" by blast
    then have "foldl cmd_effect (conn_map actual) ?cs k = Some (applied_of c)"
      using foldl_cmd_effect_last [OF _ d, of c] S assms(2) by simp
    with c want [of k "applied_of c"] show ?thesis by (simp add: applied_of_def)
  next
    case False
    then have none: "conn_map (map applied_of desired) k = None"
      by (auto simp: conn_map_None applied_of_def image_iff)
    show ?thesis
    proof (cases "conn_map actual k")
      case None
      then have "k \<notin> cc_id ` set ?cs"
        using False S by (auto simp: removal_of_def conn_map_None)
      with None none show ?thesis by (simp add: foldl_cmd_effect_frame)
    next
      case (Some a)
      then have a: "a \<in> set actual" "ac_id a = k" using conn_map_ac_id by blast+
      then have "removal_of a \<in> set ?cs" using S False by auto
      from foldl_cmd_effect_last [OF this d] a none show ?thesis by (simp add: removal_of_def)
    qed
  qed
  then show ?thesis by (rule ext)
qed

text \<open>C18: the plan reports convergence exactly when the device holds the desired connections and
  nothing else, each with the desired ports and version.\<close>

theorem plan_converged_iff:
  assumes "buildReconciliationPlan desired actual = Inr plan"
  shows "converged plan = (conn_map actual = conn_map (map applied_of desired))"
  using assms by (rule plan_converged)

text \<open>C17: the batch of the plan is right: its commands have distinct ids in increasing order, and
  executing them turns any actual matrix into exactly the desired one.\<close>

theorem plan_reaches_desired:
  assumes "buildReconciliationPlan desired actual = Inr plan"
    "\<forall>c \<in> set desired. cc_operation c = kUpsert"
  shows "foldl cmd_effect (conn_map actual) (batch_commands (plan_full_snapshot plan)) =
      conn_map (map applied_of desired) \<and>
    sorted_wrt (<) (map cc_id (batch_commands (plan_full_snapshot plan)))"
proof -
  have "distinct (map cc_id desired)" "distinct (map ac_id actual)"
    using plan_defined_iff assms(1) by blast+
  from plan_commands [OF this assms(1)] plan_effect [OF assms] show ?thesis
    by (auto simp: strict_sorted_iff)
qed

section \<open>Witnesses\<close>

definition example_desired :: "ConnectionCommand list" where
  "example_desired =
     [\<lparr>cc_operation = kUpsert, cc_id = ''b'', cc_input_port = 2, cc_output_port = 1, cc_desired_version = 6\<rparr>,
      \<lparr>cc_operation = kUpsert, cc_id = ''a'', cc_input_port = 1, cc_output_port = 2, cc_desired_version = 5\<rparr>]"

definition example_actual :: "AppliedConnection list" where
  "example_actual =
     [\<lparr>ac_id = ''c'', ac_input_port = 3, ac_output_port = 3, ac_applied_version = 0\<rparr>,
      \<lparr>ac_id = ''b'', ac_input_port = 2, ac_output_port = 1, ac_applied_version = 4\<rparr>]"

definition example_plan :: ReconciliationPlan where
  "example_plan = projr (buildReconciliationPlan example_desired example_actual)"

lemma example_plan: "buildReconciliationPlan example_desired example_actual = Inr example_plan"
proof -
  have "distinct (map cc_id example_desired)" "distinct (map ac_id example_actual)"
    by code_simp+
  then show ?thesis
    unfolding example_plan_def using plan_defined_iff by (metis sum.sel(2))
qed

theorem plan_converged_iff_witness:
  "\<not> converged example_plan \<and> conn_map example_actual \<noteq> conn_map (map applied_of example_desired)"
proof -
  have "conn_map example_actual ''a'' = None" "conn_map (map applied_of example_desired) ''a'' \<noteq> None"
    by code_simp+
  then have "conn_map example_actual \<noteq> conn_map (map applied_of example_desired)" by metis
  with plan_converged_iff [OF example_plan] show ?thesis by simp
qed

theorem plan_reaches_desired_witness:
  "foldl cmd_effect (conn_map example_actual) (batch_commands (plan_full_snapshot example_plan)) =
     conn_map (map applied_of example_desired)"
proof -
  have "\<forall>c \<in> set example_desired. cc_operation c = kUpsert" by code_simp
  with plan_reaches_desired [OF example_plan] show ?thesis by blast
qed

end
