(* ===== verification/Json.thy ===== *)
theory Json
  imports Device_Types
begin

text \<open>
  The JSON library \<open>nlohmann::json\<close> is not part of the repository. It is a parameter of every
  definition that uses it: a record of the operations the sources call, over an abstract type of
  JSON values. What the sources rely on is the predicate \<open>json_laws\<close>, the library's documented
  behaviour on values built with its constructors. The second half of this theory is a concrete
  instance, used where a statement is applied to an input.
\<close>

section \<open>The operations of the library\<close>

text \<open>
  \<open>jparse\<close> is \<open>json::parse\<close>, \<open>jdump\<close> is \<open>dump\<close> (which throws on strings that are not UTF-8), the
  next seven build values, \<open>jat\<close> is \<open>at\<close>, \<open>jvalue_string\<close> is \<open>value(key, default)\<close> at type
  string, the \<open>jget\<close> operations are \<open>get<T>\<close>, \<open>jelems\<close> lists the values a range-based \<open>for\<close>
  visits. \<open>jnorm\<close> is the value that reading back the dumped text gives: the library keeps
  signed and unsigned numbers apart, and parses every number without a sign as unsigned.
\<close>

record 'j json_api =
  jparse :: "string \<Rightarrow> 'j result"
  jdump :: "'j \<Rightarrow> string result"
  jstring :: "string \<Rightarrow> 'j"
  jbool :: "bool \<Rightarrow> 'j"
  junsigned :: "u64 \<Rightarrow> 'j"
  jsigned :: "int \<Rightarrow> 'j"
  jfloat :: "double \<Rightarrow> 'j"
  jarray :: "'j list \<Rightarrow> 'j"
  jobject :: "(string \<times> 'j) list \<Rightarrow> 'j"
  jat :: "'j \<Rightarrow> string \<Rightarrow> 'j result"
  jvalue_string :: "'j \<Rightarrow> string \<Rightarrow> string \<Rightarrow> string result"
  jget_string :: "'j \<Rightarrow> string result"
  jget_bool :: "'j \<Rightarrow> bool result"
  jget_u64 :: "'j \<Rightarrow> u64 result"
  jget_i64 :: "'j \<Rightarrow> int result"
  jget_u16 :: "'j \<Rightarrow> u16 result"
  jget_double :: "'j \<Rightarrow> double result"
  jis_unsigned :: "'j \<Rightarrow> bool"
  jis_integer :: "'j \<Rightarrow> bool"
  jelems :: "'j \<Rightarrow> 'j list"
  jnorm :: "'j \<Rightarrow> 'j"

definition json_laws :: "'j json_api \<Rightarrow> bool" where
  "json_laws J \<longleftrightarrow>
     (\<forall>j s. jdump J j = Inr s \<longrightarrow> jparse J s = Inr (jnorm J j)) \<and>
     (\<forall>s. jnorm J (jstring J s) = jstring J s) \<and>
     (\<forall>b. jnorm J (jbool J b) = jbool J b) \<and>
     (\<forall>w. jnorm J (junsigned J w) = junsigned J w) \<and>
     (\<forall>i. jnorm J (jsigned J i) = (if 0 \<le> i then junsigned J (of_int i) else jsigned J i)) \<and>
     (\<forall>d. jnorm J (jfloat J d) = jfloat J d) \<and>
     (\<forall>xs. jnorm J (jarray J xs) = jarray J (map (jnorm J) xs)) \<and>
     (\<forall>kvs. jnorm J (jobject J kvs) = jobject J (map (map_prod id (jnorm J)) kvs)) \<and>
     (\<forall>kvs k v. map_of kvs k = Some v \<longrightarrow> jat J (jobject J kvs) k = Inr v) \<and>
     (\<forall>kvs k. map_of kvs k = None \<longrightarrow> (\<exists>m. jat J (jobject J kvs) k = Inl (Json_error m))) \<and>
     (\<forall>kvs k d. jvalue_string J (jobject J kvs) k d =
        (case map_of kvs k of None \<Rightarrow> Inr d | Some v \<Rightarrow> jget_string J v)) \<and>
     (\<forall>s. jget_string J (jstring J s) = Inr s) \<and>
     (\<forall>b. jget_bool J (jbool J b) = Inr b) \<and>
     (\<forall>w. jget_u64 J (junsigned J w) = Inr w \<and> jget_u16 J (junsigned J w) = Inr (ucast w) \<and>
          jget_i64 J (junsigned J w) = Inr (sint w) \<and> jis_unsigned J (junsigned J w)) \<and>
     (\<forall>i. jget_i64 J (jsigned J i) = Inr i \<and> jis_integer J (jsigned J i) \<and>
          \<not> jis_unsigned J (jsigned J i)) \<and>
     (\<forall>d. jget_double J (jfloat J d) = Inr d) \<and>
     (\<forall>xs. jelems J (jarray J xs) = xs)"

text \<open>
  Constructor calls of the sources: a \<open>uint16_t\<close> member becomes an unsigned number, a brace list of
  pairs an object.
\<close>

definition ju16 :: "'j json_api \<Rightarrow> u16 \<Rightarrow> 'j" where
  "ju16 J w = junsigned J (ucast w)"

text \<open>The laws as rules for the simplifier, under the hypothesis \<open>json_laws J\<close>.\<close>

lemma json_parse_dump: "json_laws J \<Longrightarrow> jdump J j = Inr s \<Longrightarrow> jparse J s = Inr (jnorm J j)"
  by (simp add: json_laws_def)

lemma json_norm:
  assumes "json_laws J"
  shows "jnorm J (jstring J s) = jstring J s" "jnorm J (jbool J b) = jbool J b"
    "jnorm J (junsigned J w) = junsigned J w"
    "jnorm J (jsigned J i) = (if 0 \<le> i then junsigned J (of_int i) else jsigned J i)"
    "jnorm J (jfloat J d) = jfloat J d"
    "jnorm J (jarray J xs) = jarray J (map (jnorm J) xs)"
    "jnorm J (jobject J kvs) = jobject J (map (map_prod id (jnorm J)) kvs)"
    "jnorm J (ju16 J p) = ju16 J p"
  using assms by (simp_all add: json_laws_def ju16_def)

lemma json_get:
  assumes "json_laws J"
  shows "jget_string J (jstring J s) = Inr s" "jget_bool J (jbool J b) = Inr b"
    "jget_u64 J (junsigned J w) = Inr w" "jget_u16 J (ju16 J p) = Inr p"
    "jget_i64 J (junsigned J w) = Inr (sint w)" "jget_i64 J (jsigned J i) = Inr i"
    "jis_unsigned J (junsigned J w)" "jis_unsigned J (ju16 J p)"
    "jget_u64 J (ju16 J p) = Inr (ucast p)"
    "jget_double J (jfloat J d) = Inr d" "jelems J (jarray J xs) = xs"
  using assms by (simp_all add: json_laws_def ju16_def unsigned_ucast_eq take_bit_word_eq_self)

lemma json_at:
  "json_laws J \<Longrightarrow> map_of kvs k = Some v \<Longrightarrow> jat J (jobject J kvs) k = Inr v"
  by (simp add: json_laws_def)

lemma json_at_missing:
  "json_laws J \<Longrightarrow> map_of kvs k = None \<Longrightarrow> \<exists>m. jat J (jobject J kvs) k = Inl (Json_error m)"
  by (simp add: json_laws_def)

lemma json_value:
  "json_laws J \<Longrightarrow> jvalue_string J (jobject J kvs) k d =
     (case map_of kvs k of None \<Rightarrow> Inr d | Some v \<Rightarrow> jget_string J v)"
  by (simp add: json_laws_def)

lemma sint_of_int_word:
  "- (2 ^ 63) \<le> i \<Longrightarrow> i < 2 ^ 63 \<Longrightarrow> sint (of_int i :: u64) = i"
  by (simp add: signed_of_int signed_take_bit_int_eq_self)

text \<open>A \<open>long long\<close> is read back as it was, whichever number kind the parser gave it.\<close>

lemma json_get_i64_norm:
  assumes "json_laws J" "- (2 ^ 63) \<le> i" "i < 2 ^ 63"
  shows "jget_i64 J (jnorm J (jsigned J i)) = Inr i"
  using assms by (auto simp: json_norm json_get sint_of_int_word)

lemmas json_simps = json_norm json_get json_at json_value json_get_i64_norm

section \<open>A concrete instance\<close>

text \<open>
  JSON values as a datatype, with a self-delimiting text form: a tag, decimal numbers closed by a
  semicolon, strings and collections preceded by their length.
\<close>

datatype ref_json =
    RBool bool
  | RUnsigned u64
  | RSigned int
  | RFloat rat
  | RString string
  | RArray "ref_json list"
  | RObject "(string \<times> ref_json) list"

definition num_text :: "nat \<Rightarrow> string" where
  "num_text n = nat_to_string n @ '';''"

definition string_text :: "string \<Rightarrow> string" where
  "string_text s = num_text (length s) @ s"

definition int_text :: "int \<Rightarrow> string" where
  "int_text i = (if 0 \<le> i then CHR ''+'' # num_text (nat i) else CHR ''-'' # num_text (nat (- i)))"

definition rat_text :: "rat \<Rightarrow> string" where
  "rat_text r = int_text (fst (quotient_of r)) @ int_text (snd (quotient_of r))"

primrec ref_text :: "ref_json \<Rightarrow> string" where
  "ref_text (RBool b) = CHR ''b'' # int_text (if b then 1 else 0)"
| "ref_text (RUnsigned w) = CHR ''u'' # int_text (uint w)"
| "ref_text (RSigned i) =
     (if 0 \<le> i then CHR ''u'' # int_text (uint (of_int i :: u64)) else CHR ''i'' # int_text i)"
| "ref_text (RFloat r) = CHR ''f'' # rat_text r"
| "ref_text (RString s) = CHR ''s'' # string_text s"
| "ref_text (RArray xs) = CHR ''a'' # num_text (length xs) @ concat (map ref_text xs)"
| "ref_text (RObject kvs) = CHR ''o'' # num_text (length kvs) @
     concat (map (\<lambda>kt. string_text (fst kt) @ snd kt) (map (map_prod id ref_text) kvs))"

primrec ref_norm :: "ref_json \<Rightarrow> ref_json" where
  "ref_norm (RBool b) = RBool b"
| "ref_norm (RUnsigned w) = RUnsigned w"
| "ref_norm (RSigned i) = (if 0 \<le> i then RUnsigned (of_int i) else RSigned i)"
| "ref_norm (RFloat r) = RFloat r"
| "ref_norm (RString s) = RString s"
| "ref_norm (RArray xs) = RArray (map ref_norm xs)"
| "ref_norm (RObject kvs) = RObject (map (map_prod id ref_norm) kvs)"

text \<open>Readers consume a prefix and return the rest.\<close>

definition read_num :: "string \<Rightarrow> (nat \<times> string) option" where
  "read_num s = (case dropWhile is_digit s of
     [] \<Rightarrow> None
   | c # rest \<Rightarrow> if c = CHR '';'' then Some (digits_value (takeWhile is_digit s), rest) else None)"

definition read_int :: "string \<Rightarrow> (int \<times> string) option" where
  "read_int s = (case s of
     [] \<Rightarrow> None
   | c # t \<Rightarrow> map_option (\<lambda>(n, rest). (if c = CHR ''-'' then - int n else int n, rest)) (read_num t))"

definition read_string :: "string \<Rightarrow> (string \<times> string) option" where
  "read_string s = map_option (\<lambda>(n, rest). (take n rest, drop n rest)) (read_num s)"

definition read_rat :: "string \<Rightarrow> (rat \<times> string) option" where
  "read_rat s = Option.bind (read_int s) (\<lambda>(a, t).
     map_option (\<lambda>(b, rest). (Fract a b, rest)) (read_int t))"

primrec read_many :: "(string \<Rightarrow> ('a \<times> string) option) \<Rightarrow> nat \<Rightarrow> string \<Rightarrow> ('a list \<times> string) option" where
  "read_many f 0 s = Some ([], s)"
| "read_many f (Suc n) s = Option.bind (f s) (\<lambda>(x, t).
     map_option (\<lambda>(xs, rest). (x # xs, rest)) (read_many f n t))"

definition read_pair ::
  "(string \<Rightarrow> (ref_json \<times> string) option) \<Rightarrow> string \<Rightarrow> ((string \<times> ref_json) \<times> string) option" where
  "read_pair f s = Option.bind (read_string s) (\<lambda>(k, t). map_option (\<lambda>(v, rest). ((k, v), rest)) (f t))"

primrec ref_read :: "nat \<Rightarrow> string \<Rightarrow> (ref_json \<times> string) option" where
  "ref_read 0 s = None"
| "ref_read (Suc fuel) s = (case s of
     [] \<Rightarrow> None
   | c # t \<Rightarrow>
       if c = CHR ''b'' then map_option (\<lambda>(i, r). (RBool (i = 1), r)) (read_int t)
       else if c = CHR ''u'' then map_option (\<lambda>(i, r). (RUnsigned (of_int i), r)) (read_int t)
       else if c = CHR ''i'' then map_option (\<lambda>(i, r). (RSigned i, r)) (read_int t)
       else if c = CHR ''f'' then map_option (\<lambda>(q, r). (RFloat q, r)) (read_rat t)
       else if c = CHR ''s'' then map_option (\<lambda>(x, r). (RString x, r)) (read_string t)
       else if c = CHR ''a'' then Option.bind (read_num t) (\<lambda>(n, r).
              map_option (\<lambda>(xs, r). (RArray xs, r)) (read_many (ref_read fuel) n r))
       else if c = CHR ''o'' then Option.bind (read_num t) (\<lambda>(n, r).
              map_option (\<lambda>(xs, r). (RObject xs, r)) (read_many (read_pair (ref_read fuel)) n r))
       else None)"

text \<open>Every nesting level has a tag of its own, so the length of the text bounds the depth.\<close>

definition ref_parse :: "string \<Rightarrow> ref_json result" where
  "ref_parse s = (case ref_read (length s) s of
     Some (j, []) \<Rightarrow> Inr j | _ \<Rightarrow> Inl (Json_error ''parse_error''))"

lemma semicolon_not_digit [simp]: "\<not> is_digit (CHR '';'')"
  by (simp add: is_digit_def)

lemma read_num_text [simp]: "read_num (num_text n @ r) = Some (n, r)"
proof -
  have d: "\<forall>c \<in> set (nat_to_string n). is_digit c" using nat_to_string_digits by blast
  have t: "takeWhile is_digit (nat_to_string n @ CHR '';'' # r) = nat_to_string n"
    using d by (simp add: takeWhile_append)
  have "dropWhile is_digit (nat_to_string n @ CHR '';'' # r) = CHR '';'' # r"
    using d by (simp add: dropWhile_append)
  with t show ?thesis by (simp add: read_num_def num_text_def)
qed

lemma read_int_text [simp]: "read_int (int_text i @ r) = Some (i, r)"
  by (simp add: read_int_def int_text_def)

lemma read_string_text [simp]: "read_string (string_text s @ r) = Some (s, r)"
  by (simp add: read_string_def string_text_def)

lemma Fract_quotient_of: "Fract (fst (quotient_of r)) (snd (quotient_of r)) = r"
  by (metis quotient_of_div Fract_of_int_quotient prod.collapse)

lemma read_rat_text [simp]: "read_rat (rat_text r @ t) = Some (r, t)"
  by (simp add: read_rat_def rat_text_def Fract_quotient_of)

lemma read_many_text:
  assumes "\<And>x r. x \<in> set xs \<Longrightarrow> f (g x @ r) = Some (h x, r)"
  shows "read_many f (length xs) (concat (map g xs) @ r) = Some (map h xs, r)"
  using assms by (induction xs arbitrary: r) auto

primrec ref_rank :: "ref_json \<Rightarrow> nat" where
  "ref_rank (RBool b) = 1"
| "ref_rank (RUnsigned w) = 1"
| "ref_rank (RSigned i) = 1"
| "ref_rank (RFloat r) = 1"
| "ref_rank (RString s) = 1"
| "ref_rank (RArray xs) = Suc (sum_list (map ref_rank xs))"
| "ref_rank (RObject kvs) = Suc (sum_list (map snd (map (map_prod id ref_rank) kvs)))"

lemma ref_rank_le_length: "ref_rank j \<le> length (ref_text j)"
proof (induction j)
  case (RArray xs)
  then have "sum_list (map ref_rank xs) \<le> sum_list (map (length \<circ> ref_text) xs)"
    by (simp add: sum_list_mono)
  then show ?case by (simp add: length_concat)
next
  case (RObject kvs)
  have "sum_list (map (ref_rank \<circ> snd) kvs) \<le> sum_list (map (length \<circ> (\<lambda>kt. string_text (fst kt) @ ref_text (snd kt))) kvs)"
    by (rule sum_list_mono) (use RObject in \<open>force simp: snds.simps intro: trans_le_add2\<close>)
  then show ?case by (simp add: length_concat comp_def map_prod_def case_prod_beta)
qed auto

lemma ref_read_text: "ref_rank j \<le> n \<Longrightarrow> ref_read n (ref_text j @ r) = Some (ref_norm j, r)"
proof (induction n arbitrary: j r)
  case 0
  then show ?case by (cases j) auto
next
  case (Suc n)
  show ?case
  proof (cases j)
    case (RArray xs)
    have "ref_rank x \<le> n" if "x \<in> set xs" for x
      using member_le_sum_list [of "ref_rank x" "map ref_rank xs"] that Suc.prems RArray by simp
    then have "read_many (ref_read n) (length xs) (concat (map ref_text xs) @ r) = Some (map ref_norm xs, r)"
      by (intro read_many_text Suc.IH)
    then show ?thesis by (simp add: RArray)
  next
    case (RObject kvs)
    have rank: "ref_rank v \<le> n" if "(k, v) \<in> set kvs" for k v
      using member_le_sum_list [of "ref_rank v" "map (snd \<circ> map_prod id ref_rank) kvs"] that Suc.prems RObject
      by force
    have "read_many (read_pair (ref_read n)) (length kvs)
        (concat (map (\<lambda>kv. string_text (fst kv) @ ref_text (snd kv)) kvs) @ r)
      = Some (map (map_prod id ref_norm) kvs, r)"
      by (rule read_many_text) (auto simp: read_pair_def Suc.IH rank)
    then show ?thesis by (simp add: RObject comp_def map_prod_def case_prod_beta)
  qed auto
qed

lemma ref_parse_text: "ref_parse (ref_text j) = Inr (ref_norm j)"
  using ref_read_text [OF ref_rank_le_length, of j "[]"] by (simp add: ref_parse_def)

definition json_type_error :: "'a result" where
  "json_type_error = Inl (Json_error ''type_error'')"

definition ref_json_api :: "ref_json json_api" where
  "ref_json_api = \<lparr>
     jparse = ref_parse,
     jdump = (\<lambda>j. Inr (ref_text j)),
     jstring = RString, jbool = RBool, junsigned = RUnsigned, jsigned = RSigned, jfloat = RFloat,
     jarray = RArray, jobject = RObject,
     jat = (\<lambda>j k. case j of
        RObject kvs \<Rightarrow> (case map_of kvs k of Some v \<Rightarrow> Inr v | None \<Rightarrow> Inl (Json_error ''out_of_range''))
      | _ \<Rightarrow> json_type_error),
     jvalue_string = (\<lambda>j k d. case j of
        RObject kvs \<Rightarrow> (case map_of kvs k of
            None \<Rightarrow> Inr d | Some (RString s) \<Rightarrow> Inr s | Some _ \<Rightarrow> json_type_error)
      | _ \<Rightarrow> json_type_error),
     jget_string = (\<lambda>j. case j of RString s \<Rightarrow> Inr s | _ \<Rightarrow> json_type_error),
     jget_bool = (\<lambda>j. case j of RBool b \<Rightarrow> Inr b | _ \<Rightarrow> json_type_error),
     jget_u64 = (\<lambda>j. case j of RUnsigned w \<Rightarrow> Inr w | RSigned i \<Rightarrow> Inr (of_int i) | _ \<Rightarrow> json_type_error),
     jget_i64 = (\<lambda>j. case j of RUnsigned w \<Rightarrow> Inr (sint w) | RSigned i \<Rightarrow> Inr i | _ \<Rightarrow> json_type_error),
     jget_u16 = (\<lambda>j. case j of RUnsigned w \<Rightarrow> Inr (ucast w) | RSigned i \<Rightarrow> Inr (of_int i) | _ \<Rightarrow> json_type_error),
     jget_double = (\<lambda>j. case j of RFloat r \<Rightarrow> Inr r | RUnsigned w \<Rightarrow> Inr (of_int (uint w))
      | RSigned i \<Rightarrow> Inr (of_int i) | _ \<Rightarrow> json_type_error),
     jis_unsigned = (\<lambda>j. case j of RUnsigned _ \<Rightarrow> True | _ \<Rightarrow> False),
     jis_integer = (\<lambda>j. case j of RUnsigned _ \<Rightarrow> True | RSigned _ \<Rightarrow> True | _ \<Rightarrow> False),
     jelems = (\<lambda>j. case j of RArray xs \<Rightarrow> xs | RObject kvs \<Rightarrow> map snd kvs | _ \<Rightarrow> [j]),
     jnorm = ref_norm\<rparr>"

lemma jdump_ref [simp]: "jdump ref_json_api j = Inr (ref_text j)"
  by (simp add: ref_json_api_def)

lemma json_laws_ref [simp]: "json_laws ref_json_api"
  by (auto simp: json_laws_def ref_json_api_def ref_parse_text json_type_error_def
      split: option.splits ref_json.splits)

end
