(* ===== verification/Device_Command.thy ===== *)
theory Device_Command
  imports Json
begin

text \<open>
  The JSON form of a device command batch (\<open>cpp/src/device_command.cpp\<close>): what the orchestrator
  writes into the command stream and what the southbound daemon reads from it. The decoder rejects
  unknown operations, ports outside 1..65535, timeouts that are not positive and empty batches.
\<close>

section \<open>Model\<close>

definition operationName :: "ConnectionOperation \<Rightarrow> string" where
  "operationName operation = (if operation = kRemove then ''REMOVE'' else ''UPSERT'')"

definition parseOperation :: "string \<Rightarrow> ConnectionOperation result" where
  "parseOperation operation =
     (if operation = ''UPSERT'' then Inr kUpsert
      else if operation = ''REMOVE'' then Inr kRemove
      else Inl (Invalid_argument ''unsupported device command operation''))"

definition parsePort :: "'j json_api \<Rightarrow> 'j \<Rightarrow> string \<Rightarrow> PortId result" where
  "parsePort J command field =
     bindE (jat J command field) (\<lambda>v.
     bindE (if jis_unsigned J v then jget_u64 J v
            else if jis_integer J v then
              bindE (jget_i64 J v) (\<lambda>signed_value.
                if signed_value \<le> 0 then Inl (Invalid_argument (field @ '' must be positive''))
                else Inr (of_int signed_value))
            else Inl (Invalid_argument (field @ '' must be an integer''))) (\<lambda>parsed :: u64.
     if parsed = 0 \<or> parsed > 65535
     then Inl (Invalid_argument (field @ '' is outside the supported port range''))
     else Inr (ucast parsed)))"

definition commandJson :: "'j json_api \<Rightarrow> ConnectionCommand \<Rightarrow> 'j" where
  "commandJson J c = jobject J
     [(''operation'', jstring J (operationName (cc_operation c))),
      (''id'', jstring J (cc_id c)),
      (''input_port'', ju16 J (cc_input_port c)),
      (''output_port'', ju16 J (cc_output_port c)),
      (''desired_version'', junsigned J (cc_desired_version c))]"

definition batchJson :: "'j json_api \<Rightarrow> DeviceCommandBatch \<Rightarrow> 'j" where
  "batchJson J batch = jobject J
     [(''commands'', jarray J (map (commandJson J) (batch_commands batch))),
      (''atomic'', jbool J (opt_atomic (batch_options batch))),
      (''timeout_ms'', jsigned J (opt_timeout (batch_options batch))),
      (''operation_id'', jstring J (opt_operation_id (batch_options batch)))]"

definition encodeDeviceCommand :: "'j json_api \<Rightarrow> DeviceCommandBatch \<Rightarrow> string result" where
  "encodeDeviceCommand J batch = jdump J (batchJson J batch)"

definition decodeCommand :: "'j json_api \<Rightarrow> 'j \<Rightarrow> ConnectionCommand result" where
  "decodeCommand J command =
     bindE (bindE (jat J command ''operation'') (jget_string J)) (\<lambda>name.
     bindE (parseOperation name) (\<lambda>operation.
     bindE (bindE (jat J command ''id'') (jget_string J)) (\<lambda>cid.
     bindE (bindE (jat J command ''desired_version'') (jget_u64 J)) (\<lambda>version.
     let decoded = \<lparr>cc_operation = operation, cc_id = cid, cc_input_port = 0, cc_output_port = 0,
                    cc_desired_version = version\<rparr> in
     if operation = kUpsert then
       bindE (parsePort J command ''input_port'') (\<lambda>input.
       bindE (parsePort J command ''output_port'') (\<lambda>output.
       Inr (decoded\<lparr>cc_input_port := input, cc_output_port := output\<rparr>)))
     else Inr decoded))))"

definition decodeDeviceCommand :: "'j json_api \<Rightarrow> string \<Rightarrow> DeviceCommandBatch result" where
  "decodeDeviceCommand J payload =
     bindE (jparse J payload) (\<lambda>v.
     bindE (bindE (jat J v ''atomic'') (jget_bool J)) (\<lambda>atomic.
     bindE (bindE (jat J v ''timeout_ms'') (jget_i64 J)) (\<lambda>timeout.
     bindE (jvalue_string J v ''operation_id'' []) (\<lambda>operation_id.
     if timeout \<le> 0 then Inl (Invalid_argument ''device command timeout must be positive'')
     else
       bindE (jat J v ''commands'') (\<lambda>commands.
       bindE (mapE (decodeCommand J) (jelems J commands)) (\<lambda>decoded.
       if decoded = [] then Inl (Invalid_argument ''device command batch must not be empty'')
       else Inr \<lparr>batch_commands = decoded,
                 batch_options = \<lparr>opt_atomic = atomic, opt_timeout = timeout,
                                  opt_operation_id = operation_id\<rparr>\<rparr>))))))"

section \<open>Facts\<close>

text \<open>The form of a command that survives the wire: a removal carries no ports.\<close>

definition wire_command :: "ConnectionCommand \<Rightarrow> ConnectionCommand" where
  "wire_command c = (if cc_operation c = kRemove then c\<lparr>cc_input_port := 0, cc_output_port := 0\<rparr> else c)"

definition wire_batch_ok :: "DeviceCommandBatch \<Rightarrow> bool" where
  "wire_batch_ok b \<longleftrightarrow> batch_commands b \<noteq> [] \<and> 0 < opt_timeout (batch_options b) \<and>
     opt_timeout (batch_options b) < 2 ^ 63 \<and>
     (\<forall>c \<in> set (batch_commands b). cc_operation c = kUpsert \<longrightarrow> cc_input_port c \<noteq> 0 \<and> cc_output_port c \<noteq> 0)"

lemma parseOperation_name [simp]: "parseOperation (operationName op) = Inr op"
  by (cases op) (simp_all add: parseOperation_def operationName_def)

lemma unat_ucast_port [simp]: "unat (ucast (p :: u16) :: u64) = unat p"
proof -
  have "unat p < 2 ^ 16" using unsigned_less [of p, where 'a = nat] by simp
  then have "unat p < 2 ^ 64" by simp
  then show ?thesis by (simp add: unsigned_ucast_eq take_bit_nat_eq_self)
qed

lemma ucast_port_range: "(ucast (p :: u16) :: u64) \<le> 65535"
proof -
  have "unat p < 65536" using unsigned_less [of p, where 'a = nat] by simp
  then show ?thesis by (simp add: word_le_nat_alt)
qed

lemma ucast_port_zero: "(ucast (p :: u16) :: u64) = 0 \<longleftrightarrow> p = 0"
  by (simp add: word_unat_eq_iff)

lemma parsePort_ju16:
  assumes "json_laws J" "jat J command field = Inr (ju16 J p)"
  shows "parsePort J command field =
    (if p = 0 then Inl (Invalid_argument (field @ '' is outside the supported port range'')) else Inr p)"
proof -
  have "\<not> (65535 :: u64) < ucast p" using ucast_port_range [of p] by (simp add: not_less)
  with assms show ?thesis
    by (simp add: parsePort_def json_get ucast_port_zero unsigned_ucast_eq take_bit_word_eq_self)
qed

lemma parsePort_nonzero: "parsePort J command field = Inr p \<Longrightarrow> p \<noteq> 0"
proof -
  assume "parsePort J command field = Inr p"
  then obtain w :: u64 where w: "w \<noteq> 0" "\<not> 65535 < w" "p = ucast w"
    by (auto simp: parsePort_def exn_simps split: if_splits)
  then have "unat w < 2 ^ 16" by (simp add: word_less_nat_alt)
  then have "unat p = unat w" by (simp add: w unsigned_ucast_eq take_bit_nat_eq_self)
  with w(1) show ?thesis by (metis unsigned_0 word_unat_eq_iff)
qed

lemma commandJson_norm: "json_laws J \<Longrightarrow> jnorm J (commandJson J c) = commandJson J c"
  by (simp add: commandJson_def json_norm)

lemma decodeCommand_commandJson:
  assumes "json_laws J" "cc_operation c = kUpsert \<Longrightarrow> cc_input_port c \<noteq> 0 \<and> cc_output_port c \<noteq> 0"
  shows "decodeCommand J (commandJson J c) = Inr (wire_command c)"
  using assms
  by (cases "cc_operation c")
     (auto simp: decodeCommand_def commandJson_def json_simps parsePort_ju16 wire_command_def Let_def)

lemma decode_batchJson:
  assumes J: "json_laws J" and b: "wire_batch_ok b" and s: "jdump J (batchJson J b) = Inr s"
  shows "decodeDeviceCommand J s = Inr (b\<lparr>batch_commands := map wire_command (batch_commands b)\<rparr>)"
proof -
  have p: "jparse J s = Inr (jobject J
     [(''commands'', jarray J (map (commandJson J) (batch_commands b))),
      (''atomic'', jbool J (opt_atomic (batch_options b))),
      (''timeout_ms'', jnorm J (jsigned J (opt_timeout (batch_options b)))),
      (''operation_id'', jstring J (opt_operation_id (batch_options b)))])"
    using json_parse_dump [OF J s] J
    by (simp add: batchJson_def json_norm(1,2,6,7) commandJson_norm cong: map_cong)
  have m: "mapE (decodeCommand J) (map (commandJson J) (batch_commands b))
      = Inr (map wire_command (batch_commands b))"
    using b J by (auto simp: mapE_map wire_batch_ok_def intro!: mapE_all_Inr decodeCommand_commandJson)
  have t: "jget_i64 J (jnorm J (jsigned J (opt_timeout (batch_options b)))) = Inr (opt_timeout (batch_options b))"
    using b J by (intro json_get_i64_norm) (auto simp: wire_batch_ok_def)
  show ?thesis
    using b by (simp add: decodeDeviceCommand_def p m t json_get(1,2,11) [OF J] json_at [OF J] json_value [OF J]
        wire_batch_ok_def)
qed

section \<open>Properties\<close>

definition example_batch :: DeviceCommandBatch where
  "example_batch = \<lparr>batch_commands =
       [\<lparr>cc_operation = kUpsert, cc_id = ''a'', cc_input_port = 1, cc_output_port = 2, cc_desired_version = 7\<rparr>,
        \<lparr>cc_operation = kRemove, cc_id = ''b'', cc_input_port = 3, cc_output_port = 4, cc_desired_version = 7\<rparr>],
     batch_options = \<lparr>opt_atomic = True, opt_timeout = 1000, opt_operation_id = ''op''\<rparr>\<rparr>"

text \<open>C20: a batch survives the command stream: if it is not empty, its timeout is positive (and a
  64-bit number) and no command to connect names port 0, then decoding the encoded batch gives the batch
  back, removals without their ports; the only other outcome is the exception of the encoder itself.\<close>

theorem device_command_roundtrip:
  assumes "json_laws J" "wire_batch_ok b"
  shows "bindE (encodeDeviceCommand J b) (decodeDeviceCommand J) =
    bindE (encodeDeviceCommand J b) (\<lambda>s. Inr (b\<lparr>batch_commands := map wire_command (batch_commands b)\<rparr>))"
  using assms decode_batchJson by (cases "encodeDeviceCommand J b") (auto simp: encodeDeviceCommand_def)

theorem device_command_roundtrip_witness:
  "wire_batch_ok example_batch \<and>
   bindE (encodeDeviceCommand ref_json_api example_batch) (decodeDeviceCommand ref_json_api) =
     Inr (example_batch\<lparr>batch_commands := map wire_command (batch_commands example_batch)\<rparr>)"
proof -
  have ok: "wire_batch_ok example_batch" by (simp add: wire_batch_ok_def example_batch_def)
  show ?thesis
    using device_command_roundtrip [OF json_laws_ref ok] ok
    by (simp add: encodeDeviceCommand_def)
qed

text \<open>C21: the decoder admits nothing the device cannot execute: a batch it returns is not empty, has
  a positive timeout, names only ports 1..65535 in commands to connect and no ports in removals.
  No assumption is made about the text or about the JSON library.\<close>

theorem decoded_batch_executable:
  assumes "decodeDeviceCommand J payload = Inr b"
  shows "batch_commands b \<noteq> [] \<and> 0 < opt_timeout (batch_options b) \<and>
    (\<forall>c \<in> set (batch_commands b).
       if cc_operation c = kUpsert then cc_input_port c \<noteq> 0 \<and> cc_output_port c \<noteq> 0
       else cc_input_port c = 0 \<and> cc_output_port c = 0)"
proof -
  from assms obtain v commands where m: "mapE (decodeCommand J) (jelems J commands) = Inr (batch_commands b)"
    and "batch_commands b \<noteq> []" "0 < opt_timeout (batch_options b)"
    by (auto simp: decodeDeviceCommand_def exn_simps split: if_splits)
  moreover have "if cc_operation c = kUpsert then cc_input_port c \<noteq> 0 \<and> cc_output_port c \<noteq> 0
       else cc_input_port c = 0 \<and> cc_output_port c = 0" if "c \<in> set (batch_commands b)" for c
  proof -
    from mapE_Inr_set [OF m that] obtain j where "decodeCommand J j = Inr c" by blast
    then show ?thesis
      by (auto simp: decodeCommand_def exn_simps Let_def dest!: parsePort_nonzero split: if_splits)
  qed
  ultimately show ?thesis by blast
qed

theorem decoded_batch_executable_witness:
  "\<exists>s b. encodeDeviceCommand ref_json_api example_batch = Inr s \<and>
     decodeDeviceCommand ref_json_api s = Inr b \<and> length (batch_commands b) = 2 \<and>
     cc_input_port (batch_commands b ! 1) = 0"
proof -
  have ok: "wire_batch_ok example_batch" by (simp add: wire_batch_ok_def example_batch_def)
  have s: "encodeDeviceCommand ref_json_api example_batch = Inr (ref_text (batchJson ref_json_api example_batch))"
    by (simp add: encodeDeviceCommand_def)
  then have d: "decodeDeviceCommand ref_json_api (ref_text (batchJson ref_json_api example_batch))
      = Inr (example_batch\<lparr>batch_commands := map wire_command (batch_commands example_batch)\<rparr>)"
    using decode_batchJson [OF json_laws_ref ok] by (simp add: encodeDeviceCommand_def)
  from decoded_batch_executable [OF d] s d show ?thesis
    by (fastforce simp: example_batch_def wire_command_def)
qed

end
