(* ===== verification/Uds_Json.thy ===== *)
theory Uds_Json
  imports Json
begin

text \<open>
  The payloads of the device protocol (\<open>cpp/src/uds_json.cpp\<close>, \<open>uds_json.hpp\<close>): one encoder and
  one decoder per message, over the JSON library of theory \<open>Json\<close>.
\<close>

section \<open>Model\<close>

subsection \<open>Requests\<close>

record ApplyRequest =
  areq_commands :: "ConnectionCommand list"
  areq_options :: ApplyOptions

record PortRequest =
  preq_direction :: PortDirection
  preq_port_id :: PortId

record FaultRequest =
  freq_clear :: bool
  freq_fault :: FaultSpec

subsection \<open>Names of enumerators\<close>

definition directionName :: "PortDirection \<Rightarrow> string" where
  "directionName direction = (if direction = kInput then ''INPUT'' else ''OUTPUT'')"

definition parseDirection :: "string \<Rightarrow> PortDirection" where
  "parseDirection v = (if v = ''OUTPUT'' then kOutput else kInput)"

definition uds_operationName :: "ConnectionOperation \<Rightarrow> string" where
  "uds_operationName operation = (if operation = kRemove then ''REMOVE'' else ''UPSERT'')"

definition uds_parseOperation :: "string \<Rightarrow> ConnectionOperation" where
  "uds_parseOperation v = (if v = ''REMOVE'' then kRemove else kUpsert)"

fun portStatusName :: "PortOperStatus \<Rightarrow> string" where
  "portStatusName kUp = ''UP''"
| "portStatusName kDown = ''DOWN''"
| "portStatusName kLowPower = ''LOW_POWER''"
| "portStatusName kFault = ''FAULT''"
| "portStatusName kUnknown = ''UNKNOWN''"

definition parsePortStatus :: "string \<Rightarrow> PortOperStatus" where
  "parsePortStatus v =
     (if v = ''UP'' then kUp
      else if v = ''DOWN'' then kDown
      else if v = ''LOW_POWER'' then kLowPower
      else if v = ''FAULT'' then kFault
      else kUnknown)"

fun faultName :: "FaultType \<Rightarrow> string" where
  "faultName kNextApplyError = ''NEXT_APPLY_ERROR''"
| "faultName kNextApplyTimeout = ''NEXT_APPLY_TIMEOUT''"
| "faultName kInputPortDown = ''INPUT_PORT_DOWN''"
| "faultName kOutputPortDown = ''OUTPUT_PORT_DOWN''"
| "faultName kOutOfBandDrift = ''OUT_OF_BAND_DRIFT''"
| "faultName kAll = ''ALL''"

definition parseFault :: "string \<Rightarrow> FaultType" where
  "parseFault v =
     (if v = ''NEXT_APPLY_TIMEOUT'' then kNextApplyTimeout
      else if v = ''INPUT_PORT_DOWN'' then kInputPortDown
      else if v = ''OUTPUT_PORT_DOWN'' then kOutputPortDown
      else if v = ''OUT_OF_BAND_DRIFT'' then kOutOfBandDrift
      else if v = ''ALL'' then kAll
      else kNextApplyError)"

subsection \<open>Shared objects\<close>

text \<open>\<open>value.at(key).get<T>()\<close>.\<close>

definition field_string :: "'j json_api \<Rightarrow> 'j \<Rightarrow> string \<Rightarrow> string result" where
  "field_string J v key = bindE (jat J v key) (jget_string J)"

definition field_u16 :: "'j json_api \<Rightarrow> 'j \<Rightarrow> string \<Rightarrow> u16 result" where
  "field_u16 J v key = bindE (jat J v key) (jget_u16 J)"

definition field_u64 :: "'j json_api \<Rightarrow> 'j \<Rightarrow> string \<Rightarrow> u64 result" where
  "field_u64 J v key = bindE (jat J v key) (jget_u64 J)"

definition field_bool :: "'j json_api \<Rightarrow> 'j \<Rightarrow> string \<Rightarrow> bool result" where
  "field_bool J v key = bindE (jat J v key) (jget_bool J)"

definition errorJson :: "'j json_api \<Rightarrow> Error \<Rightarrow> 'j" where
  "errorJson J e = jobject J
     [(''code'', jstring J (ErrorCode_toString (err_code e))), (''message'', jstring J (err_message e))]"

definition parseError :: "'j json_api \<Rightarrow> 'j \<Rightarrow> Error result" where
  "parseError J v =
     bindE (jvalue_string J v ''code'' ''OCS_INTERNAL_ERROR'') (\<lambda>c.
     bindE (jvalue_string J v ''message'' []) (\<lambda>m.
     Inr \<lparr>err_code = errorCodeFromString c, err_message = m\<rparr>))"

definition connectionJson :: "'j json_api \<Rightarrow> AppliedConnection \<Rightarrow> 'j" where
  "connectionJson J connection = jobject J
     [(''id'', jstring J (ac_id connection)),
      (''input_port'', ju16 J (ac_input_port connection)),
      (''output_port'', ju16 J (ac_output_port connection)),
      (''applied_version'', junsigned J (ac_applied_version connection))]"

definition parseConnection :: "'j json_api \<Rightarrow> 'j \<Rightarrow> AppliedConnection result" where
  "parseConnection J v =
     bindE (field_string J v ''id'') (\<lambda>cid.
     bindE (field_u16 J v ''input_port'') (\<lambda>input.
     bindE (field_u16 J v ''output_port'') (\<lambda>output.
     bindE (field_u64 J v ''applied_version'') (\<lambda>version.
     Inr \<lparr>ac_id = cid, ac_input_port = input, ac_output_port = output, ac_applied_version = version\<rparr>))))"

subsection \<open>Messages\<close>

definition encodeError :: "'j json_api \<Rightarrow> Error \<Rightarrow> string result" where
  "encodeError J e = jdump J (errorJson J e)"

definition decodeError :: "'j json_api \<Rightarrow> string \<Rightarrow> Error result" where
  "decodeError J payload = bindE (jparse J payload) (parseError J)"

definition encodeDeviceInfo :: "'j json_api \<Rightarrow> DeviceInfo \<Rightarrow> string result" where
  "encodeDeviceInfo J info = jdump J (jobject J
     [(''name'', jstring J (di_name info)),
      (''input_port_count'', ju16 J (di_input_port_count info)),
      (''output_port_count'', ju16 J (di_output_port_count info)),
      (''model'', jstring J (di_model info)),
      (''serial_number'', jstring J (di_serial_number info)),
      (''firmware_version'', jstring J (di_firmware_version info)),
      (''generation'', junsigned J (di_generation info))])"

definition decodeDeviceInfo :: "'j json_api \<Rightarrow> string \<Rightarrow> DeviceInfo result" where
  "decodeDeviceInfo J payload =
     bindE (jparse J payload) (\<lambda>v.
     bindE (field_string J v ''name'') (\<lambda>name.
     bindE (field_u16 J v ''input_port_count'') (\<lambda>inputs.
     bindE (field_u16 J v ''output_port_count'') (\<lambda>outputs.
     bindE (field_string J v ''model'') (\<lambda>model.
     bindE (field_string J v ''serial_number'') (\<lambda>serial.
     bindE (field_string J v ''firmware_version'') (\<lambda>firmware.
     bindE (field_u64 J v ''generation'') (\<lambda>generation.
     Inr \<lparr>di_name = name, di_input_port_count = inputs, di_output_port_count = outputs,
          di_model = model, di_serial_number = serial, di_firmware_version = firmware,
          di_generation = generation\<rparr>))))))))"

definition commandValue :: "'j json_api \<Rightarrow> ConnectionCommand \<Rightarrow> 'j" where
  "commandValue J command = jobject J
     [(''operation'', jstring J (uds_operationName (cc_operation command))),
      (''id'', jstring J (cc_id command)),
      (''input_port'', ju16 J (cc_input_port command)),
      (''output_port'', ju16 J (cc_output_port command)),
      (''desired_version'', junsigned J (cc_desired_version command))]"

definition encodeApplyRequest ::
  "'j json_api \<Rightarrow> ConnectionCommand list \<Rightarrow> ApplyOptions \<Rightarrow> string result" where
  "encodeApplyRequest J commands options = jdump J (jobject J
     [(''commands'', jarray J (map (commandValue J) commands)),
      (''atomic'', jbool J (opt_atomic options)),
      (''timeout_ms'', jsigned J (opt_timeout options)),
      (''operation_id'', jstring J (opt_operation_id options))])"

definition parseCommand :: "'j json_api \<Rightarrow> 'j \<Rightarrow> ConnectionCommand result" where
  "parseCommand J v =
     bindE (field_string J v ''operation'') (\<lambda>operation.
     bindE (field_string J v ''id'') (\<lambda>cid.
     bindE (field_u16 J v ''input_port'') (\<lambda>input.
     bindE (field_u16 J v ''output_port'') (\<lambda>output.
     bindE (field_u64 J v ''desired_version'') (\<lambda>version.
     Inr \<lparr>cc_operation = uds_parseOperation operation, cc_id = cid, cc_input_port = input,
          cc_output_port = output, cc_desired_version = version\<rparr>)))))"

definition decodeApplyRequest :: "'j json_api \<Rightarrow> string \<Rightarrow> ApplyRequest result" where
  "decodeApplyRequest J payload =
     bindE (jparse J payload) (\<lambda>v.
     bindE (field_bool J v ''atomic'') (\<lambda>atomic.
     bindE (bindE (jat J v ''timeout_ms'') (jget_i64 J)) (\<lambda>timeout.
     bindE (jvalue_string J v ''operation_id'' []) (\<lambda>operation_id.
     bindE (jat J v ''commands'') (\<lambda>commands.
     bindE (mapE (parseCommand J) (jelems J commands)) (\<lambda>decoded.
     Inr \<lparr>areq_commands = decoded,
          areq_options = \<lparr>opt_atomic = atomic, opt_timeout = timeout, opt_operation_id = operation_id\<rparr>\<rparr>))))))"

definition encodeApplyResult :: "'j json_api \<Rightarrow> ApplyResult \<Rightarrow> string result" where
  "encodeApplyResult J r = jdump J (jobject J
     [(''error'', errorJson J (ar_error r)),
      (''connections'', jarray J (map (connectionJson J) (ar_connections r)))])"

definition decodeApplyResult :: "'j json_api \<Rightarrow> string \<Rightarrow> ApplyResult result" where
  "decodeApplyResult J payload =
     bindE (jparse J payload) (\<lambda>v.
     bindE (bindE (jat J v ''error'') (parseError J)) (\<lambda>e.
     bindE (jat J v ''connections'') (\<lambda>connections.
     bindE (mapE (parseConnection J) (jelems J connections)) (\<lambda>decoded.
     Inr \<lparr>ar_error = e, ar_connections = decoded\<rparr>))))"

definition encodeConnections :: "'j json_api \<Rightarrow> AppliedConnection list \<Rightarrow> string result" where
  "encodeConnections J connections = jdump J (jarray J (map (connectionJson J) connections))"

definition decodeConnections :: "'j json_api \<Rightarrow> string \<Rightarrow> AppliedConnection list result" where
  "decodeConnections J payload =
     bindE (jparse J payload) (\<lambda>v. mapE (parseConnection J) (jelems J v))"

definition encodePortRequest :: "'j json_api \<Rightarrow> PortDirection \<Rightarrow> PortId \<Rightarrow> string result" where
  "encodePortRequest J direction port_id = jdump J (jobject J
     [(''direction'', jstring J (directionName direction)), (''port_id'', ju16 J port_id)])"

definition decodePortRequest :: "'j json_api \<Rightarrow> string \<Rightarrow> PortRequest result" where
  "decodePortRequest J payload =
     bindE (jparse J payload) (\<lambda>v.
     bindE (field_string J v ''direction'') (\<lambda>direction.
     bindE (field_u16 J v ''port_id'') (\<lambda>port_id.
     Inr \<lparr>preq_direction = parseDirection direction, preq_port_id = port_id\<rparr>)))"

definition encodePortState :: "'j json_api \<Rightarrow> PortState \<Rightarrow> string result" where
  "encodePortState J state = jdump J (jobject J
     [(''id'', ju16 J (ps_id state)),
      (''direction'', jstring J (directionName (ps_direction state))),
      (''admin_enabled'', jbool J (ps_admin_enabled state)),
      (''oper_status'', jstring J (portStatusName (ps_oper_status state))),
      (''optical_power_dbm'', jfloat J (ps_optical_power_dbm state))])"

definition decodePortState :: "'j json_api \<Rightarrow> string \<Rightarrow> PortState result" where
  "decodePortState J payload =
     bindE (jparse J payload) (\<lambda>v.
     bindE (field_u16 J v ''id'') (\<lambda>pid.
     bindE (field_string J v ''direction'') (\<lambda>direction.
     bindE (field_bool J v ''admin_enabled'') (\<lambda>admin_enabled.
     bindE (field_string J v ''oper_status'') (\<lambda>oper_status.
     bindE (bindE (jat J v ''optical_power_dbm'') (jget_double J)) (\<lambda>power.
     Inr \<lparr>ps_id = pid, ps_direction = parseDirection direction, ps_admin_enabled = admin_enabled,
          ps_oper_status = parsePortStatus oper_status, ps_optical_power_dbm = power\<rparr>))))))"

definition encodeResetRequest :: "'j json_api \<Rightarrow> ResetMode \<Rightarrow> string result" where
  "encodeResetRequest J mode = jdump J (jobject J
     [(''mode'', jstring J (if mode = kHard then ''HARD'' else ''SOFT''))])"

definition decodeResetRequest :: "'j json_api \<Rightarrow> string \<Rightarrow> ResetMode result" where
  "decodeResetRequest J payload =
     bindE (jparse J payload) (\<lambda>v.
     bindE (field_string J v ''mode'') (\<lambda>mode.
     Inr (if mode = ''HARD'' then kHard else kSoft)))"

definition encodeResetResult :: "'j json_api \<Rightarrow> ResetResult \<Rightarrow> string result" where
  "encodeResetResult J r = jdump J (jobject J
     [(''error'', errorJson J (rr_error r)), (''generation'', junsigned J (rr_generation r))])"

definition decodeResetResult :: "'j json_api \<Rightarrow> string \<Rightarrow> ResetResult result" where
  "decodeResetResult J payload =
     bindE (jparse J payload) (\<lambda>v.
     bindE (bindE (jat J v ''error'') (parseError J)) (\<lambda>e.
     bindE (field_u64 J v ''generation'') (\<lambda>generation.
     Inr \<lparr>rr_error = e, rr_generation = generation\<rparr>)))"

definition encodeFaultRequest :: "'j json_api \<Rightarrow> FaultSpec \<Rightarrow> bool \<Rightarrow> string result" where
  "encodeFaultRequest J fault clear = jdump J (jobject J
     [(''action'', jstring J (if clear then ''CLEAR'' else ''INJECT'')),
      (''type'', jstring J (faultName (fs_type fault))),
      (''port_id'', ju16 J (fs_port_id fault))])"

definition decodeFaultRequest :: "'j json_api \<Rightarrow> string \<Rightarrow> FaultRequest result" where
  "decodeFaultRequest J payload =
     bindE (jparse J payload) (\<lambda>v.
     bindE (field_string J v ''action'') (\<lambda>action.
     bindE (field_string J v ''type'') (\<lambda>type_name.
     bindE (field_u16 J v ''port_id'') (\<lambda>port_id.
     Inr \<lparr>freq_clear = (action = ''CLEAR''),
          freq_fault = \<lparr>fs_type = parseFault type_name, fs_port_id = port_id\<rparr>\<rparr>))))"

definition encodeFaultResult :: "'j json_api \<Rightarrow> FaultResult \<Rightarrow> string result" where
  "encodeFaultResult J r = jdump J (jobject J [(''error'', errorJson J (fr_error r))])"

definition decodeFaultResult :: "'j json_api \<Rightarrow> string \<Rightarrow> FaultResult result" where
  "decodeFaultResult J payload =
     bindE (jparse J payload) (\<lambda>v.
     bindE (bindE (jat J v ''error'') (parseError J)) (\<lambda>e. Inr \<lparr>fr_error = e\<rparr>))"

section \<open>Round trips\<close>

lemma parseDirection_name [simp]: "parseDirection (directionName d) = d"
  by (cases d) (simp_all add: parseDirection_def directionName_def)

lemma uds_parseOperation_name [simp]: "uds_parseOperation (uds_operationName op) = op"
  by (cases op) (simp_all add: uds_parseOperation_def uds_operationName_def)

lemma parsePortStatus_name [simp]: "parsePortStatus (portStatusName s) = s"
  by (cases s) (simp_all add: parsePortStatus_def)

lemma parseFault_name [simp]: "parseFault (faultName f) = f"
  by (cases f) (simp_all add: parseFault_def)

lemma field_get:
  assumes "json_laws J" "map_of kvs k = Some v"
  shows "field_string J (jobject J kvs) k = jget_string J v"
    "field_u16 J (jobject J kvs) k = jget_u16 J v"
    "field_u64 J (jobject J kvs) k = jget_u64 J v"
    "field_bool J (jobject J kvs) k = jget_bool J v"
  using assms by (simp_all add: field_string_def field_u16_def field_u64_def field_bool_def json_at)

lemmas wire_simps = field_get json_at json_value json_get

lemma object_norm [simp]:
  assumes "json_laws J"
  shows "jnorm J (errorJson J e) = errorJson J e" "jnorm J (connectionJson J c) = connectionJson J c"
    "jnorm J (commandValue J cmd) = commandValue J cmd"
  using assms by (simp_all add: errorJson_def connectionJson_def commandValue_def json_norm)

lemma array_norm:
  assumes "json_laws J"
  shows "jnorm J (jarray J (map (connectionJson J) cs)) = jarray J (map (connectionJson J) cs)"
    "jnorm J (jarray J (map (commandValue J) cmds)) = jarray J (map (commandValue J) cmds)"
  using assms by (simp_all add: json_norm cong: map_cong)

lemma parseError_errorJson: "json_laws J \<Longrightarrow> parseError J (errorJson J e) = Inr e"
  by (simp add: parseError_def errorJson_def json_value json_get)

lemma parseConnection_connectionJson:
  "json_laws J \<Longrightarrow> parseConnection J (connectionJson J c) = Inr c"
  by (simp add: parseConnection_def connectionJson_def wire_simps)

lemma parseCommand_commandValue: "json_laws J \<Longrightarrow> parseCommand J (commandValue J c) = Inr c"
  by (simp add: parseCommand_def commandValue_def wire_simps)

lemma mapE_parseConnection:
  "json_laws J \<Longrightarrow> mapE (parseConnection J) (map (connectionJson J) cs) = Inr cs"
  by (simp add: mapE_map parseConnection_connectionJson mapE_all_Inr [where g = "\<lambda>x. x"])

lemma mapE_parseCommand:
  "json_laws J \<Longrightarrow> mapE (parseCommand J) (map (commandValue J) cs) = Inr cs"
  by (simp add: mapE_map parseCommand_commandValue mapE_all_Inr [where g = "\<lambda>x. x"])

lemma decodeError_encode: "json_laws J \<Longrightarrow> encodeError J e = Inr s \<Longrightarrow> decodeError J s = Inr e"
  by (simp add: encodeError_def decodeError_def json_parse_dump parseError_errorJson)

lemma decodeDeviceInfo_encode:
  "json_laws J \<Longrightarrow> encodeDeviceInfo J x = Inr s \<Longrightarrow> decodeDeviceInfo J s = Inr x"
  by (simp add: encodeDeviceInfo_def decodeDeviceInfo_def json_parse_dump json_norm wire_simps)

lemma decodeApplyRequest_encode:
  assumes "json_laws J" "encodeApplyRequest J cmds opts = Inr s"
    "- (2 ^ 63) \<le> opt_timeout opts" "opt_timeout opts < 2 ^ 63"
  shows "decodeApplyRequest J s = Inr \<lparr>areq_commands = cmds, areq_options = opts\<rparr>"
proof -
  have "jget_i64 J (jnorm J (jsigned J (opt_timeout opts))) = Inr (opt_timeout opts)"
    using assms by (intro json_get_i64_norm)
  with assms show ?thesis
    by (simp add: encodeApplyRequest_def decodeApplyRequest_def json_parse_dump json_norm(1,2,7)
        array_norm wire_simps mapE_parseCommand)
qed

lemma decodeApplyResult_encode:
  "json_laws J \<Longrightarrow> encodeApplyResult J x = Inr s \<Longrightarrow> decodeApplyResult J s = Inr x"
  by (simp add: encodeApplyResult_def decodeApplyResult_def json_parse_dump json_norm(7) array_norm
      wire_simps parseError_errorJson mapE_parseConnection)

lemma decodeConnections_encode:
  "json_laws J \<Longrightarrow> encodeConnections J x = Inr s \<Longrightarrow> decodeConnections J s = Inr x"
  by (simp add: encodeConnections_def decodeConnections_def json_parse_dump array_norm
      wire_simps mapE_parseConnection)

lemma decodePortRequest_encode:
  "json_laws J \<Longrightarrow> encodePortRequest J d p = Inr s \<Longrightarrow>
   decodePortRequest J s = Inr \<lparr>preq_direction = d, preq_port_id = p\<rparr>"
  by (simp add: encodePortRequest_def decodePortRequest_def json_parse_dump json_norm wire_simps)

lemma decodePortState_encode:
  "json_laws J \<Longrightarrow> encodePortState J x = Inr s \<Longrightarrow> decodePortState J s = Inr x"
  by (simp add: encodePortState_def decodePortState_def json_parse_dump json_norm wire_simps)

lemma decodeResetRequest_encode:
  "json_laws J \<Longrightarrow> encodeResetRequest J m = Inr s \<Longrightarrow> decodeResetRequest J s = Inr m"
  by (cases m) (simp_all add: encodeResetRequest_def decodeResetRequest_def json_parse_dump json_norm wire_simps)

lemma decodeResetResult_encode:
  "json_laws J \<Longrightarrow> encodeResetResult J x = Inr s \<Longrightarrow> decodeResetResult J s = Inr x"
  by (simp add: encodeResetResult_def decodeResetResult_def json_parse_dump json_norm wire_simps
      parseError_errorJson)

lemma decodeFaultRequest_encode:
  "json_laws J \<Longrightarrow> encodeFaultRequest J f c = Inr s \<Longrightarrow>
   decodeFaultRequest J s = Inr \<lparr>freq_clear = c, freq_fault = f\<rparr>"
  by (cases c) (simp_all add: encodeFaultRequest_def decodeFaultRequest_def json_parse_dump json_norm wire_simps)

lemma decodeFaultResult_encode:
  "json_laws J \<Longrightarrow> encodeFaultResult J x = Inr s \<Longrightarrow> decodeFaultResult J s = Inr x"
  by (simp add: encodeFaultResult_def decodeFaultResult_def json_parse_dump json_norm wire_simps
      parseError_errorJson)

lemmas payload_roundtrips =
  decodeError_encode decodeDeviceInfo_encode decodeApplyRequest_encode decodeApplyResult_encode
  decodeConnections_encode decodePortRequest_encode decodePortState_encode decodeResetRequest_encode
  decodeResetResult_encode decodeFaultRequest_encode decodeFaultResult_encode

end
