(* ===== verification/Uds_Codec.thy ===== *)
theory Uds_Codec
  imports Errors
begin

unbundle bit_operations_syntax

text \<open>
  The framing of the device protocol (\<open>cpp/include/ocs/uds_protocol.hpp\<close>,
  \<open>cpp/src/uds_codec.cpp\<close>): a 32-byte big-endian header and a payload of at most 1 MiB. Bytes are
  8-bit words; \<open>std::string\<close> payloads are character lists.
\<close>

section \<open>Model\<close>

definition kMagic :: u32 where "kMagic = 0x4F435331"
definition kProtocolVersionNumber :: u16 where "kProtocolVersionNumber = 1"
definition kHeaderSize :: nat where "kHeaderSize = 32"
definition kMaxPayloadSize :: nat where "kMaxPayloadSize = 1024 * 1024"

datatype MessageType =
    kHello | kHelloReply | kGetDeviceInfo | kDeviceInfoReply | kApplyConnections | kApplyResult
  | kGetConnections | kConnectionsReply | kGetPortState | kPortStateReply | kReset | kResetResult
  | kInjectFault | kFaultResult | kDeviceEvent | kErrorReply

fun MessageType_value :: "MessageType \<Rightarrow> u16" where
  "MessageType_value kHello = 1"
| "MessageType_value kHelloReply = 2"
| "MessageType_value kGetDeviceInfo = 3"
| "MessageType_value kDeviceInfoReply = 4"
| "MessageType_value kApplyConnections = 5"
| "MessageType_value kApplyResult = 6"
| "MessageType_value kGetConnections = 7"
| "MessageType_value kConnectionsReply = 8"
| "MessageType_value kGetPortState = 9"
| "MessageType_value kPortStateReply = 10"
| "MessageType_value kReset = 11"
| "MessageType_value kResetResult = 12"
| "MessageType_value kInjectFault = 13"
| "MessageType_value kFaultResult = 14"
| "MessageType_value kDeviceEvent = 15"
| "MessageType_value kErrorReply = 16"

definition MessageType_values :: "MessageType list" where
  "MessageType_values =
     [kHello, kHelloReply, kGetDeviceInfo, kDeviceInfoReply, kApplyConnections, kApplyResult,
      kGetConnections, kConnectionsReply, kGetPortState, kPortStateReply, kReset, kResetResult,
      kInjectFault, kFaultResult, kDeviceEvent, kErrorReply]"

text \<open>\<open>static_cast<MessageType>\<close> of a value that \<open>isKnownMessageType\<close> accepted.\<close>

definition MessageType_cast :: "u16 \<Rightarrow> MessageType" where
  "MessageType_cast v = MessageType_values ! (unat v - 1)"

record Frame =
  frame_version :: u16
  frame_message_type :: MessageType
  frame_flags :: u32
  frame_request_id :: u64
  frame_device_generation :: u64
  frame_payload :: string

record EncodeResult =
  enc_error :: Error
  enc_bytes :: "u8 list"

record DecodeResult =
  dec_error :: Error
  dec_frame :: "Frame option"

definition EncodeResult_ok :: "EncodeResult \<Rightarrow> bool" where
  "EncodeResult_ok r = Error_ok (enc_error r)"

definition DecodeResult_ok :: "DecodeResult \<Rightarrow> bool" where
  "DecodeResult_ok r = (Error_ok (dec_error r) \<and> dec_frame r \<noteq> None)"

text \<open>\<open>appendBigEndian\<close>: the bytes of a word, most significant first; \<open>sizeof\<close> is its length in bytes.\<close>

definition appendBigEndian :: "u8 list \<Rightarrow> 'a::len word \<Rightarrow> u8 list" where
  "appendBigEndian output v =
     output @ map (\<lambda>offset. ucast (drop_bit ((offset - 1) * 8) v AND 0xFF))
                (rev [1..<Suc (LENGTH('a) div 8)])"

text \<open>\<open>readBigEndian\<close>: the value and the advanced offset.\<close>

definition readBigEndian :: "u8 list \<Rightarrow> nat \<Rightarrow> 'a::len word \<times> nat" where
  "readBigEndian input offset =
     (foldl (\<lambda>v b. push_bit 8 v OR ucast b) 0 (take (LENGTH('a) div 8) (drop offset input)),
      offset + LENGTH('a) div 8)"

definition protocolError :: "ErrorCode \<Rightarrow> string \<Rightarrow> Error" where
  "protocolError c m = \<lparr>err_code = c, err_message = m\<rparr>"

definition isKnownMessageType :: "u16 \<Rightarrow> bool" where
  "isKnownMessageType v = (MessageType_value kHello \<le> v \<and> v \<le> MessageType_value kErrorReply)"

definition encode :: "Frame \<Rightarrow> EncodeResult" where
  "encode frame =
     (if frame_version frame \<noteq> kProtocolVersionNumber
      then \<lparr>enc_error = protocolError kProtocolVersion ''unsupported UDS protocol version'', enc_bytes = []\<rparr>
      else if length (frame_payload frame) > kMaxPayloadSize \<or> length (frame_payload frame) > 2 ^ 32 - 1
      then \<lparr>enc_error = protocolError kPayloadTooLarge ''UDS payload exceeds limit'', enc_bytes = []\<rparr>
      else
        let output = appendBigEndian [] kMagic;
            output = appendBigEndian output (frame_version frame);
            output = appendBigEndian output (MessageType_value (frame_message_type frame));
            output = appendBigEndian output (frame_flags frame);
            output = appendBigEndian output (frame_request_id frame);
            output = appendBigEndian output (of_nat (length (frame_payload frame)) :: u32);
            output = appendBigEndian output (frame_device_generation frame)
        in \<lparr>enc_error = Error_success, enc_bytes = output @ map of_char (frame_payload frame)\<rparr>)"

definition decode_failed :: "ErrorCode \<Rightarrow> string \<Rightarrow> DecodeResult" where
  "decode_failed c m = \<lparr>dec_error = protocolError c m, dec_frame = None\<rparr>"

definition decode :: "u8 list \<Rightarrow> DecodeResult" where
  "decode bytes =
     (if length bytes < kHeaderSize
      then decode_failed kProtocolMalformed ''UDS frame header is truncated''
      else
        let (magic :: u32, offset) = readBigEndian bytes 0;
            (version :: u16, offset) = readBigEndian bytes offset;
            (message_type :: u16, offset) = readBigEndian bytes offset;
            (flags :: u32, offset) = readBigEndian bytes offset;
            (request_id :: u64, offset) = readBigEndian bytes offset;
            (payload_length :: u32, offset) = readBigEndian bytes offset;
            (device_generation :: u64, offset) = readBigEndian bytes offset
        in if magic \<noteq> kMagic
           then decode_failed kProtocolMalformed ''UDS frame magic is invalid''
           else if version \<noteq> kProtocolVersionNumber
           then decode_failed kProtocolVersion ''unsupported UDS protocol version''
           else if \<not> isKnownMessageType message_type
           then decode_failed kProtocolMalformed ''UDS message type is invalid''
           else if unat payload_length > kMaxPayloadSize
           then decode_failed kPayloadTooLarge ''UDS payload exceeds limit''
           else if length bytes \<noteq> kHeaderSize + unat payload_length
           then decode_failed kProtocolMalformed ''UDS payload length does not match frame''
           else \<lparr>dec_error = Error_success,
                 dec_frame = Some \<lparr>frame_version = version,
                   frame_message_type = MessageType_cast message_type,
                   frame_flags = flags, frame_request_id = request_id,
                   frame_device_generation = device_generation,
                   frame_payload = map (\<lambda>b. char_of (unat b)) (drop offset bytes)\<rparr>\<rparr>)"

section \<open>Big-endian integers\<close>

lemma foldl_big_endian_bit:
  fixes acc :: "'a::len word"
  assumes "k < LENGTH('a)"
  shows "bit (foldl (\<lambda>v b. push_bit 8 v OR ucast b) acc (bs :: u8 list)) k =
    (if k < 8 * length bs then bit (bs ! (length bs - 1 - k div 8)) (k mod 8)
     else bit acc (k - 8 * length bs))"
  using assms
proof (induction bs arbitrary: k rule: rev_induct)
  case Nil
  then show ?case by simp
next
  case (snoc b bs)
  show ?case
  proof (cases "k < 8")
    case True
    with snoc.prems show ?thesis
      by (auto simp: bit_simps nth_append)
  next
    case False
    then have d: "(k - 8) div 8 = k div 8 - 1" "(k - 8) mod 8 = k mod 8" "0 < k div 8"
      by (auto simp: div_greater_zero_iff le_div_geq le_mod_geq)
    have "bit b k = False" using False by (auto dest: bit_imp_le_length)
    with False snoc.prems snoc.IH [of "k - 8"] d show ?thesis
      by (auto simp: bit_simps nth_append diff_diff_eq)
  qed
qed

definition be_bytes :: "'a::len word \<Rightarrow> u8 list" where
  "be_bytes v = appendBigEndian [] v"

lemma appendBigEndian_be_bytes: "appendBigEndian out v = out @ be_bytes v"
  by (simp add: be_bytes_def appendBigEndian_def)

lemma length_be_bytes [simp]: "length (be_bytes (v :: 'a::len word)) = LENGTH('a) div 8"
  by (simp add: be_bytes_def appendBigEndian_def)

lemma bit_be_bytes:
  fixes v :: "'a::len word"
  assumes "i < LENGTH('a) div 8" "j < 8"
  shows "bit (be_bytes v ! i) j = bit v ((LENGTH('a) div 8 - 1 - i) * 8 + j)"
proof -
  have "be_bytes v ! i = ucast (drop_bit ((LENGTH('a) div 8 - Suc i) * 8) v AND 0xFF)"
    using assms(1) by (simp add: be_bytes_def appendBigEndian_def rev_nth nth_upt rev_map del: upt_Suc)
  moreover have "bit (0xFF :: 'a word) j" if "j < LENGTH('a)"
    using assms(2) that by (simp add: bit_numeral_word_iff) (auto simp: less_Suc_eq numeral_eq_Suc)
  ultimately show ?thesis
    using assms by (auto simp: bit_simps add.commute dest: bit_imp_le_length)
qed

lemma read_be_bytes:
  fixes v :: "'a::len word"
  assumes "8 dvd LENGTH('a)"
  shows "foldl (\<lambda>v b. push_bit 8 v OR ucast b) 0 (be_bytes v) = v"
proof (rule bit_word_eqI)
  fix k assume k: "k < LENGTH('a)"
  have len: "8 * (LENGTH('a) div 8) = LENGTH('a)" using assms by simp
  with k have "k div 8 < LENGTH('a) div 8" by (metis div_less_mono dvd_imp_mod_0 assms less_mult_imp_div_less mult.commute)
  then have "LENGTH('a) div 8 - 1 - (LENGTH('a) div 8 - 1 - k div 8) = k div 8" by simp
  with k len show "bit (foldl (\<lambda>v b. push_bit 8 v OR ucast b) (0 :: 'a word) (be_bytes v)) k = bit v k"
    by (simp add: foldl_big_endian_bit bit_be_bytes)
qed

lemma be_bytes_read:
  assumes "8 dvd LENGTH('a)" "length bs = LENGTH('a::len) div 8"
  shows "be_bytes (foldl (\<lambda>v b. push_bit 8 v OR ucast b) (0 :: 'a word) bs) = bs"
proof (rule nth_equalityI)
  fix i assume i: "i < length (be_bytes (foldl (\<lambda>v b. push_bit 8 v OR ucast b) (0 :: 'a word) bs))"
  let ?n = "LENGTH('a) div 8"
  have len: "8 * ?n = LENGTH('a)" using assms(1) by simp
  from i have i': "i < ?n" by simp
  show "be_bytes (foldl (\<lambda>v b. push_bit 8 v OR ucast b) (0 :: 'a word) bs) ! i = bs ! i"
  proof (rule bit_word_eqI)
    fix j assume "j < LENGTH(8)"
    then have j: "j < 8" by simp
    have k: "(?n - 1 - i) * 8 + j < LENGTH('a)"
      using i' j len by linarith
    have "((?n - 1 - i) * 8 + j) div 8 = ?n - 1 - i" "((?n - 1 - i) * 8 + j) mod 8 = j"
      using j by simp_all
    then show "bit (be_bytes (foldl (\<lambda>v b. push_bit 8 v OR ucast b) (0 :: 'a word) bs) ! i) j = bit (bs ! i) j"
      using i' j k len assms(2) by (simp add: bit_be_bytes foldl_big_endian_bit)
  qed
qed (use assms in simp)


section \<open>Frames\<close>

lemma MessageType_cast_value [simp]: "MessageType_cast (MessageType_value t) = t"
  by (cases t) (simp_all add: MessageType_cast_def MessageType_values_def)

lemma isKnownMessageType_value [simp]: "isKnownMessageType (MessageType_value t)"
  by (cases t) (simp_all add: isKnownMessageType_def word_le_nat_alt)

lemma MessageType_value_cast:
  assumes "isKnownMessageType v"
  shows "MessageType_value (MessageType_cast v) = v"
proof -
  have "1 \<le> unat v" "unat v \<le> 16" using assms by (auto simp: isKnownMessageType_def word_le_nat_alt)
  then have "v = 1 \<or> v = 2 \<or> v = 3 \<or> v = 4 \<or> v = 5 \<or> v = 6 \<or> v = 7 \<or> v = 8 \<or> v = 9 \<or> v = 10 \<or>
      v = 11 \<or> v = 12 \<or> v = 13 \<or> v = 14 \<or> v = 15 \<or> v = 16"
    unfolding word_unat_eq_iff by simp presburger
  then show ?thesis
    by (elim disjE) (simp_all add: MessageType_cast_def MessageType_values_def)
qed

lemma readBigEndian_be_bytes:
  fixes v :: "'a::len word"
  assumes "8 dvd LENGTH('a)" "length pre = offset"
  shows "readBigEndian (pre @ be_bytes v @ post) offset = (v, offset + LENGTH('a) div 8)"
  using assms by (simp add: readBigEndian_def read_be_bytes)

lemma readBigEndian_fst:
  assumes "8 dvd LENGTH('a)" "offset + LENGTH('a) div 8 \<le> length bs"
  shows "be_bytes (fst (readBigEndian bs offset) :: 'a::len word)
    = take (LENGTH('a) div 8) (drop offset bs)"
  using assms by (simp add: readBigEndian_def be_bytes_read)

lemma readBigEndian_snd: "snd (readBigEndian bs offset :: 'a::len word \<times> nat) = offset + LENGTH('a) div 8"
  by (simp add: readBigEndian_def)

text \<open>The header of a frame, field by field, and the payload as bytes.\<close>

definition header_bytes :: "u32 \<Rightarrow> u16 \<Rightarrow> u16 \<Rightarrow> u32 \<Rightarrow> u64 \<Rightarrow> u32 \<Rightarrow> u64 \<Rightarrow> u8 list" where
  "header_bytes magic version message_type flags request_id payload_length generation =
     be_bytes magic @ be_bytes version @ be_bytes message_type @ be_bytes flags @
     be_bytes request_id @ be_bytes payload_length @ be_bytes generation"

lemma length_header_bytes [simp]: "length (header_bytes m v t f r p g) = 32"
  by (simp add: header_bytes_def)

lemma encode_accepted:
  assumes "frame_version f = kProtocolVersionNumber" "length (frame_payload f) \<le> kMaxPayloadSize"
  shows "encode f = \<lparr>enc_error = Error_success, enc_bytes =
     header_bytes kMagic (frame_version f) (MessageType_value (frame_message_type f)) (frame_flags f)
       (frame_request_id f) (of_nat (length (frame_payload f))) (frame_device_generation f) @
     map of_char (frame_payload f)\<rparr>"
proof -
  have "\<not> length (frame_payload f) > 2 ^ 32 - 1" using assms(2) by (simp add: kMaxPayloadSize_def)
  with assms show ?thesis
    by (simp add: encode_def appendBigEndian_be_bytes header_bytes_def Let_def)
qed

lemma readBigEndian_header:
  fixes magic flags plen :: u32 and version mtype :: u16 and rid gen :: u64 and rest :: "u8 list"
  defines "bs \<equiv> header_bytes magic version mtype flags rid plen gen @ rest"
  shows "readBigEndian bs 0 = (magic, 4)" "readBigEndian bs 4 = (version, 6)"
    "readBigEndian bs 6 = (mtype, 8)" "readBigEndian bs 8 = (flags, 12)"
    "readBigEndian bs 12 = (rid, 20)" "readBigEndian bs 20 = (plen, 24)"
    "readBigEndian bs 24 = (gen, 32)"
  by (simp_all add: bs_def header_bytes_def readBigEndian_def read_be_bytes)

lemma decode_header:
  "decode (header_bytes magic version mtype flags rid plen gen @ rest) =
     (if magic \<noteq> kMagic then decode_failed kProtocolMalformed ''UDS frame magic is invalid''
      else if version \<noteq> kProtocolVersionNumber
      then decode_failed kProtocolVersion ''unsupported UDS protocol version''
      else if \<not> isKnownMessageType mtype
      then decode_failed kProtocolMalformed ''UDS message type is invalid''
      else if unat plen > kMaxPayloadSize
      then decode_failed kPayloadTooLarge ''UDS payload exceeds limit''
      else if length rest \<noteq> unat plen
      then decode_failed kProtocolMalformed ''UDS payload length does not match frame''
      else \<lparr>dec_error = Error_success,
            dec_frame = Some \<lparr>frame_version = version, frame_message_type = MessageType_cast mtype,
              frame_flags = flags, frame_request_id = rid, frame_device_generation = gen,
              frame_payload = map (\<lambda>b. char_of (unat b)) rest\<rparr>\<rparr>)"
  unfolding decode_def
  by (simp add: readBigEndian_header kHeaderSize_def Let_def)

lemma cut_word:
  assumes "8 dvd LENGTH('a)" "k + LENGTH('a) div 8 \<le> length bs"
  shows "\<exists>v :: 'a::len word. drop k bs = be_bytes v @ drop (k + LENGTH('a) div 8) bs"
  using readBigEndian_fst [OF assms] by (metis append_take_drop_id drop_drop add.commute)

lemma split_header:
  assumes "kHeaderSize \<le> length bs"
  obtains magic version mtype flags rid plen gen rest
  where "bs = header_bytes magic version mtype flags rid plen gen @ rest"
proof -
  have len: "32 \<le> length bs" using assms by (simp add: kHeaderSize_def)
  obtain a :: u32 where a: "drop 0 bs = be_bytes a @ drop 4 bs"
    using cut_word [where 'a = 32 and k = 0 and bs = bs] len by auto
  obtain b :: u16 where b: "drop 4 bs = be_bytes b @ drop 6 bs"
    using cut_word [where 'a = 16 and k = 4 and bs = bs] len by auto
  obtain c :: u16 where c: "drop 6 bs = be_bytes c @ drop 8 bs"
    using cut_word [where 'a = 16 and k = 6 and bs = bs] len by auto
  obtain d :: u32 where d: "drop 8 bs = be_bytes d @ drop 12 bs"
    using cut_word [where 'a = 32 and k = 8 and bs = bs] len by auto
  obtain e :: u64 where e: "drop 12 bs = be_bytes e @ drop 20 bs"
    using cut_word [where 'a = 64 and k = 12 and bs = bs] len by auto
  obtain f :: u32 where f: "drop 20 bs = be_bytes f @ drop 24 bs"
    using cut_word [where 'a = 32 and k = 20 and bs = bs] len by auto
  obtain g :: u64 where g: "drop 24 bs = be_bytes g @ drop 32 bs"
    using cut_word [where 'a = 64 and k = 24 and bs = bs] len by auto
  have "bs = header_bytes a b c d e f g @ drop 32 bs"
    using a b c d e f g by (simp add: header_bytes_def)
  then show thesis by (rule that)
qed

lemma unat_of_char: "unat (of_char c :: u8) = of_char c"
  by (cases c) (simp add: of_char_def)

lemma char_of_unat_of_char [simp]: "char_of (unat (of_char c :: u8)) = c"
  by (simp add: unat_of_char)

lemma of_char_char_of_unat [simp]: "of_char (char_of (unat b)) = (b :: u8)"
proof -
  have "unat b < 256" using unsigned_less [of b, where 'a = nat] by simp
  then have "(of_char (char_of (unat b)) :: nat) = unat b" by simp
  then have "unat (of_char (char_of (unat b)) :: u8) = unat b"
    by (simp add: unat_of_char)
  then show ?thesis by (simp add: word_unat_eq_iff)
qed

lemma map_of_char_char_of [simp]: "map (of_char \<circ> (\<lambda>b :: u8. char_of (unat b))) bs = (bs :: u8 list)"
  by (induction bs) simp_all

lemma map_char_of_of_char [simp]: "map ((\<lambda>b. char_of (unat b)) \<circ> (of_char :: char \<Rightarrow> u8)) s = s"
  by (induction s) simp_all

lemma encode_ok_cases:
  "EncodeResult_ok (encode f) \<longleftrightarrow>
     frame_version f = kProtocolVersionNumber \<and> length (frame_payload f) \<le> kMaxPayloadSize"
proof (cases "frame_version f = kProtocolVersionNumber \<and> length (frame_payload f) \<le> kMaxPayloadSize")
  case True
  then show ?thesis by (simp add: encode_accepted EncodeResult_ok_def Error_ok_def Error_success_def)
next
  case False
  then show ?thesis
    by (auto simp: encode_def EncodeResult_ok_def Error_ok_def protocolError_def not_le Let_def)
qed

lemma unat_payload_length:
  "length s \<le> kMaxPayloadSize \<Longrightarrow> unat (of_nat (length s) :: u32) = length s"
  by (simp add: kMaxPayloadSize_def unat_of_nat)

lemma decode_encode:
  assumes "EncodeResult_ok (encode f)"
  shows "decode (enc_bytes (encode f)) = \<lparr>dec_error = Error_success, dec_frame = Some f\<rparr>"
proof -
  from assms have v: "frame_version f = kProtocolVersionNumber"
    and p: "length (frame_payload f) \<le> kMaxPayloadSize" by (simp_all add: encode_ok_cases)
  show ?thesis
    using v p by (simp add: encode_accepted decode_header unat_payload_length)
qed

lemma decode_failed_not_ok [simp]:
  "c \<noteq> kOk \<Longrightarrow> \<not> DecodeResult_ok (decode_failed c m)" "dec_frame (decode_failed c m) = None"
  by (simp_all add: DecodeResult_ok_def decode_failed_def)

lemma decode_Some:
  assumes "dec_frame (decode bs) = Some f"
  shows "encode f = \<lparr>enc_error = Error_success, enc_bytes = bs\<rparr>"
proof -
  have "kHeaderSize \<le> length bs"
    using assms by (rule contrapos_pp) (simp add: decode_def)
  then obtain magic version mtype flags rid plen gen rest
    where bs: "bs = header_bytes magic version mtype flags rid plen gen @ rest"
    by (rule split_header)
  with assms have c: "magic = kMagic" "version = kProtocolVersionNumber" "isKnownMessageType mtype"
    "unat plen \<le> kMaxPayloadSize" "length rest = unat plen"
    and f: "f = \<lparr>frame_version = version, frame_message_type = MessageType_cast mtype,
              frame_flags = flags, frame_request_id = rid, frame_device_generation = gen,
              frame_payload = map (\<lambda>b. char_of (unat b)) rest\<rparr>"
    by (auto simp: decode_header split: if_splits)
  then show ?thesis
    by (simp add: encode_accepted MessageType_value_cast bs)
qed

section \<open>Properties\<close>

text \<open>C14: encoding and decoding of frames are inverse bijections: a byte string decodes to a frame
  exactly when encoding that frame yields that byte string. Every encoded frame is decoded to itself,
  and the decoder accepts no byte string other than the encoder's output.\<close>

theorem frame_codec_inverse:
  "decode bytes = \<lparr>dec_error = Error_success, dec_frame = Some f\<rparr> \<longleftrightarrow>
   encode f = \<lparr>enc_error = Error_success, enc_bytes = bytes\<rparr>"
proof
  assume "decode bytes = \<lparr>dec_error = Error_success, dec_frame = Some f\<rparr>"
  then show "encode f = \<lparr>enc_error = Error_success, enc_bytes = bytes\<rparr>" by (simp add: decode_Some)
next
  assume e: "encode f = \<lparr>enc_error = Error_success, enc_bytes = bytes\<rparr>"
  then have "EncodeResult_ok (encode f)"
    by (simp add: EncodeResult_ok_def Error_ok_def Error_success_def)
  then show "decode bytes = \<lparr>dec_error = Error_success, dec_frame = Some f\<rparr>"
    using decode_encode [of f] e by simp
qed

text \<open>Encoding succeeds exactly for frames of the supported version with a payload of at most
  1 MiB; a success produces 32 bytes of header and the payload. The version is checked first, and a
  failure produces no bytes and the error code of the violated limit.\<close>

lemma encode_outcome:
  "if frame_version f \<noteq> 1 then err_code (enc_error (encode f)) = kProtocolVersion \<and> enc_bytes (encode f) = []
   else if 1048576 < length (frame_payload f)
   then err_code (enc_error (encode f)) = kPayloadTooLarge \<and> enc_bytes (encode f) = []
   else EncodeResult_ok (encode f) \<and> length (enc_bytes (encode f)) = 32 + length (frame_payload f)"
proof (cases "frame_version f = 1 \<and> length (frame_payload f) \<le> 1048576")
  case True
  then show ?thesis
    using encode_accepted [of f] encode_ok_cases [of f]
    by (simp add: kProtocolVersionNumber_def kMaxPayloadSize_def)
next
  case False
  then show ?thesis
    by (auto simp: encode_def protocolError_def kProtocolVersionNumber_def kMaxPayloadSize_def)
qed

text \<open>The decoder is total on untrusted bytes: it either returns a frame with a payload within
  the limit, or reports one of the three protocol errors and no frame; a frame is returned exactly
  when the result is reported as ok.\<close>

lemma decode_total:
  "(DecodeResult_ok (decode bytes) \<and>
      (\<exists>f. dec_frame (decode bytes) = Some f \<and> frame_version f = 1 \<and>
         length bytes = 32 + length (frame_payload f) \<and> length (frame_payload f) \<le> 1048576)) \<noteq>
   (dec_frame (decode bytes) = None \<and>
      err_code (dec_error (decode bytes)) \<in> {kProtocolMalformed, kProtocolVersion, kPayloadTooLarge})"
proof (cases "kHeaderSize \<le> length bytes")
  case False
  then show ?thesis by (simp add: decode_def decode_failed_def protocolError_def DecodeResult_ok_def)
next
  case True
  then obtain magic version mtype flags rid plen gen rest
    where bs: "bytes = header_bytes magic version mtype flags rid plen gen @ rest"
    by (rule split_header)
  show ?thesis
    by (simp add: bs decode_header decode_failed_def protocolError_def DecodeResult_ok_def
          Error_ok_def Error_success_def kProtocolVersionNumber_def kMaxPayloadSize_def)
qed

end
