(* ===== verification/Uds_Server.thy ===== *)
theory Uds_Server
  imports Device_Api Uds_Json Uds_Codec
begin

text \<open>
  The server side of the device protocol (\<open>cpp/src/uds_server.cpp\<close>): \<open>dispatch\<close> answers one
  request frame on the simulated device, \<open>serveClient\<close> runs the packets of one connection. The socket
  calls are inputs: what \<open>recv\<close> delivers and whether \<open>send\<close> took the whole packet. The listening
  socket and the threads of the server are in \<open>Uds_Lifecycle\<close>; the clients' calls reach the device one
  at a time, since the device holds its mutex over each call.
\<close>

section \<open>Model\<close>

record UdsServer =
  srv_device :: SimulatedOcsDevice
  srv_drop_next_apply_reply :: bool

definition default_Frame :: Frame where
  "default_Frame = \<lparr>frame_version = kProtocolVersionNumber, frame_message_type = kHello,
     frame_flags = 0, frame_request_id = 0, frame_device_generation = 0, frame_payload = []\<rparr>"

definition errorReply :: "'j json_api \<Rightarrow> Frame \<Rightarrow> Error \<Rightarrow> u64 \<Rightarrow> Frame result" where
  "errorReply J request e generation =
     bindE (encodeError J e) (\<lambda>payload.
     Inr (default_Frame\<lparr>frame_message_type := kErrorReply, frame_request_id := frame_request_id request,
                        frame_device_generation := generation, frame_payload := payload\<rparr>))"

definition reply_with :: "Frame \<Rightarrow> MessageType \<Rightarrow> string result \<Rightarrow> Frame result" where
  "reply_with response t payload =
     bindE payload (\<lambda>p. Inr (response\<lparr>frame_message_type := t, frame_payload := p\<rparr>))"

text \<open>The \<open>try\<close> block of \<open>dispatch\<close>: the switch over the request type.\<close>

fun dispatch_try ::
  "'j json_api \<Rightarrow> Frame \<Rightarrow> Frame \<Rightarrow> u64 \<Rightarrow> MessageType \<Rightarrow> SimulatedOcsDevice \<Rightarrow>
   (Frame result \<times> SimulatedOcsDevice) option" where
  "dispatch_try J request response generation kHello d =
     Some (reply_with response kHelloReply (encodeDeviceInfo J (getDeviceInfo d)), d)"
| "dispatch_try J request response generation kGetDeviceInfo d =
     Some (reply_with response kDeviceInfoReply (encodeDeviceInfo J (getDeviceInfo d)), d)"
| "dispatch_try J request response generation kApplyConnections d =
     (case decodeApplyRequest J (frame_payload request) of
        Inl e \<Rightarrow> Some (Inl e, d)
      | Inr apply \<Rightarrow>
          (case applyConnections (areq_commands apply) (areq_options apply) d of (r, d') \<Rightarrow>
             Some (reply_with response kApplyResult (bindE r (encodeApplyResult J)), d')))"
| "dispatch_try J request response generation kGetConnections d =
     Some (reply_with response kConnectionsReply (encodeConnections J (getConnections d)), d)"
| "dispatch_try J request response generation kGetPortState d =
     (case decodePortRequest J (frame_payload request) of
        Inl e \<Rightarrow> Some (Inl e, d)
      | Inr port \<Rightarrow>
          Some (reply_with response kPortStateReply
                  (bindE (getPortState (preq_direction port) (preq_port_id port) d) (encodePortState J)), d))"
| "dispatch_try J request response generation kReset d =
     (case decodeResetRequest J (frame_payload request) of
        Inl e \<Rightarrow> Some (Inl e, d)
      | Inr mode \<Rightarrow> map_option (\<lambda>(r, d').
          (reply_with (response\<lparr>frame_device_generation := rr_generation r\<rparr>) kResetResult
             (encodeResetResult J r), d')) (reset mode d))"
| "dispatch_try J request response generation kInjectFault d =
     (case decodeFaultRequest J (frame_payload request) of
        Inl e \<Rightarrow> Some (Inl e, d)
      | Inr fault \<Rightarrow>
          (case (if freq_clear fault then clearFault (freq_fault fault) d
                 else injectFault (freq_fault fault) d) of (r, d') \<Rightarrow>
             Some (reply_with response kFaultResult (bindE r (encodeFaultResult J)), d')))"
| "dispatch_try J request response generation unsupported d =
     Some (errorReply J request (makeError kUnsupported ''UDS request type is not supported'') generation, d)"

definition dispatch ::
  "'j json_api \<Rightarrow> Frame \<Rightarrow> SimulatedOcsDevice \<Rightarrow> (Frame result \<times> SimulatedOcsDevice) option" where
  "dispatch J request d =
     (let generation = di_generation (getDeviceInfo d);
          response = default_Frame\<lparr>frame_request_id := frame_request_id request,
                                   frame_device_generation := generation\<rparr>
      in map_option (\<lambda>(r, d').
           (case r of
              Inl e \<Rightarrow> errorReply J request (makeError kProtocolMalformed (what e)) generation
            | Inr f \<Rightarrow> Inr f, d'))
         (dispatch_try J request response generation (frame_message_type request) d))"

text \<open>
  One iteration of \<open>serveClient\<close> on a packet of \<open>recv\<close>: \<open>Some bytes\<close> is what goes to \<open>send\<close>,
  \<open>None\<close> that the connection is closed. A packet longer than the buffer is reported with its full
  length (\<open>MSG_TRUNC\<close>).
\<close>

definition serve_packet ::
  "'j json_api \<Rightarrow> u8 list \<Rightarrow> UdsServer \<Rightarrow> (u8 list option result \<times> UdsServer) option" where
  "serve_packet J packet s =
     (if packet = [] \<or> length packet > kHeaderSize + kMaxPayloadSize then Some (Inr None, s)
      else
        let decoded = decode packet in
        case dec_frame decoded of
          None \<Rightarrow> Some (Inr None, s)
        | Some frame \<Rightarrow>
            if \<not> DecodeResult_ok decoded then Some (Inr None, s)
            else map_option (\<lambda>(r, d').
              let s' = s\<lparr>srv_device := d'\<rparr> in
              case r of
                Inl e \<Rightarrow> (Inl e, s')
              | Inr response \<Rightarrow>
                  if frame_message_type frame = kApplyConnections \<and> srv_drop_next_apply_reply s'
                  then (Inr None, s'\<lparr>srv_drop_next_apply_reply := False\<rparr>)
                  else
                    let encoded = encode response in
                    if \<not> EncodeResult_ok encoded then (Inr None, s')
                    else (Inr (Some (enc_bytes encoded)), s'))
              (dispatch J frame (srv_device s)))"

text \<open>
  The loop of \<open>serveClient\<close> over the packets a connection delivers, each with the answer of \<open>send\<close>;
  the end of the list is the end of the connection or the stop request. The result is the list of
  packets sent, and the exception that left the loop, if any.
\<close>

fun serveClient ::
  "'j json_api \<Rightarrow> (u8 list \<times> bool) list \<Rightarrow> UdsServer \<Rightarrow> ((exn option \<times> u8 list list) \<times> UdsServer) option" where
  "serveClient J [] s = Some ((None, []), s)"
| "serveClient J ((packet, send_ok) # rest) s =
     (case serve_packet J packet s of
        None \<Rightarrow> None
      | Some (Inl e, s') \<Rightarrow> Some ((Some e, []), s')
      | Some (Inr None, s') \<Rightarrow> Some ((None, []), s')
      | Some (Inr (Some bytes), s') \<Rightarrow>
          if send_ok
          then map_option (\<lambda>((e, sent), s'). ((e, bytes # sent), s')) (serveClient J rest s')
          else Some ((None, [bytes]), s'))"

section \<open>Facts\<close>

text \<open>The response type that answers a request.\<close>

fun reply_type_of :: "MessageType \<Rightarrow> MessageType" where
  "reply_type_of kHello = kHelloReply"
| "reply_type_of kGetDeviceInfo = kDeviceInfoReply"
| "reply_type_of kApplyConnections = kApplyResult"
| "reply_type_of kGetConnections = kConnectionsReply"
| "reply_type_of kGetPortState = kPortStateReply"
| "reply_type_of kReset = kResetResult"
| "reply_type_of kInjectFault = kFaultResult"
| "reply_type_of _ = kErrorReply"

lemma reply_with_Inr: "reply_with response t p = Inr f \<longleftrightarrow>
    (\<exists>s. p = Inr s \<and> f = response\<lparr>frame_message_type := t, frame_payload := s\<rparr>)"
  by (auto simp: reply_with_def exn_simps)

lemma errorReply_Inr: "errorReply J request e g = Inr f \<longleftrightarrow>
    (\<exists>s. encodeError J e = Inr s \<and>
       f = default_Frame\<lparr>frame_message_type := kErrorReply, frame_request_id := frame_request_id request,
                         frame_device_generation := g, frame_payload := s\<rparr>)"
  by (auto simp: errorReply_def exn_simps)

lemma dispatch_try_reply:
  assumes "dispatch_try J request (default_Frame\<lparr>frame_request_id := frame_request_id request,
      frame_device_generation := g\<rparr>) g t d = Some (Inr f, d')"
  shows "frame_request_id f = frame_request_id request \<and> frame_version f = 1 \<and> frame_flags f = 0 \<and>
    frame_message_type f = reply_type_of t"
  using assms
  by (cases t)
     (auto simp: reply_with_Inr errorReply_Inr default_Frame_def kProtocolVersionNumber_def
        split: sum.splits prod.splits if_splits)

lemma dispatch_try_device:
  assumes "device_ok d" "dispatch_try J request response g t d = Some (r, d')"
  shows "device_ok d'"
  using assms
  by (cases t)
     (auto split: sum.splits prod.splits if_splits
        dest: device_ok_applyConnections device_ok_reset device_ok_injectFault device_ok_clearFault)

lemma dispatch_try_returns:
  assumes "device_ok d"
  shows "\<exists>r d'. dispatch_try J request response g t d = Some (r, d')"
proof (cases t)
  case kReset
  show ?thesis
  proof (cases "decodeResetRequest J (frame_payload request)")
    case (Inr mode)
    from reset_returns [OF assms] obtain r d' where "reset mode d = Some (r, d')" by blast
    with Inr kReset show ?thesis by simp
  qed (simp add: kReset)
qed (auto split: sum.splits prod.splits)

end
