(* ===== verification/State_Exn.thy ===== *)
theory State_Exn
  imports Prelude
begin

text \<open>
  Stateful code that may throw: a computation maps a state to a result and the state it leaves,
  and the state changed before a throw stays changed.
\<close>

section \<open>The state and exception monad\<close>

type_synonym ('s, 'a) sexn = "'s \<Rightarrow> 'a result \<times> 's"

definition returnS :: "'a \<Rightarrow> ('s, 'a) sexn" where
  "returnS x s = (Inr x, s)"

definition throwS :: "exn \<Rightarrow> ('s, 'a) sexn" where
  "throwS e s = (Inl e, s)"

definition bindS :: "('s, 'a) sexn \<Rightarrow> ('a \<Rightarrow> ('s, 'b) sexn) \<Rightarrow> ('s, 'b) sexn" where
  "bindS m f s = (case m s of (Inl e, s') \<Rightarrow> (Inl e, s') | (Inr x, s') \<Rightarrow> f x s')"

definition thenS :: "('s, 'a) sexn \<Rightarrow> ('s, 'b) sexn \<Rightarrow> ('s, 'b) sexn" where
  "thenS m n = bindS m (\<lambda>_. n)"

definition getS :: "('s \<Rightarrow> 'a) \<Rightarrow> ('s, 'a) sexn" where
  "getS f s = (Inr (f s), s)"

definition modifyS :: "('s \<Rightarrow> 's) \<Rightarrow> ('s, unit) sexn" where
  "modifyS f s = (Inr (), f s)"

definition liftE :: "'a result \<Rightarrow> ('s, 'a) sexn" where
  "liftE r s = (r, s)"

definition whenS :: "bool \<Rightarrow> ('s, unit) sexn \<Rightarrow> ('s, unit) sexn" where
  "whenS b m = (if b then m else returnS ())"

definition catchS :: "('s, 'a) sexn \<Rightarrow> (exn \<Rightarrow> ('s, 'a) sexn) \<Rightarrow> ('s, 'a) sexn" where
  "catchS m h s = (case m s of (Inl e, s') \<Rightarrow> h e s' | (Inr x, s') \<Rightarrow> (Inr x, s'))"

text \<open>\<open>catch (const std::exception&)\<close>.\<close>

definition catch_std :: "('s, 'a) sexn \<Rightarrow> (exn \<Rightarrow> ('s, 'a) sexn) \<Rightarrow> ('s, 'a) sexn" where
  "catch_std m h = catchS m (\<lambda>e. if std_exception e then h e else throwS e)"

text \<open>A range-based \<open>for\<close> over a sequence.\<close>

fun forS :: "'a list \<Rightarrow> ('a \<Rightarrow> ('s, unit) sexn) \<Rightarrow> ('s, unit) sexn" where
  "forS [] f = returnS ()"
| "forS (x # xs) f = thenS (f x) (forS xs f)"

fun mapS :: "('a \<Rightarrow> ('s, 'b) sexn) \<Rightarrow> 'a list \<Rightarrow> ('s, 'b list) sexn" where
  "mapS f [] = returnS []"
| "mapS f (x # xs) = bindS (f x) (\<lambda>y. bindS (mapS f xs) (\<lambda>ys. returnS (y # ys)))"

named_theorems sexn_simps

lemma bindS_Inr:
  "bindS m f s = (Inr y, t) \<longleftrightarrow> (\<exists>x s'. m s = (Inr x, s') \<and> f x s' = (Inr y, t))"
  by (auto simp: bindS_def split: prod.splits sum.splits)

lemma bindS_Inl:
  "bindS m f s = (Inl e, t) \<longleftrightarrow> m s = (Inl e, t) \<or> (\<exists>x s'. m s = (Inr x, s') \<and> f x s' = (Inl e, t))"
  by (auto simp: bindS_def split: prod.splits sum.splits)

lemma bindS_assoc: "bindS (bindS m f) g = bindS m (\<lambda>x. bindS (f x) g)"
  by (rule ext) (simp add: bindS_def split: prod.splits sum.splits)

lemma bindS_run [sexn_simps]: "m s = (Inr x, s') \<Longrightarrow> bindS m f s = f x s'"
  by (simp add: bindS_def)

lemma bindS_throw [sexn_simps]: "m s = (Inl e, s') \<Longrightarrow> bindS m f s = (Inl e, s')"
  by (simp add: bindS_def)

lemma returnS_run [sexn_simps]: "returnS x s = (Inr x, s)"
  by (simp add: returnS_def)

lemma throwS_run [sexn_simps]: "throwS e s = (Inl e, s)"
  by (simp add: throwS_def)

lemma getS_run [sexn_simps]: "getS f s = (Inr (f s), s)"
  by (simp add: getS_def)

lemma modifyS_run [sexn_simps]: "modifyS f s = (Inr (), f s)"
  by (simp add: modifyS_def)

lemma liftE_run [sexn_simps]: "liftE r s = (r, s)"
  by (simp add: liftE_def)

lemma whenS_run [sexn_simps]: "whenS b m s = (if b then m s else (Inr (), s))"
  by (simp add: whenS_def returnS_def)

text \<open>
  An invariant of the state kept by a computation, whether it returns or throws, and the rules
  that compose it.
\<close>

definition keeps :: "('s \<Rightarrow> bool) \<Rightarrow> ('s, 'a) sexn \<Rightarrow> bool" where
  "keeps P m \<longleftrightarrow> (\<forall>s. P s \<longrightarrow> P (snd (m s)))"

lemma keepsI: "(\<And>s r s'. P s \<Longrightarrow> m s = (r, s') \<Longrightarrow> P s') \<Longrightarrow> keeps P m"
  by (auto simp: keeps_def) (metis prod.collapse)

lemma keepsD: "keeps P m \<Longrightarrow> P s \<Longrightarrow> m s = (r, s') \<Longrightarrow> P s'"
  by (auto simp: keeps_def)

lemma keeps_bindS [intro]: "keeps P m \<Longrightarrow> (\<And>x. keeps P (f x)) \<Longrightarrow> keeps P (bindS m f)"
  by (fastforce simp: keeps_def bindS_def split: prod.splits sum.splits)

lemma keeps_thenS [intro]: "keeps P m \<Longrightarrow> keeps P n \<Longrightarrow> keeps P (thenS m n)"
  by (simp add: thenS_def keeps_bindS)

lemma keeps_pure [simp, intro]:
  "keeps P (returnS x)" "keeps P (throwS e)" "keeps P (getS f)" "keeps P (liftE r)"
  by (simp_all add: keeps_def returnS_def throwS_def getS_def liftE_def)

lemma keeps_whenS [intro]: "keeps P m \<Longrightarrow> keeps P (whenS b m)"
  by (simp add: whenS_def)

lemma keeps_modifyS: "(\<And>s. P s \<Longrightarrow> P (f s)) \<Longrightarrow> keeps P (modifyS f)"
  by (simp add: keeps_def modifyS_def)

lemma keeps_catchS [intro]: "keeps P m \<Longrightarrow> (\<And>e. keeps P (h e)) \<Longrightarrow> keeps P (catchS m h)"
  by (fastforce simp: keeps_def catchS_def split: prod.splits sum.splits)

lemma keeps_forS [intro]: "(\<And>x. keeps P (f x)) \<Longrightarrow> keeps P (forS xs f)"
  by (induction xs) auto

lemma keeps_mapS [intro]: "(\<And>x. keeps P (f x)) \<Longrightarrow> keeps P (mapS f xs)"
  by (induction xs) auto

text \<open>The rules of the branching constructs; with the ones above they take a program apart.\<close>

lemma keeps_if: "(b \<Longrightarrow> keeps P m) \<Longrightarrow> (\<not> b \<Longrightarrow> keeps P n) \<Longrightarrow> keeps P (if b then m else n)"
  by simp

lemma keeps_case_option:
  "keeps P m \<Longrightarrow> (\<And>x. keeps P (f x)) \<Longrightarrow> keeps P (case opt of None \<Rightarrow> m | Some x \<Rightarrow> f x)"
  by (cases opt) simp_all

lemma keeps_case_list:
  "keeps P m \<Longrightarrow> (\<And>x xs. keeps P (f x xs)) \<Longrightarrow> keeps P (case ys of [] \<Rightarrow> m | x # xs \<Rightarrow> f x xs)"
  by (cases ys) simp_all

lemma keeps_case_sum:
  "(\<And>e. keeps P (f e)) \<Longrightarrow> (\<And>x. keeps P (g x)) \<Longrightarrow> keeps P (case r of Inl e \<Rightarrow> f e | Inr x \<Rightarrow> g x)"
  by (cases r) simp_all

lemma keeps_case_prod: "(\<And>x y. keeps P (f x y)) \<Longrightarrow> keeps P (case z of (x, y) \<Rightarrow> f x y)"
  by (cases z) simp

lemma keeps_Let: "keeps P (f t) \<Longrightarrow> keeps P (let x = t in f x)"
  by (simp add: Let_def)

lemmas keeps_rules =
  keeps_pure keeps_bindS keeps_thenS keeps_catchS keeps_forS keeps_mapS keeps_whenS keeps_if
  keeps_case_option keeps_case_list keeps_case_sum keeps_case_prod keeps_Let

text \<open>
  The same with a property of the returned value: the invariant holds afterwards in any case, and a
  value that is returned has the property.
\<close>

definition yields :: "('s \<Rightarrow> bool) \<Rightarrow> ('s, 'a) sexn \<Rightarrow> ('a \<Rightarrow> bool) \<Rightarrow> bool" where
  "yields P m Q \<longleftrightarrow> (\<forall>s r s'. P s \<longrightarrow> m s = (r, s') \<longrightarrow> P s' \<and> (\<forall>x. r = Inr x \<longrightarrow> Q x))"

lemma yieldsI:
  "(\<And>s r s'. P s \<Longrightarrow> m s = (r, s') \<Longrightarrow> P s' \<and> (\<forall>x. r = Inr x \<longrightarrow> Q x)) \<Longrightarrow> yields P m Q"
  by (simp add: yields_def)

lemma keeps_yields: "yields P m Q \<Longrightarrow> keeps P m"
  unfolding yields_def keeps_def by (metis prod.collapse)

lemma yields_keeps: "keeps P m \<Longrightarrow> (\<And>x. Q x) \<Longrightarrow> yields P m Q"
  unfolding yields_def keeps_def by (metis snd_conv)

lemma yields_bindS: "yields P m Q \<Longrightarrow> (\<And>x. Q x \<Longrightarrow> yields P (f x) T) \<Longrightarrow> yields P (bindS m f) T"
proof (rule yieldsI)
  fix s r s' assume m: "yields P m Q" and f: "\<And>x. Q x \<Longrightarrow> yields P (f x) T" and s: "P s" "bindS m f s = (r, s')"
  obtain q s1 where 1: "m s = (q, s1)" by (rule prod.exhaust)
  then have q: "P s1" "\<forall>x. q = Inr x \<longrightarrow> Q x" using m s(1) by (auto simp: yields_def)
  show "P s' \<and> (\<forall>x. r = Inr x \<longrightarrow> T x)"
  proof (cases q)
    case (Inl e)
    with 1 s(2) q show ?thesis by (auto simp: bindS_def)
  next
    case (Inr x)
    with 1 s(2) have "f x s1 = (r, s')" by (simp add: bindS_def)
    with f [of x] q Inr show ?thesis unfolding yields_def by blast
  qed
qed

lemma keeps_bindS_yields: "yields P m Q \<Longrightarrow> (\<And>x. Q x \<Longrightarrow> keeps P (f x)) \<Longrightarrow> keeps P (bindS m f)"
  by (rule keeps_yields [where Q = "\<lambda>_. True"], erule yields_bindS) (simp add: yields_keeps)

lemma yields_thenS: "keeps P m \<Longrightarrow> yields P n T \<Longrightarrow> yields P (thenS m n) T"
  by (simp add: thenS_def yields_bindS [where Q = "\<lambda>_. True"] yields_keeps)

lemma yields_returnS: "Q x \<Longrightarrow> yields P (returnS x) Q"
  by (simp add: yields_def returnS_def)

lemma yields_throwS: "yields P (throwS e) Q"
  by (simp add: yields_def throwS_def)

lemma yields_liftE: "(\<And>x. r = Inr x \<Longrightarrow> Q x) \<Longrightarrow> yields P (liftE r) Q"
  by (simp add: yields_def liftE_def)

lemma yields_if: "(b \<Longrightarrow> yields P m Q) \<Longrightarrow> (\<not> b \<Longrightarrow> yields P n Q) \<Longrightarrow> yields P (if b then m else n) Q"
  by simp

lemma yields_mapS: "(\<And>x. yields P (f x) (Q x)) \<Longrightarrow> yields P (mapS f xs) (list_all2 Q xs)"
proof (induction xs)
  case (Cons x xs)
  then show ?case
    by (auto intro!: yields_bindS [where Q = "Q x"] yields_bindS [where Q = "list_all2 Q xs"] yields_returnS)
qed (simp add: yields_returnS)

end
