(* ===== verification/Uds_Backend.thy ===== *)
theory Uds_Backend
  imports State_Exn Device_Api Uds_Json Uds_Codec
begin

text \<open>
  The client side of the device protocol (\<open>cpp/src/uds_device_backend.cpp\<close>): the implementation of
  \<open>OcsDeviceApi\<close> that connects lazily, says hello, matches replies to requests by id, and repeats a
  failed exchange once when the request only reads. The socket calls of the operating system are
  a parameter: a record of functions over a world that holds whatever is behind the socket.
\<close>

section \<open>Model\<close>

text \<open>
  Return values are those of the system calls; \<open>os_recv\<close> returns with \<open>MSG_TRUNC\<close> the real length of
  the packet, and the bytes it wrote into a buffer of the given size.
\<close>

record 'w os_api =
  os_socket :: "'w \<Rightarrow> int \<times> 'w"
  os_setsockopt :: "int \<Rightarrow> string \<Rightarrow> int \<times> int \<Rightarrow> 'w \<Rightarrow> int \<times> 'w"
  os_connect :: "int \<Rightarrow> string \<Rightarrow> 'w \<Rightarrow> int \<times> 'w"
  os_close :: "int \<Rightarrow> 'w \<Rightarrow> 'w"
  os_send :: "int \<Rightarrow> u8 list \<Rightarrow> 'w \<Rightarrow> int \<times> 'w"
  os_recv :: "int \<Rightarrow> nat \<Rightarrow> 'w \<Rightarrow> (int \<times> u8 list) \<times> 'w"
  os_errno :: "'w \<Rightarrow> int"
  os_strerror :: "int \<Rightarrow> string"
  os_EAGAIN :: int

record 'w UdsDeviceBackend =
  be_socket_path :: string
  be_timeout :: int
  be_socket_fd :: int
  be_next_request_id :: u64
  be_device_generation :: u64
  be_world :: 'w

definition sun_path_size :: nat where
  "sun_path_size = 108"

definition UdsDeviceBackend_new :: "string \<Rightarrow> int \<Rightarrow> 'w \<Rightarrow> 'w UdsDeviceBackend result" where
  "UdsDeviceBackend_new socket_path timeout w =
     (if socket_path = [] \<or> length socket_path \<ge> sun_path_size
      then Inl (Invalid_argument ''UDS socket path is invalid'')
      else if timeout \<le> 0 then Inl (Invalid_argument ''UDS timeout must be positive'')
      else Inr \<lparr>be_socket_path = socket_path, be_timeout = timeout, be_socket_fd = - 1,
                be_next_request_id = 1, be_device_generation = 0, be_world = w\<rparr>)"

definition decode_error :: "Error \<Rightarrow> DecodeResult" where
  "decode_error e = \<lparr>dec_error = e, dec_frame = None\<rparr>"

text \<open>A system call acts on the world of the backend.\<close>

definition syscall :: "('w \<Rightarrow> 'a \<times> 'w) \<Rightarrow> ('w UdsDeviceBackend, 'a) sexn" where
  "syscall f b = (case f (be_world b) of (x, w) \<Rightarrow> (Inr x, b\<lparr>be_world := w\<rparr>))"

definition errno_of :: "'w os_api \<Rightarrow> ('w UdsDeviceBackend, int) sexn" where
  "errno_of os = getS (\<lambda>b. os_errno os (be_world b))"

definition closeLocked :: "'w os_api \<Rightarrow> ('w UdsDeviceBackend, unit) sexn" where
  "closeLocked os = modifyS (\<lambda>b.
     if be_socket_fd b \<ge> 0
     then b\<lparr>be_world := os_close os (be_socket_fd b) (be_world b), be_socket_fd := - 1\<rparr> else b)"

definition next_request_id :: "('w UdsDeviceBackend, u64) sexn" where
  "next_request_id b = (Inr (be_next_request_id b), b\<lparr>be_next_request_id := be_next_request_id b + 1\<rparr>)"

definition receiveLocked ::
  "'j json_api \<Rightarrow> 'w os_api \<Rightarrow> Frame \<Rightarrow> MessageType \<Rightarrow> ('w UdsDeviceBackend, DecodeResult) sexn" where
  "receiveLocked J os request response_type =
     bindS (getS be_socket_fd) (\<lambda>fd.
     bindS (syscall (os_recv os fd (kHeaderSize + kMaxPayloadSize))) (\<lambda>(received, bytes).
     if received \<le> 0 then
       bindS (errno_of os) (\<lambda>err.
       returnS (decode_error (makeError (if err = os_EAGAIN os then kApplyTimeout else kDeviceNotReady)
         (if received = 0 then ''UDS peer disconnected'' else os_strerror os err))))
     else if nat received > kHeaderSize + kMaxPayloadSize then
       returnS (decode_error (makeError kPayloadTooLarge ''UDS response packet exceeds limit''))
     else
       let buffer = take (nat received) (bytes @ replicate (nat received - length bytes) 0);
           decoded = decode buffer in
       case dec_frame decoded of
         None \<Rightarrow> returnS decoded
       | Some frame \<Rightarrow>
           if \<not> DecodeResult_ok decoded then returnS decoded
           else if frame_request_id frame \<noteq> frame_request_id request then
             returnS (decode_error (makeError kProtocolMalformed ''UDS response request ID mismatch''))
           else if frame_message_type frame = kErrorReply then
             bindS (liftE (decodeError J (frame_payload frame))) (\<lambda>e. returnS (decode_error e))
           else if frame_message_type frame \<noteq> response_type then
             returnS (decode_error (makeError kProtocolMalformed ''UDS response type mismatch''))
           else returnS decoded))"

definition sendAndReceiveLocked ::
  "'j json_api \<Rightarrow> 'w os_api \<Rightarrow> Frame \<Rightarrow> MessageType \<Rightarrow> ('w UdsDeviceBackend, DecodeResult) sexn" where
  "sendAndReceiveLocked J os request response_type =
     (let encoded = encode request in
      if \<not> EncodeResult_ok encoded then returnS (decode_error (enc_error encoded))
      else
        bindS (getS be_socket_fd) (\<lambda>fd.
        bindS (syscall (os_send os fd (enc_bytes encoded))) (\<lambda>sent.
        if sent \<noteq> int (length (enc_bytes encoded)) then
          bindS (errno_of os) (\<lambda>err.
          returnS (decode_error (makeError kDeviceNotReady (os_strerror os err))))
        else receiveLocked J os request response_type)))"

definition client_frame :: "MessageType \<Rightarrow> u64 \<Rightarrow> u64 \<Rightarrow> string \<Rightarrow> Frame" where
  "client_frame t request_id generation payload =
     \<lparr>frame_version = kProtocolVersionNumber, frame_message_type = t, frame_flags = 0,
      frame_request_id = request_id, frame_device_generation = generation, frame_payload = payload\<rparr>"

definition socket_timeout :: "int \<Rightarrow> int \<times> int" where
  "socket_timeout timeout = (timeout div 1000, (timeout * 1000) mod 1000000)"

text \<open>The greeting, once the socket is connected.\<close>

definition hello_text :: string where
  "hello_text = [CHR 0x7B, CHR 0x22] @ ''client'' @ [CHR 0x22, CHR 0x3A, CHR 0x22] @ ''ocs-syncd'' @ [CHR 0x22, CHR 0x7D]"

definition helloLocked :: "'j json_api \<Rightarrow> 'w os_api \<Rightarrow> ('w UdsDeviceBackend, Error) sexn" where
  "helloLocked J os =
     bindS next_request_id (\<lambda>request_id.
     bindS (sendAndReceiveLocked J os (client_frame kHello request_id 0 hello_text) kHelloReply) (\<lambda>response.
     if \<not> DecodeResult_ok response then
       thenS (closeLocked os) (returnS (dec_error response))
     else
       thenS (modifyS (\<lambda>b. b\<lparr>be_device_generation := frame_device_generation (the (dec_frame response))\<rparr>))
             (returnS Error_success)))"

definition ensureConnectedLocked :: "'j json_api \<Rightarrow> 'w os_api \<Rightarrow> ('w UdsDeviceBackend, Error) sexn" where
  "ensureConnectedLocked J os =
     bindS (getS be_socket_fd) (\<lambda>fd.
     if fd \<ge> 0 then returnS Error_success
     else
       bindS (syscall (os_socket os)) (\<lambda>client_fd.
       if client_fd < 0 then
         bindS (errno_of os) (\<lambda>err. returnS (makeError kDeviceNotReady (os_strerror os err)))
       else
         bindS (getS be_timeout) (\<lambda>timeout.
         bindS (syscall (os_setsockopt os client_fd ''SO_RCVTIMEO'' (socket_timeout timeout))) (\<lambda>rcv.
         bindS (if rcv < 0 then returnS rcv
                else syscall (os_setsockopt os client_fd ''SO_SNDTIMEO'' (socket_timeout timeout))) (\<lambda>snd.
         if rcv < 0 \<or> snd < 0 then
           bindS (errno_of os) (\<lambda>err.
           thenS (modifyS (\<lambda>b. b\<lparr>be_world := os_close os client_fd (be_world b)\<rparr>))
                 (returnS (makeError kInternalError (os_strerror os err))))
         else
           bindS (getS be_socket_path) (\<lambda>path.
           bindS (syscall (os_connect os client_fd path)) (\<lambda>connected.
           if connected < 0 then
             bindS (errno_of os) (\<lambda>err.
             thenS (modifyS (\<lambda>b. b\<lparr>be_world := os_close os client_fd (be_world b)\<rparr>))
                   (returnS (makeError kDeviceNotReady (os_strerror os err))))
           else
             thenS (modifyS (\<lambda>b. b\<lparr>be_socket_fd := client_fd\<rparr>)) (helloLocked J os))))))))"

definition retry_safe :: "MessageType \<Rightarrow> bool" where
  "retry_safe t = (t = kGetDeviceInfo \<or> t = kGetConnections \<or> t = kGetPortState)"

text \<open>Sending one request with a fresh id and the known generation.\<close>

definition requestLocked ::
  "'j json_api \<Rightarrow> 'w os_api \<Rightarrow> MessageType \<Rightarrow> MessageType \<Rightarrow> string \<Rightarrow> ('w UdsDeviceBackend, DecodeResult) sexn" where
  "requestLocked J os request_type response_type payload =
     bindS next_request_id (\<lambda>request_id.
     bindS (getS be_device_generation) (\<lambda>generation.
     sendAndReceiveLocked J os (client_frame request_type request_id generation payload) response_type))"

text \<open>After a failed exchange the socket is closed, and a request that only reads is sent once more.\<close>

definition retryLocked ::
  "'j json_api \<Rightarrow> 'w os_api \<Rightarrow> MessageType \<Rightarrow> MessageType \<Rightarrow> string \<Rightarrow> DecodeResult \<Rightarrow>
   ('w UdsDeviceBackend, DecodeResult) sexn" where
  "retryLocked J os request_type response_type payload response =
     (if DecodeResult_ok response then returnS response
      else
        thenS (closeLocked os)
         (if \<not> retry_safe request_type then returnS response
          else
            bindS (ensureConnectedLocked J os) (\<lambda>again.
            if \<not> Error_ok again then returnS response
            else
              bindS (requestLocked J os request_type response_type payload) (\<lambda>second.
              thenS (whenS (\<not> DecodeResult_ok second) (closeLocked os)) (returnS second)))))"

definition exchangeLocked ::
  "'j json_api \<Rightarrow> 'w os_api \<Rightarrow> MessageType \<Rightarrow> MessageType \<Rightarrow> string \<Rightarrow> ('w UdsDeviceBackend, DecodeResult) sexn" where
  "exchangeLocked J os request_type response_type payload =
     bindS (ensureConnectedLocked J os) (\<lambda>connection_error.
     if \<not> Error_ok connection_error then returnS (decode_error connection_error)
     else
       bindS (requestLocked J os request_type response_type payload) (\<lambda>response.
       bindS (retryLocked J os request_type response_type payload response) (\<lambda>final.
       thenS (whenS (DecodeResult_ok final)
                (modifyS (\<lambda>b. b\<lparr>be_device_generation := frame_device_generation (the (dec_frame final))\<rparr>)))
             (returnS final))))"

subsection \<open>The virtual functions\<close>

text \<open>A query throws when the exchange failed; a command returns the error.\<close>

definition empty_object :: string where
  "empty_object = [CHR 0x7B, CHR 0x7D]"

definition query ::
  "'j json_api \<Rightarrow> 'w os_api \<Rightarrow> MessageType \<Rightarrow> MessageType \<Rightarrow> string \<Rightarrow> (string \<Rightarrow> 'a result) \<Rightarrow>
   ('w UdsDeviceBackend, 'a) sexn" where
  "query J os request_type response_type payload decoder =
     bindS (exchangeLocked J os request_type response_type payload) (\<lambda>response.
     if \<not> DecodeResult_ok response then throwS (Runtime_error (err_message (dec_error response)))
     else liftE (decoder (frame_payload (the (dec_frame response)))))"

definition uds_getDeviceInfo :: "'j json_api \<Rightarrow> 'w os_api \<Rightarrow> ('w UdsDeviceBackend, DeviceInfo) sexn" where
  "uds_getDeviceInfo J os = query J os kGetDeviceInfo kDeviceInfoReply empty_object (decodeDeviceInfo J)"

definition uds_getHealth :: "'j json_api \<Rightarrow> 'w os_api \<Rightarrow> ('w UdsDeviceBackend, DeviceHealth) sexn" where
  "uds_getHealth J os =
     catch_std (thenS (uds_getDeviceInfo J os) (returnS \<lparr>dh_status = kReady, dh_last_error = Error_success\<rparr>))
       (\<lambda>e. returnS \<lparr>dh_status = kDeviceFailed, dh_last_error = makeError kDeviceNotReady (what e)\<rparr>)"

definition uds_applyConnections ::
  "'j json_api \<Rightarrow> 'w os_api \<Rightarrow> ConnectionCommand list \<Rightarrow> ApplyOptions \<Rightarrow> ('w UdsDeviceBackend, ApplyResult) sexn" where
  "uds_applyConnections J os commands options =
     bindS (liftE (encodeApplyRequest J commands options)) (\<lambda>payload.
     bindS (exchangeLocked J os kApplyConnections kApplyResult payload) (\<lambda>response.
     if \<not> DecodeResult_ok response then returnS \<lparr>ar_error = dec_error response, ar_connections = []\<rparr>
     else liftE (decodeApplyResult J (frame_payload (the (dec_frame response))))))"

definition uds_getConnections :: "'j json_api \<Rightarrow> 'w os_api \<Rightarrow> ('w UdsDeviceBackend, AppliedConnection list) sexn" where
  "uds_getConnections J os = query J os kGetConnections kConnectionsReply empty_object (decodeConnections J)"

definition uds_getPortState ::
  "'j json_api \<Rightarrow> 'w os_api \<Rightarrow> PortDirection \<Rightarrow> PortId \<Rightarrow> ('w UdsDeviceBackend, PortState) sexn" where
  "uds_getPortState J os direction i =
     bindS (liftE (encodePortRequest J direction i)) (\<lambda>payload.
     query J os kGetPortState kPortStateReply payload (decodePortState J))"

definition uds_reset :: "'j json_api \<Rightarrow> 'w os_api \<Rightarrow> ResetMode \<Rightarrow> ('w UdsDeviceBackend, ResetResult) sexn" where
  "uds_reset J os mode =
     bindS (liftE (encodeResetRequest J mode)) (\<lambda>payload.
     bindS (exchangeLocked J os kReset kResetResult payload) (\<lambda>response.
     if \<not> DecodeResult_ok response then
       bindS (getS be_device_generation) (\<lambda>g. returnS \<lparr>rr_error = dec_error response, rr_generation = g\<rparr>)
     else
       bindS (liftE (decodeResetResult J (frame_payload (the (dec_frame response))))) (\<lambda>r.
       thenS (modifyS (\<lambda>b. b\<lparr>be_device_generation := rr_generation r\<rparr>)) (returnS r))))"

definition uds_fault :: "'j json_api \<Rightarrow> 'w os_api \<Rightarrow> FaultSpec \<Rightarrow> bool \<Rightarrow> ('w UdsDeviceBackend, FaultResult) sexn" where
  "uds_fault J os fault clear =
     bindS (liftE (encodeFaultRequest J fault clear)) (\<lambda>payload.
     bindS (exchangeLocked J os kInjectFault kFaultResult payload) (\<lambda>response.
     if \<not> DecodeResult_ok response then returnS \<lparr>fr_error = dec_error response\<rparr>
     else liftE (decodeFaultResult J (frame_payload (the (dec_frame response))))))"

definition UdsBackend_api :: "'j json_api \<Rightarrow> 'w os_api \<Rightarrow> 'w UdsDeviceBackend OcsDeviceApi" where
  "UdsBackend_api J os =
     \<lparr>api_getDeviceInfo = uds_getDeviceInfo J os,
      api_getHealth = uds_getHealth J os,
      api_applyConnections = uds_applyConnections J os,
      api_getConnections = uds_getConnections J os,
      api_getInputPortState = uds_getPortState J os kInput,
      api_getOutputPortState = uds_getPortState J os kOutput,
      api_reset = (\<lambda>mode b. Some (uds_reset J os mode b)),
      api_injectFault = (\<lambda>fault. uds_fault J os fault False),
      api_clearFault = (\<lambda>selector. uds_fault J os selector True)\<rparr>"

section \<open>How often a request is sent\<close>

text \<open>
  The operating system with a log: every packet handed to \<open>send\<close> is recorded beside the world.
\<close>

definition logged :: "'w os_api \<Rightarrow> ('w \<times> u8 list list) os_api" where
  "logged os = \<lparr>
     os_socket = (\<lambda>(w, l). map_prod id (\<lambda>w. (w, l)) (os_socket os w)),
     os_setsockopt = (\<lambda>fd name tv (w, l). map_prod id (\<lambda>w. (w, l)) (os_setsockopt os fd name tv w)),
     os_connect = (\<lambda>fd path (w, l). map_prod id (\<lambda>w. (w, l)) (os_connect os fd path w)),
     os_close = (\<lambda>fd (w, l). (os_close os fd w, l)),
     os_send = (\<lambda>fd bytes (w, l). map_prod id (\<lambda>w. (w, l @ [bytes])) (os_send os fd bytes w)),
     os_recv = (\<lambda>fd n (w, l). map_prod id (\<lambda>w. (w, l)) (os_recv os fd n w)),
     os_errno = (\<lambda>(w, l). os_errno os w),
     os_strerror = os_strerror os,
     os_EAGAIN = os_EAGAIN os\<rparr>"

definition is_message :: "MessageType \<Rightarrow> u8 list \<Rightarrow> bool" where
  "is_message t bytes = (case dec_frame (decode bytes) of Some f \<Rightarrow> frame_message_type f = t | None \<Rightarrow> False)"

definition sent_count :: "MessageType \<Rightarrow> ('w \<times> u8 list list) UdsDeviceBackend \<Rightarrow> nat" where
  "sent_count t b = length (filter (is_message t) (snd (be_world b)))"

definition sends_at_most ::
  "MessageType \<Rightarrow> nat \<Rightarrow> (('w \<times> u8 list list) UdsDeviceBackend, 'a) sexn \<Rightarrow> bool" where
  "sends_at_most t n m \<longleftrightarrow> (\<forall>b. sent_count t (snd (m b)) \<le> sent_count t b + n)"

lemma sends_bindS:
  assumes "sends_at_most t n m" "\<And>x. sends_at_most t k (f x)"
  shows "sends_at_most t (n + k) (bindS m f)"
  unfolding sends_at_most_def
proof
  fix b
  obtain r b1 where m: "m b = (r, b1)" by (cases "m b")
  then have 1: "sent_count t b1 \<le> sent_count t b + n"
    using assms(1) unfolding sends_at_most_def by (metis snd_conv)
  show "sent_count t (snd (bindS m f b)) \<le> sent_count t b + (n + k)"
  proof (cases r)
    case (Inl e)
    with m 1 show ?thesis by (simp add: bindS_def)
  next
    case (Inr x)
    have "sent_count t (snd (f x b1)) \<le> sent_count t b1 + k"
      using assms(2) unfolding sends_at_most_def by blast
    with m 1 Inr show ?thesis by (simp add: bindS_def)
  qed
qed

lemma sends_weaken: "sends_at_most t n m \<Longrightarrow> n \<le> k \<Longrightarrow> sends_at_most t k m"
  unfolding sends_at_most_def by (meson add_left_mono order_trans)

lemma sends_bindS0:
  "sends_at_most t 0 m \<Longrightarrow> (\<And>x. sends_at_most t k (f x)) \<Longrightarrow> sends_at_most t k (bindS m f)"
  using sends_bindS [of t 0 m k f] by simp

lemma sends_thenS0: "sends_at_most t 0 m \<Longrightarrow> sends_at_most t k n \<Longrightarrow> sends_at_most t k (thenS m n)"
  by (simp add: thenS_def sends_bindS0)

lemma sends_pure:
  "sends_at_most t 0 (returnS x)" "sends_at_most t 0 (throwS e)" "sends_at_most t 0 (getS f)"
  "sends_at_most t 0 (liftE r)" "sends_at_most t 0 next_request_id" "sends_at_most t 0 (errno_of os)"
  by (simp_all add: sends_at_most_def returnS_def throwS_def getS_def liftE_def next_request_id_def
      sent_count_def errno_of_def)

lemma sends_whenS: "sends_at_most t k m \<Longrightarrow> sends_at_most t k (whenS c m)"
  by (simp add: sends_at_most_def whenS_def returnS_def)

lemma sends_syscall:
  "sends_at_most t 0 (syscall (os_socket (logged os)))"
  "sends_at_most t 0 (syscall (os_setsockopt (logged os) fd name tv))"
  "sends_at_most t 0 (syscall (os_connect (logged os) fd path))"
  "sends_at_most t 0 (syscall (os_recv (logged os) fd n))"
  by (auto simp: sends_at_most_def syscall_def logged_def sent_count_def map_prod_def split: prod.splits)

lemma sends_modify:
  "sends_at_most t 0 (closeLocked (logged os))"
  "sends_at_most t 0 (modifyS (\<lambda>b. b\<lparr>be_world := os_close (logged os) fd (be_world b)\<rparr>))"
  "sends_at_most t 0 (modifyS (\<lambda>b. b\<lparr>be_socket_fd := fd\<rparr>))"
  "sends_at_most t 0 (modifyS (\<lambda>b. b\<lparr>be_device_generation := g\<rparr>))"
  by (auto simp: sends_at_most_def modifyS_def closeLocked_def logged_def sent_count_def split: prod.splits)

lemmas sends_rules = sends_pure sends_syscall sends_modify

lemma is_message_encode:
  "EncodeResult_ok (encode f) \<Longrightarrow> is_message t (enc_bytes (encode f)) \<longleftrightarrow> frame_message_type f = t"
  by (simp add: is_message_def decode_encode)

lemma sends_send:
  assumes "EncodeResult_ok (encode f)"
  shows "sends_at_most t (if frame_message_type f = t then 1 else 0)
    (syscall (os_send (logged os) fd (enc_bytes (encode f))))"
  using assms
  by (auto simp: sends_at_most_def syscall_def logged_def sent_count_def is_message_encode map_prod_def
      split: prod.splits)

lemma sends_receiveLocked: "sends_at_most t 0 (receiveLocked J (logged os) request rt)"
  unfolding receiveLocked_def Let_def
  by (intro sends_bindS0 sends_rules)
     (auto split: prod.splits option.splits intro!: sends_bindS0 sends_rules)

lemma sends_sendAndReceiveLocked:
  "sends_at_most t (if frame_message_type request = t then 1 else 0)
     (sendAndReceiveLocked J (logged os) request rt)"
proof (cases "EncodeResult_ok (encode request)")
  case False
  then show ?thesis
    by (auto simp: sendAndReceiveLocked_def Let_def intro: sends_weaken [OF sends_pure(1)])
next
  case True
  have "sends_at_most t ((if frame_message_type request = t then 1 else 0) + 0)
     (bindS (syscall (os_send (logged os) fd (enc_bytes (encode request)))) (\<lambda>sent.
        if sent \<noteq> int (length (enc_bytes (encode request))) then
          bindS (errno_of (logged os)) (\<lambda>err.
          returnS (decode_error (makeError kDeviceNotReady (os_strerror (logged os) err))))
        else receiveLocked J (logged os) request rt))" for fd
    by (rule sends_bindS [OF sends_send [OF True]])
       (auto intro!: sends_bindS0 sends_rules sends_receiveLocked)
  then have "sends_at_most t ((if frame_message_type request = t then 1 else 0) + 0)
     (sendAndReceiveLocked J (logged os) request rt)"
    unfolding sendAndReceiveLocked_def Let_def using True
    by (simp only: not_True_eq_False if_False) (rule sends_bindS0 [OF sends_pure(3)])
  then show ?thesis by simp
qed

lemma sends_helloLocked:
  assumes "t \<noteq> kHello"
  shows "sends_at_most t 0 (helloLocked J (logged os))"
proof -
  have "sends_at_most t 0 (sendAndReceiveLocked J (logged os) (client_frame kHello i 0 hello_text) rt)" for i rt
    using sends_sendAndReceiveLocked [of t "client_frame kHello i 0 hello_text" J os rt] assms
    by (simp add: client_frame_def)
  then show ?thesis
    unfolding helloLocked_def by (intro sends_bindS0 sends_rules) (auto intro!: sends_thenS0 sends_rules)
qed

lemma sends_ensureConnectedLocked: "t \<noteq> kHello \<Longrightarrow> sends_at_most t 0 (ensureConnectedLocked J (logged os))"
  unfolding ensureConnectedLocked_def
  by (intro sends_bindS0 sends_rules)
     (auto intro!: sends_bindS0 sends_thenS0 sends_rules sends_helloLocked)

lemma sends_requestLocked: "sends_at_most t 1 (requestLocked J (logged os) rq rt payload)"
  unfolding requestLocked_def
  by (intro sends_bindS0 sends_rules sends_weaken [OF sends_sendAndReceiveLocked]) simp

lemma sends_retryLocked:
  assumes "t \<noteq> kHello"
  shows "sends_at_most t (if retry_safe rq then 1 else 0) (retryLocked J (logged os) rq rt payload response)"
proof -
  have "sends_at_most t (1 + 0) (bindS (requestLocked J (logged os) rq rt payload) (\<lambda>second.
      thenS (whenS (\<not> DecodeResult_ok second) (closeLocked (logged os))) (returnS second)))"
    by (intro sends_bindS sends_requestLocked sends_thenS0 sends_whenS sends_rules)
  then show ?thesis
    unfolding retryLocked_def
    by (auto intro!: sends_thenS0 sends_bindS0 sends_rules sends_ensureConnectedLocked assms
        intro: sends_weaken [OF sends_pure(1)])
qed

lemma sends_exchangeLocked:
  assumes "t \<noteq> kHello"
  shows "sends_at_most t (1 + (if retry_safe rq then 1 else 0)) (exchangeLocked J (logged os) rq rt payload)"
  unfolding exchangeLocked_def
proof (intro sends_bindS0 sends_ensureConnectedLocked assms, goal_cases)
  case (1 e)
  have "sends_at_most t (1 + ((if retry_safe rq then 1 else 0) + 0))
     (bindS (requestLocked J (logged os) rq rt payload) (\<lambda>response.
      bindS (retryLocked J (logged os) rq rt payload response) (\<lambda>final.
      thenS (whenS (DecodeResult_ok final)
               (modifyS (\<lambda>b. b\<lparr>be_device_generation := frame_device_generation (the (dec_frame final))\<rparr>)))
            (returnS final))))"
    by (intro sends_bindS sends_requestLocked sends_retryLocked assms sends_thenS0 sends_whenS sends_rules)
  then show ?case by (auto intro: sends_weaken [OF sends_pure(1)])
qed

section \<open>Accepted replies\<close>

text \<open>A reply that is accepted has the type the caller waits for.\<close>

definition accepts :: "MessageType \<Rightarrow> ('w UdsDeviceBackend, DecodeResult) sexn \<Rightarrow> bool" where
  "accepts rt m \<longleftrightarrow> (\<forall>b r b'. m b = (Inr r, b') \<longrightarrow> DecodeResult_ok r \<longrightarrow>
     (\<exists>f. dec_frame r = Some f \<and> frame_message_type f = rt))"

lemma decode_error_not_ok [simp]: "\<not> DecodeResult_ok (decode_error e)"
  by (simp add: DecodeResult_ok_def decode_error_def)

lemma accepts_bindS: "(\<And>x. accepts rt (f x)) \<Longrightarrow> accepts rt (bindS m f)"
  unfolding accepts_def by (metis bindS_Inr)

lemma accepts_returnS: "(DecodeResult_ok r \<Longrightarrow> frame_message_type (the (dec_frame r)) = rt) \<Longrightarrow> accepts rt (returnS r)"
  by (auto simp: accepts_def returnS_def DecodeResult_ok_def)

lemma accepts_receiveLocked: "accepts rt (receiveLocked J os request rt)"
  unfolding receiveLocked_def Let_def
  by (intro accepts_bindS)
     (auto split: prod.splits option.splits intro!: accepts_bindS accepts_returnS simp: DecodeResult_ok_def decode_error_def)

lemma accepts_sendAndReceiveLocked: "accepts rt (sendAndReceiveLocked J os request rt)"
  unfolding sendAndReceiveLocked_def Let_def
  by (auto intro!: accepts_bindS accepts_returnS accepts_receiveLocked simp: DecodeResult_ok_def decode_error_def)

lemma accepts_requestLocked: "accepts rt (requestLocked J os rq rt payload)"
  unfolding requestLocked_def by (intro accepts_bindS accepts_sendAndReceiveLocked)

lemma exchangeLocked_accepts:
  assumes "exchangeLocked J os rq rt payload b = (Inr r, b')" "DecodeResult_ok r"
  shows "\<exists>f. dec_frame r = Some f \<and> frame_message_type f = rt \<and> be_device_generation b' = frame_device_generation f"
proof -
  from assms obtain r1 b1 b2 b3 where
      1: "requestLocked J os rq rt payload b1 = (Inr r1, b2)"
      "retryLocked J os rq rt payload r1 b2 = (Inr r, b3)"
    and b': "b' = b3\<lparr>be_device_generation := frame_device_generation (the (dec_frame r))\<rparr>"
    by (auto simp: exchangeLocked_def bindS_Inr thenS_def whenS_def returnS_def modifyS_def split: if_splits)
  have "\<exists>f. dec_frame r = Some f \<and> frame_message_type f = rt"
    using 1 assms(2) accepts_requestLocked [of rt J os rq payload]
    unfolding accepts_def
    by (auto simp: retryLocked_def bindS_Inr thenS_def returnS_def whenS_def split: if_splits) 
  with b' show ?thesis by auto
qed

end
