(* ===== verification/Uds_Loopback.thy ===== *)
theory Uds_Loopback
  imports Uds_Server Uds_Backend
begin

text \<open>
  Both ends of the device protocol together: the backend of \<open>cpp/src/uds_device_backend.cpp\<close> on a
  transport that delivers every packet to the server of \<open>cpp/src/uds_server.cpp\<close> and every reply back.
  On this transport the remote backend answers as the in-process backend does, as long as the JSON
  texts involved exist and fit into a frame.
\<close>

section \<open>A reliable transport\<close>

record loop_world =
  lw_server :: UdsServer
  lw_reply :: "u8 list option"

definition loop_deliver :: "'j json_api \<Rightarrow> u8 list \<Rightarrow> loop_world \<Rightarrow> loop_world" where
  "loop_deliver J bytes w =
     (case serve_packet J bytes (lw_server w) of
        None \<Rightarrow> w\<lparr>lw_reply := None\<rparr>
      | Some (Inl e, s) \<Rightarrow> w\<lparr>lw_server := s, lw_reply := None\<rparr>
      | Some (Inr reply, s) \<Rightarrow> w\<lparr>lw_server := s, lw_reply := reply\<rparr>)"

definition loopback :: "'j json_api \<Rightarrow> loop_world os_api" where
  "loopback J = \<lparr>
     os_socket = (\<lambda>w. (3, w)),
     os_setsockopt = (\<lambda>fd name tv w. (0, w)),
     os_connect = (\<lambda>fd path w. (0, w)),
     os_close = (\<lambda>fd w. w\<lparr>lw_reply := None\<rparr>),
     os_send = (\<lambda>fd bytes w. (int (length bytes), loop_deliver J bytes w)),
     os_recv = (\<lambda>fd n w. case lw_reply w of
        None \<Rightarrow> ((0, []), w)
      | Some bytes \<Rightarrow> ((int (length bytes), take n bytes), w\<lparr>lw_reply := None\<rparr>)),
     os_errno = (\<lambda>w. 0),
     os_strerror = (\<lambda>e. ''Success''),
     os_EAGAIN = 11\<rparr>"

definition remote_device :: "loop_world UdsDeviceBackend \<Rightarrow> SimulatedOcsDevice" where
  "remote_device b = srv_device (lw_server (be_world b))"

definition fits :: "string result \<Rightarrow> bool" where
  "fits r = (case r of Inr s \<Rightarrow> length s \<le> kMaxPayloadSize | Inl e \<Rightarrow> False)"

definition remote_ready :: "'j json_api \<Rightarrow> loop_world UdsDeviceBackend \<Rightarrow> bool" where
  "remote_ready J b \<longleftrightarrow> \<not> srv_drop_next_apply_reply (lw_server (be_world b)) \<and>
     fits (encodeDeviceInfo J (getDeviceInfo (remote_device b)))"

section \<open>One exchange\<close>

lemma encode_length:
  assumes "EncodeResult_ok (encode f)"
  shows "length (enc_bytes (encode f)) = 32 + length (frame_payload f)"
  using assms encode_accepted [of f] by (simp add: encode_ok_cases)

lemma fits_encode:
  "frame_version f = kProtocolVersionNumber \<Longrightarrow> length (frame_payload f) \<le> kMaxPayloadSize \<Longrightarrow>
   EncodeResult_ok (encode f)"
  by (simp add: encode_ok_cases)

lemma encode_packet_size:
  assumes "EncodeResult_ok (encode f)"
  shows "enc_bytes (encode f) \<noteq> []" "\<not> length (enc_bytes (encode f)) > kHeaderSize + kMaxPayloadSize"
  using encode_length [OF assms] assms by (auto simp: encode_ok_cases kHeaderSize_def)

lemma DecodeResult_success [simp]: "DecodeResult_ok \<lparr>dec_error = Error_success, dec_frame = Some f\<rparr>"
  by (simp add: DecodeResult_ok_def)

lemma serve_packet_loop:
  assumes "EncodeResult_ok (encode request)" "EncodeResult_ok (encode f)"
    "dispatch J request (srv_device s) = Some (Inr f, d)" "\<not> srv_drop_next_apply_reply s"
  shows "serve_packet J (enc_bytes (encode request)) s = Some (Inr (Some (enc_bytes (encode f))), s\<lparr>srv_device := d\<rparr>)"
  using assms encode_packet_size [OF assms(1)]
  by (simp add: serve_packet_def decode_encode Let_def)

lemma sendAndReceive_loop:
  assumes enc: "EncodeResult_ok (encode request)" "EncodeResult_ok (encode f)"
    and dsp: "dispatch J request (remote_device b) = Some (Inr f, d)"
    and drop: "\<not> srv_drop_next_apply_reply (lw_server (be_world b))"
    and f: "frame_request_id f = frame_request_id request" "frame_message_type f = rt" "rt \<noteq> kErrorReply"
  shows "sendAndReceiveLocked J (loopback J) request rt b =
    (Inr \<lparr>dec_error = Error_success, dec_frame = Some f\<rparr>,
     b\<lparr>be_world := \<lparr>lw_server = (lw_server (be_world b))\<lparr>srv_device := d\<rparr>, lw_reply = None\<rparr>\<rparr>)"
proof -
  let ?bytes = "enc_bytes (encode f)"
  have sv: "serve_packet J (enc_bytes (encode request)) (lw_server (be_world b)) =
      Some (Inr (Some ?bytes), (lw_server (be_world b))\<lparr>srv_device := d\<rparr>)"
    using serve_packet_loop [OF enc] dsp drop by (simp add: remote_device_def)
  have send: "syscall (os_send (loopback J) fd (enc_bytes (encode request))) b =
      (Inr (int (length (enc_bytes (encode request)))),
       b\<lparr>be_world := \<lparr>lw_server = (lw_server (be_world b))\<lparr>srv_device := d\<rparr>, lw_reply = Some ?bytes\<rparr>\<rparr>)" for fd
    by (simp add: syscall_def loopback_def loop_deliver_def sv)
  have recv: "receiveLocked J (loopback J) request rt
      (b\<lparr>be_world := \<lparr>lw_server = s, lw_reply = Some ?bytes\<rparr>\<rparr>) =
      (Inr \<lparr>dec_error = Error_success, dec_frame = Some f\<rparr>,
       b\<lparr>be_world := \<lparr>lw_server = s, lw_reply = None\<rparr>\<rparr>)" for s
    using encode_packet_size [OF enc(2)] decode_encode [OF enc(2)] f
    by (simp add: receiveLocked_def bindS_def getS_def syscall_def loopback_def returnS_def Let_def not_less)
  show ?thesis
    using enc(1) by (simp add: sendAndReceiveLocked_def Let_def bindS_def getS_def send recv)
qed

text \<open>The reply of the server to a request of the backend, in terms of its parts.\<close>

definition reply_frame :: "MessageType \<Rightarrow> u64 \<Rightarrow> u64 \<Rightarrow> string \<Rightarrow> Frame" where
  "reply_frame rt request_id generation p = default_Frame\<lparr>frame_message_type := rt,
     frame_request_id := request_id, frame_device_generation := generation, frame_payload := p\<rparr>"

lemma reply_frame_sel [simp]:
  "frame_version (reply_frame rt i g p) = kProtocolVersionNumber"
  "frame_message_type (reply_frame rt i g p) = rt" "frame_request_id (reply_frame rt i g p) = i"
  "frame_payload (reply_frame rt i g p) = p" "frame_device_generation (reply_frame rt i g p) = g"
  by (simp_all add: reply_frame_def default_Frame_def)

lemma client_frame_sel [simp]:
  "frame_version (client_frame t i g p) = kProtocolVersionNumber"
  "frame_message_type (client_frame t i g p) = t" "frame_request_id (client_frame t i g p) = i"
  "frame_payload (client_frame t i g p) = p"
  by (simp_all add: client_frame_def)

lemma hello_loop:
  assumes "remote_ready J b"
  shows "\<exists>b'. helloLocked J (loopback J) b = (Inr Error_success, b') \<and>
    lw_server (be_world b') = lw_server (be_world b)"
proof -
  let ?g = "di_generation (getDeviceInfo (remote_device b))"
  obtain p where p: "encodeDeviceInfo J (getDeviceInfo (remote_device b)) = Inr p" "length p \<le> kMaxPayloadSize"
    using assms by (auto simp: remote_ready_def fits_def split: sum.splits)
  have d: "dispatch J (client_frame kHello i 0 hello_text) (remote_device b) =
      Some (Inr (reply_frame kHelloReply i ?g p), remote_device b)" for i
    by (simp add: dispatch_def Let_def p reply_with_def reply_frame_def client_frame_def default_Frame_def)
  have "length hello_text \<le> kMaxPayloadSize" by (simp add: hello_text_def kMaxPayloadSize_def)
  then have "sendAndReceiveLocked J (loopback J) (client_frame kHello (be_next_request_id b) 0 hello_text) kHelloReply
      (b\<lparr>be_next_request_id := be_next_request_id b + 1\<rparr>) =
      (Inr \<lparr>dec_error = Error_success, dec_frame = Some (reply_frame kHelloReply (be_next_request_id b) ?g p)\<rparr>,
       b\<lparr>be_next_request_id := be_next_request_id b + 1, be_world :=
         \<lparr>lw_server = (lw_server (be_world b))\<lparr>srv_device := remote_device b\<rparr>, lw_reply = None\<rparr>\<rparr>)"
    using assms p(2) d
    by (subst sendAndReceive_loop [where d = "remote_device b" and f = "reply_frame kHelloReply (be_next_request_id b) ?g p"])
       (simp_all add: fits_encode remote_ready_def remote_device_def)
  then show ?thesis
    by (simp add: helloLocked_def bindS_def next_request_id_def thenS_def modifyS_def returnS_def remote_device_def)
qed

lemma ensureConnected_loop:
  assumes "remote_ready J b"
  shows "\<exists>b'. ensureConnectedLocked J (loopback J) b = (Inr Error_success, b') \<and>
    lw_server (be_world b') = lw_server (be_world b)"
proof (cases "be_socket_fd b \<ge> 0")
  case True
  then show ?thesis by (simp add: ensureConnectedLocked_def bindS_def getS_def returnS_def)
next
  case False
  have "remote_ready J (b\<lparr>be_socket_fd := 3\<rparr>)"
    using assms by (simp add: remote_ready_def remote_device_def)
  from hello_loop [OF this] False show ?thesis
    by (simp add: ensureConnectedLocked_def bindS_def getS_def returnS_def syscall_def loopback_def thenS_def
        modifyS_def)
qed

lemma exchange_loop:
  assumes ready: "remote_ready J b" and rt: "rt \<noteq> kErrorReply" and len: "length payload \<le> kMaxPayloadSize" "length p \<le> kMaxPayloadSize"
    and dsp: "\<And>i g. dispatch J (client_frame rq i g payload) (remote_device b) =
        Some (Inr (reply_frame rt i g' p), d)"
  shows "\<exists>b' f. exchangeLocked J (loopback J) rq rt payload b =
      (Inr \<lparr>dec_error = Error_success, dec_frame = Some f\<rparr>, b') \<and> frame_payload f = p \<and>
      lw_server (be_world b') = (lw_server (be_world b))\<lparr>srv_device := d\<rparr> \<and> be_device_generation b' = g'"
proof -
  obtain b1 where b1: "ensureConnectedLocked J (loopback J) b = (Inr Error_success, b1)"
    "lw_server (be_world b1) = lw_server (be_world b)"
    using ensureConnected_loop [OF ready] by blast
  let ?f = "reply_frame rt (be_next_request_id b1) g' p"
  have "requestLocked J (loopback J) rq rt payload b1 = (Inr \<lparr>dec_error = Error_success, dec_frame = Some ?f\<rparr>,
      b1\<lparr>be_next_request_id := be_next_request_id b1 + 1, be_world :=
         \<lparr>lw_server = (lw_server (be_world b))\<lparr>srv_device := d\<rparr>, lw_reply = None\<rparr>\<rparr>)"
    using ready rt len dsp b1(2)
    by (simp add: requestLocked_def bindS_def next_request_id_def getS_def)
       (subst sendAndReceive_loop [where f = ?f and d = d], simp_all add: fits_encode remote_ready_def remote_device_def)
  then show ?thesis
    by (simp add: exchangeLocked_def bindS_def b1 retryLocked_def returnS_def thenS_def whenS_def modifyS_def)
qed

end
