(* ===== verification/Uds_Properties.thy ===== *)
theory Uds_Properties
  imports Uds_Loopback Device_Properties
begin

text \<open>
  The properties of the device protocol: payload round trips, what the server answers and keeps,
  how often the backend sends a request, which replies it accepts, and that the remote backend
  refines the in-process one on a reliable transport.
\<close>

section \<open>Payloads\<close>

text \<open>C26: the two payloads that drive switching survive the wire: the decoded apply request has the
  commands and options that were encoded (for any timeout of 64 bits), and the decoded apply result is the
  encoded one; the only other outcome is the exception of the encoder itself.\<close>

theorem apply_payload_roundtrip:
  assumes "json_laws J" "- (2 ^ 63) \<le> opt_timeout options" "opt_timeout options < 2 ^ 63"
  shows "bindE (encodeApplyRequest J cs options) (decodeApplyRequest J) =
      bindE (encodeApplyRequest J cs options) (\<lambda>_. Inr \<lparr>areq_commands = cs, areq_options = options\<rparr>) \<and>
    bindE (encodeApplyResult J r) (decodeApplyResult J) = bindE (encodeApplyResult J r) (\<lambda>_. Inr r)"
  using assms decodeApplyRequest_encode [OF assms(1) _ assms(2,3)] decodeApplyResult_encode [OF assms(1)]
  by (cases "encodeApplyRequest J cs options"; cases "encodeApplyResult J r") auto

theorem apply_payload_roundtrip_witness:
  "bindE (encodeApplyRequest ref_json_api [upsert ''a'' 1 2 5] (atomic_op ''op''))
     (decodeApplyRequest ref_json_api) =
   Inr \<lparr>areq_commands = [upsert ''a'' 1 2 5], areq_options = atomic_op ''op''\<rparr>"
  using apply_payload_roundtrip [of ref_json_api "atomic_op ''op''" "[upsert ''a'' 1 2 5]"]
  by (simp add: atomic_op_def encodeApplyRequest_def)

text \<open>C27: every other payload of the protocol survives the wire as well: errors, device information,
  connection lists, port requests and states, reset requests and results, fault requests and results.\<close>

theorem other_payloads_roundtrip:
  assumes "json_laws J"
  shows "(encodeError J e = Inr s1 \<longrightarrow> decodeError J s1 = Inr e) \<and>
    (encodeDeviceInfo J info = Inr s2 \<longrightarrow> decodeDeviceInfo J s2 = Inr info) \<and>
    (encodeConnections J cs = Inr s3 \<longrightarrow> decodeConnections J s3 = Inr cs) \<and>
    (encodePortRequest J dir p = Inr s4 \<longrightarrow>
       decodePortRequest J s4 = Inr \<lparr>preq_direction = dir, preq_port_id = p\<rparr>) \<and>
    (encodePortState J ps = Inr s5 \<longrightarrow> decodePortState J s5 = Inr ps) \<and>
    (encodeResetRequest J mode = Inr s6 \<longrightarrow> decodeResetRequest J s6 = Inr mode) \<and>
    (encodeResetResult J rr = Inr s7 \<longrightarrow> decodeResetResult J s7 = Inr rr) \<and>
    (encodeFaultRequest J fault clear = Inr s8 \<longrightarrow>
       decodeFaultRequest J s8 = Inr \<lparr>freq_clear = clear, freq_fault = fault\<rparr>) \<and>
    (encodeFaultResult J fr = Inr s9 \<longrightarrow> decodeFaultResult J s9 = Inr fr)"
  by (intro conjI impI) (use assms in \<open>blast intro: payload_roundtrips\<close>)+

theorem other_payloads_roundtrip_witness:
  "\<exists>s. encodeFaultRequest ref_json_api \<lparr>fs_type = kInputPortDown, fs_port_id = 2\<rparr> True = Inr s \<and>
     decodeFaultRequest ref_json_api s =
       Inr \<lparr>freq_clear = True, freq_fault = \<lparr>fs_type = kInputPortDown, fs_port_id = 2\<rparr>\<rparr>"
proof -
  let ?f = "\<lparr>fs_type = kInputPortDown, fs_port_id = 2\<rparr>"
  obtain s where s: "encodeFaultRequest ref_json_api ?f True = Inr s" by (simp add: encodeFaultRequest_def)
  with other_payloads_roundtrip [OF json_laws_ref, of _ _ _ _ _ _ _ _ _ _ _ _ _ _ _ ?f True s]
  show ?thesis by simp
qed

section \<open>The server\<close>

lemma dispatch_cases:
  assumes "device_ok d"
  obtains r d' where "dispatch_try J request (default_Frame\<lparr>frame_request_id := frame_request_id request,
        frame_device_generation := di_generation (getDeviceInfo d)\<rparr>) (di_generation (getDeviceInfo d))
        (frame_message_type request) d = Some (r, d')"
    and "dispatch J request d = Some (case r of
        Inl e \<Rightarrow> errorReply J request (makeError kProtocolMalformed (what e)) (di_generation (getDeviceInfo d))
      | Inr f \<Rightarrow> Inr f, d')"
    and "device_ok d'"
proof -
  obtain r d' where t: "dispatch_try J request (default_Frame\<lparr>frame_request_id := frame_request_id request,
        frame_device_generation := di_generation (getDeviceInfo d)\<rparr>) (di_generation (getDeviceInfo d))
        (frame_message_type request) d = Some (r, d')"
    using dispatch_try_returns [OF assms] by blast
  from that [OF t] dispatch_try_device [OF assms t] t show thesis
    by (simp add: dispatch_def Let_def)
qed

text \<open>C22: on every state of the device the server answers a request; the answer carries the
  request's id and either the response type of the request or the error type. The only exception that
  can leave the handler is one thrown while encoding the error reply itself.\<close>

theorem dispatch_answers:
  assumes "device_ok d"
  shows "\<exists>r d'. dispatch J request d = Some (r, d') \<and>
    (case r of
       Inr f \<Rightarrow> frame_request_id f = frame_request_id request \<and> frame_version f = 1 \<and>
         frame_message_type f \<in> {reply_type_of (frame_message_type request), kErrorReply}
     | Inl e \<Rightarrow> \<exists>err. encodeError J err = Inl e)"
proof (cases rule: dispatch_cases [OF assms, where J = J and request = request])
  case (1 r d')
  show ?thesis
  proof (cases r)
    case (Inl e)
    with 1(2) show ?thesis
      by (auto simp: errorReply_def default_Frame_def kProtocolVersionNumber_def exn_simps split: sum.splits)
  next
    case (Inr f)
    from dispatch_try_reply [OF 1(1) [unfolded Inr]] 1(2) Inr show ?thesis by simp
  qed
qed

theorem dispatch_answers_witness:
  "\<exists>r d'. dispatch ref_json_api (client_frame kGetConnections 9 0 []) example_device = Some (Inr r, d') \<and>
     frame_request_id r = 9"
proof -
  have ok: "device_ok example_device" using device_ok_reachable example_reachable by blast
  obtain r d' where d: "dispatch ref_json_api (client_frame kGetConnections 9 0 []) example_device = Some (r, d')"
    and c: "case r of
       Inr f \<Rightarrow> frame_request_id f = frame_request_id (client_frame kGetConnections 9 0 []) \<and> frame_version f = 1 \<and>
         frame_message_type f \<in> {reply_type_of (frame_message_type (client_frame kGetConnections 9 0 [])), kErrorReply}
     | Inl e \<Rightarrow> \<exists>err. encodeError ref_json_api err = Inl e"
    using dispatch_answers [OF ok, of ref_json_api "client_frame kGetConnections 9 0 []"] by blast
  from c obtain f where "r = Inr f" "frame_request_id f = 9"
    by (cases r) (auto simp: encodeError_def)
  with d show ?thesis by blast
qed

lemma serve_packet_device:
  assumes "device_ok (srv_device s)"
  shows "\<exists>r s'. serve_packet J packet s = Some (r, s') \<and> device_ok (srv_device s')"
proof (cases "dec_frame (decode packet)")
  case None
  with assms show ?thesis by (simp add: serve_packet_def Let_def)
next
  case (Some frame)
  show ?thesis
  proof (cases rule: dispatch_cases [OF assms, where J = J and request = frame])
    case (1 r d')
    then obtain q where "dispatch J frame (srv_device s) = Some (q, d')" by blast
    with Some 1(3) assms show ?thesis
      by (auto simp: serve_packet_def Let_def split: sum.splits if_splits)
  qed
qed

text \<open>Whatever a client sends, packet after packet, the server keeps the invariant of the
  device: serving returns, and no sequence of bytes makes two connections share a port.\<close>

lemma server_keeps_crossbar:
  assumes "device_ok (srv_device s)"
  shows "\<exists>out s'. serveClient J packets s = Some (out, s') \<and> device_ok (srv_device s') \<and>
    distinct (map ac_input_port (getConnections (srv_device s'))) \<and>
    distinct (map ac_output_port (getConnections (srv_device s')))"
proof -
  have "\<exists>out s'. serveClient J packets s = Some (out, s') \<and> device_ok (srv_device s')"
    using assms
  proof (induction packets arbitrary: s)
    case (Cons packet packets)
    obtain bytes send_ok where p: "packet = (bytes, send_ok)" by (cases packet)
    obtain r s1 where s1: "serve_packet J bytes s = Some (r, s1)" "device_ok (srv_device s1)"
      using serve_packet_device [OF Cons.prems] by blast
    obtain e sent s2 where s2: "serveClient J packets s1 = Some ((e, sent), s2)" "device_ok (srv_device s2)"
      using Cons.IH [OF s1(2)] by (metis surj_pair)
    show ?case using p s1 s2 by (auto split: sum.splits option.splits)
  qed simp
  then show ?thesis by (auto simp: device_ok_def connections_ok_def one_to_one_def)
qed

section \<open>The backend\<close>

text \<open>C13: a request that changes the device is put on the wire at most once per call, whatever the
  operating system and the peer do; only the three reading requests are sent a second time. Requests
  are counted in the log of all packets handed to \<open>send\<close>.\<close>

theorem mutations_sent_at_most_once:
  assumes "exchangeLocked J (logged os) request_type response_type payload b = (r, b')"
    "request_type \<in> {kApplyConnections, kReset, kInjectFault}"
  shows "sent_count request_type b' \<le> sent_count request_type b + 1"
proof -
  have "sends_at_most request_type (1 + (if retry_safe request_type then 1 else 0))
      (exchangeLocked J (logged os) request_type response_type payload)"
    by (rule sends_exchangeLocked) (use assms(2) in auto)
  moreover have "\<not> retry_safe request_type" using assms(2) by (auto simp: retry_safe_def)
  ultimately have "sent_count request_type (snd (exchangeLocked J (logged os) request_type response_type payload b))
      \<le> sent_count request_type b + 1"
    unfolding sends_at_most_def by simp
  then show ?thesis by (simp add: assms(1))
qed

text \<open>A peer that accepts every packet and closes the connection instead of answering.\<close>

definition closing_peer :: "unit os_api" where
  "closing_peer = \<lparr>os_socket = (\<lambda>w. (3, w)), os_setsockopt = (\<lambda>fd name tv w. (0, w)),
     os_connect = (\<lambda>fd path w. (0, w)), os_close = (\<lambda>fd w. w),
     os_send = (\<lambda>fd bytes w. (int (length bytes), w)), os_recv = (\<lambda>fd n w. ((0, []), w)),
     os_errno = (\<lambda>w. 11), os_strerror = (\<lambda>e. []), os_EAGAIN = 11\<rparr>"

definition connected_client :: "'w \<Rightarrow> 'w UdsDeviceBackend" where
  "connected_client w = \<lparr>be_socket_path = ''/run/ocs.sock'', be_timeout = 1000, be_socket_fd = 3,
     be_next_request_id = 1, be_device_generation = 0, be_world = w\<rparr>"

theorem mutations_sent_at_most_once_witness:
  "sent_count kReset (snd (exchangeLocked ref_json_api (logged closing_peer) kReset kResetResult ''x''
     (connected_client ((), [])))) \<le> 1"
  using mutations_sent_at_most_once [of ref_json_api closing_peer kReset kResetResult "''x''"
      "connected_client ((), [])", OF surjective_pairing]
  by (simp add: sent_count_def connected_client_def)

text \<open>A response the exchange reports as ok has exactly the type the caller waits for, and the
  backend has taken over the generation the device reported in it.\<close>

lemma exchange_accepts_expected:
  assumes "exchangeLocked J os request_type response_type payload b = (Inr r, b')" "DecodeResult_ok r"
  shows "\<exists>f. dec_frame r = Some f \<and> frame_message_type f = response_type \<and>
    be_device_generation b' = frame_device_generation f"
  using assms by (rule exchangeLocked_accepts)

definition loop_client :: "SimulatedOcsDevice \<Rightarrow> loop_world UdsDeviceBackend" where
  "loop_client d = connected_client
     \<lparr>lw_server = \<lparr>srv_device = d, srv_drop_next_apply_reply = False\<rparr>, lw_reply = None\<rparr>"

lemma nat_to_string_small: "n < 10 \<Longrightarrow> nat_to_string n = [digit_char n]"
  by (simp add: nat_to_string.simps [of n])

lemma nat_to_string_two: "10 \<le> n \<Longrightarrow> n < 100 \<Longrightarrow> nat_to_string n = [digit_char (n div 10), digit_char (n mod 10)]"
  by (simp add: nat_to_string.simps [of n] nat_to_string_small)

lemma remote_ready_example: "remote_ready ref_json_api (loop_client example_device)"
  by (simp add: remote_ready_def loop_client_def connected_client_def remote_device_def fits_def
      encodeDeviceInfo_def getDeviceInfo_def example_device_def example_info_def kMaxPayloadSize_def
      ref_json_api_def ju16_def string_text_def int_text_def num_text_def nat_to_string_small nat_to_string_two)

text \<open>When \<open>recv\<close> returns 0 the code reads \<open>errno\<close>, which \<open>recv\<close> sets only on failure: a closed connection
  is reported as an apply timeout exactly when \<open>errno\<close> holds \<open>EAGAIN\<close>, with the message that the peer
  disconnected.\<close>

lemma disconnect_classified_by_errno:
  assumes "os_recv os (be_socket_fd b) (kHeaderSize + kMaxPayloadSize) (be_world b) = ((0, bytes), w)"
  shows "\<exists>r. receiveLocked J os request response_type b = (Inr r, b\<lparr>be_world := w\<rparr>) \<and>
    err_message (dec_error r) = ''UDS peer disconnected'' \<and>
    err_code (dec_error r) = (if os_errno os w = os_EAGAIN os then kApplyTimeout else kDeviceNotReady)"
  using assms
  by (simp add: receiveLocked_def bindS_def getS_def syscall_def errno_of_def returnS_def decode_error_def)

section \<open>The remote backend refines the in-process one\<close>

lemma fits_cases: "fits r \<Longrightarrow> (\<And>s. r = Inr s \<Longrightarrow> length s \<le> kMaxPayloadSize \<Longrightarrow> thesis) \<Longrightarrow> thesis"
  by (auto simp: fits_def split: sum.splits)

lemma remote_apply:
  assumes "json_laws J" "remote_ready J b" "- (2 ^ 63) \<le> opt_timeout options" "opt_timeout options < 2 ^ 63"
    "fits (encodeApplyRequest J cs options)" "fits (encodeApplyResult J r)"
    "applyConnections cs options (remote_device b) = (Inr r, d')"
  shows "\<exists>b'. uds_applyConnections J (loopback J) cs options b = (Inr r, b') \<and> remote_device b' = d'"
proof -
  obtain p q where p: "encodeApplyRequest J cs options = Inr p" "length p \<le> kMaxPayloadSize"
    and q: "encodeApplyResult J r = Inr q" "length q \<le> kMaxPayloadSize"
    using assms(5,6) by (blast elim: fits_cases)
  have "dispatch J (client_frame kApplyConnections i g p) (remote_device b) =
      Some (Inr (reply_frame kApplyResult i (di_generation (getDeviceInfo (remote_device b))) q), d')" for i g
    using decodeApplyRequest_encode [OF assms(1) p(1) assms(3,4)] assms(7) q(1)
    by (simp add: dispatch_def Let_def client_frame_def reply_with_def reply_frame_def default_Frame_def)
  from exchange_loop [OF assms(2) _ p(2) q(2) this] obtain b' f where
    "exchangeLocked J (loopback J) kApplyConnections kApplyResult p b =
       (Inr \<lparr>dec_error = Error_success, dec_frame = Some f\<rparr>, b')" "frame_payload f = q"
    "lw_server (be_world b') = (lw_server (be_world b))\<lparr>srv_device := d'\<rparr>" by auto
  then show ?thesis
    using decodeApplyResult_encode [OF assms(1) q(1)]
    by (simp add: uds_applyConnections_def bindS_def liftE_def p(1) remote_device_def)
qed

lemma remote_getConnections:
  assumes "json_laws J" "remote_ready J b" "fits (encodeConnections J (getConnections (remote_device b)))"
  shows "\<exists>b'. uds_getConnections J (loopback J) b = (Inr (getConnections (remote_device b)), b') \<and>
    remote_device b' = remote_device b"
proof -
  obtain q where q: "encodeConnections J (getConnections (remote_device b)) = Inr q" "length q \<le> kMaxPayloadSize"
    using assms(3) by (blast elim: fits_cases)
  have d: "dispatch J (client_frame kGetConnections i g empty_object) (remote_device b) =
      Some (Inr (reply_frame kConnectionsReply i (di_generation (getDeviceInfo (remote_device b))) q), remote_device b)" for i g
    using q(1) by (simp add: dispatch_def Let_def client_frame_def reply_with_def reply_frame_def default_Frame_def)
  have l: "length empty_object \<le> kMaxPayloadSize" by (simp add: empty_object_def kMaxPayloadSize_def)
  from exchange_loop [OF assms(2) _ l q(2) d] obtain b' f where
    "exchangeLocked J (loopback J) kGetConnections kConnectionsReply empty_object b =
       (Inr \<lparr>dec_error = Error_success, dec_frame = Some f\<rparr>, b')" "frame_payload f = q"
    "lw_server (be_world b') = (lw_server (be_world b))\<lparr>srv_device := remote_device b\<rparr>" by auto
  then show ?thesis
    using decodeConnections_encode [OF assms(1) q(1)]
    by (simp add: uds_getConnections_def query_def bindS_def liftE_def remote_device_def)
qed

lemma remote_reset:
  assumes "json_laws J" "remote_ready J b" "fits (encodeResetRequest J mode)" "fits (encodeResetResult J r)"
    "reset mode (remote_device b) = Some (r, d')"
  shows "\<exists>b'. uds_reset J (loopback J) mode b = (Inr r, b') \<and> remote_device b' = d' \<and>
    be_device_generation b' = rr_generation r"
proof -
  obtain p q where p: "encodeResetRequest J mode = Inr p" "length p \<le> kMaxPayloadSize"
    and q: "encodeResetResult J r = Inr q" "length q \<le> kMaxPayloadSize"
    using assms(3,4) by (blast elim: fits_cases)
  have "dispatch J (client_frame kReset i g p) (remote_device b) =
      Some (Inr (reply_frame kResetResult i (rr_generation r) q), d')" for i g
    using decodeResetRequest_encode [OF assms(1) p(1)] assms(5) q(1)
    by (simp add: dispatch_def Let_def client_frame_def reply_with_def reply_frame_def default_Frame_def)
  from exchange_loop [OF assms(2) _ p(2) q(2) this] obtain b' f where
    "exchangeLocked J (loopback J) kReset kResetResult p b =
       (Inr \<lparr>dec_error = Error_success, dec_frame = Some f\<rparr>, b')" "frame_payload f = q"
    "lw_server (be_world b') = (lw_server (be_world b))\<lparr>srv_device := d'\<rparr>" by auto
  then show ?thesis
    using decodeResetResult_encode [OF assms(1) q(1)]
    by (simp add: uds_reset_def bindS_def liftE_def p(1) remote_device_def thenS_def modifyS_def returnS_def)
qed

text \<open>C5: on a reliable transport the remote backend refines the in-process backend: applying a batch,
  listing the connections and resetting through the socket give the result of the call on the device
  behind it and leave that device as the call does, as long as the texts involved can be encoded and fit
  into a frame.\<close>

theorem remote_refines_in_process:
  assumes "json_laws J" "remote_ready J b"
  shows "(\<forall>cs options r d'. - (2 ^ 63) \<le> opt_timeout options \<and> opt_timeout options < 2 ^ 63 \<and>
      fits (encodeApplyRequest J cs options) \<and> fits (encodeApplyResult J r) \<and>
      api_applyConnections InProcessSimBackend cs options (remote_device b) = (Inr r, d') \<longrightarrow>
      (\<exists>b'. api_applyConnections (UdsBackend_api J (loopback J)) cs options b = (Inr r, b') \<and> remote_device b' = d')) \<and>
    (\<forall>cs d'. api_getConnections InProcessSimBackend (remote_device b) = (Inr cs, d') \<and>
      fits (encodeConnections J cs) \<longrightarrow>
      (\<exists>b'. api_getConnections (UdsBackend_api J (loopback J)) b = (Inr cs, b') \<and> remote_device b' = d')) \<and>
    (\<forall>mode r d'. api_reset InProcessSimBackend mode (remote_device b) = Some (Inr r, d') \<and>
      fits (encodeResetRequest J mode) \<and> fits (encodeResetResult J r) \<longrightarrow>
      (\<exists>b'. api_reset (UdsBackend_api J (loopback J)) mode b = Some (Inr r, b') \<and> remote_device b' = d'))"
proof (intro conjI allI impI, goal_cases)
  case (1 cs options r d')
  then show ?case
    using remote_apply [OF assms, of options cs r d'] by (simp add: InProcessSimBackend_def UdsBackend_api_def)
next
  case (2 cs d')
  then show ?case
    using remote_getConnections [OF assms] by (auto simp: InProcessSimBackend_def UdsBackend_api_def)
next
  case (3 mode r d')
  then show ?case
    using remote_reset [OF assms, of mode r d']
    by (auto simp: InProcessSimBackend_def UdsBackend_api_def)
qed

lemma example_apply_result:
  "fst (applyConnections [upsert ''a'' 1 2 5] (atomic_op []) example_device) =
     Inr \<lparr>ar_error = Error_success, ar_connections = [applied_of (upsert ''a'' 1 2 5)]\<rparr>"
  by code_simp

theorem remote_refines_in_process_witness:
  "\<exists>b'. api_applyConnections (UdsBackend_api ref_json_api (loopback ref_json_api)) [upsert ''a'' 1 2 5] (atomic_op [])
       (loop_client example_device) =
     (Inr \<lparr>ar_error = Error_success, ar_connections = [applied_of (upsert ''a'' 1 2 5)]\<rparr>, b')"
proof -
  let ?r = "\<lparr>ar_error = Error_success, ar_connections = [applied_of (upsert ''a'' 1 2 5)]\<rparr>"
  obtain d' where d': "applyConnections [upsert ''a'' 1 2 5] (atomic_op []) example_device = (Inr ?r, d')"
    using example_apply_result by (metis prod.collapse)
  have c: "nat_to_string 1000 = map digit_char [1, 0, 0, 0]"
    by (simp add: nat_to_string.simps)
  have "fits (encodeApplyRequest ref_json_api [upsert ''a'' 1 2 5] (atomic_op []))"
    by (simp add: fits_def encodeApplyRequest_def kMaxPayloadSize_def commandValue_def upsert_def atomic_op_def
        uds_operationName_def ref_json_api_def ju16_def string_text_def int_text_def num_text_def
        nat_to_string_small nat_to_string_two c)
  moreover have "fits (encodeApplyResult ref_json_api ?r)"
    by (simp add: fits_def encodeApplyResult_def kMaxPayloadSize_def connectionJson_def errorJson_def applied_of_def
        upsert_def ref_json_api_def ju16_def string_text_def int_text_def num_text_def
        nat_to_string_small nat_to_string_two c)
  moreover have "api_applyConnections InProcessSimBackend [upsert ''a'' 1 2 5] (atomic_op [])
      (remote_device (loop_client example_device)) = (Inr ?r, d')"
    using d' by (simp add: InProcessSimBackend_def loop_client_def connected_client_def remote_device_def)
  moreover have "opt_timeout (atomic_op []) = 1000" by (simp add: atomic_op_def)
  ultimately show ?thesis
    using remote_refines_in_process [OF json_laws_ref remote_ready_example, THEN conjunct1, rule_format,
        of "atomic_op []" "[upsert ''a'' 1 2 5]" ?r d'] by auto
qed

end
