(* ===== verification/Redis_Keys.thy ===== *)
theory Redis_Keys
  imports Prelude
begin

text \<open>
  The logical databases, streams and key families of the Redis schema
  (\<open>cpp/include/ocs/redis_keys.hpp\<close>), one definition per key builder.
\<close>

section \<open>Databases and streams\<close>

datatype LogicalDb = kAppl | kDevice | kCounters | kConfig | kState | kAlarm

fun LogicalDb_index :: "LogicalDb \<Rightarrow> int" where
  "LogicalDb_index kAppl = 0"
| "LogicalDb_index kDevice = 1"
| "LogicalDb_index kCounters = 2"
| "LogicalDb_index kConfig = 4"
| "LogicalDb_index kState = 6"
| "LogicalDb_index kAlarm = 8"

definition kConfigEvents :: string where
  "kConfigEvents = ''OCS_CONFIG_EVENTS''"

definition kDeviceCommands :: string where
  "kDeviceCommands = ''OCS_DEVICE_COMMANDS''"

definition kDeviceResults :: string where
  "kDeviceResults = ''OCS_DEVICE_RESULTS''"

definition kDeviceRetries :: string where
  "kDeviceRetries = ''OCS_DEVICE_RETRIES''"

definition kStateEvents :: string where
  "kStateEvents = ''OCS_STATE_EVENTS''"

definition kAlarmEvents :: string where
  "kAlarmEvents = ''OCS_ALARM_EVENTS''"

definition kFaultCommands :: string where
  "kFaultCommands = ''OCS_FAULT_COMMANDS''"

section \<open>Keys\<close>

definition faultResultKey :: "string \<Rightarrow> string" where
  "faultResultKey command_id = ''OCS_FAULT_RESULT|'' @ command_id"

definition deviceConfigKey :: "string \<Rightarrow> string" where
  "deviceConfigKey device = ''OCS_DEVICE|'' @ device"

definition inputPortConfigKey :: "string \<Rightarrow> string \<Rightarrow> string" where
  "inputPortConfigKey device port_id = ''OCS_INPUT_PORT|'' @ device @ ''|'' @ port_id"

definition outputPortConfigKey :: "string \<Rightarrow> string \<Rightarrow> string" where
  "outputPortConfigKey device port_id = ''OCS_OUTPUT_PORT|'' @ device @ ''|'' @ port_id"

definition connectionConfigKey :: "string \<Rightarrow> string \<Rightarrow> string" where
  "connectionConfigKey device connection_id = ''OCS_CONNECTION|'' @ device @ ''|'' @ connection_id"

definition connectionConfigPattern :: "string \<Rightarrow> string" where
  "connectionConfigPattern device = ''OCS_CONNECTION|'' @ device @ ''|*''"

definition connectionAppKey :: "string \<Rightarrow> string \<Rightarrow> string" where
  "connectionAppKey device connection_id = ''OCS_CONNECTION_APP|'' @ device @ ''|'' @ connection_id"

definition connectionDeviceKey :: "string \<Rightarrow> string \<Rightarrow> string" where
  "connectionDeviceKey device connection_id = ''OCS_CONNECTION_DEVICE|'' @ device @ ''|'' @ connection_id"

definition syncdConnectionVersionKey :: "string \<Rightarrow> string \<Rightarrow> string" where
  "syncdConnectionVersionKey device connection_id = ''OCS_SYNCD_CONNECTION_VERSION|'' @ device @ ''|'' @ connection_id"

definition connectionDevicePattern :: "string \<Rightarrow> string" where
  "connectionDevicePattern device = ''OCS_CONNECTION_DEVICE|'' @ device @ ''|*''"

definition syncdGenerationRecoveryKey :: "string \<Rightarrow> u64 \<Rightarrow> string" where
  "syncdGenerationRecoveryKey device generation = ''OCS_SYNCD_GENERATION_RECOVERY|'' @ device @ ''|'' @ to_string_u64 generation"

definition syncdGenerationStatePublicationKey :: "string \<Rightarrow> u64 \<Rightarrow> string \<Rightarrow> string" where
  "syncdGenerationStatePublicationKey device generation connection_id = ''OCS_SYNCD_GENERATION_STATE_PUBLISHED|'' @ device @ ''|'' @ to_string_u64 generation @ ''|'' @ connection_id"

definition syncdGenerationCountersPublicationKey :: "string \<Rightarrow> u64 \<Rightarrow> string" where
  "syncdGenerationCountersPublicationKey device generation = ''OCS_SYNCD_GENERATION_COUNTERS_PUBLISHED|'' @ device @ ''|'' @ to_string_u64 generation"

definition syncdReconciliationKey :: "string \<Rightarrow> string" where
  "syncdReconciliationKey device = ''OCS_SYNCD_RECONCILIATION|'' @ device"

definition syncdReconciliationCommandPublicationKey :: "string \<Rightarrow> string" where
  "syncdReconciliationCommandPublicationKey command_id = ''OCS_SYNCD_RECONCILIATION_COMMAND_PUBLISHED|'' @ command_id"

definition syncdReconciliationStatePublicationKey :: "string \<Rightarrow> string \<Rightarrow> string \<Rightarrow> string" where
  "syncdReconciliationStatePublicationKey command_id connection_id phase = ''OCS_SYNCD_RECONCILIATION_STATE_PUBLISHED|'' @ command_id @ ''|'' @ connection_id @ ''|'' @ phase"

definition syncdReconciliationCountersPublicationKey :: "string \<Rightarrow> string" where
  "syncdReconciliationCountersPublicationKey command_id = ''OCS_SYNCD_RECONCILIATION_COUNTERS_PUBLISHED|'' @ command_id"

definition syncdReconciliationSuccessCountersPublicationKey :: "string \<Rightarrow> string" where
  "syncdReconciliationSuccessCountersPublicationKey command_id = ''OCS_SYNCD_RECONCILIATION_SUCCESS_COUNTERS_PUBLISHED|'' @ command_id"

definition desiredActualDriftAlarmId :: "string" where
  "desiredActualDriftAlarmId = ''desired-actual-drift''"

definition syncdDriftAlarmPublicationKey :: "string \<Rightarrow> string" where
  "syncdDriftAlarmPublicationKey command_id = ''OCS_SYNCD_DRIFT_ALARM_PUBLISHED|'' @ command_id"

definition syncdDriftAlarmClearPublicationKey :: "string \<Rightarrow> string" where
  "syncdDriftAlarmClearPublicationKey command_id = ''OCS_SYNCD_DRIFT_ALARM_CLEARED|'' @ command_id"

definition syncdDriftAlarmCounterPublicationKey :: "string \<Rightarrow> string \<Rightarrow> bool \<Rightarrow> string" where
  "syncdDriftAlarmCounterPublicationKey device activation_id clear = ''OCS_SYNCD_DRIFT_ALARM_COUNTER_'' @ (if clear then ''CLEARED|'' else ''RAISED|'') @ device @ ''|'' @ activation_id"

definition syncdPortFaultKey :: "string \<Rightarrow> string \<Rightarrow> string \<Rightarrow> string" where
  "syncdPortFaultKey device direction port_id = ''OCS_SYNCD_PORT_FAULT|'' @ device @ ''|'' @ direction @ ''|'' @ port_id"

definition syncdPortFaultPattern :: "string \<Rightarrow> string" where
  "syncdPortFaultPattern device = ''OCS_SYNCD_PORT_FAULT|'' @ device @ ''|*''"

definition portDownAlarmId :: "string \<Rightarrow> string \<Rightarrow> string" where
  "portDownAlarmId direction port_id = ''port-down-'' @ direction @ ''-'' @ port_id"

definition syncdPortAlarmPublicationKey :: "string \<Rightarrow> string" where
  "syncdPortAlarmPublicationKey activation_id = ''OCS_SYNCD_PORT_ALARM_PUBLISHED|'' @ activation_id"

definition syncdPortAlarmClearPublicationKey :: "string \<Rightarrow> string" where
  "syncdPortAlarmClearPublicationKey activation_id = ''OCS_SYNCD_PORT_ALARM_CLEARED|'' @ activation_id"

definition syncdPortAlarmCounterPublicationKey :: "string \<Rightarrow> bool \<Rightarrow> string" where
  "syncdPortAlarmCounterPublicationKey activation_id clear = ''OCS_SYNCD_PORT_ALARM_COUNTER_'' @ (if clear then ''CLEARED|'' else ''RAISED|'') @ activation_id"

definition processedDeviceCommandKey :: "string \<Rightarrow> string" where
  "processedDeviceCommandKey command_id = ''OCS_PROCESSED_DEVICE_COMMAND|'' @ command_id"

definition orchConfigBatchKey :: "string \<Rightarrow> string" where
  "orchConfigBatchKey event_id = ''OCS_ORCH_CONFIG_BATCH|'' @ event_id"

definition orchApplicationPublicationKey :: "string \<Rightarrow> string" where
  "orchApplicationPublicationKey event_id = ''OCS_ORCH_APPLICATION_PUBLISHED|'' @ event_id"

definition orchDeviceStatePublicationKey :: "string \<Rightarrow> string" where
  "orchDeviceStatePublicationKey event_id = ''OCS_ORCH_DEVICE_STATE_PUBLISHED|'' @ event_id"

definition orchDeviceCommandPublicationKey :: "string \<Rightarrow> string" where
  "orchDeviceCommandPublicationKey event_id = ''OCS_ORCH_DEVICE_COMMAND_PUBLISHED|'' @ event_id"

definition orchResultApplicationPublicationKey :: "string \<Rightarrow> string" where
  "orchResultApplicationPublicationKey result_event_id = ''OCS_ORCH_RESULT_APPLICATION_PUBLISHED|'' @ result_event_id"

definition orchResultDevicePublicationKey :: "string \<Rightarrow> string" where
  "orchResultDevicePublicationKey result_event_id = ''OCS_ORCH_RESULT_DEVICE_PUBLISHED|'' @ result_event_id"

definition orchTimeoutApplicationPublicationKey :: "string \<Rightarrow> string" where
  "orchTimeoutApplicationPublicationKey command_id = ''OCS_ORCH_TIMEOUT_APPLICATION_PUBLISHED|'' @ command_id"

definition orchTimeoutDevicePublicationKey :: "string \<Rightarrow> string" where
  "orchTimeoutDevicePublicationKey command_id = ''OCS_ORCH_TIMEOUT_DEVICE_PUBLISHED|'' @ command_id"

definition orchRetryPublicationKey :: "string \<Rightarrow> string" where
  "orchRetryPublicationKey command_id = ''OCS_ORCH_RETRY_PUBLISHED|'' @ command_id"

definition orchRetryApplicationPublicationKey :: "string \<Rightarrow> string" where
  "orchRetryApplicationPublicationKey retry_event_id = ''OCS_ORCH_RETRY_APPLICATION_PUBLISHED|'' @ retry_event_id"

definition orchRetryDevicePublicationKey :: "string \<Rightarrow> string" where
  "orchRetryDevicePublicationKey retry_event_id = ''OCS_ORCH_RETRY_DEVICE_PUBLISHED|'' @ retry_event_id"

definition orchRetryCommandPublicationKey :: "string \<Rightarrow> string" where
  "orchRetryCommandPublicationKey retry_event_id = ''OCS_ORCH_RETRY_COMMAND_PUBLISHED|'' @ retry_event_id"

definition deviceApplyAttemptKey :: "string \<Rightarrow> string" where
  "deviceApplyAttemptKey command_id = ''OCS_DEVICE_APPLY_ATTEMPT|'' @ command_id"

definition deviceApplyResultKey :: "string \<Rightarrow> string" where
  "deviceApplyResultKey command_id = ''OCS_DEVICE_APPLY_RESULT|'' @ command_id"

definition syncdStatePublicationKey :: "string \<Rightarrow> string \<Rightarrow> string" where
  "syncdStatePublicationKey command_id connection_id = ''OCS_SYNCD_STATE_PUBLISHED|'' @ command_id @ ''|'' @ connection_id"

definition syncdCountersPublicationKey :: "string \<Rightarrow> string" where
  "syncdCountersPublicationKey command_id = ''OCS_SYNCD_COUNTERS_PUBLISHED|'' @ command_id"

definition syncdResultPublicationKey :: "string \<Rightarrow> string \<Rightarrow> string" where
  "syncdResultPublicationKey command_id connection_id = ''OCS_SYNCD_RESULT_PUBLISHED|'' @ command_id @ ''|'' @ connection_id"

definition connectionStateKey :: "string \<Rightarrow> string \<Rightarrow> string" where
  "connectionStateKey device connection_id = ''OCS_CONNECTION_STATE|'' @ device @ ''|'' @ connection_id"

definition configRevisionKey :: "string \<Rightarrow> string" where
  "configRevisionKey device = ''OCS_CONFIG_REVISION|'' @ device"

definition deviceStateKey :: "string \<Rightarrow> string" where
  "deviceStateKey device = ''OCS_DEVICE_STATE|'' @ device"

definition serviceStateKey :: "string \<Rightarrow> string" where
  "serviceStateKey service = ''OCS_SERVICE_STATE|'' @ service"

definition inputPortStateKey :: "string \<Rightarrow> string \<Rightarrow> string" where
  "inputPortStateKey device port_id = ''OCS_INPUT_PORT_STATE|'' @ device @ ''|'' @ port_id"

definition outputPortStateKey :: "string \<Rightarrow> string \<Rightarrow> string" where
  "outputPortStateKey device port_id = ''OCS_OUTPUT_PORT_STATE|'' @ device @ ''|'' @ port_id"

definition deviceCountersKey :: "string \<Rightarrow> string" where
  "deviceCountersKey device = ''OCS_DEVICE_COUNTERS|'' @ device"

definition connectionCountersKey :: "string \<Rightarrow> string \<Rightarrow> string" where
  "connectionCountersKey device connection_id = ''OCS_CONNECTION_COUNTERS|'' @ device @ ''|'' @ connection_id"

definition activeAlarmKey :: "string \<Rightarrow> string \<Rightarrow> string" where
  "activeAlarmKey device alarm_id = ''OCS_ACTIVE_ALARM|'' @ device @ ''|'' @ alarm_id"

definition applyTimeoutAlarmId :: "string \<Rightarrow> string" where
  "applyTimeoutAlarmId connection_id = ''apply-timeout-'' @ connection_id"

definition orchAlarmPublicationKey :: "string \<Rightarrow> string" where
  "orchAlarmPublicationKey result_event_id = ''OCS_ORCH_ALARM_PUBLISHED|'' @ result_event_id"

definition orchAlarmClearPublicationKey :: "string \<Rightarrow> string" where
  "orchAlarmClearPublicationKey result_event_id = ''OCS_ORCH_ALARM_CLEAR_PUBLISHED|'' @ result_event_id"

definition orchAlarmCounterPublicationKey :: "string \<Rightarrow> string \<Rightarrow> string \<Rightarrow> bool \<Rightarrow> string" where
  "orchAlarmCounterPublicationKey device alarm_id activation_id clear = ''OCS_ORCH_ALARM_COUNTER_'' @ (if clear then ''CLEARED|'' else ''RAISED|'') @ device @ ''|'' @ alarm_id @ ''|'' @ activation_id"

lemmas key_defs =
  faultResultKey_def deviceConfigKey_def inputPortConfigKey_def outputPortConfigKey_def
  connectionConfigKey_def connectionAppKey_def connectionDeviceKey_def
  syncdConnectionVersionKey_def syncdGenerationRecoveryKey_def
  syncdGenerationStatePublicationKey_def syncdGenerationCountersPublicationKey_def
  syncdReconciliationKey_def syncdReconciliationCommandPublicationKey_def
  syncdReconciliationStatePublicationKey_def syncdReconciliationCountersPublicationKey_def
  syncdReconciliationSuccessCountersPublicationKey_def syncdDriftAlarmPublicationKey_def
  syncdDriftAlarmClearPublicationKey_def syncdDriftAlarmCounterPublicationKey_def
  syncdPortFaultKey_def syncdPortAlarmPublicationKey_def syncdPortAlarmClearPublicationKey_def
  syncdPortAlarmCounterPublicationKey_def processedDeviceCommandKey_def orchConfigBatchKey_def
  orchApplicationPublicationKey_def orchDeviceStatePublicationKey_def
  orchDeviceCommandPublicationKey_def orchResultApplicationPublicationKey_def
  orchResultDevicePublicationKey_def orchTimeoutApplicationPublicationKey_def
  orchTimeoutDevicePublicationKey_def orchRetryPublicationKey_def
  orchRetryApplicationPublicationKey_def orchRetryDevicePublicationKey_def
  orchRetryCommandPublicationKey_def deviceApplyAttemptKey_def deviceApplyResultKey_def
  syncdStatePublicationKey_def syncdCountersPublicationKey_def syncdResultPublicationKey_def
  connectionStateKey_def configRevisionKey_def deviceStateKey_def serviceStateKey_def
  inputPortStateKey_def outputPortStateKey_def deviceCountersKey_def connectionCountersKey_def
  activeAlarmKey_def orchAlarmPublicationKey_def orchAlarmClearPublicationKey_def
  orchAlarmCounterPublicationKey_def

section \<open>Facts\<close>

text \<open>The family of a key is its text up to the first separator.\<close>

definition key_family :: "string \<Rightarrow> string" where
  "key_family key = takeWhile (\<lambda>c. c \<noteq> CHR ''|'') key"

lemma key_family_prefix: "CHR ''|'' \<notin> set p \<Longrightarrow> key_family (p @ CHR ''|'' # s) = p"
  by (simp add: key_family_def takeWhile_append)

lemma distinct_family: "distinct (map key_family ks) \<Longrightarrow> distinct ks"
  by (simp add: distinct_map)

lemma split_at_separator:
  assumes "d @ CHR ''|'' # i = d' @ CHR ''|'' # i'" "CHR ''|'' \<notin> set d" "CHR ''|'' \<notin> set d'"
  shows "d = d' \<and> i = i'"
proof -
  have "takeWhile (\<lambda>c. c \<noteq> CHR ''|'') (d @ CHR ''|'' # i) = d"
    "takeWhile (\<lambda>c. c \<noteq> CHR ''|'') (d' @ CHR ''|'' # i') = d'"
    using assms(2,3) by (auto simp: takeWhile_append)
  with assms(1) show ?thesis by simp
qed

section \<open>Properties\<close>

text \<open>Keys of different families never collide, whatever device names, connection ids, event ids
  and versions they are built from, even when these contain the separator.\<close>

lemma key_families_disjoint:
  "distinct
    [faultResultKey a0_0, deviceConfigKey a1_0, inputPortConfigKey a2_0 a2_1,
     outputPortConfigKey a3_0 a3_1, connectionConfigKey a4_0 a4_1, connectionAppKey a6_0 a6_1,
     connectionDeviceKey a7_0 a7_1, syncdConnectionVersionKey a8_0 a8_1,
     syncdGenerationRecoveryKey a10_0 a10_1, syncdGenerationStatePublicationKey a11_0 a11_1 a11_2,
     syncdGenerationCountersPublicationKey a12_0 a12_1, syncdReconciliationKey a13_0,
     syncdReconciliationCommandPublicationKey a14_0,
     syncdReconciliationStatePublicationKey a15_0 a15_1 a15_2,
     syncdReconciliationCountersPublicationKey a16_0,
     syncdReconciliationSuccessCountersPublicationKey a17_0, syncdDriftAlarmPublicationKey a18_0,
     syncdDriftAlarmClearPublicationKey a19_0,
     syncdDriftAlarmCounterPublicationKey a20_0 a20_1 a20_2, syncdPortFaultKey a21_0 a21_1 a21_2,
     syncdPortAlarmPublicationKey a23_0, syncdPortAlarmClearPublicationKey a24_0,
     syncdPortAlarmCounterPublicationKey a25_0 a25_1, processedDeviceCommandKey a26_0,
     orchConfigBatchKey a27_0, orchApplicationPublicationKey a28_0,
     orchDeviceStatePublicationKey a29_0, orchDeviceCommandPublicationKey a30_0,
     orchResultApplicationPublicationKey a31_0, orchResultDevicePublicationKey a32_0,
     orchTimeoutApplicationPublicationKey a33_0, orchTimeoutDevicePublicationKey a34_0,
     orchRetryPublicationKey a35_0, orchRetryApplicationPublicationKey a36_0,
     orchRetryDevicePublicationKey a37_0, orchRetryCommandPublicationKey a38_0,
     deviceApplyAttemptKey a39_0, deviceApplyResultKey a40_0, syncdStatePublicationKey a41_0 a41_1,
     syncdCountersPublicationKey a42_0, syncdResultPublicationKey a43_0 a43_1,
     connectionStateKey a44_0 a44_1, configRevisionKey a45_0, deviceStateKey a46_0,
     serviceStateKey a47_0, inputPortStateKey a48_0 a48_1, outputPortStateKey a49_0 a49_1,
     deviceCountersKey a50_0, connectionCountersKey a51_0 a51_1, activeAlarmKey a52_0 a52_1,
     orchAlarmPublicationKey a53_0, orchAlarmClearPublicationKey a54_0,
     orchAlarmCounterPublicationKey a55_0 a55_1 a55_2 a55_3]"
  by (rule distinct_family) (simp add: key_defs key_family_def)

text \<open>C39: within a family that is keyed by device and connection, two keys are equal only for the same
  device and the same connection, provided device names do not contain the separator; the connection id
  may be any text.\<close>

theorem connection_keys_injective:
  assumes "CHR ''|'' \<notin> set device" "CHR ''|'' \<notin> set device'"
    "k \<in> {connectionConfigKey, connectionAppKey, connectionDeviceKey, connectionStateKey,
       connectionCountersKey, syncdConnectionVersionKey}"
    "k device i = k device' i'"
  shows "device = device' \<and> i = i'"
  using assms(3,4) split_at_separator [OF _ assms(1,2)] by (auto simp: key_defs)

theorem connection_keys_injective_witness:
  "connectionAppKey ''ocs0'' ''a|b'' \<noteq> connectionAppKey ''ocs1'' ''a|b''"
  using connection_keys_injective [of "''ocs0''" "''ocs1''" connectionAppKey "''a|b''" "''a|b''"] by auto

end
