(* ===== verification/Redis_Server.thy ===== *)
theory Redis_Server
  imports Redis_Keys Std_Map State_Exn
begin

text \<open>
  The Redis server and its client library \<open>sw::redis\<close> are not part of the repository. They are a
  parameter: a record of the commands the repository sends, over an abstract state. Every command may
  throw (the connection may be lost). What the repository relies on is \<open>redis_laws\<close>, the documented
  effect of the commands on a view of the databases: hashes and streams by key. The last section is a
  concrete server.
\<close>

section \<open>Commands\<close>

type_synonym fields = "(string \<times> string) list"
type_synonym stream_item = "string \<times> fields"
type_synonym stream_result = "(string \<times> stream_item list) list"

text \<open>The commands the repository queues in a \<open>MULTI\<close>/\<open>EXEC\<close> transaction.\<close>

datatype rcmd =
    RDel string
  | RHmset string fields
  | RHsetnx string string string
  | RXadd string fields
  | RHincrby string string int

text \<open>
  \<open>rd_exec\<close> returns \<open>False\<close> for a \<open>WatchError\<close>. \<open>rd_eval\<close> runs a script on the server. \<open>rd_xpending\<close>
  is the extended form from \<open>-\<close> to \<open>+\<close>: id, consumer, idle milliseconds, deliveries; \<open>rd_pending_count\<close> is
  the count of the summary form.
\<close>

record 's redis_api =
  rd_ping :: "LogicalDb \<Rightarrow> ('s, unit) sexn"
  rd_watch :: "LogicalDb \<Rightarrow> string \<Rightarrow> ('s, unit) sexn"
  rd_unwatch :: "LogicalDb \<Rightarrow> ('s, unit) sexn"
  rd_exists :: "LogicalDb \<Rightarrow> string \<Rightarrow> ('s, int) sexn"
  rd_hget :: "LogicalDb \<Rightarrow> string \<Rightarrow> string \<Rightarrow> ('s, string option) sexn"
  rd_hgetall :: "LogicalDb \<Rightarrow> string \<Rightarrow> ('s, fields) sexn"
  rd_exec :: "LogicalDb \<Rightarrow> rcmd list \<Rightarrow> ('s, bool) sexn"
  rd_hincrby :: "LogicalDb \<Rightarrow> string \<Rightarrow> string \<Rightarrow> int \<Rightarrow> ('s, int) sexn"
  rd_del :: "LogicalDb \<Rightarrow> string \<Rightarrow> ('s, int) sexn"
  rd_xadd :: "LogicalDb \<Rightarrow> string \<Rightarrow> fields \<Rightarrow> ('s, string) sexn"
  rd_scan :: "LogicalDb \<Rightarrow> u64 \<Rightarrow> string \<Rightarrow> int \<Rightarrow> ('s, u64 \<times> string list) sexn"
  rd_xgroup_create :: "LogicalDb \<Rightarrow> string \<Rightarrow> string \<Rightarrow> string \<Rightarrow> ('s, unit) sexn"
  rd_xreadgroup :: "LogicalDb \<Rightarrow> string \<Rightarrow> string \<Rightarrow> string \<Rightarrow> int \<Rightarrow> ('s, stream_result) sexn"
  rd_pending_count :: "LogicalDb \<Rightarrow> string \<Rightarrow> string \<Rightarrow> ('s, int) sexn"
  rd_eval :: "LogicalDb \<Rightarrow> ('s, stream_result) sexn \<Rightarrow> ('s, stream_result) sexn"
  rd_xpending :: "LogicalDb \<Rightarrow> string \<Rightarrow> string \<Rightarrow> int \<Rightarrow> ('s, (string \<times> string \<times> int \<times> int) list) sexn"
  rd_xclaim :: "LogicalDb \<Rightarrow> string \<Rightarrow> string \<Rightarrow> string \<Rightarrow> int \<Rightarrow> string list \<Rightarrow> ('s, stream_item list) sexn"
  rd_xack :: "LogicalDb \<Rightarrow> string \<Rightarrow> string \<Rightarrow> string \<Rightarrow> ('s, int) sexn"
  rd_flushdb :: "LogicalDb \<Rightarrow> ('s, unit) sexn"

section \<open>Their documented effect\<close>

text \<open>A database as a client sees it: hashes as sorted field lists; one without fields does not exist.\<close>

record rdb =
  db_hashes :: "string \<Rightarrow> (string, string) smap"
  db_streams :: "string \<rightharpoonup> fields list"

type_synonym databases = "LogicalDb \<Rightarrow> rdb"

definition set_hash :: "string \<Rightarrow> (string, string) smap \<Rightarrow> rdb \<Rightarrow> rdb" where
  "set_hash key h d = d\<lparr>db_hashes := (db_hashes d)(key := h)\<rparr>"

definition put_fields :: "fields \<Rightarrow> (string, string) smap \<Rightarrow> (string, string) smap" where
  "put_fields fs h = foldl (\<lambda>h (f, v). insert_or_assign f v h) h fs"

definition stream_entries :: "rdb \<Rightarrow> string \<Rightarrow> fields list" where
  "stream_entries d stream = (case db_streams d stream of None \<Rightarrow> [] | Some es \<Rightarrow> es)"

text \<open>A counter field holds a decimal 64-bit integer; other contents make the command fail alone.\<close>

definition incremented :: "string option \<Rightarrow> int \<Rightarrow> string" where
  "incremented old n =
     (case old of
        None \<Rightarrow> to_string_int n
      | Some t \<Rightarrow> (case stoll t of
            Inr i \<Rightarrow> if t = to_string_int i \<and> - (2 ^ 63) \<le> i + n \<and> i + n < 2 ^ 63
                     then to_string_int (i + n) else t
          | Inl _ \<Rightarrow> t))"

fun apply_rcmd :: "rcmd \<Rightarrow> rdb \<Rightarrow> rdb" where
  "apply_rcmd (RDel key) d = (set_hash key [] d)\<lparr>db_streams := (db_streams d)(key := None)\<rparr>"
| "apply_rcmd (RHmset key fs) d = set_hash key (put_fields fs (db_hashes d key)) d"
| "apply_rcmd (RHsetnx key f v) d =
     (if map_of (db_hashes d key) f = None then set_hash key (insert_or_assign f v (db_hashes d key)) d else d)"
| "apply_rcmd (RXadd stream fs) d = d\<lparr>db_streams := (db_streams d)(stream \<mapsto> stream_entries d stream @ [fs])\<rparr>"
| "apply_rcmd (RHincrby key f n) d =
     set_hash key (insert_or_assign f (incremented (map_of (db_hashes d key) f) n) (db_hashes d key)) d"

definition apply_rcmds :: "rcmd list \<Rightarrow> rdb \<Rightarrow> rdb" where
  "apply_rcmds cmds d = foldl (\<lambda>d c. apply_rcmd c d) d cmds"

definition key_exists :: "rdb \<Rightarrow> string \<Rightarrow> bool" where
  "key_exists d key \<longleftrightarrow> db_hashes d key \<noteq> [] \<or> db_streams d key \<noteq> None"

definition silent :: "('s \<Rightarrow> databases) \<Rightarrow> ('s, 'a) sexn \<Rightarrow> bool" where
  "silent view m \<longleftrightarrow> (\<forall>s. view (snd (m s)) = view s)"

definition commits :: "('s \<Rightarrow> databases) \<Rightarrow> LogicalDb \<Rightarrow> rcmd list \<Rightarrow> 's \<Rightarrow> 's \<Rightarrow> bool" where
  "commits view db cmds s s' \<longleftrightarrow> view s' = (view s)(db := apply_rcmds cmds (view s db))"

text \<open>
  The laws. Reading commands do not change the databases and answer what they hold. A transaction
  that reports success has applied its commands, all of them, at once; one that reports a conflict has
  applied none; after an exception either may be the case. Commands on consumer groups change neither
  hashes nor stream contents.
\<close>

definition redis_laws :: "'s redis_api \<Rightarrow> ('s \<Rightarrow> databases) \<Rightarrow> bool" where
  "redis_laws R view \<longleftrightarrow>
     (\<forall>db k. silent view (rd_watch R db k) \<and> silent view (rd_unwatch R db) \<and>
        silent view (rd_exists R db k) \<and> silent view (rd_hgetall R db k) \<and>
        (\<forall>f. silent view (rd_hget R db k f))) \<and>
     (\<forall>db k s n s'. rd_exists R db k s = (Inr n, s') \<longrightarrow> (n \<noteq> 0 \<longleftrightarrow> key_exists (view s db) k)) \<and>
     (\<forall>db k f s x s'. rd_hget R db k f s = (Inr x, s') \<longrightarrow> x = map_of (db_hashes (view s db) k) f) \<and>
     (\<forall>db k s fs s'. rd_hgetall R db k s = (Inr fs, s') \<longrightarrow>
        map_of fs = map_of (db_hashes (view s db) k) \<and> distinct (map fst fs)) \<and>
     (\<forall>db cmds s s'. rd_exec R db cmds s = (Inr True, s') \<longrightarrow> commits view db cmds s s') \<and>
     (\<forall>db cmds s s'. rd_exec R db cmds s = (Inr False, s') \<longrightarrow> view s' = view s) \<and>
     (\<forall>db cmds s e s'. rd_exec R db cmds s = (Inl e, s') \<longrightarrow> view s' = view s \<or> commits view db cmds s s') \<and>
     (\<forall>db stream grp consumer n. silent view (rd_xreadgroup R db grp consumer stream n) \<and>
        silent view (rd_pending_count R db stream grp) \<and> silent view (rd_xpending R db stream grp n)) \<and>
     (\<forall>db stream grp consumer idle ids. silent view (rd_xclaim R db stream grp consumer idle ids)) \<and>
     (\<forall>db stream grp i. silent view (rd_xack R db stream grp i)) \<and>
     (\<forall>db m. rd_eval R db m = m)"

lemma silentD: "silent view m \<Longrightarrow> m s = (r, s') \<Longrightarrow> view s' = view s"
  unfolding silent_def by (metis snd_conv)

lemma silent_bindS: "silent view m \<Longrightarrow> (\<And>x. silent view (f x)) \<Longrightarrow> silent view (bindS m f)"
  by (simp add: silent_def bindS_def split: prod.splits sum.splits) (metis snd_conv)

lemma silent_thenS: "silent view m \<Longrightarrow> silent view n \<Longrightarrow> silent view (thenS m n)"
  by (simp add: thenS_def silent_bindS)

lemma silent_pure [simp]:
  "silent view (returnS x)" "silent view (throwS e)" "silent view (getS f)" "silent view (liftE r)"
  by (simp_all add: silent_def returnS_def throwS_def getS_def liftE_def)

lemma silent_reads:
  assumes "redis_laws R view"
  shows "silent view (rd_watch R db k)" "silent view (rd_unwatch R db)" "silent view (rd_exists R db k)"
    "silent view (rd_hgetall R db k)" "silent view (rd_hget R db k f)"
    "silent view (rd_xreadgroup R db grp consumer stream n)"
    "silent view (rd_pending_count R db stream grp)" "silent view (rd_xpending R db stream grp n)"
    "silent view (rd_xclaim R db stream grp consumer idle ids)" "silent view (rd_xack R db stream grp i)"
  using assms by (simp_all add: redis_laws_def)

lemma exists_law:
  "redis_laws R view \<Longrightarrow> rd_exists R db k s = (Inr n, s') \<Longrightarrow> n \<noteq> 0 \<longleftrightarrow> key_exists (view s db) k"
  unfolding redis_laws_def by metis

lemma hget_law: "redis_laws R view \<Longrightarrow> rd_hget R db k f s = (Inr x, s') \<Longrightarrow> x = map_of (db_hashes (view s db) k) f"
  unfolding redis_laws_def by metis

lemma hgetall_law:
  "redis_laws R view \<Longrightarrow> rd_hgetall R db k s = (Inr fs, s') \<Longrightarrow>
   map_of fs = map_of (db_hashes (view s db) k) \<and> distinct (map fst fs)"
  unfolding redis_laws_def by metis

lemma exec_law:
  assumes "redis_laws R view" "rd_exec R db cmds s = (r, s')"
  shows "(r = Inr True \<longrightarrow> commits view db cmds s s') \<and> (r = Inr False \<longrightarrow> view s' = view s) \<and>
    (\<forall>e. r = Inl e \<longrightarrow> view s' = view s \<or> commits view db cmds s s')"
  using assms unfolding redis_laws_def by metis

lemma eval_law: "redis_laws R view \<Longrightarrow> rd_eval R db m = m"
  by (simp add: redis_laws_def)

section \<open>A concrete server\<close>

text \<open>
  One client, no failures: the databases, and per stream and group the undelivered and the pending
  entries. It is used where a statement is applied to an input.
\<close>

record ref_redis_state =
  rr_dbs :: databases
  rr_new :: "LogicalDb \<Rightarrow> string \<Rightarrow> stream_item list"
  rr_pending :: "LogicalDb \<Rightarrow> string \<Rightarrow> stream_item list"

definition ref_redis :: "ref_redis_state redis_api" where
  "ref_redis = \<lparr>
     rd_ping = (\<lambda>db. returnS ()),
     rd_watch = (\<lambda>db k. returnS ()),
     rd_unwatch = (\<lambda>db. returnS ()),
     rd_exists = (\<lambda>db k. getS (\<lambda>s. if key_exists (rr_dbs s db) k then 1 else 0)),
     rd_hget = (\<lambda>db k f. getS (\<lambda>s. map_of (db_hashes (rr_dbs s db) k) f)),
     rd_hgetall = (\<lambda>db k. getS (\<lambda>s. smap_of_list (db_hashes (rr_dbs s db) k))),
     rd_exec = (\<lambda>db cmds s. (Inr True, s\<lparr>rr_dbs := (rr_dbs s)(db := apply_rcmds cmds (rr_dbs s db))\<rparr>)),
     rd_hincrby = (\<lambda>db k f n s. (Inr n, s\<lparr>rr_dbs := (rr_dbs s)(db := apply_rcmd (RHincrby k f n) (rr_dbs s db))\<rparr>)),
     rd_del = (\<lambda>db k s. (Inr 1, s\<lparr>rr_dbs := (rr_dbs s)(db := apply_rcmd (RDel k) (rr_dbs s db))\<rparr>)),
     rd_xadd = (\<lambda>db stream fs s. (Inr ''1-0'', s\<lparr>rr_dbs := (rr_dbs s)(db := apply_rcmd (RXadd stream fs) (rr_dbs s db))\<rparr>)),
     rd_scan = (\<lambda>db cursor pattern n. returnS (0, [])),
     rd_xgroup_create = (\<lambda>db stream grp start. returnS ()),
     rd_xreadgroup = (\<lambda>db grp consumer stream n s.
        (Inr [(stream, take (nat n) (rr_new s db stream))],
         s\<lparr>rr_new := (rr_new s)(db := (rr_new s db)(stream := drop (nat n) (rr_new s db stream))),
           rr_pending := (rr_pending s)(db := (rr_pending s db)(stream :=
             rr_pending s db stream @ take (nat n) (rr_new s db stream)))\<rparr>)),
     rd_pending_count = (\<lambda>db stream grp. getS (\<lambda>s. int (length (rr_pending s db stream)))),
     rd_eval = (\<lambda>db m. m),
     rd_xpending = (\<lambda>db stream grp n. getS (\<lambda>s.
        map (\<lambda>(i, fs). (i, [], 1000000, 1)) (take (nat n) (rr_pending s db stream)))),
     rd_xclaim = (\<lambda>db stream grp consumer idle ids. getS (\<lambda>s.
        filter (\<lambda>(i, fs). i \<in> set ids) (rr_pending s db stream))),
     rd_xack = (\<lambda>db stream grp i s. (Inr 1, s\<lparr>rr_pending := (rr_pending s)(db := (rr_pending s db)(stream :=
        filter (\<lambda>e. fst e \<noteq> i) (rr_pending s db stream)))\<rparr>)),
     rd_flushdb = (\<lambda>db s. (Inr (), s\<lparr>rr_dbs := (rr_dbs s)(db := \<lparr>db_hashes = (\<lambda>_. []), db_streams = Map.empty\<rparr>)\<rparr>))\<rparr>"

lemma redis_laws_ref: "redis_laws ref_redis rr_dbs"
  by (simp add: redis_laws_def ref_redis_def silent_def returnS_def getS_def commits_def smap_ok_distinct)

end
