(* ===== verification/Redis_Repository.thy ===== *)
theory Redis_Repository
  imports Redis_Server
begin

text \<open>
  The repository class (\<open>cpp/src/redis_repository.cpp\<close>, \<open>redis_repository.hpp\<close>): event envelopes as
  stream fields, endpoint parsing, hash and stream operations, and the publications that are guarded by
  a marker key under optimistic locking with at most eight attempts. A repository object is its logical
  database; the methods take the server as a parameter.
\<close>

section \<open>Model\<close>

definition kMaxWatchRetries :: nat where
  "kMaxWatchRetries = 8"

record RedisEndpoint =
  ep_host :: string
  ep_port :: int
  ep_unix_socket :: string
  ep_connect_timeout :: int
  ep_socket_timeout :: int

definition default_RedisEndpoint :: RedisEndpoint where
  "default_RedisEndpoint = \<lparr>ep_host = ''127.0.0.1'', ep_port = 6379, ep_unix_socket = [],
     ep_connect_timeout = 1000, ep_socket_timeout = 1000\<rparr>"

record EventEnvelope =
  ev_event_schema_version :: u32
  ev_event_id :: string
  ev_request_id :: string
  ev_timestamp_ns :: u64
  ev_device :: string
  ev_resource_type :: string
  ev_resource_id :: string
  ev_operation :: string
  ev_desired_version :: u64
  ev_payload :: string

record StreamMessage =
  msg_id :: string
  msg_event :: EventEnvelope

subsection \<open>Events\<close>

definition eventFields :: "EventEnvelope \<Rightarrow> fields" where
  "eventFields event =
     [(''event_schema_version'', to_string_u32 (ev_event_schema_version event)),
      (''event_id'', ev_event_id event),
      (''request_id'', ev_request_id event),
      (''timestamp_ns'', to_string_u64 (ev_timestamp_ns event)),
      (''device'', ev_device event),
      (''resource_type'', ev_resource_type event),
      (''resource_id'', ev_resource_id event),
      (''operation'', ev_operation event),
      (''desired_version'', to_string_u64 (ev_desired_version event)),
      (''payload'', ev_payload event)]"

definition required_field :: "fields \<Rightarrow> string \<Rightarrow> string result" where
  "required_field fs name =
     (case map_of fs name of
        None \<Rightarrow> Inl (Runtime_error (''Redis stream event is missing field: '' @ name))
      | Some v \<Rightarrow> Inr v)"

definition parseEvent :: "fields \<Rightarrow> EventEnvelope result" where
  "parseEvent fs =
     bindE (bindE (required_field fs ''event_schema_version'') stoul) (\<lambda>schema.
     bindE (required_field fs ''event_id'') (\<lambda>event_id.
     bindE (required_field fs ''request_id'') (\<lambda>request_id.
     bindE (bindE (required_field fs ''timestamp_ns'') stoull) (\<lambda>timestamp.
     bindE (required_field fs ''device'') (\<lambda>device.
     bindE (required_field fs ''resource_type'') (\<lambda>resource_type.
     bindE (required_field fs ''resource_id'') (\<lambda>resource_id.
     bindE (required_field fs ''operation'') (\<lambda>operation.
     bindE (bindE (required_field fs ''desired_version'') stoull) (\<lambda>version.
     bindE (required_field fs ''payload'') (\<lambda>payload.
     Inr \<lparr>ev_event_schema_version = ucast schema, ev_event_id = event_id, ev_request_id = request_id,
          ev_timestamp_ns = timestamp, ev_device = device, ev_resource_type = resource_type,
          ev_resource_id = resource_id, ev_operation = operation, ev_desired_version = version,
          ev_payload = payload\<rparr>))))))))))"

definition validateEvent :: "EventEnvelope \<Rightarrow> unit result" where
  "validateEvent event =
     (if ev_event_schema_version event \<noteq> 1
      then Inl (Invalid_argument ''unsupported Redis event schema version'')
      else if ev_event_id event = [] \<or> ev_request_id event = [] \<or> ev_device event = [] \<or>
              ev_resource_type event = [] \<or> ev_resource_id event = [] \<or> ev_operation event = []
      then Inl (Invalid_argument ''Redis event is missing a required envelope field'')
      else Inr ())"

subsection \<open>Endpoints\<close>

text \<open>\<open>std::from_chars\<close> for \<open>int\<close>: an optional minus, the longest run of digits, the rest; no value
  when there is no digit or the number does not fit.\<close>

definition from_chars_int :: "string \<Rightarrow> (int \<times> string) option" where
  "from_chars_int s =
     (let neg = (s \<noteq> [] \<and> hd s = CHR ''-'');
          u = (if neg then tl s else s);
          ds = takeWhile is_digit u;
          v = (if neg then - int (digits_value ds) else int (digits_value ds))
      in if ds = [] \<or> v < - (2 ^ 31) \<or> 2 ^ 31 \<le> v then None else Some (v, dropWhile is_digit u))"

definition parseRedisEndpoint :: "string \<Rightarrow> RedisEndpoint result" where
  "parseRedisEndpoint target =
     (if starts_with target ''tcp://'' then
        let address = drop 6 target in
        (case rfind_char address (CHR '':'') of
           None \<Rightarrow> Inl (Invalid_argument ''Redis TCP endpoint must use tcp://HOST:PORT'')
         | Some separator \<Rightarrow>
             if separator = 0 \<or> separator + 1 = length address
             then Inl (Invalid_argument ''Redis TCP endpoint must use tcp://HOST:PORT'')
             else (case from_chars_int (drop (separator + 1) address) of
                 None \<Rightarrow> Inl (Invalid_argument ''Redis TCP endpoint port is outside 1..65535'')
               | Some (port, rest) \<Rightarrow>
                   if rest \<noteq> [] \<or> port < 1 \<or> port > 65535
                   then Inl (Invalid_argument ''Redis TCP endpoint port is outside 1..65535'')
                   else Inr (default_RedisEndpoint\<lparr>ep_host := take separator address, ep_port := port,
                               ep_unix_socket := []\<rparr>)))
      else
        let target = (if starts_with target ''unix://'' then drop 7 target else target) in
        if target = [] \<or> hd target \<noteq> CHR ''/''
        then Inl (Invalid_argument ''Redis endpoint must be an absolute path, unix:///PATH, or tcp://HOST:PORT'')
        else Inr (default_RedisEndpoint\<lparr>ep_unix_socket := target\<rparr>))"

subsection \<open>Hashes\<close>

text \<open>The queued commands that replace a hash.\<close>

definition replace_cmds :: "string \<Rightarrow> (string, string) smap \<Rightarrow> rcmd list" where
  "replace_cmds key fs = RDel key # (if fs = [] then [] else [RHmset key fs])"

text \<open>\<open>exec\<close> of a transaction that watches nothing: a reported conflict is an exception.\<close>

definition exec_unwatched :: "'s redis_api \<Rightarrow> LogicalDb \<Rightarrow> rcmd list \<Rightarrow> ('s, unit) sexn" where
  "exec_unwatched R db cmds =
     bindS (rd_exec R db cmds) (\<lambda>committed.
     if committed then returnS () else throwS (Runtime_error ''WatchError''))"

definition putHash :: "'s redis_api \<Rightarrow> LogicalDb \<Rightarrow> string \<Rightarrow> (string, string) smap \<Rightarrow> ('s, unit) sexn" where
  "putHash R db key fs = exec_unwatched R db (replace_cmds key fs)"

text \<open>
  The retry loop of the conditional writes: the body returns \<open>Some\<close> for a decision and \<open>None\<close> for a
  conflict.
\<close>

fun watch_loop :: "nat \<Rightarrow> string \<Rightarrow> ('s, bool option) sexn \<Rightarrow> ('s, bool) sexn" where
  "watch_loop 0 message body = throwS (Runtime_error message)"
| "watch_loop (Suc n) message body =
     bindS body (\<lambda>r. case r of Some b \<Rightarrow> returnS b | None \<Rightarrow> watch_loop n message body)"

definition exec_watched :: "'s redis_api \<Rightarrow> LogicalDb \<Rightarrow> rcmd list \<Rightarrow> ('s, bool option) sexn" where
  "exec_watched R db cmds =
     bindS (rd_exec R db cmds) (\<lambda>committed. returnS (if committed then Some True else None))"

text \<open>Watching a marker: an existing marker ends the attempt with \<open>False\<close>.\<close>

definition unless_marked ::
  "'s redis_api \<Rightarrow> LogicalDb \<Rightarrow> string \<Rightarrow> string list \<Rightarrow> ('s, bool option) sexn \<Rightarrow> ('s, bool option) sexn" where
  "unless_marked R db marker_key keys body =
     thenS (rd_watch R db marker_key)
     (thenS (forS keys (rd_watch R db))
     (bindS (rd_exists R db marker_key) (\<lambda>n.
      if n \<noteq> 0 then thenS (rd_unwatch R db) (returnS (Some False)) else body)))"

definition putHashIfAbsent ::
  "'s redis_api \<Rightarrow> LogicalDb \<Rightarrow> string \<Rightarrow> (string, string) smap \<Rightarrow> ('s, bool) sexn" where
  "putHashIfAbsent R db key fs =
     (if fs = [] then throwS (Invalid_argument ''conditional Redis hash fields must not be empty'')
      else watch_loop kMaxWatchRetries ''Redis conditional hash write exceeded retry limit''
        (unless_marked R db key [] (exec_watched R db [RHmset key fs])))"

definition ensureHashFields ::
  "'s redis_api \<Rightarrow> LogicalDb \<Rightarrow> string \<Rightarrow> (string, string) smap \<Rightarrow> ('s, unit) sexn" where
  "ensureHashFields R db key fs =
     (if fs = [] then returnS () else exec_unwatched R db (map (\<lambda>(f, v). RHsetnx key f v) fs))"

definition getHash :: "'s redis_api \<Rightarrow> LogicalDb \<Rightarrow> string \<Rightarrow> ('s, (string, string) smap) sexn" where
  "getHash R db key = bindS (rd_hgetall R db key) (\<lambda>fs. returnS (smap_of_list fs))"

text \<open>One page of \<open>scanKeys\<close>: keys not seen before are appended, up to the bound.\<close>

fun scan_page :: "nat \<Rightarrow> string list \<Rightarrow> string list \<times> string list \<Rightarrow> (string list \<times> string list) result" where
  "scan_page max_results [] acc = Inr acc"
| "scan_page max_results (key # page) (seen, res) =
     (if key \<in> set seen then scan_page max_results page (seen, res)
      else if length res = max_results then Inl (Runtime_error ''Redis key scan exceeded result bound'')
      else scan_page max_results page (key # seen, res @ [key]))"

text \<open>The pages that are left bound the loop: the 4097th is refused.\<close>

fun scan_loop ::
  "'s redis_api \<Rightarrow> LogicalDb \<Rightarrow> string \<Rightarrow> nat \<Rightarrow> nat \<Rightarrow> u64 \<Rightarrow> string list \<times> string list \<Rightarrow> ('s, string list) sexn" where
  "scan_loop R db pattern max_results 0 cursor acc =
     throwS (Runtime_error ''Redis key scan exceeded page bound'')"
| "scan_loop R db pattern max_results (Suc pages) cursor acc =
     bindS (rd_scan R db cursor pattern 128) (\<lambda>(next, page).
     bindS (liftE (scan_page max_results page acc)) (\<lambda>acc'.
     if next = 0 then returnS (sort (snd acc'))
     else scan_loop R db pattern max_results pages next acc'))"

definition scanKeys :: "'s redis_api \<Rightarrow> LogicalDb \<Rightarrow> string \<Rightarrow> nat \<Rightarrow> ('s, string list) sexn" where
  "scanKeys R db pattern max_results =
     (if pattern = [] \<or> max_results = 0
      then throwS (Invalid_argument ''Redis key scan requires a pattern and positive bound'')
      else scan_loop R db pattern max_results 4096 0 ([], []))"

definition incrementHashField :: "'s redis_api \<Rightarrow> LogicalDb \<Rightarrow> string \<Rightarrow> string \<Rightarrow> int \<Rightarrow> ('s, int) sexn" where
  "incrementHashField R db key field increment = rd_hincrby R db key field increment"

definition deleteKey :: "'s redis_api \<Rightarrow> LogicalDb \<Rightarrow> string \<Rightarrow> ('s, bool) sexn" where
  "deleteKey R db key = bindS (rd_del R db key) (\<lambda>n. returnS (n = 1))"

subsection \<open>Publications\<close>

definition replaceHashAndAppendEvent ::
  "'s redis_api \<Rightarrow> LogicalDb \<Rightarrow> string \<Rightarrow> (string, string) smap \<Rightarrow> string \<Rightarrow> EventEnvelope \<Rightarrow> ('s, unit) sexn" where
  "replaceHashAndAppendEvent R db key fs stream event =
     thenS (liftE (validateEvent event))
       (exec_unwatched R db (replace_cmds key fs @ [RXadd stream (eventFields event)]))"

definition replaceHashAndAppendEventOnce ::
  "'s redis_api \<Rightarrow> LogicalDb \<Rightarrow> string \<Rightarrow> (string, string) smap \<Rightarrow> string \<Rightarrow> (string, string) smap \<Rightarrow>
   string \<Rightarrow> EventEnvelope \<Rightarrow> ('s, bool) sexn" where
  "replaceHashAndAppendEventOnce R db marker_key marker_fields key fs stream event =
     thenS (liftE (validateEvent event))
       (watch_loop kMaxWatchRetries ''Redis state publication exceeded retry limit''
         (unless_marked R db marker_key []
           (exec_watched R db (replace_cmds key fs @
              [RXadd stream (eventFields event), RHmset marker_key marker_fields]))))"

definition appendEventOnce ::
  "'s redis_api \<Rightarrow> LogicalDb \<Rightarrow> string \<Rightarrow> (string, string) smap \<Rightarrow> string \<Rightarrow> EventEnvelope \<Rightarrow> ('s, bool) sexn" where
  "appendEventOnce R db marker_key marker_fields stream event =
     thenS (liftE (validateEvent event))
       (watch_loop kMaxWatchRetries ''Redis event publication exceeded retry limit''
         (unless_marked R db marker_key []
           (exec_watched R db [RXadd stream (eventFields event), RHmset marker_key marker_fields])))"

definition increment_cmds :: "string \<Rightarrow> (string, int) smap \<Rightarrow> rcmd list" where
  "increment_cmds key increments =
     map (\<lambda>(f, n). RHincrby key f n) (filter (\<lambda>(f, n). n \<noteq> 0) increments)"

definition incrementHashFieldsOnce ::
  "'s redis_api \<Rightarrow> LogicalDb \<Rightarrow> string \<Rightarrow> (string, string) smap \<Rightarrow> string \<Rightarrow> (string, int) smap \<Rightarrow> ('s, bool) sexn" where
  "incrementHashFieldsOnce R db marker_key marker_fields key increments =
     watch_loop kMaxWatchRetries ''Redis counter publication exceeded retry limit''
       (unless_marked R db marker_key []
         (exec_watched R db (increment_cmds key increments @ [RHmset marker_key marker_fields])))"

definition recordApplyCountersOnce ::
  "'s redis_api \<Rightarrow> LogicalDb \<Rightarrow> string \<Rightarrow> (string, string) smap \<Rightarrow> string \<Rightarrow> (string, int) smap \<Rightarrow> int \<Rightarrow> ('s, bool) sexn" where
  "recordApplyCountersOnce R db marker_key marker_fields key increments latency_ms =
     (if latency_ms < 0 then throwS (Invalid_argument ''device apply latency must not be negative'')
      else watch_loop kMaxWatchRetries ''Redis apply counter publication exceeded retry limit''
        (unless_marked R db marker_key [key]
          (bindS (rd_hget R db key ''max_apply_latency_ms'') (\<lambda>existing_max.
           bindS (case existing_max of None \<Rightarrow> returnS latency_ms
                  | Some t \<Rightarrow> bindS (liftE (stoll t)) (\<lambda>m. returnS (max latency_ms m))) (\<lambda>maximum.
           exec_watched R db (increment_cmds key increments @
             [RHmset key (smap_of_list [(''last_apply_latency_ms'', to_string_int latency_ms),
                                        (''max_apply_latency_ms'', to_string_int maximum)]),
              RHmset marker_key marker_fields]))))))"

text \<open>Whether a hash of a versioned publication is newer than, or as new as, the stored one.\<close>

definition version_allows ::
  "'s redis_api \<Rightarrow> LogicalDb \<Rightarrow> u64 \<Rightarrow> string \<times> (string, string) smap \<Rightarrow> ('s, bool) sexn" where
  "version_allows R db desired_version = (\<lambda>(key, fs).
     thenS (case map_of fs ''desired_version'' of
         None \<Rightarrow> returnS ()
       | Some t \<Rightarrow> bindS (liftE (stoull t)) (\<lambda>v.
           if v \<noteq> desired_version
           then thenS (rd_unwatch R db)
                  (throwS (Invalid_argument ''versioned Redis hash does not match marker desired_version''))
           else returnS ()))
     (bindS (rd_hget R db key ''desired_version'') (\<lambda>existing.
      case existing of
        None \<Rightarrow> returnS True
      | Some t \<Rightarrow> bindS (liftE (stoull t)) (\<lambda>v. returnS (v \<le> desired_version)))))"

definition publish_cmds :: "(string \<times> (string, string) smap) list \<Rightarrow> bool list \<Rightarrow> rcmd list" where
  "publish_cmds hashes publish =
     concat (map (\<lambda>((key, fs), p). if p then replace_cmds key fs else []) (zip hashes publish))"

definition putVersionedHashesAtomicallyIfMarkerAbsent ::
  "'s redis_api \<Rightarrow> LogicalDb \<Rightarrow> string \<Rightarrow> (string, string) smap \<Rightarrow>
   (string \<times> (string, string) smap) list \<Rightarrow> ('s, bool) sexn" where
  "putVersionedHashesAtomicallyIfMarkerAbsent R db marker_key marker_fields hashes =
     (case map_of marker_fields ''desired_version'' of
        None \<Rightarrow> throwS (Invalid_argument ''versioned Redis hash marker is missing desired_version'')
      | Some t \<Rightarrow>
          bindS (liftE (stoull t)) (\<lambda>desired_version.
          watch_loop kMaxWatchRetries ''Redis versioned hash publication exceeded retry limit''
            (unless_marked R db marker_key (map fst hashes)
              (bindS (mapS (version_allows R db desired_version) hashes) (\<lambda>publish.
               exec_watched R db (publish_cmds hashes publish @ [RHmset marker_key marker_fields]))))))"

definition putHashesAtomically ::
  "'s redis_api \<Rightarrow> LogicalDb \<Rightarrow> (string \<times> (string, string) smap) list \<Rightarrow> ('s, unit) sexn" where
  "putHashesAtomically R db hashes =
     exec_unwatched R db (concat (map (\<lambda>(key, fs). replace_cmds key fs) hashes))"

subsection \<open>Streams\<close>

definition appendEvent :: "'s redis_api \<Rightarrow> LogicalDb \<Rightarrow> string \<Rightarrow> EventEnvelope \<Rightarrow> ('s, string) sexn" where
  "appendEvent R db stream event =
     thenS (liftE (validateEvent event)) (rd_xadd R db stream (eventFields event))"

fun contains_text :: "string \<Rightarrow> string \<Rightarrow> bool" where
  "contains_text [] p = (p = [])"
| "contains_text (c # s) p = (starts_with (c # s) p \<or> contains_text s p)"

definition createConsumerGroup :: "'s redis_api \<Rightarrow> LogicalDb \<Rightarrow> string \<Rightarrow> string \<Rightarrow> string \<Rightarrow> ('s, unit) sexn" where
  "createConsumerGroup R db stream grp start_id =
     catchS (rd_xgroup_create R db stream grp start_id) (\<lambda>e.
       case e of
         Reply_error m \<Rightarrow> if contains_text m ''BUSYGROUP'' then returnS () else throwS e
       | _ \<Rightarrow> throwS e)"

definition parse_items :: "stream_item list \<Rightarrow> StreamMessage list result" where
  "parse_items = mapE (\<lambda>(i, fs). bindE (parseEvent fs) (\<lambda>event. Inr \<lparr>msg_id = i, msg_event = event\<rparr>))"

definition parse_stream :: "string \<Rightarrow> stream_result \<Rightarrow> StreamMessage list result" where
  "parse_stream stream raw = (case map_of raw stream of None \<Rightarrow> Inr [] | Some items \<Rightarrow> parse_items items)"

definition readGroup ::
  "'s redis_api \<Rightarrow> LogicalDb \<Rightarrow> string \<Rightarrow> string \<Rightarrow> string \<Rightarrow> nat \<Rightarrow> ('s, StreamMessage list) sexn" where
  "readGroup R db stream grp consumer count =
     bindS (rd_xreadgroup R db grp consumer stream (int count)) (\<lambda>raw. liftE (parse_stream stream raw))"

text \<open>The Lua script: nothing is read while an entry of the group is pending.\<close>

definition kReadGroupIfNoPendingScript ::
  "'s redis_api \<Rightarrow> LogicalDb \<Rightarrow> string \<Rightarrow> string \<Rightarrow> string \<Rightarrow> nat \<Rightarrow> ('s, stream_result) sexn" where
  "kReadGroupIfNoPendingScript R db stream grp consumer count =
     bindS (rd_pending_count R db stream grp) (\<lambda>pending.
     if pending \<noteq> 0 then returnS [] else rd_xreadgroup R db grp consumer stream (int count))"

definition readGroupIfNoPending ::
  "'s redis_api \<Rightarrow> LogicalDb \<Rightarrow> string \<Rightarrow> string \<Rightarrow> string \<Rightarrow> nat \<Rightarrow> ('s, StreamMessage list) sexn" where
  "readGroupIfNoPending R db stream grp consumer count =
     (if count = 0 then throwS (Invalid_argument ''serialized stream read count must be positive'')
      else bindS (rd_eval R db (kReadGroupIfNoPendingScript R db stream grp consumer count)) (\<lambda>raw.
           liftE (parse_stream stream raw)))"

definition claimable :: "(string \<times> string \<times> int \<times> int) list \<Rightarrow> int \<Rightarrow> nat \<Rightarrow> string list" where
  "claimable pending min_idle count =
     take count (map fst (filter (\<lambda>(i, owner, idle_ms, deliveries). idle_ms \<ge> min_idle) pending))"

definition claimPending ::
  "'s redis_api \<Rightarrow> LogicalDb \<Rightarrow> string \<Rightarrow> string \<Rightarrow> string \<Rightarrow> int \<Rightarrow> nat \<Rightarrow> ('s, StreamMessage list) sexn" where
  "claimPending R db stream grp consumer min_idle_time count =
     (if count = 0 \<or> min_idle_time < 0
      then throwS (Invalid_argument ''pending claim count must be positive and idle non-negative'')
      else
        bindS (rd_xpending R db stream grp (int (min 100 (count * 10)))) (\<lambda>pending.
        let ids = claimable pending min_idle_time count in
        if ids = [] then returnS []
        else bindS (rd_xclaim R db stream grp consumer min_idle_time ids) (\<lambda>claimed. liftE (parse_items claimed))))"

definition acknowledge :: "'s redis_api \<Rightarrow> LogicalDb \<Rightarrow> string \<Rightarrow> string \<Rightarrow> string \<Rightarrow> ('s, int) sexn" where
  "acknowledge R db stream grp message_id = rd_xack R db stream grp message_id"

definition pendingCount :: "'s redis_api \<Rightarrow> LogicalDb \<Rightarrow> string \<Rightarrow> string \<Rightarrow> ('s, int) sexn" where
  "pendingCount R db stream grp = rd_pending_count R db stream grp"

definition flushForTest :: "'s redis_api \<Rightarrow> LogicalDb \<Rightarrow> ('s, unit) sexn" where
  "flushForTest R db = rd_flushdb R db"

definition ping :: "'s redis_api \<Rightarrow> LogicalDb \<Rightarrow> ('s, unit) sexn" where
  "ping R db = rd_ping R db"

text \<open>The head of every handler: a claimed pending entry first, else a new one.\<close>

definition next_messages ::
  "'s redis_api \<Rightarrow> LogicalDb \<Rightarrow> string \<Rightarrow> string \<Rightarrow> string \<Rightarrow> int \<Rightarrow> ('s, StreamMessage list) sexn" where
  "next_messages R db stream grp consumer idle =
     bindS (claimPending R db stream grp consumer idle 1) (\<lambda>messages.
     if messages = [] then readGroupIfNoPending R db stream grp consumer 1 else returnS messages)"

end
