(* ===== verification/Repository_Properties.thy ===== *)
theory Repository_Properties
  imports Redis_Repository
begin

text \<open>
  The properties of the repository: events and endpoints are read back as written, marked
  publications take effect exactly once however often they are repeated and wherever they are
  interrupted, and a versioned publication never overwrites a newer hash.
\<close>

section \<open>Marked publications\<close>

text \<open>
  What one call of a marked publication does to the databases: nothing when the marker exists,
  everything when it reports success, and all or nothing when it throws. The queued commands may depend
  on what the call read.
\<close>

definition takes_effect ::
  "('s \<Rightarrow> databases) \<Rightarrow> LogicalDb \<Rightarrow> (rdb \<Rightarrow> rcmd list) \<Rightarrow> 's \<Rightarrow> 's \<Rightarrow> bool" where
  "takes_effect view db cmds s s' = commits view db (cmds (view s db)) s s'"

fun once_outcome ::
  "('s \<Rightarrow> databases) \<Rightarrow> LogicalDb \<Rightarrow> string \<Rightarrow> (rdb \<Rightarrow> rcmd list) \<Rightarrow> 's \<Rightarrow> bool result \<Rightarrow> 's \<Rightarrow> bool" where
  "once_outcome view db marker cmds s (Inr b) s' =
     (if b then \<not> key_exists (view s db) marker \<and> takes_effect view db cmds s s'
      else key_exists (view s db) marker \<and> view s' = view s)"
| "once_outcome view db marker cmds s (Inl e) s' =
     (view s' = view s \<or> \<not> key_exists (view s db) marker \<and> takes_effect view db cmds s s')"

definition once_effect ::
  "('s \<Rightarrow> databases) \<Rightarrow> LogicalDb \<Rightarrow> string \<Rightarrow> (rdb \<Rightarrow> rcmd list) \<Rightarrow> ('s, bool) sexn \<Rightarrow> bool" where
  "once_effect view db marker cmds m \<longleftrightarrow>
     (\<forall>s r s'. m s = (r, s') \<longrightarrow> once_outcome view db marker cmds s r s')"

text \<open>One attempt of the loop, without and with the check of the marker.\<close>

fun attempt_outcome ::
  "('s \<Rightarrow> databases) \<Rightarrow> LogicalDb \<Rightarrow> (rdb \<Rightarrow> rcmd list) \<Rightarrow> 's \<Rightarrow> bool option result \<Rightarrow> 's \<Rightarrow> bool" where
  "attempt_outcome view db cmds s (Inr (Some b)) s' = (b \<and> takes_effect view db cmds s s')"
| "attempt_outcome view db cmds s (Inr None) s' = (view s' = view s)"
| "attempt_outcome view db cmds s (Inl e) s' = (view s' = view s \<or> takes_effect view db cmds s s')"

definition attempts ::
  "('s \<Rightarrow> databases) \<Rightarrow> LogicalDb \<Rightarrow> (rdb \<Rightarrow> rcmd list) \<Rightarrow> ('s, bool option) sexn \<Rightarrow> bool" where
  "attempts view db cmds m \<longleftrightarrow> (\<forall>s r s'. m s = (r, s') \<longrightarrow> attempt_outcome view db cmds s r s')"

lemma once_effectD: "once_effect view db marker cmds m \<Longrightarrow> m s = (r, s') \<Longrightarrow> once_outcome view db marker cmds s r s'"
  by (simp add: once_effect_def)

lemma attemptsD: "attempts view db cmds m \<Longrightarrow> m s = (r, s') \<Longrightarrow> attempt_outcome view db cmds s r s'"
  by (simp add: attempts_def)

lemma takes_effect_cong: "view s1 = view s \<Longrightarrow> takes_effect view db cmds s1 s' = takes_effect view db cmds s s'"
  by (simp add: takes_effect_def commits_def)

lemma once_outcome_cong:
  "view s1 = view s \<Longrightarrow> once_outcome view db marker cmds s1 r s' = once_outcome view db marker cmds s r s'"
  by (cases r) (simp_all add: takes_effect_def commits_def)

lemma attempts_exec:
  assumes "redis_laws R view"
  shows "attempts view db (\<lambda>_. cmds) (exec_watched R db cmds)"
  unfolding attempts_def
proof (intro allI impI)
  fix s r s' assume m: "exec_watched R db cmds s = (r, s')"
  obtain q s1 where 1: "rd_exec R db cmds s = (q, s1)" by (rule prod.exhaust)
  from exec_law [OF assms 1] m 1 show "attempt_outcome view db (\<lambda>_. cmds) s r s'"
    by (cases q) (auto simp: exec_watched_def bindS_def returnS_def takes_effect_def)
qed

text \<open>Reading first: the continuation may depend on what was read.\<close>

lemma attempts_read:
  assumes "silent view m"
    and "\<And>s x s1. m s = (Inr x, s1) \<Longrightarrow> attempts view db (\<lambda>d. cmds x) (f x) \<and> cmds x = read_cmds (view s db)"
  shows "attempts view db read_cmds (bindS m f)"
  unfolding attempts_def
proof (intro allI impI)
  fix s r s' assume b: "bindS m f s = (r, s')"
  obtain q s1 where 1: "m s = (q, s1)" by (rule prod.exhaust)
  have v: "view s1 = view s" by (rule silentD [OF assms(1) 1])
  show "attempt_outcome view db read_cmds s r s'"
  proof (cases q)
    case (Inl e)
    with b 1 v show ?thesis by (auto simp: bindS_def)
  next
    case (Inr x)
    note a = assms(2) [OF 1 [unfolded Inr]]
    from b 1 Inr have "f x s1 = (r, s')" by (simp add: bindS_def)
    then have "attempt_outcome view db (\<lambda>d. cmds x) s1 r s'" by (rule attemptsD [OF conjunct1 [OF a]])
    then show ?thesis
    proof (cases r)
      case (Inr c)
      with \<open>attempt_outcome view db (\<lambda>d. cmds x) s1 r s'\<close> a v show ?thesis
        by (cases c) (auto simp: takes_effect_def commits_def)
    qed (use a v in \<open>auto simp: takes_effect_def commits_def\<close>)
  qed
qed

lemma unless_marked_run:
  assumes R: "redis_laws R view" and m: "unless_marked R db marker keys body s = (r, s')"
  obtains (failed) e where "r = Inl e" "view s' = view s"
    | (marked) "r = Inr (Some False)" "key_exists (view s db) marker" "view s' = view s"
    | (free) s1 where "\<not> key_exists (view s db) marker" "view s1 = view s" "body s1 = (r, s')"
proof -
  note rd = silent_reads [OF R]
  have "silent view (forS keys (rd_watch R db))"
    by (induction keys) (auto intro: silent_thenS rd)
  then have w: "silent view (thenS (rd_watch R db marker) (forS keys (rd_watch R db)))"
    by (intro silent_thenS rd)
  let ?w = "thenS (rd_watch R db marker) (forS keys (rd_watch R db))"
  obtain r1 s1 where 1: "?w s = (r1, s1)" by (rule prod.exhaust)
  have v1: "view s1 = view s" using silentD [OF w 1] .
  have m': "bindS ?w (\<lambda>_. bindS (rd_exists R db marker) (\<lambda>n.
      if n \<noteq> 0 then thenS (rd_unwatch R db) (returnS (Some False)) else body)) s = (r, s')"
    using m by (simp add: unless_marked_def thenS_def bindS_assoc)
  show thesis
  proof (cases r1)
    case (Inl e)
    with m' 1 v1 show thesis by (auto simp: bindS_def intro: failed)
  next
    case (Inr u)
    obtain r2 s2 where 2: "rd_exists R db marker s1 = (r2, s2)" by (rule prod.exhaust)
    have v2: "view s2 = view s" using silentD [OF rd(3) 2] v1 by simp
    show thesis
    proof (cases r2)
      case (Inl e)
      with m' 1 2 v2 Inr show thesis by (auto simp: bindS_def intro: failed)
    next
      case n: (Inr n)
      with 2 have ex: "n \<noteq> 0 \<longleftrightarrow> key_exists (view s db) marker"
        using exists_law [OF R, of db marker s1 n s2] v1 by simp
      show thesis
      proof (cases "n \<noteq> 0")
        case True
        obtain r3 s3 where 3: "rd_unwatch R db s2 = (r3, s3)" by (rule prod.exhaust)
        have "view s3 = view s" using silentD [OF rd(2) 3] v2 by simp
        with m' 1 2 3 True ex Inr n show thesis
          by (cases r3) (auto simp: thenS_def bindS_def returnS_def intro: failed marked)
      next
        case False
        with m' 1 2 Inr n have "body s2 = (r, s')" by (simp add: bindS_def)
        with False ex v2 show thesis by (intro free) auto
      qed
    qed
  qed
qed

lemma once_loop:
  assumes R: "redis_laws R view" and body: "attempts view db cmds body"
  shows "once_effect view db marker cmds (watch_loop n message (unless_marked R db marker keys body))"
proof (induction n)
  case 0
  show ?case by (simp add: once_effect_def throwS_def)
next
  case (Suc n)
  let ?body = "unless_marked R db marker keys body"
  show ?case
    unfolding once_effect_def
  proof (intro allI impI)
    fix s r s' assume m: "watch_loop (Suc n) message ?body s = (r, s')"
    obtain r1 s1 where b: "?body s = (r1, s1)" by (rule prod.exhaust)
    from R b show "once_outcome view db marker cmds s r s'"
    proof (cases rule: unless_marked_run)
      case (failed e)
      with m b show ?thesis by (auto simp: bindS_def)
    next
      case marked
      with m b show ?thesis by (auto simp: bindS_def returnS_def)
    next
      case (free s2)
      note a = attemptsD [OF body free(3)]
      show ?thesis
      proof (cases "r1 = Inr None")
        case True
        with a free(2) have v: "view s1 = view s" by simp
        from m b True have "watch_loop n message ?body s1 = (r, s')" by (simp add: bindS_def)
        from once_effectD [OF Suc this] show ?thesis unfolding once_outcome_cong [of view s1 s, OF v] .
      next
        case False
        note t = takes_effect_cong [of view s2 s db cmds s1, OF free(2)]
        show ?thesis
        proof (cases r1)
          case (Inl e)
          with m b a t free show ?thesis by (auto simp: bindS_def)
        next
          case (Inr c)
          with False obtain d where "c = Some d" by auto
          with Inr m b a t free show ?thesis by (auto simp: bindS_def returnS_def)
        qed
      qed
    qed
  qed
qed

text \<open>Calling again and again, as a consumer does that is restarted in the middle of its work.\<close>

fun repeat_calls :: "nat \<Rightarrow> ('s, 'a) sexn \<Rightarrow> 's \<Rightarrow> 'a result list \<times> 's" where
  "repeat_calls 0 m s = ([], s)"
| "repeat_calls (Suc n) m s =
     (let (r, s') = m s; (rs, s'') = repeat_calls n m s' in (r # rs, s''))"

lemma repeat_marked:
  assumes "once_effect view db marker cmds m" "key_exists (view s db) marker"
    "repeat_calls n m s = (rs, s')"
  shows "view s' = view s"
  using assms(2,3)
proof (induction n arbitrary: s rs)
  case (Suc n)
  obtain r s1 where 1: "m s = (r, s1)" by (rule prod.exhaust)
  have v: "view s1 = view s"
    using once_effectD [OF assms(1) 1] Suc.prems(1) by (cases r) (auto split: if_splits)
  obtain rs' where "repeat_calls n m s1 = (rs', s')"
    using Suc.prems(2) 1 by (auto simp: Let_def split: prod.splits)
  from Suc.IH [OF _ this] v Suc.prems(1) show ?case by simp
qed simp

lemma repeat_once:
  assumes m: "once_effect view db marker cmds m" and no: "\<not> key_exists (view s db) marker"
    and mark: "key_exists (apply_rcmds (cmds (view s db)) (view s db)) marker"
    and r: "repeat_calls n m s = (rs, s')"
  shows "(view s' = view s \<or> takes_effect view db cmds s s') \<and>
    ((\<exists>b. Inr b \<in> set rs) \<longrightarrow> takes_effect view db cmds s s')"
  using no mark r
proof (induction n arbitrary: s rs)
  case (Suc n)
  obtain q s1 where 1: "m s = (q, s1)" by (rule prod.exhaust)
  obtain rs' where 2: "repeat_calls n m s1 = (rs', s')" "rs = q # rs'"
    using Suc.prems(3) 1 by (auto simp: Let_def split: prod.splits)
  note q = once_effectD [OF m 1]
  show ?case
  proof (cases "takes_effect view db cmds s s1")
    case True
    then have "key_exists (view s1 db) marker" using Suc.prems(2) by (simp add: takes_effect_def commits_def)
    from repeat_marked [OF m this 2(1)] True have "takes_effect view db cmds s s'"
      unfolding takes_effect_def commits_def by metis
    then show ?thesis by simp
  next
    case False
    with q Suc.prems(1) obtain e where e: "q = Inl e" "view s1 = view s"
      by (cases q) (auto split: if_splits)
    from Suc.IH [OF _ _ 2(1)] e Suc.prems show ?thesis
      using takes_effect_cong [of view s1 s db cmds s'] 2(2) by auto
  qed
qed simp

lemma apply_rcmds_append: "apply_rcmds (xs @ ys) d = apply_rcmds ys (apply_rcmds xs d)"
  by (simp add: apply_rcmds_def)

lemma apply_rcmds_simps [simp]:
  "apply_rcmds [] d = d" "apply_rcmds (c # cs) d = apply_rcmds cs (apply_rcmd c d)"
  by (simp_all add: apply_rcmds_def)

lemma put_fields_not_Nil: "fs \<noteq> [] \<Longrightarrow> put_fields fs h \<noteq> []"
proof (induction fs rule: rev_induct)
  case (snoc x xs)
  have "insert_or_assign k v m \<noteq> []" for k v and m :: "(string, string) smap"
    by (cases "(k, v, m)" rule: insert_or_assign.cases) auto
  then show ?case by (cases x) (simp add: put_fields_def)
qed simp

lemma marker_written:
  "fs \<noteq> [] \<Longrightarrow> key_exists (apply_rcmds (cmds @ [RHmset marker fs]) d) marker"
  by (simp add: apply_rcmds_append key_exists_def set_hash_def put_fields_not_Nil)

lemma bindS_liftE: "bindS (liftE (Inr x)) f = f x"
  by (rule ext) (simp add: bindS_def liftE_def)

lemma thenS_validated: "thenS (liftE (Inr ())) m = m"
  by (rule ext) (simp add: thenS_def bindS_def liftE_def)

lemma once_appendEventOnce:
  assumes "redis_laws R view" "validateEvent event = Inr ()"
  shows "once_effect view db marker (\<lambda>_. [RXadd stream (eventFields event), RHmset marker mf])
    (appendEventOnce R db marker mf stream event)"
  using assms by (simp add: appendEventOnce_def thenS_validated once_loop attempts_exec)

lemma once_replaceHashAndAppendEventOnce:
  assumes "redis_laws R view" "validateEvent event = Inr ()"
  shows "once_effect view db marker
    (\<lambda>_. replace_cmds key fs @ [RXadd stream (eventFields event), RHmset marker mf])
    (replaceHashAndAppendEventOnce R db marker mf key fs stream event)"
  using assms by (simp add: replaceHashAndAppendEventOnce_def thenS_validated once_loop attempts_exec)

lemma once_incrementHashFieldsOnce:
  assumes "redis_laws R view"
  shows "once_effect view db marker (\<lambda>_. increment_cmds key incs @ [RHmset marker mf])
    (incrementHashFieldsOnce R db marker mf key incs)"
  using assms by (simp add: incrementHashFieldsOnce_def once_loop attempts_exec)

section \<open>Versioned publications\<close>

definition version_ok :: "rdb \<Rightarrow> u64 \<Rightarrow> string \<times> (string, string) smap \<Rightarrow> bool" where
  "version_ok d v = (\<lambda>(key, fs).
     case map_of (db_hashes d key) ''desired_version'' of
       None \<Rightarrow> True
     | Some t \<Rightarrow> (case stoull t of Inr w \<Rightarrow> w \<le> v | Inl e \<Rightarrow> False))"

lemma silent_version_allows: "redis_laws R view \<Longrightarrow> silent view (version_allows R db v h)"
  by (cases h)
     (auto simp: version_allows_def split: option.splits
        intro!: silent_thenS silent_bindS dest: silent_reads(2,5))

lemma version_allows_result:
  assumes R: "redis_laws R view" and m: "version_allows R db v h s = (Inr p, s')"
  shows "p = version_ok (view s db) v h"
proof -
  obtain key fs where h: "h = (key, fs)" by (cases h)
  let ?check = "case map_of fs ''desired_version'' of
         None \<Rightarrow> returnS ()
       | Some t \<Rightarrow> bindS (liftE (stoull t)) (\<lambda>w.
           if w \<noteq> v
           then thenS (rd_unwatch R db)
                  (throwS (Invalid_argument ''versioned Redis hash does not match marker desired_version''))
           else returnS ())"
  have c: "silent view ?check"
    by (auto split: option.splits intro!: silent_thenS silent_bindS silent_reads(2) [OF R])
  from m obtain s1 x s2 where 1: "?check s = (Inr (), s1)" "rd_hget R db key ''desired_version'' s1 = (Inr x, s2)"
      "(case x of None \<Rightarrow> returnS True | Some t \<Rightarrow> bindS (liftE (stoull t)) (\<lambda>w. returnS (w \<le> v))) s2 = (Inr p, s')"
    unfolding h version_allows_def thenS_def prod.case bindS_Inr by auto
  have "x = map_of (db_hashes (view s db) key) ''desired_version''"
    using hget_law [OF R 1(2)] silentD [OF c 1(1)] by simp
  with 1(3) show ?thesis
    by (auto simp: h version_ok_def returnS_def liftE_def bindS_def split: option.splits sum.splits)
qed

lemma silent_mapS: "(\<And>x. silent view (f x)) \<Longrightarrow> silent view (mapS f xs)"
  by (induction xs) (auto intro!: silent_bindS)

lemma mapS_version_allows:
  assumes R: "redis_laws R view"
  shows "mapS (version_allows R db v) hs s = (Inr ps, s') \<Longrightarrow> ps = map (version_ok (view s db) v) hs"
proof (induction hs arbitrary: s ps)
  case (Cons h hs)
  then obtain p s1 qs where 1: "version_allows R db v h s = (Inr p, s1)"
      "mapS (version_allows R db v) hs s1 = (Inr qs, s')" "ps = p # qs"
    by (auto simp: bindS_Inr returnS_def)
  have "view s1 = view s" by (rule silentD [OF silent_version_allows [OF R] 1(1)])
  with Cons.IH [OF 1(2)] version_allows_result [OF R 1(1)] 1(3) show ?case by simp
qed (simp add: returnS_def)

definition versioned_cmds ::
  "u64 \<Rightarrow> string \<Rightarrow> (string, string) smap \<Rightarrow> (string \<times> (string, string) smap) list \<Rightarrow> rdb \<Rightarrow> rcmd list" where
  "versioned_cmds v marker mf hashes d =
     publish_cmds hashes (map (version_ok d v) hashes) @ [RHmset marker mf]"

lemma once_putVersioned:
  assumes R: "redis_laws R view" and v: "map_of mf ''desired_version'' = Some t" "stoull t = Inr v"
  shows "once_effect view db marker (versioned_cmds v marker mf hashes)
    (putVersionedHashesAtomicallyIfMarkerAbsent R db marker mf hashes)"
proof -
  have "attempts view db (versioned_cmds v marker mf hashes)
     (bindS (mapS (version_allows R db v) hashes) (\<lambda>publish.
        exec_watched R db (publish_cmds hashes publish @ [RHmset marker mf])))"
    by (rule attempts_read [where cmds = "\<lambda>publish. publish_cmds hashes publish @ [RHmset marker mf]"])
       (auto intro: silent_mapS silent_version_allows [OF R] attempts_exec [OF R]
          simp: versioned_cmds_def dest!: mapS_version_allows [OF R])
  from once_loop [OF R this] show ?thesis
    by (simp add: putVersionedHashesAtomicallyIfMarkerAbsent_def v bindS_liftE)
qed

lemma put_fields_fresh: "smap_ok fs \<Longrightarrow> put_fields fs [] = fs"
proof (rule smap_eqI)
  assume ok: "smap_ok fs"
  have k: "smap_ok h \<Longrightarrow> smap_ok (put_fields gs h)" for gs and h :: "(string, string) smap"
    by (induction gs arbitrary: h) (auto simp: put_fields_def)
  show "smap_ok (put_fields fs [])" by (rule k) simp
  show "smap_ok fs" by (rule ok)
  have "distinct (map fst gs) \<Longrightarrow> map_of (put_fields gs h) = map_of h ++ map_of gs"
    for gs and h :: "(string, string) smap"
  proof (induction gs arbitrary: h)
    case (Cons g gs)
    obtain f v where g: "g = (f, v)" by (cases g)
    with Cons have n: "map_of gs f = None" by (simp add: map_of_eq_None_iff)
    have "put_fields (g # gs) h = put_fields gs (insert_or_assign f v h)" by (simp add: g put_fields_def)
    also have "map_of \<dots> = map_of (insert_or_assign f v h) ++ map_of gs"
      by (rule Cons.IH) (use Cons.prems in simp)
    also have "\<dots> = map_of h ++ map_of (g # gs)"
    proof
      fix x show "(map_of (insert_or_assign f v h) ++ map_of gs) x = (map_of h ++ map_of (g # gs)) x"
        using n by (simp add: g map_add_def split: option.splits)
    qed
    finally show ?case .
  qed (simp add: put_fields_def)
  from this [of fs "[]"] ok show "map_of (put_fields fs []) = map_of fs" by (simp add: smap_ok_distinct)
qed

lemma apply_replace_cmds:
  "smap_ok fs \<Longrightarrow> db_hashes (apply_rcmds (replace_cmds key fs) d) = (db_hashes d)(key := fs)"
  by (auto simp: replace_cmds_def set_hash_def put_fields_fresh)

lemma apply_publish_cmds:
  assumes "distinct (map fst hashes)" "\<forall>(key, fs) \<in> set hashes. smap_ok fs"
  shows "db_hashes (apply_rcmds (publish_cmds hashes (map p hashes)) d) key =
    (case map_of hashes key of Some fs \<Rightarrow> if p (key, fs) then fs else db_hashes d key | None \<Rightarrow> db_hashes d key)"
  using assms
proof (induction hashes arbitrary: d)
  case (Cons h hashes)
  obtain k fs where h: "h = (k, fs)" by (cases h)
  have c: "apply_rcmds (publish_cmds (h # hashes) (map p (h # hashes))) d =
      apply_rcmds (publish_cmds hashes (map p hashes)) (if p h then apply_rcmds (replace_cmds k fs) d else d)"
    by (simp add: publish_cmds_def h apply_rcmds_append)
  have "map_of hashes k = None" "smap_ok fs" using Cons.prems by (simp_all add: h map_of_eq_None_iff)
  moreover have "db_hashes (apply_rcmds (publish_cmds hashes (map p hashes)) d') key =
      (case map_of hashes key of Some fs \<Rightarrow> if p (key, fs) then fs else db_hashes d' key | None \<Rightarrow> db_hashes d' key)" for d'
    using Cons.prems by (intro Cons.IH) auto
  ultimately show ?case
    unfolding c by (simp add: h apply_replace_cmds split: option.splits)
qed (simp add: publish_cmds_def)

section \<open>Properties\<close>

text \<open>An event written to a stream is read back as it was, whatever its texts and numbers.\<close>

lemma parseEvent_eventFields [simp]: "parseEvent (eventFields event) = Inr event"
  by (simp add: parseEvent_def eventFields_def required_field_def unsigned_ucast_eq take_bit_word_eq_self)

lemma from_chars_nat_to_string: "n < 2 ^ 31 \<Longrightarrow> from_chars_int (nat_to_string n) = Some (int n, [])"
  using nat_to_string_digits [of _ n] by (auto simp: from_chars_int_def Let_def dropWhile_eq_Nil_conv)

text \<open>A TCP endpoint with any non-empty host, colons included, and a port in 1..65535 is parsed to
  that host and port; ports outside the range are refused.\<close>

lemma tcp_endpoint_parsed:
  assumes "host \<noteq> []" "n < 2 ^ 31"
  shows "parseRedisEndpoint (''tcp://'' @ host @ '':'' @ nat_to_string n) =
    (if 1 \<le> n \<and> n \<le> 65535
     then Inr (default_RedisEndpoint\<lparr>ep_host := host, ep_port := int n, ep_unix_socket := []\<rparr>)
     else Inl (Invalid_argument ''Redis TCP endpoint port is outside 1..65535''))"
proof -
  have "CHR '':'' \<notin> set (nat_to_string n)" using nat_to_string_digits digit_not_special by blast
  then have r: "rfind_char (host @ CHR '':'' # nat_to_string n) (CHR '':'') = Some (length host)"
    by (rule rfind_char_snoc)
  define target where "target = ''tcp://'' @ host @ '':'' @ nat_to_string n"
  have "starts_with target ''tcp://''" "drop 6 target = host @ CHR '':'' # nat_to_string n"
    unfolding target_def by (rule starts_with_append) simp
  then have "parseRedisEndpoint target = (if 1 \<le> n \<and> n \<le> 65535
     then Inr (default_RedisEndpoint\<lparr>ep_host := host, ep_port := int n, ep_unix_socket := []\<rparr>)
     else Inl (Invalid_argument ''Redis TCP endpoint port is outside 1..65535''))"
    using r assms from_chars_nat_to_string [of n]
    by (auto simp: parseRedisEndpoint_def Let_def)
  then show ?thesis unfolding target_def .
qed

text \<open>C10: a marked event publication takes effect exactly once, however often it is repeated. Starting
  without the marker, after any number of calls, conflicts and exceptions included (a transaction whose
  connection is lost may or may not have been executed), the stream has gained the event at most once, and
  exactly once as soon as one of the calls has returned.\<close>

theorem event_published_exactly_once:
  assumes "redis_laws R view" "validateEvent event = Inr ()" "marker_fields \<noteq> []"
    "\<not> key_exists (view s db) marker"
    "repeat_calls n (appendEventOnce R db marker marker_fields stream event) s = (rs, s')"
  shows "stream_entries (view s' db) stream \<in>
      {stream_entries (view s db) stream, stream_entries (view s db) stream @ [eventFields event]} \<and>
    ((\<exists>b. Inr b \<in> set rs) \<longrightarrow>
      stream_entries (view s' db) stream = stream_entries (view s db) stream @ [eventFields event] \<and>
      key_exists (view s' db) marker)"
proof -
  let ?cmds = "[RXadd stream (eventFields event), RHmset marker marker_fields]"
  have m: "key_exists (apply_rcmds ?cmds (view s db)) marker"
    using marker_written [OF assms(3), of "[RXadd stream (eventFields event)]"] by simp
  have e: "stream_entries (apply_rcmds ?cmds (view s db)) stream = stream_entries (view s db) stream @ [eventFields event]"
    by (simp add: stream_entries_def set_hash_def)
  have t: "takes_effect view db (\<lambda>_. ?cmds) s s' \<Longrightarrow> view s' db = apply_rcmds ?cmds (view s db)"
    by (simp only: takes_effect_def commits_def fun_upd_same)
  from repeat_once [OF once_appendEventOnce [OF assms(1,2)] assms(4) m assms(5)]
  have "(view s' = view s \<or> view s' db = apply_rcmds ?cmds (view s db)) \<and>
      ((\<exists>b. Inr b \<in> set rs) \<longrightarrow> view s' db = apply_rcmds ?cmds (view s db))"
    using t by blast
  with m e show ?thesis by (auto simp del: apply_rcmds_simps)
qed

definition empty_redis :: ref_redis_state where
  "empty_redis = \<lparr>rr_dbs = (\<lambda>_. \<lparr>db_hashes = (\<lambda>_. []), db_streams = Map.empty\<rparr>),
     rr_new = (\<lambda>_ _. []), rr_pending = (\<lambda>_ _. [])\<rparr>"

definition example_event :: EventEnvelope where
  "example_event = \<lparr>ev_event_schema_version = 1, ev_event_id = ''e1'', ev_request_id = ''r1'', ev_timestamp_ns = 7,
     ev_device = ''ocs0'', ev_resource_type = ''connection'', ev_resource_id = ''a'', ev_operation = ''UPSERT'',
     ev_desired_version = 3, ev_payload = []\<rparr>"

lemma ref_publication:
  "watch_loop (Suc n) message (unless_marked ref_redis db marker [] (exec_watched ref_redis db cmds)) s =
     (if key_exists (rr_dbs s db) marker then (Inr False, s)
      else (Inr True, s\<lparr>rr_dbs := (rr_dbs s)(db := apply_rcmds cmds (rr_dbs s db))\<rparr>))"
  by (simp add: unless_marked_def exec_watched_def thenS_def bindS_def returnS_def getS_def ref_redis_def)

lemma ref_publication_max:
  "watch_loop kMaxWatchRetries message (unless_marked ref_redis db marker [] (exec_watched ref_redis db cmds)) s =
     (if key_exists (rr_dbs s db) marker then (Inr False, s)
      else (Inr True, s\<lparr>rr_dbs := (rr_dbs s)(db := apply_rcmds cmds (rr_dbs s db))\<rparr>))"
proof -
  have "kMaxWatchRetries = Suc 7" by (simp add: kMaxWatchRetries_def)
  from ref_publication [of 7, folded this] show ?thesis .
qed

theorem event_published_exactly_once_witness:
  "stream_entries (rr_dbs (snd (repeat_calls 2
      (appendEventOnce ref_redis kDevice ''m'' [(''k'', ''v'')] kDeviceCommands example_event) empty_redis)) kDevice)
      kDeviceCommands = [eventFields example_event]"
proof -
  have v: "validateEvent example_event = Inr ()" by (simp add: validateEvent_def example_event_def)
  have k: "\<not> key_exists (rr_dbs empty_redis kDevice) ''m''" by (simp add: key_exists_def empty_redis_def)
  have f: "[(''k'', ''v'')] \<noteq> ([] :: (string, string) smap)" by simp
  obtain rs s' where r: "repeat_calls 2
      (appendEventOnce ref_redis kDevice ''m'' [(''k'', ''v'')] kDeviceCommands example_event) empty_redis = (rs, s')"
    by (rule prod.exhaust)
  from r v k have "Inr True \<in> set rs"
    by (auto simp: numeral_2_eq_2 Let_def appendEventOnce_def thenS_validated ref_publication_max
        split: prod.splits)
  with event_published_exactly_once [OF redis_laws_ref v f k r] r show ?thesis
    by (auto simp: stream_entries_def empty_redis_def)
qed

text \<open>C11: a versioned publication never overwrites newer state. When it reports success, every hash of
  the publication has been replaced if the stored version was absent or not newer, and is untouched
  otherwise; no other hash of the database has changed, except the marker.\<close>

theorem versioned_publication_fence:
  assumes "redis_laws R view" "map_of marker_fields ''desired_version'' = Some (to_string_u64 v)"
    "distinct (map fst hashes)" "marker \<notin> fst ` set hashes" "\<forall>(key, fs) \<in> set hashes. smap_ok fs"
    "putVersionedHashesAtomicallyIfMarkerAbsent R db marker marker_fields hashes s = (Inr True, s')"
    "key \<noteq> marker"
  shows "db_hashes (view s' db) key =
    (case map_of hashes key of
       None \<Rightarrow> db_hashes (view s db) key
     | Some fs \<Rightarrow> if version_ok (view s db) v (key, fs) then fs else db_hashes (view s db) key)"
proof -
  have "stoull (to_string_u64 v) = Inr v" by simp
  from once_effectD [OF once_putVersioned [OF assms(1,2) this] assms(6)]
  have "view s' db = apply_rcmds (versioned_cmds v marker marker_fields hashes (view s db)) (view s db)"
    by (simp add: takes_effect_def commits_def)
  then have "db_hashes (view s' db) key =
      db_hashes (apply_rcmds (publish_cmds hashes (map (version_ok (view s db) v) hashes)) (view s db)) key"
    using assms(7) by (simp add: versioned_cmds_def apply_rcmds_append set_hash_def)
  then show ?thesis using apply_publish_cmds [OF assms(3,5)] by simp
qed

theorem versioned_publication_fence_witness:
  "\<exists>s'. putVersionedHashesAtomicallyIfMarkerAbsent ref_redis kAppl ''m'' [(''desired_version'', to_string_u64 3)]
       [(''k'', [(''f'', ''x'')])] empty_redis = (Inr True, s') \<and> db_hashes (rr_dbs s' kAppl) ''k'' = [(''f'', ''x'')]"
proof -
  obtain r s' where r: "putVersionedHashesAtomicallyIfMarkerAbsent ref_redis kAppl ''m''
      [(''desired_version'', to_string_u64 3)] [(''k'', [(''f'', ''x'')])] empty_redis = (r, s')"
    by (rule prod.exhaust)
  have "r = Inr True"
    using r by (simp add: putVersionedHashesAtomicallyIfMarkerAbsent_def bindS_liftE kMaxWatchRetries_def
        numeral_eq_Suc unless_marked_def exec_watched_def version_allows_def thenS_def bindS_def returnS_def getS_def
        ref_redis_def key_exists_def empty_redis_def)
  with r have a: "putVersionedHashesAtomicallyIfMarkerAbsent ref_redis kAppl ''m''
      [(''desired_version'', to_string_u64 3)] [(''k'', [(''f'', ''x'')])] empty_redis = (Inr True, s')" by simp
  have "db_hashes (rr_dbs s' kAppl) ''k'' = [(''f'', ''x'')]"
    using versioned_publication_fence [OF redis_laws_ref _ _ _ _ a, of 3 "''k''"]
    by (simp add: version_ok_def empty_redis_def)
  with a show ?thesis by blast
qed

end
