(* ===== verification/Orchestrator.thy ===== *)
theory Orchestrator
  imports Connection_State_Machine Device_Command Redis_Repository "HOL-Library.Signed_Division"
begin

text \<open>
  The orchestrator (\<open>cpp/src/orchestrator_service.cpp\<close>): it turns configuration events into device
  commands, device results into connection states, and apply timeouts into bounded retries and alarms.
  A handler takes the Redis server \<open>R\<close>, the JSON library \<open>J\<close>, the clock \<open>now\<close> and the hook
  \<open>after_phase\<close> as parameters; the empty hook is \<open>\<lambda>_. returnS ()\<close>.
\<close>

section \<open>Pure parts\<close>

definition kConsumerGroup :: string where
  "kConsumerGroup = ''ocs-orch''"

definition kRetryConsumerGroup :: string where
  "kRetryConsumerGroup = ''ocs-orch-retry''"

record ApplyRetryPolicy =
  max_retries :: u64
  base_backoff :: int
  max_backoff :: int

definition default_ApplyRetryPolicy :: ApplyRetryPolicy where
  "default_ApplyRetryPolicy = \<lparr>max_retries = 3, base_backoff = 100, max_backoff = 5000\<rparr>"

record OrchestratorService =
  pending_min_idle :: int
  retry_policy :: ApplyRetryPolicy

definition OrchestratorService_new :: "int \<Rightarrow> ApplyRetryPolicy \<Rightarrow> OrchestratorService result" where
  "OrchestratorService_new idle policy =
     (if idle < 0 \<or> idle > 3600000
      then Inl (Invalid_argument ''orch pending minimum idle time is outside 0..3600000ms'')
      else if max_retries policy > 100 \<or> base_backoff policy < 0 \<or>
              max_backoff policy < base_backoff policy \<or> max_backoff policy > 3600000
      then Inl (Invalid_argument ''orch apply retry policy is outside supported bounds'')
      else Inr \<lparr>pending_min_idle = idle, retry_policy = policy\<rparr>)"

definition currentStatus :: "(string, string) smap \<Rightarrow> ConnectionApplyStatus result" where
  "currentStatus application =
     (case map_of application ''apply_status'' of
        None \<Rightarrow> Inr kAbsent
      | Some t \<Rightarrow> connectionApplyStatusFromString t)"

definition currentVersion :: "(string, string) smap \<Rightarrow> u64 result" where
  "currentVersion application =
     (case map_of application ''desired_version'' of None \<Rightarrow> Inr 0 | Some t \<Rightarrow> stoull t)"

definition decodePort :: "'j json_api \<Rightarrow> 'j \<Rightarrow> string \<Rightarrow> PortId result" where
  "decodePort J payload field =
     bindE (jat J payload field) (\<lambda>v.
     bindE (if jis_unsigned J v then jget_u64 J v
            else if jis_integer J v then
              bindE (jget_i64 J v) (\<lambda>signed_value.
                if signed_value \<le> 0 then Inl (Invalid_argument (field @ '' must be positive''))
                else Inr (of_int signed_value))
            else Inl (Invalid_argument (field @ '' must be an integer''))) (\<lambda>parsed :: u64.
     if parsed = 0 \<or> parsed > 65535
     then Inl (Invalid_argument (field @ '' is outside the supported port range''))
     else Inr (ucast parsed)))"

definition decodeConfigEvent :: "'j json_api \<Rightarrow> EventEnvelope \<Rightarrow> ConnectionCommand result" where
  "decodeConfigEvent J event =
     (if ev_resource_type event \<noteq> ''connection''
      then Inl (Invalid_argument ''orch only supports connection configuration events'')
      else if ev_desired_version event = 0
      then Inl (Invalid_argument ''connection desired version must be positive'')
      else
        let command = \<lparr>cc_operation = kUpsert, cc_id = ev_resource_id event, cc_input_port = 0,
                       cc_output_port = 0, cc_desired_version = ev_desired_version event\<rparr> in
        if ev_operation event = ''REMOVE'' then Inr (command\<lparr>cc_operation := kRemove\<rparr>)
        else if ev_operation event \<noteq> ''UPSERT''
        then Inl (Invalid_argument ''unsupported connection configuration operation'')
        else
          bindE (jparse J (ev_payload event)) (\<lambda>payload.
          bindE (decodePort J payload ''input_port'') (\<lambda>input.
          bindE (decodePort J payload ''output_port'') (\<lambda>output.
          Inr (command\<lparr>cc_input_port := input, cc_output_port := output\<rparr>)))))"

definition decodeConfigBatchEvent :: "'j json_api \<Rightarrow> EventEnvelope \<Rightarrow> DeviceCommandBatch result" where
  "decodeConfigBatchEvent J event =
     (if ev_resource_type event = ''connection''
      then bindE (decodeConfigEvent J event) (\<lambda>command.
           Inr \<lparr>batch_commands = [command], batch_options = default_ApplyOptions\<rparr>)
      else if ev_resource_type event \<noteq> ''connection-batch'' \<or> ev_operation event \<noteq> ''APPLY_BATCH''
      then Inl (Invalid_argument ''orch only supports connection configuration events'')
      else if ev_desired_version event = 0
      then Inl (Invalid_argument ''connection batch desired version must be positive'')
      else
        bindE (decodeDeviceCommand J (ev_payload event)) (\<lambda>batch.
        if list_ex (\<lambda>c. cc_desired_version c \<noteq> ev_desired_version event) (batch_commands batch)
        then Inl (Invalid_argument ''connection batch has inconsistent desired versions'')
        else Inr batch))"

definition snapshotPort :: "(string, string) smap \<Rightarrow> string \<Rightarrow> PortId result" where
  "snapshotPort snapshot field =
     (case map_of snapshot field of
        None \<Rightarrow> Inl (Invalid_argument (''connection snapshot is missing field: '' @ field))
      | Some t \<Rightarrow>
          bindE (stoull t) (\<lambda>parsed.
          if parsed = 0 \<or> parsed > 65535
          then Inl (Invalid_argument (''connection snapshot has invalid port: '' @ field))
          else Inr (ucast parsed)))"

definition loadDesiredSnapshot :: "'s redis_api \<Rightarrow> EventEnvelope \<Rightarrow> ('s, ConnectionCommand) sexn" where
  "loadDesiredSnapshot R event =
     bindS (getHash R kConfig (connectionConfigKey (ev_device event) (ev_resource_id event))) (\<lambda>snapshot.
     if snapshot = [] then
       if ev_operation event = ''REMOVE''
       then returnS \<lparr>cc_operation = kRemove, cc_id = ev_resource_id event, cc_input_port = 0,
              cc_output_port = 0, cc_desired_version = ev_desired_version event\<rparr>
       else throwS (Runtime_error ''version gap cannot reload missing desired snapshot'')
     else liftE
       (case map_of snapshot ''desired_version'' of
          None \<Rightarrow> Inl (Invalid_argument ''connection snapshot is missing desired_version'')
        | Some t \<Rightarrow>
            bindE (stoull t) (\<lambda>desired_version.
            if desired_version < ev_desired_version event
            then Inl (Invalid_argument ''connection snapshot is older than configuration event'')
            else
              bindE (snapshotPort snapshot ''input_port'') (\<lambda>input.
              bindE (snapshotPort snapshot ''output_port'') (\<lambda>output.
              Inr \<lparr>cc_operation = kUpsert, cc_id = ev_resource_id event, cc_input_port = input,
                   cc_output_port = output, cc_desired_version = desired_version\<rparr>)))))"

definition executing_status :: "ConnectionOperation \<Rightarrow> ConnectionApplyStatus" where
  "executing_status operation = (if operation = kRemove then kRemoving else kApplying)"

definition startApplyTransition ::
  "ConnectionApplyStatus \<Rightarrow> ConnectionOperation \<Rightarrow> ConnectionApplyStatus result" where
  "startApplyTransition current operation =
     (let executing = executing_status operation in
      if current = kApplying \<or> current = kRemoving then Inr executing
      else if current = kFailed then
        bindE (requireTransition current kRetryWait) (\<lambda>_.
        bindE (requireTransition kRetryWait executing) (\<lambda>_. Inr executing))
      else if current = kRetryWait then
        bindE (requireTransition current executing) (\<lambda>_. Inr executing)
      else
        let pending = (if operation = kRemove then kPendingDelete
                       else if current = kAbsent then kPendingCreate else kPendingUpdate) in
        bindE (requireTransition current pending) (\<lambda>_.
        bindE (requireTransition pending executing) (\<lambda>_. Inr executing)))"

text \<open>\<open>std::string::find\<close>: the first position of a text.\<close>

fun find_text :: "string \<Rightarrow> string \<Rightarrow> nat option" where
  "find_text [] p = (if p = [] then Some 0 else None)"
| "find_text (c # s) p =
     (if starts_with (c # s) p then Some 0 else map_option Suc (find_text s p))"

definition resultCommandId :: "'j json_api \<Rightarrow> EventEnvelope \<Rightarrow> 'j \<Rightarrow> string result" where
  "resultCommandId J event res =
     bindE (jvalue_string J res ''command_id'' []) (\<lambda>command_id.
     if command_id \<noteq> [] then Inr command_id
     else (case find_text (ev_event_id event) '':result'' of
         None \<Rightarrow> Inl (Invalid_argument ''device result is missing command_id'')
       | Some suffix \<Rightarrow> Inr (take suffix (ev_event_id event))))"

definition isGenerationRecovery :: "string \<Rightarrow> bool" where
  "isGenerationRecovery command_id = starts_with command_id ''hwsim-recovery:''"

definition isReconciliation :: "string \<Rightarrow> bool" where
  "isReconciliation command_id = starts_with command_id ''reconcile:''"

text \<open>The backoff loop; its first argument counts the iterations that are left.\<close>

fun backoff_loop :: "nat \<Rightarrow> ApplyRetryPolicy \<Rightarrow> int \<Rightarrow> int" where
  "backoff_loop 0 policy delay = delay"
| "backoff_loop (Suc n) policy delay =
     (if delay = 0 then delay
      else if delay \<ge> max_backoff policy sdiv 2 then max_backoff policy
      else backoff_loop n policy (delay * 2))"

definition retryAtNs :: "u64 \<Rightarrow> u64 \<Rightarrow> ApplyRetryPolicy \<Rightarrow> u64" where
  "retryAtNs now_ns retry_attempt policy =
     (let delay = min (backoff_loop (unat retry_attempt - 1) policy (base_backoff policy)) (max_backoff policy)
      in now_ns + of_int delay * 1000000)"

definition retryPayload ::
  "'j json_api \<Rightarrow> DeviceCommandBatch \<Rightarrow> string \<Rightarrow> u64 \<Rightarrow> u64 \<Rightarrow> string result" where
  "retryPayload J batch failed_command_id retry_attempt not_before_ns =
     bindE (encodeDeviceCommand J batch) (\<lambda>encoded.
     bindE (jparse J encoded) (\<lambda>parsed.
     jdump J (jobject J
       [(''batch'', parsed),
        (''failed_command_id'', jstring J failed_command_id),
        (''retry_attempt'', junsigned J retry_attempt),
        (''not_before_ns'', junsigned J not_before_ns)])))"

definition retryBatch :: "'j json_api \<Rightarrow> 'j \<Rightarrow> DeviceCommandBatch result" where
  "retryBatch J payload =
     bindE (jat J payload ''batch'') (\<lambda>batch. bindE (jdump J batch) (decodeDeviceCommand J))"

definition alarmPayload :: "'j json_api \<Rightarrow> (string, string) smap \<Rightarrow> string result" where
  "alarmPayload J fs = jdump J (jobject J (map (\<lambda>(k, v). (k, jstring J v)) fs))"

section \<open>Service operations\<close>

definition publishHeartbeat :: "'s redis_api \<Rightarrow> ('s, u64) sexn \<Rightarrow> ('s, unit) sexn" where
  "publishHeartbeat R now =
     bindS now (\<lambda>t.
     putHash R kState (serviceStateKey ''ocs-orch'')
       (smap_of_list [(''service'', ''ocs-orch''), (''status'', ''ONLINE''), (''last_seen_ns'', to_string_u64 t)]))"

definition initialize :: "'s redis_api \<Rightarrow> ('s, u64) sexn \<Rightarrow> ('s, unit) sexn" where
  "initialize R now =
     thenS (createConsumerGroup R kConfig kConfigEvents kConsumerGroup ''0-0'')
     (thenS (createConsumerGroup R kDevice kDeviceResults kConsumerGroup ''0-0'')
     (thenS (createConsumerGroup R kDevice kDeviceRetries kRetryConsumerGroup ''0-0'')
     (publishHeartbeat R now)))"

definition ack_true :: "'s redis_api \<Rightarrow> LogicalDb \<Rightarrow> string \<Rightarrow> string \<Rightarrow> StreamMessage \<Rightarrow> ('s, bool) sexn" where
  "ack_true R db stream grp message =
     thenS (acknowledge R db stream grp (msg_id message)) (returnS True)"

subsection \<open>Configuration events\<close>

text \<open>The loop over the commands of an event; \<open>None\<close> is a stale batch.\<close>

fun select_commands ::
  "'s redis_api \<Rightarrow> EventEnvelope \<Rightarrow> ConnectionCommand list \<Rightarrow> ('s, ConnectionCommand list option) sexn" where
  "select_commands R event [] = returnS (Some [])"
| "select_commands R event (command # commands) =
     bindS (getHash R kAppl (connectionAppKey (ev_device event) (cc_id command))) (\<lambda>existing.
     bindS (liftE (currentVersion existing)) (\<lambda>previous.
     if cc_desired_version command \<le> previous then returnS None
     else if cc_operation command = kRemove \<and> existing = [] then select_commands R event commands
     else
       bindS (if ev_resource_type event = ''connection'' \<and> cc_desired_version command - previous > 1
              then loadDesiredSnapshot R event else returnS command) (\<lambda>selected.
       bindS (select_commands R event commands) (\<lambda>rest.
       returnS (map_option ((#) selected) rest)))))"

text \<open>The batch of an event, prepared once; \<open>None\<close> when there is nothing to do.\<close>

definition prepare_batch ::
  "'s redis_api \<Rightarrow> 'j json_api \<Rightarrow> EventEnvelope \<Rightarrow> ('s, DeviceCommandBatch option) sexn" where
  "prepare_batch R J event =
     (let prepared_key = orchConfigBatchKey (ev_event_id event) in
      bindS (getHash R kDevice prepared_key) (\<lambda>prepared.
      if prepared \<noteq> [] then
        bindS (liftE (bindE (map_at prepared ''payload'') (decodeDeviceCommand J))) (\<lambda>batch.
        returnS (Some batch))
      else
        bindS (liftE (decodeConfigBatchEvent J event)) (\<lambda>decoded.
        bindS (select_commands R event (batch_commands decoded)) (\<lambda>selected.
        case selected of
          None \<Rightarrow> returnS None
        | Some commands \<Rightarrow>
            if commands = [] then returnS None
            else
              bindS (liftE (encodeDeviceCommand J (decoded\<lparr>batch_commands := commands\<rparr>))) (\<lambda>payload.
              bindS (putHashIfAbsent R kDevice prepared_key
                (smap_of_list [(''event_id'', ev_event_id event), (''request_id'', ev_request_id event),
                   (''device'', ev_device event), (''payload'', payload)])) (\<lambda>_.
              bindS (getHash R kDevice prepared_key) (\<lambda>stored.
              bindS (liftE (bindE (map_at stored ''payload'') (decodeDeviceCommand J))) (\<lambda>batch.
              returnS (Some batch)))))))))"

definition application_fields ::
  "EventEnvelope \<Rightarrow> string \<Rightarrow> ConnectionCommand \<Rightarrow> ConnectionApplyStatus \<Rightarrow> (string, string) smap" where
  "application_fields event command_id command status = smap_of_list
     [(''device'', ev_device event),
      (''id'', cc_id command),
      (''input_port'', to_string_u16 (cc_input_port command)),
      (''output_port'', to_string_u16 (cc_output_port command)),
      (''desired_version'', to_string_u64 (cc_desired_version command)),
      (''apply_status'', Status_toString status),
      (''operation'', operationName (cc_operation command)),
      (''request_id'', ev_request_id event),
      (''event_id'', ev_event_id event),
      (''command_id'', command_id),
      (''retry_attempt'', ''0''),
      (''next_retry_at_ns'', []),
      (''failed_command_id'', []),
      (''last_error_code'', []),
      (''last_error_message'', [])]"

text \<open>One pass of the loop that builds the application and device hashes of a batch.\<close>

definition start_application ::
  "'s redis_api \<Rightarrow> EventEnvelope \<Rightarrow> string \<Rightarrow> ConnectionCommand \<Rightarrow> ('s, (string, string) smap) sexn" where
  "start_application R event command_id command =
     bindS (getHash R kAppl (connectionAppKey (ev_device event) (cc_id command))) (\<lambda>existing.
     bindS (liftE (bindE (currentStatus existing) (\<lambda>current.
       startApplyTransition current (cc_operation command)))) (\<lambda>status.
     returnS (application_fields event command_id command status)))"

definition app_entries ::
  "(string \<Rightarrow> string \<Rightarrow> string) \<Rightarrow> EventEnvelope \<Rightarrow> ConnectionCommand list \<Rightarrow> (string, string) smap list \<Rightarrow>
   (string \<times> (string, string) smap) list" where
  "app_entries key event commands applications =
     zip (map (\<lambda>c. key (ev_device event) (cc_id c)) commands) applications"

definition batch_event ::
  "EventEnvelope \<Rightarrow> string \<Rightarrow> u64 \<Rightarrow> DeviceCommandBatch \<Rightarrow> string \<Rightarrow> string \<Rightarrow> EventEnvelope" where
  "batch_event event new_id t batch operation payload = \<lparr>
     ev_event_schema_version = 1,
     ev_event_id = new_id,
     ev_request_id = ev_request_id event,
     ev_timestamp_ns = t,
     ev_device = ev_device event,
     ev_resource_type = (if length (batch_commands batch) = 1 then ''connection'' else ''connection-batch''),
     ev_resource_id = (if length (batch_commands batch) = 1 then cc_id (hd (batch_commands batch))
                       else ev_request_id event),
     ev_operation = operation,
     ev_desired_version = ev_desired_version event,
     ev_payload = payload\<rparr>"

definition batch_operation :: "DeviceCommandBatch \<Rightarrow> string" where
  "batch_operation batch =
     (if length (batch_commands batch) = 1 then operationName (cc_operation (hd (batch_commands batch)))
      else ''APPLY_BATCH'')"

text \<open>The publications of a prepared batch.\<close>

definition publish_batch ::
  "'s redis_api \<Rightarrow> 'j json_api \<Rightarrow> ('s, u64) sexn \<Rightarrow> (string \<Rightarrow> ('s, unit) sexn) \<Rightarrow>
   EventEnvelope \<Rightarrow> DeviceCommandBatch \<Rightarrow> ('s, unit) sexn" where
  "publish_batch R J now after_phase event batch =
     (let command_id = ev_event_id event @ '':command'';
          commands = batch_commands batch;
          marker = smap_of_list [(''event_id'', ev_event_id event), (''command_id'', command_id),
                     (''desired_version'', to_string_u64 (ev_desired_version event))] in
      bindS (mapS (start_application R event command_id) commands) (\<lambda>applications.
      thenS (putVersionedHashesAtomicallyIfMarkerAbsent R kAppl
               (orchApplicationPublicationKey (ev_event_id event)) marker
               (app_entries connectionAppKey event commands applications))
      (thenS (after_phase ''application'')
      (thenS (putVersionedHashesAtomicallyIfMarkerAbsent R kDevice
               (orchDeviceStatePublicationKey (ev_event_id event)) marker
               (app_entries connectionDeviceKey event commands applications))
      (thenS (after_phase ''device-state'')
      (bindS now (\<lambda>t.
       bindS (liftE (encodeDeviceCommand J batch)) (\<lambda>payload.
       thenS (appendEventOnce R kDevice (orchDeviceCommandPublicationKey (ev_event_id event))
                (smap_of_list [(''event_id'', ev_event_id event), (''command_id'', command_id)])
                kDeviceCommands (batch_event event command_id t batch (batch_operation batch) payload))
       (after_phase ''command'')))))))))"

definition processConfigOne ::
  "'s redis_api \<Rightarrow> 'j json_api \<Rightarrow> ('s, u64) sexn \<Rightarrow> OrchestratorService \<Rightarrow> string \<Rightarrow>
   (string \<Rightarrow> ('s, unit) sexn) \<Rightarrow> ('s, bool) sexn" where
  "processConfigOne R J now self consumer after_phase =
     bindS (next_messages R kConfig kConfigEvents kConsumerGroup consumer (pending_min_idle self)) (\<lambda>messages.
     case messages of
       [] \<Rightarrow> returnS False
     | message # _ \<Rightarrow>
         let event = msg_event message;
             ack = ack_true R kConfig kConfigEvents kConsumerGroup message in
         bindS (getHash R kDevice (orchDeviceCommandPublicationKey (ev_event_id event))) (\<lambda>published.
         if published \<noteq> [] then ack
         else
           bindS (prepare_batch R J event) (\<lambda>prepared.
           case prepared of
             None \<Rightarrow> ack
           | Some batch \<Rightarrow>
               thenS (after_phase ''prepared'')
               (thenS (publish_batch R J now after_phase event batch) ack))))"

subsection \<open>Timeout alarms\<close>

definition publishTimeoutAlarm ::
  "'s redis_api \<Rightarrow> 'j json_api \<Rightarrow> ('s, u64) sexn \<Rightarrow> EventEnvelope \<Rightarrow> string \<Rightarrow> ('s, unit) sexn" where
  "publishTimeoutAlarm R J now event error_message =
     (let alarm_id = applyTimeoutAlarmId (ev_resource_id event);
          key = activeAlarmKey (ev_device event) alarm_id;
          marker_key = orchAlarmPublicationKey (ev_event_id event);
          version = to_string_u64 (ev_desired_version event) in
      bindS (getHash R kAlarm marker_key) (\<lambda>marker.
      bindS (getHash R kAlarm key) (\<lambda>active.
      bindS
        (if marker \<noteq> [] then returnS marker
         else
           bindS now (\<lambda>t.
           let activation_id = (case map_of active ''activation_id'' of None \<Rightarrow> ev_event_id event | Some a \<Rightarrow> a);
               fields = smap_of_list
                 [(''id'', alarm_id), (''active'', ''true''), (''severity'', ''MAJOR''),
                  (''resource_type'', ''connection''), (''resource_id'', ev_resource_id event),
                  (''desired_version'', version),
                  (''error_code'', ErrorCode_toString kApplyTimeout),
                  (''error_message'', error_message),
                  (''activation_id'', activation_id),
                  (''first_raised_ns'',
                     case map_of active ''first_raised_ns'' of None \<Rightarrow> to_string_u64 t | Some f \<Rightarrow> f),
                  (''last_change_ns'', to_string_u64 t)];
               new_marker = smap_of_list
                 [(''alarm_id'', alarm_id), (''desired_version'', version),
                  (''activation_id'', activation_id),
                  (''activated'', if active = [] then ''true'' else ''false'')] in
           bindS (liftE (alarmPayload J fields)) (\<lambda>payload.
           thenS (replaceHashAndAppendEventOnce R kAlarm marker_key new_marker key fields kAlarmEvents
             \<lparr>ev_event_schema_version = 1, ev_event_id = ev_event_id event,
              ev_request_id = ev_request_id event, ev_timestamp_ns = t, ev_device = ev_device event,
              ev_resource_type = ''alarm'', ev_resource_id = alarm_id, ev_operation = ''UPSERT'',
              ev_desired_version = ev_desired_version event, ev_payload = payload\<rparr>)
           (getHash R kAlarm marker_key)))) (\<lambda>stored.
      bindS (liftE (map_at stored ''activated'')) (\<lambda>activated.
      if activated = ''true'' then
        bindS (liftE (map_at stored ''activation_id'')) (\<lambda>activation_id.
        thenS (incrementHashFieldsOnce R kCounters
                 (orchAlarmCounterPublicationKey (ev_device event) alarm_id activation_id False)
                 (smap_of_list [(''alarm_id'', alarm_id), (''desired_version'', version)])
                 (deviceCountersKey (ev_device event)) [(''active_alarms'', 1)])
        (returnS ()))
      else returnS ())))))"

definition clearTimeoutAlarm ::
  "'s redis_api \<Rightarrow> 'j json_api \<Rightarrow> ('s, u64) sexn \<Rightarrow> EventEnvelope \<Rightarrow> ('s, unit) sexn" where
  "clearTimeoutAlarm R J now event =
     (let alarm_id = applyTimeoutAlarmId (ev_resource_id event);
          key = activeAlarmKey (ev_device event) alarm_id;
          marker_key = orchAlarmClearPublicationKey (ev_event_id event) in
      bindS (getHash R kAlarm marker_key) (\<lambda>marker.
      bindS (getHash R kAlarm key) (\<lambda>active.
      if marker = [] \<and> active = [] then returnS ()
      else
        bindS
          (if marker \<noteq> [] then returnS marker
           else
             bindS (liftE (bindE (map_at active ''desired_version'') stoull)) (\<lambda>desired_version.
             bindS now (\<lambda>t.
             let cleared = insert_or_assign ''last_change_ns'' (to_string_u64 t)
                             (insert_or_assign ''active'' ''false'' active) in
             bindS (liftE (map_at cleared ''activation_id'')) (\<lambda>activation_id.
             bindS (liftE (alarmPayload J cleared)) (\<lambda>payload.
             thenS (replaceHashAndAppendEventOnce R kAlarm marker_key
               (smap_of_list
                  [(''alarm_id'', alarm_id), (''desired_version'', to_string_u64 desired_version),
                   (''activation_id'', activation_id), (''cleared'', ''true'')])
               key [] kAlarmEvents
               \<lparr>ev_event_schema_version = 1, ev_event_id = ev_event_id event @ '':alarm-clear'',
                ev_request_id = ev_request_id event, ev_timestamp_ns = t, ev_device = ev_device event,
                ev_resource_type = ''alarm'', ev_resource_id = alarm_id, ev_operation = ''REMOVE'',
                ev_desired_version = desired_version, ev_payload = payload\<rparr>)
             (getHash R kAlarm marker_key)))))) (\<lambda>stored.
        bindS (liftE (bindE (map_at stored ''desired_version'') stoull)) (\<lambda>desired_version.
        bindS (liftE (map_at stored ''activation_id'')) (\<lambda>activation_id.
        thenS (incrementHashFieldsOnce R kCounters
                 (orchAlarmCounterPublicationKey (ev_device event) alarm_id activation_id True)
                 (smap_of_list [(''alarm_id'', alarm_id), (''desired_version'', to_string_u64 desired_version)])
                 (deviceCountersKey (ev_device event)) [(''active_alarms'', -1)])
        (returnS ())))))))"

subsection \<open>Timeouts\<close>

text \<open>
  The decision on a timed out command: whether and when it is retried. \<open>first\<close> is the application
  hash of the first command of the batch.
\<close>

definition timeout_metadata ::
  "('s, u64) sexn \<Rightarrow> ApplyRetryPolicy \<Rightarrow> u64 \<Rightarrow> string \<Rightarrow> (string, string) smap \<Rightarrow> ('s, (string, string) smap) sexn" where
  "timeout_metadata now policy desired_version command_id first =
     bindS (liftE (case map_of first ''retry_attempt'' of None \<Rightarrow> Inr 0 | Some t \<Rightarrow> stoull t)) (\<lambda>completed_retries.
     let schedule_retry = (completed_retries < max_retries policy);
         next_attempt = (if schedule_retry then completed_retries + 1 else completed_retries);
         next_status = (if schedule_retry then kRetryWait else kFailed) in
     thenS (liftE (if schedule_retry then requireTransition kFailed next_status else Inr ()))
     (bindS (if schedule_retry then bindS now (\<lambda>t. returnS (retryAtNs t next_attempt policy)) else returnS 0)
       (\<lambda>next_retry_at.
       returnS (smap_of_list
         [(''command_id'', command_id),
          (''desired_version'', to_string_u64 desired_version),
          (''retry_attempt'', to_string_u64 next_attempt),
          (''next_retry_at_ns'', to_string_u64 next_retry_at),
          (''apply_status'', Status_toString next_status),
          (''retry_scheduled'', if schedule_retry then ''true'' else ''false'')]))))"

text \<open>Whether an application hash still belongs to a command.\<close>

definition belongs_to :: "(string, string) smap \<Rightarrow> u64 \<Rightarrow> string \<Rightarrow> bool result" where
  "belongs_to application version command_id =
     (if application = [] then Inr False
      else bindE (currentVersion application) (\<lambda>v.
           Inr (v = version \<and> map_of application ''command_id'' = Some command_id)))"

text \<open>The recorded decision, or a new one; \<open>None\<close> when the result is not about the current command.\<close>

definition load_metadata ::
  "'s redis_api \<Rightarrow> ('s, u64) sexn \<Rightarrow> ApplyRetryPolicy \<Rightarrow> EventEnvelope \<Rightarrow> string \<Rightarrow> ConnectionCommand \<Rightarrow>
   ('s, (string, string) smap option) sexn" where
  "load_metadata R now policy event command_id front =
     bindS (getHash R kAppl (orchTimeoutApplicationPublicationKey command_id)) (\<lambda>from_application.
     bindS (if from_application \<noteq> [] then returnS from_application
            else getHash R kDevice (orchTimeoutDevicePublicationKey command_id)) (\<lambda>metadata.
     if metadata \<noteq> [] then returnS (Some metadata)
     else
       bindS (getHash R kAppl (connectionAppKey (ev_device event) (cc_id front))) (\<lambda>first.
       bindS (liftE (belongs_to first (ev_desired_version event) command_id)) (\<lambda>current_command.
       if \<not> current_command then returnS None
       else
         bindS (liftE (currentStatus first)) (\<lambda>current.
         if current \<noteq> kApplying \<and> current \<noteq> kRemoving then returnS None
         else
           thenS (liftE (requireTransition current kFailed))
           (bindS (timeout_metadata now policy (ev_desired_version event) command_id first) (\<lambda>m.
            returnS (Some m))))))))"

fun timeout_applications ::
  "'s redis_api \<Rightarrow> EventEnvelope \<Rightarrow> string \<Rightarrow> string \<Rightarrow> (string, string) smap \<Rightarrow> ConnectionCommand list \<Rightarrow>
   ('s, (string, string) smap list option) sexn" where
  "timeout_applications R event command_id error_message metadata [] = returnS (Some [])"
| "timeout_applications R event command_id error_message metadata (command # commands) =
     bindS (getHash R kAppl (connectionAppKey (ev_device event) (cc_id command))) (\<lambda>application.
     bindS (liftE (belongs_to application (cc_desired_version command) command_id)) (\<lambda>current_command.
     if \<not> current_command then returnS None
     else
       bindS (liftE (map_at metadata ''apply_status'')) (\<lambda>status.
       bindS (liftE (map_at metadata ''retry_attempt'')) (\<lambda>retry.
       bindS (liftE (map_at metadata ''next_retry_at_ns'')) (\<lambda>next_retry_at.
       bindS (timeout_applications R event command_id error_message metadata commands) (\<lambda>rest.
       returnS (map_option ((#)
         (put_fields [(''apply_status'', status), (''retry_attempt'', retry),
            (''next_retry_at_ns'', next_retry_at), (''failed_command_id'', command_id),
            (''last_error_code'', ErrorCode_toString kApplyTimeout),
            (''last_error_message'', error_message)] application)) rest)))))))"

definition schedule_retry_event ::
  "'s redis_api \<Rightarrow> 'j json_api \<Rightarrow> ('s, u64) sexn \<Rightarrow> EventEnvelope \<Rightarrow> string \<Rightarrow> DeviceCommandBatch \<Rightarrow>
   (string, string) smap \<Rightarrow> ('s, unit) sexn" where
  "schedule_retry_event R J now event command_id batch metadata =
     bindS (liftE (bindE (map_at metadata ''retry_attempt'') stoull)) (\<lambda>retry_attempt.
     bindS (liftE (bindE (map_at metadata ''next_retry_at_ns'') stoull)) (\<lambda>not_before_ns.
     let retry_event_id = command_id @ '':retry:'' @ to_string_u64 retry_attempt in
     bindS now (\<lambda>t.
     bindS (liftE (retryPayload J batch command_id retry_attempt not_before_ns)) (\<lambda>payload.
     thenS (appendEventOnce R kDevice (orchRetryPublicationKey command_id)
              (smap_of_list [(''command_id'', command_id), (''retry_event_id'', retry_event_id),
                 (''desired_version'', to_string_u64 (ev_desired_version event))])
              kDeviceRetries (batch_event event retry_event_id t batch ''RETRY'' payload))
     (returnS ())))))"

definition handleTimeoutResult ::
  "'s redis_api \<Rightarrow> 'j json_api \<Rightarrow> ('s, u64) sexn \<Rightarrow> OrchestratorService \<Rightarrow> StreamMessage \<Rightarrow> string \<Rightarrow> string \<Rightarrow>
   (string \<Rightarrow> ('s, unit) sexn) \<Rightarrow> ('s, unit) sexn" where
  "handleTimeoutResult R J now self message command_id error_message after_phase =
     (let event = msg_event message in
      bindS (getHash R kDevice (deviceApplyAttemptKey command_id)) (\<lambda>attempt.
      case map_of attempt ''payload'' of
        None \<Rightarrow> returnS ()
      | Some payload \<Rightarrow>
          (case decodeDeviceCommand J payload of
             Inl _ \<Rightarrow> returnS ()
           | Inr batch \<Rightarrow>
               let commands = batch_commands batch in
               if commands = [] then returnS ()
               else
                 bindS (load_metadata R now (retry_policy self) event command_id (hd commands)) (\<lambda>loaded.
                 case loaded of
                   None \<Rightarrow> returnS ()
                 | Some metadata \<Rightarrow>
                     bindS (timeout_applications R event command_id error_message metadata commands) (\<lambda>apps.
                     case apps of
                       None \<Rightarrow> returnS ()
                     | Some applications \<Rightarrow>
                         thenS (putVersionedHashesAtomicallyIfMarkerAbsent R kDevice
                                  (orchTimeoutDevicePublicationKey command_id) metadata
                                  (app_entries connectionDeviceKey event commands applications))
                         (thenS (after_phase ''timeout-device'')
                         (thenS (putVersionedHashesAtomicallyIfMarkerAbsent R kAppl
                                  (orchTimeoutApplicationPublicationKey command_id) metadata
                                  (app_entries connectionAppKey event commands applications))
                         (thenS (after_phase ''timeout-application'')
                         (thenS (forS commands (\<lambda>command.
                            publishTimeoutAlarm R J now
                              (event\<lparr>ev_resource_id := cc_id command,
                                 ev_event_id := command_id @ '':timeout-alarm:'' @ cc_id command\<rparr>)
                              error_message))
                         (thenS (after_phase ''timeout-alarm'')
                         (bindS (liftE (map_at metadata ''retry_scheduled'')) (\<lambda>scheduled.
                          if scheduled = ''true''
                          then thenS (schedule_retry_event R J now event command_id batch metadata)
                                 (after_phase ''timeout-retry'')
                          else returnS ()))))))))))))"

subsection \<open>Device results\<close>

definition result_superseded ::
  "u64 \<Rightarrow> u64 \<Rightarrow> ConnectionApplyStatus \<Rightarrow> bool \<Rightarrow> bool" where
  "result_superseded result_version application_version current recovering_failed_application \<longleftrightarrow>
     result_version \<le> application_version \<and>
     (result_version < application_version \<or> current = kActive \<or> current = kAbsent \<or>
      (current = kFailed \<and> \<not> recovering_failed_application))"

definition result_status ::
  "bool \<Rightarrow> bool \<Rightarrow> ConnectionApplyStatus \<Rightarrow> (string, string) smap \<Rightarrow> ConnectionApplyStatus" where
  "result_status success recovery_result current application =
     (if \<not> success then kFailed
      else if current = kRemoving \<or> (recovery_result \<and> map_of application ''operation'' = Some ''REMOVE'')
      then kAbsent else kActive)"

definition check_result_transition ::
  "bool \<Rightarrow> ConnectionApplyStatus \<Rightarrow> ConnectionApplyStatus \<Rightarrow> unit result" where
  "check_result_transition recovering_failed_application current next =
     (if recovering_failed_application then
        bindE (if current = kFailed then requireTransition current kRetryWait else Inr ()) (\<lambda>_.
        let executing = (if next = kAbsent then kRemoving else kApplying) in
        bindE (requireTransition kRetryWait executing) (\<lambda>_. requireTransition executing next))
      else requireTransition current next)"

definition result_application ::
  "'j json_api \<Rightarrow> 'j \<Rightarrow> bool \<Rightarrow> ConnectionApplyStatus \<Rightarrow> (string, string) smap \<Rightarrow> (string, string) smap result" where
  "result_application J res success next application =
     bindE (if next = kAbsent then Inr [] else bindE (jat J res ''error_code'') (jget_string J)) (\<lambda>code.
     bindE (if next = kAbsent then Inr [] else bindE (jat J res ''error_message'') (jget_string J)) (\<lambda>error_message.
     Inr (put_fields
       ([(''apply_status'', Status_toString next), (''last_error_code'', code),
         (''last_error_message'', error_message)] @
        (if success then [(''retry_attempt'', ''0''), (''next_retry_at_ns'', []), (''failed_command_id'', [])]
         else [])) application)))"

text \<open>The publications of a result that changes the application.\<close>

definition publish_result ::
  "'s redis_api \<Rightarrow> 'j json_api \<Rightarrow> ('s, u64) sexn \<Rightarrow> (string \<Rightarrow> ('s, unit) sexn) \<Rightarrow> EventEnvelope \<Rightarrow>
   bool \<Rightarrow> ConnectionApplyStatus \<Rightarrow> (string, string) smap \<Rightarrow> ('s, unit) sexn" where
  "publish_result R J now after_phase event success next application =
     (let marker = smap_of_list [(''result_event_id'', ev_event_id event),
                     (''desired_version'', to_string_u64 (ev_desired_version event))] in
      thenS (putVersionedHashesAtomicallyIfMarkerAbsent R kDevice
               (orchResultDevicePublicationKey (ev_event_id event)) marker
               [(connectionDeviceKey (ev_device event) (ev_resource_id event),
                 if next = kAbsent then [] else application)])
      (thenS (after_phase ''device-result'')
      (thenS (putVersionedHashesAtomicallyIfMarkerAbsent R kAppl
               (orchResultApplicationPublicationKey (ev_event_id event)) marker
               [(connectionAppKey (ev_device event) (ev_resource_id event), application)])
      (thenS (after_phase ''application-result'')
      (if success then thenS (clearTimeoutAlarm R J now event) (after_phase ''alarm-clear'')
       else returnS ())))))"

definition applyResult ::
  "'s redis_api \<Rightarrow> 'j json_api \<Rightarrow> ('s, u64) sexn \<Rightarrow> (string \<Rightarrow> ('s, unit) sexn) \<Rightarrow> EventEnvelope \<Rightarrow> 'j \<Rightarrow> bool \<Rightarrow>
   ('s, unit) sexn" where
  "applyResult R J now after_phase event res success =
     bindS (getHash R kAppl (orchResultApplicationPublicationKey (ev_event_id event))) (\<lambda>application_marker.
     bindS (if application_marker = [] then returnS False
            else bindS (getHash R kDevice (orchResultDevicePublicationKey (ev_event_id event))) (\<lambda>device_marker.
                 returnS (device_marker \<noteq> []))) (\<lambda>published.
     if published then (if success then clearTimeoutAlarm R J now event else returnS ())
     else
       bindS (getHash R kAppl (connectionAppKey (ev_device event) (ev_resource_id event))) (\<lambda>application.
       if application = [] then returnS ()
       else
         bindS (liftE (currentVersion application)) (\<lambda>application_version.
         bindS (liftE (currentStatus application)) (\<lambda>current.
         bindS (liftE (jvalue_string J res ''command_id'' [])) (\<lambda>result_command_id.
         let recovery_result = (isGenerationRecovery result_command_id \<or> isGenerationRecovery (ev_event_id event) \<or>
                                isReconciliation result_command_id \<or> isReconciliation (ev_event_id event));
             recovering_failed_application =
               (recovery_result \<and> success \<and> (current = kFailed \<or> current = kRetryWait)) in
         if result_superseded (ev_desired_version event) application_version current recovering_failed_application
         then returnS ()
         else if ev_desired_version event > application_version
         then throwS (Runtime_error ''device result is newer than application state'')
         else
           let next = result_status success recovery_result current application in
           thenS (liftE (check_result_transition recovering_failed_application current next))
           (bindS (liftE (result_application J res success next application)) (\<lambda>updated.
            publish_result R J now after_phase event success next updated))))))))"

definition processResultOne ::
  "'s redis_api \<Rightarrow> 'j json_api \<Rightarrow> ('s, u64) sexn \<Rightarrow> OrchestratorService \<Rightarrow> string \<Rightarrow>
   (string \<Rightarrow> ('s, unit) sexn) \<Rightarrow> ('s, bool) sexn" where
  "processResultOne R J now self consumer after_phase =
     bindS (next_messages R kDevice kDeviceResults kConsumerGroup consumer (pending_min_idle self)) (\<lambda>messages.
     case messages of
       [] \<Rightarrow> returnS False
     | message # _ \<Rightarrow>
         let event = msg_event message in
         bindS (liftE (jparse J (ev_payload event))) (\<lambda>res.
         bindS (liftE (bindE (jat J res ''success'') (jget_bool J))) (\<lambda>success.
         bindS (liftE (bindE (jat J res ''error_code'') (jget_string J))) (\<lambda>error_code.
         thenS
           (if \<not> success \<and> error_code = ErrorCode_toString kApplyTimeout
            then
              bindS (liftE (resultCommandId J event res)) (\<lambda>command_id.
              bindS (liftE (bindE (jat J res ''error_message'') (jget_string J))) (\<lambda>error_message.
              handleTimeoutResult R J now self message command_id error_message after_phase))
            else applyResult R J now after_phase event res success)
           (ack_true R kDevice kDeviceResults kConsumerGroup message)))))"

subsection \<open>Retries\<close>

text \<open>The loop over the commands of a retry; \<open>None\<close> when the retry is no longer wanted.\<close>

fun retry_applications ::
  "'s redis_api \<Rightarrow> EventEnvelope \<Rightarrow> string \<Rightarrow> string \<Rightarrow> u64 \<Rightarrow> bool \<Rightarrow> ConnectionCommand list \<Rightarrow>
   ('s, (string, string) smap list option) sexn" where
  "retry_applications R event command_id failed_command_id retry_attempt retry_started [] = returnS (Some [])"
| "retry_applications R event command_id failed_command_id retry_attempt retry_started (command # commands) =
     bindS (getHash R kAppl (connectionAppKey (ev_device event) (cc_id command))) (\<lambda>application.
     bindS (liftE (if application = [] then Inr False
         else bindE (currentVersion application) (\<lambda>v.
              Inr (v = cc_desired_version command \<and>
                   (map_of application ''command_id'' = Some failed_command_id \<or>
                    retry_started \<and> map_of application ''command_id'' = Some command_id))))) (\<lambda>current_retry.
     bindS (liftE (if \<not> current_retry then Inr True
         else if retry_started then Inr False
         else bindE (currentStatus application) (\<lambda>current. Inr (current \<noteq> kRetryWait)))) (\<lambda>obsolete.
     if obsolete then returnS None
     else
       let executing = executing_status (cc_operation command) in
       thenS (liftE (if retry_started then Inr () else requireTransition kRetryWait executing))
       (bindS (retry_applications R event command_id failed_command_id retry_attempt retry_started commands) (\<lambda>rest.
        returnS (map_option ((#)
          (put_fields
            ((if retry_started then [] else [(''apply_status'', Status_toString executing)]) @
             [(''command_id'', command_id), (''retry_attempt'', to_string_u64 retry_attempt),
              (''next_retry_at_ns'', []), (''failed_command_id'', failed_command_id)]) application)) rest))))))"

definition publish_retry ::
  "'s redis_api \<Rightarrow> 'j json_api \<Rightarrow> ('s, u64) sexn \<Rightarrow> (string \<Rightarrow> ('s, unit) sexn) \<Rightarrow> EventEnvelope \<Rightarrow>
   DeviceCommandBatch \<Rightarrow> u64 \<Rightarrow> (string, string) smap list \<Rightarrow> ('s, unit) sexn" where
  "publish_retry R J now after_phase event batch retry_attempt applications =
     (let command_id = ev_event_id event @ '':command'';
          commands = batch_commands batch;
          marker = smap_of_list [(''retry_event_id'', ev_event_id event), (''command_id'', command_id),
                     (''desired_version'', to_string_u64 (ev_desired_version event)),
                     (''retry_attempt'', to_string_u64 retry_attempt)] in
      thenS (putVersionedHashesAtomicallyIfMarkerAbsent R kAppl
               (orchRetryApplicationPublicationKey (ev_event_id event)) marker
               (app_entries connectionAppKey event commands applications))
      (thenS (after_phase ''retry-application'')
      (thenS (putVersionedHashesAtomicallyIfMarkerAbsent R kDevice
               (orchRetryDevicePublicationKey (ev_event_id event)) marker
               (app_entries connectionDeviceKey event commands applications))
      (thenS (after_phase ''retry-device'')
      (bindS (liftE (encodeDeviceCommand J batch)) (\<lambda>prepared.
       thenS (putHashIfAbsent R kDevice (orchConfigBatchKey (ev_event_id event))
                (smap_of_list [(''event_id'', ev_event_id event), (''request_id'', ev_request_id event),
                   (''device'', ev_device event), (''payload'', prepared)]))
       (bindS now (\<lambda>t.
        bindS (liftE (encodeDeviceCommand J batch)) (\<lambda>payload.
        thenS (appendEventOnce R kDevice (orchRetryCommandPublicationKey (ev_event_id event)) marker
                 kDeviceCommands
                 ((batch_event event command_id t batch (batch_operation batch) payload)
                   \<lparr>ev_resource_type := ev_resource_type event, ev_resource_id := ev_resource_id event\<rparr>))
        (after_phase ''retry-command''))))))))))"

definition processRetryOne ::
  "'s redis_api \<Rightarrow> 'j json_api \<Rightarrow> ('s, u64) sexn \<Rightarrow> OrchestratorService \<Rightarrow> string \<Rightarrow>
   (string \<Rightarrow> ('s, unit) sexn) \<Rightarrow> ('s, bool) sexn" where
  "processRetryOne R J now self consumer after_phase =
     bindS (next_messages R kDevice kDeviceRetries kRetryConsumerGroup consumer 0) (\<lambda>messages.
     case messages of
       [] \<Rightarrow> returnS False
     | message # _ \<Rightarrow>
         let event = msg_event message;
             ack = ack_true R kDevice kDeviceRetries kRetryConsumerGroup message in
         bindS (liftE (jparse J (ev_payload event))) (\<lambda>payload.
         bindS now (\<lambda>t.
         bindS (liftE (bindE (jat J payload ''not_before_ns'') (jget_u64 J))) (\<lambda>not_before_ns.
         if t < not_before_ns then returnS False
         else
           bindS (liftE (retryBatch J payload)) (\<lambda>batch.
           bindS (liftE (bindE (jat J payload ''failed_command_id'') (jget_string J))) (\<lambda>failed_command_id.
           bindS (liftE (bindE (jat J payload ''retry_attempt'') (jget_u64 J))) (\<lambda>retry_attempt.
           bindS (getHash R kDevice (orchRetryCommandPublicationKey (ev_event_id event))) (\<lambda>published.
           if published \<noteq> [] then ack
           else
             bindS (getHash R kAppl (orchRetryApplicationPublicationKey (ev_event_id event))) (\<lambda>application_marker.
             bindS (if application_marker \<noteq> [] then returnS True
                    else bindS (getHash R kDevice (orchRetryDevicePublicationKey (ev_event_id event))) (\<lambda>device_marker.
                         returnS (device_marker \<noteq> []))) (\<lambda>retry_started.
             bindS (retry_applications R event (ev_event_id event @ '':command'') failed_command_id retry_attempt
                      retry_started (batch_commands batch)) (\<lambda>apps.
             case apps of
               None \<Rightarrow> ack
             | Some applications \<Rightarrow>
                 thenS (publish_retry R J now after_phase event batch retry_attempt applications) ack)))))))))))"

end
