(* ===== verification/Orchestrator_Properties.thy ===== *)
theory Orchestrator_Properties
  imports Orchestrator Repository_Properties
begin

text \<open>
  Properties of the orchestrator: which statuses let a command start, the retry backoff, and the books of
  the command stream, which hold after any sequence of handler calls, failed ones included.
\<close>

section \<open>Starting a command\<close>

text \<open>C37: when a command can start, in terms of the arrows of the documented lifecycle. From a connection that
  is executing already, or that waits for a retry, it starts at once; from any other status it starts exactly
  when one intermediate status leads by two arrows to the status in which its operation executes. It then is
  in that status. Every other start is a logic error that names the arrow that is missing; the removal of a
  connection that is recorded as absent is one of them.\<close>

theorem start_apply_outcome:
  "startApplyTransition current operation =
     (if current \<in> {kApplying, kRemoving, kRetryWait} \<or>
         (\<exists>pending. lifecycle_step current pending \<and> lifecycle_step pending (executing_status operation))
      then Inr (executing_status operation)
      else Inl (Logic_error (''invalid connection state transition: '' @ Status_toString current @ '' -> '' @
             Status_toString (if operation = kRemove then kPendingDelete else kPendingUpdate)))) \<and>
   startApplyTransition kAbsent kRemove =
     Inl (Logic_error ''invalid connection state transition: ABSENT -> PENDING_DELETE'')"
proof
  have two: "(\<exists>pending. lifecycle_step current pending \<and> lifecycle_step pending (executing_status operation)) \<longleftrightarrow>
      current = kActive \<or> current = kFailed \<or> current = kAbsent \<and> operation = kUpsert"
    by (cases current; cases operation) (auto simp: lifecycle_step.simps executing_status_def)
  show "startApplyTransition current operation =
     (if current \<in> {kApplying, kRemoving, kRetryWait} \<or>
         (\<exists>pending. lifecycle_step current pending \<and> lifecycle_step pending (executing_status operation))
      then Inr (executing_status operation)
      else Inl (Logic_error (''invalid connection state transition: '' @ Status_toString current @ '' -> '' @
             Status_toString (if operation = kRemove then kPendingDelete else kPendingUpdate))))"
    unfolding two
    by (cases current; cases operation)
       (simp_all add: startApplyTransition_def executing_status_def requireTransition_def throwIf_def canTransition_def)
  show "startApplyTransition kAbsent kRemove =
     Inl (Logic_error ''invalid connection state transition: ABSENT -> PENDING_DELETE'')"
    by (simp add: startApplyTransition_def executing_status_def requireTransition_def throwIf_def canTransition_def)
qed

section \<open>The retry backoff\<close>

lemma backoff_loop_bounds:
  assumes "0 \<le> delay" "delay \<le> max_backoff policy"
  shows "min (delay * 2 ^ n) (max_backoff policy) \<le> backoff_loop n policy delay \<and>
    backoff_loop n policy delay \<le> max_backoff policy \<and>
    (even (max_backoff policy) \<longrightarrow> backoff_loop n policy delay = min (delay * 2 ^ n) (max_backoff policy))"
  using assms
proof (induction n arbitrary: delay)
  case (Suc n)
  let ?m = "max_backoff policy"
  have half: "?m sdiv 2 = ?m div 2" using Suc.prems by (auto simp: signed_divide_int_def sgn_if)
  consider "delay = 0" | "delay \<noteq> 0" "?m div 2 \<le> delay" | "delay \<noteq> 0" "delay < ?m div 2" by linarith
  then show ?case
  proof cases
    case 2
    have "?m \<le> delay * 2 ^ Suc n" if "even ?m"
    proof -
      have "?m \<le> delay * 2" using 2 that by (auto elim!: evenE)
      also have "\<dots> \<le> delay * 2 * 2 ^ n" using Suc.prems(1) by (simp add: mult_le_cancel_left1)
      finally show ?thesis by (simp add: ac_simps)
    qed
    with 2 half show ?thesis by auto
  next
    case 3
    then have "delay * 2 \<le> ?m" by linarith
    from Suc.IH [OF _ this] Suc.prems 3 half show ?thesis by (simp add: ac_simps)
  qed (use Suc.prems in auto)
qed auto

text \<open>C38: the time of a retry. Under a policy the service accepts, the n-th retry waits the base time
  doubled n - 1 times, but never longer than the maximum; with an odd maximum the last doubling step may
  already wait the maximum. Nothing overflows before the year 2554.\<close>

theorem retry_backoff:
  assumes "OrchestratorService_new idle policy = Inr self" "retry_attempt \<noteq> 0"
    "unat now_ns + 3600000 * 1000000 < 2 ^ 64"
  shows "\<exists>delay. unat (retryAtNs now_ns retry_attempt policy) = unat now_ns + nat delay * 1000000 \<and>
    min (base_backoff policy * 2 ^ (unat retry_attempt - 1)) (max_backoff policy) \<le> delay \<and>
    delay \<le> max_backoff policy \<and>
    (even (max_backoff policy) \<longrightarrow>
       delay = min (base_backoff policy * 2 ^ (unat retry_attempt - 1)) (max_backoff policy))"
proof -
  let ?d = "backoff_loop (unat retry_attempt - 1) policy (base_backoff policy)"
  have p: "0 \<le> base_backoff policy" "base_backoff policy \<le> max_backoff policy" "max_backoff policy \<le> 3600000"
    using assms(1) by (auto simp: OrchestratorService_new_def not_less split: if_splits)
  note b = backoff_loop_bounds [OF p(1,2), of "unat retry_attempt - 1"]
  have d0: "0 \<le> ?d" using b p(1,2) by (meson dual_order.trans min.boundedI mult_nonneg_nonneg zero_le_power zero_le_numeral)
  have m: "min ?d (max_backoff policy) = ?d" using b by simp
  have "\<exists>k. ?d = int k \<and> k \<le> 3600000" using d0 b p(3) by (intro exI [of _ "nat ?d"]) (simp add: nat_le_iff)
  then obtain k where k: "?d = int k" "k \<le> 3600000" by blast
  have "unat now_ns + k * 1000000 < 2 ^ 64" using assms(3) k(2) by linarith
  then have "unat (word_of_nat (unat now_ns + k * 1000000) :: u64) = unat now_ns + k * 1000000"
    by (simp add: unsigned_of_nat take_bit_nat_eq_self del: of_nat_add of_nat_mult)
  then have "unat (now_ns + of_nat k * 1000000) = unat now_ns + k * 1000000" by simp
  then show ?thesis using b m k(1) by (intro exI [of _ ?d]) (simp add: retryAtNs_def)
qed

theorem retry_backoff_witness:
  "unat (retryAtNs 0 3 default_ApplyRetryPolicy) = 400 * 1000000"
  using retry_backoff [of 0 default_ApplyRetryPolicy _ 3 0]
  by (auto simp: OrchestratorService_new_def default_ApplyRetryPolicy_def)

section \<open>What a repository call may write\<close>

text \<open>The key a queued command writes.\<close>

fun rcmd_key :: "rcmd \<Rightarrow> string" where
  "rcmd_key (RDel key) = key"
| "rcmd_key (RHmset key fs) = key"
| "rcmd_key (RHsetnx key f v) = key"
| "rcmd_key (RXadd stream fs) = stream"
| "rcmd_key (RHincrby key f n) = key"

lemma apply_rcmd_other:
  assumes "rcmd_key c \<noteq> k"
  shows "db_hashes (apply_rcmd c d) k = db_hashes d k" "db_streams (apply_rcmd c d) k = db_streams d k"
  using assms by (cases c; simp add: set_hash_def)+

lemma apply_rcmds_other:
  assumes "k \<notin> rcmd_key ` set cs"
  shows "db_hashes (apply_rcmds cs d) k = db_hashes d k \<and> db_streams (apply_rcmds cs d) k = db_streams d k"
  using assms by (induction cs arbitrary: d) (auto simp: apply_rcmd_other)

text \<open>A call that changes at most one database, by one transaction on given keys.\<close>

definition only_writes :: "('s \<Rightarrow> databases) \<Rightarrow> LogicalDb \<Rightarrow> string set \<Rightarrow> ('s, 'a) sexn \<Rightarrow> bool" where
  "only_writes view db K m \<longleftrightarrow>
     (\<forall>s r s'. m s = (r, s') \<longrightarrow>
        view s' = view s \<or> (\<exists>cs. rcmd_key ` set cs \<subseteq> K \<and> commits view db cs s s'))"

lemma only_writes_once:
  assumes "once_effect view db marker cmds m" "\<And>d. rcmd_key ` set (cmds d) \<subseteq> K"
  shows "only_writes view db K m"
  unfolding only_writes_def
proof (intro allI impI)
  fix s r s' assume "m s = (r, s')"
  from once_effectD [OF assms(1) this] have "view s' = view s \<or> takes_effect view db cmds s s'"
    by (cases r) (auto split: if_splits)
  then show "view s' = view s \<or> (\<exists>cs. rcmd_key ` set cs \<subseteq> K \<and> commits view db cs s s')"
    using assms(2) by (auto simp: takes_effect_def)
qed

lemma only_writes_throw: "only_writes view db K (throwS e)"
  by (simp add: only_writes_def throwS_def)

lemma thenS_throwing: "thenS (liftE (Inl e)) m = throwS e"
  by (rule ext) (simp add: thenS_def bindS_def liftE_def throwS_def)

lemma bindS_throwing: "bindS (liftE (Inl e)) f = throwS e"
  by (rule ext) (simp add: bindS_def liftE_def throwS_def)

lemma rcmd_key_replace: "c \<in> set (replace_cmds key fs) \<Longrightarrow> rcmd_key c = key"
  by (auto simp: replace_cmds_def split: if_splits)

lemma rcmd_key_increment: "c \<in> set (increment_cmds key incs) \<Longrightarrow> rcmd_key c = key"
  by (auto simp: increment_cmds_def)

lemma rcmd_key_publish: "c \<in> set (publish_cmds hashes publish) \<Longrightarrow> rcmd_key c \<in> fst ` set hashes"
  by (force simp: publish_cmds_def dest: set_zip_leftD rcmd_key_replace split: if_splits)

lemma only_writes_putHashIfAbsent:
  assumes "redis_laws R view"
  shows "only_writes view db {key} (putHashIfAbsent R db key fs)"
proof (cases "fs = []")
  case False
  have "once_effect view db key (\<lambda>_. [RHmset key fs]) (putHashIfAbsent R db key fs)"
    using assms False by (simp add: putHashIfAbsent_def once_loop attempts_exec)
  then show ?thesis by (rule only_writes_once) simp
qed (simp add: putHashIfAbsent_def only_writes_throw)

lemma only_writes_appendEventOnce:
  assumes "redis_laws R view"
  shows "only_writes view db {stream, marker} (appendEventOnce R db marker mf stream event)"
proof (cases "validateEvent event")
  case (Inr u)
  then show ?thesis using once_appendEventOnce [OF assms, of event] by (auto intro!: only_writes_once)
qed (simp add: appendEventOnce_def thenS_throwing only_writes_throw)

lemma only_writes_replaceHashAndAppendEventOnce:
  assumes "redis_laws R view"
  shows "only_writes view db {key, stream, marker} (replaceHashAndAppendEventOnce R db marker mf key fs stream event)"
proof (cases "validateEvent event")
  case (Inr u)
  then have "validateEvent event = Inr ()" by simp
  from once_replaceHashAndAppendEventOnce [OF assms this] show ?thesis
    by (rule only_writes_once) (auto dest: rcmd_key_replace)
qed (simp add: replaceHashAndAppendEventOnce_def thenS_throwing only_writes_throw)

lemma only_writes_incrementHashFieldsOnce:
  assumes "redis_laws R view"
  shows "only_writes view db {key, marker} (incrementHashFieldsOnce R db marker mf key incs)"
  using once_incrementHashFieldsOnce [OF assms]
  by (rule only_writes_once) (auto dest: rcmd_key_increment)

lemma only_writes_putVersioned:
  assumes "redis_laws R view"
  shows "only_writes view db (insert marker (fst ` set hashes))
    (putVersionedHashesAtomicallyIfMarkerAbsent R db marker mf hashes)"
proof -
  consider "map_of mf ''desired_version'' = None"
    | t e where "map_of mf ''desired_version'' = Some t" "stoull t = Inl e"
    | t v where "map_of mf ''desired_version'' = Some t" "stoull t = Inr v"
    by (metis not_None_eq sum.exhaust)
  then show ?thesis
  proof cases
    case (3 t v)
    from once_putVersioned [OF assms 3] show ?thesis
      by (rule only_writes_once) (auto simp: versioned_cmds_def dest: rcmd_key_publish)
  qed (simp_all add: putVersionedHashesAtomicallyIfMarkerAbsent_def bindS_throwing only_writes_throw)
qed

lemmas only_writes_calls =
  only_writes_putHashIfAbsent only_writes_appendEventOnce only_writes_replaceHashAndAppendEventOnce
  only_writes_incrementHashFieldsOnce only_writes_putVersioned

lemma keeps_silent: "silent view m \<Longrightarrow> keeps (\<lambda>s. Q (view s)) m"
  by (simp add: keeps_def silent_def)

lemma keeps_only_writes:
  assumes "only_writes view db K m"
    "\<And>v cs. Q v \<Longrightarrow> rcmd_key ` set cs \<subseteq> K \<Longrightarrow> Q (v(db := apply_rcmds cs (v db)))"
  shows "keeps (\<lambda>s. Q (view s)) m"
proof (rule keepsI)
  fix s r s' assume "Q (view s)" "m s = (r, s')"
  with assms show "Q (view s')" unfolding only_writes_def commits_def by metis
qed

lemma silent_reading_calls:
  assumes "redis_laws R view"
  shows "silent view (getHash R db key)"
    "silent view (next_messages R db stream grp consumer idle)"
    "silent view (ack_true R db stream grp message)"
  using assms
  by (auto simp: getHash_def next_messages_def ack_true_def acknowledge_def claimPending_def Let_def eval_law
      readGroupIfNoPending_def kReadGroupIfNoPendingScript_def
      intro!: silent_bindS silent_thenS silent_reads)

section \<open>The books of the command stream\<close>

text \<open>
  How often the command of an event is in the stream, and the books: as often as there are publication
  markers for it, one of the configuration handler and one of the retry handler.
\<close>

definition command_count :: "databases \<Rightarrow> string \<Rightarrow> nat" where
  "command_count v event_id =
     length (filter (\<lambda>fs. map_of fs ''event_id'' = Some (event_id @ '':command''))
       (stream_entries (v kDevice) kDeviceCommands))"

definition books :: "databases \<Rightarrow> bool" where
  "books v \<longleftrightarrow>
     (\<forall>event_id. command_count v event_id =
        of_bool (key_exists (v kDevice) (orchDeviceCommandPublicationKey event_id)) +
        of_bool (key_exists (v kDevice) (orchRetryCommandPublicationKey event_id)))"

definition book_families :: "string set" where
  "book_families = {''OCS_DEVICE_COMMANDS'', ''OCS_ORCH_DEVICE_COMMAND_PUBLISHED'', ''OCS_ORCH_RETRY_COMMAND_PUBLISHED''}"

lemma key_family_simps [simp]:
  "key_family kDeviceCommands = ''OCS_DEVICE_COMMANDS''"
  "key_family kDeviceRetries = ''OCS_DEVICE_RETRIES''"
  "key_family (orchDeviceCommandPublicationKey e) = ''OCS_ORCH_DEVICE_COMMAND_PUBLISHED''"
  "key_family (orchRetryCommandPublicationKey e) = ''OCS_ORCH_RETRY_COMMAND_PUBLISHED''"
  "key_family (orchDeviceStatePublicationKey e) = ''OCS_ORCH_DEVICE_STATE_PUBLISHED''"
  "key_family (orchResultDevicePublicationKey e) = ''OCS_ORCH_RESULT_DEVICE_PUBLISHED''"
  "key_family (orchTimeoutDevicePublicationKey e) = ''OCS_ORCH_TIMEOUT_DEVICE_PUBLISHED''"
  "key_family (orchRetryDevicePublicationKey e) = ''OCS_ORCH_RETRY_DEVICE_PUBLISHED''"
  "key_family (orchRetryPublicationKey e) = ''OCS_ORCH_RETRY_PUBLISHED''"
  "key_family (orchConfigBatchKey e) = ''OCS_ORCH_CONFIG_BATCH''"
  "key_family (connectionDeviceKey dev i) = ''OCS_CONNECTION_DEVICE''"
  by (simp_all add: key_family_def key_defs kDeviceCommands_def kDeviceRetries_def)

lemma books_untouched:
  assumes "books v" "rcmd_key ` set cs \<subseteq> K" "db \<noteq> kDevice \<or> key_family ` K \<inter> book_families = {}"
  shows "books (v(db := apply_rcmds cs (v db)))"
proof (cases "db = kDevice")
  case True
  have same: "db_hashes (apply_rcmds cs (v kDevice)) k = db_hashes (v kDevice) k \<and>
      db_streams (apply_rcmds cs (v kDevice)) k = db_streams (v kDevice) k" if "key_family k \<in> book_families" for k
    using assms(2,3) True that by (intro apply_rcmds_other) blast
  show ?thesis
    using assms(1) True same [of kDeviceCommands] same [of "orchDeviceCommandPublicationKey _"]
      same [of "orchRetryCommandPublicationKey _"]
    by (simp add: books_def command_count_def stream_entries_def key_exists_def book_families_def)
qed (use assms(1) in \<open>simp add: books_def command_count_def\<close>)

lemma keeps_books_write:
  "only_writes view db K m \<Longrightarrow> db \<noteq> kDevice \<or> key_family ` K \<inter> book_families = {} \<Longrightarrow>
   keeps (\<lambda>s. books (view s)) m"
  by (erule keeps_only_writes) (rule books_untouched)

lemma marker_injective [simp]:
  "orchDeviceCommandPublicationKey e = orchDeviceCommandPublicationKey e' \<longleftrightarrow> e = e'"
  "orchRetryCommandPublicationKey e = orchRetryCommandPublicationKey e' \<longleftrightarrow> e = e'"
  by (simp_all add: key_defs)

lemma marker_distinct [simp]:
  "orchDeviceCommandPublicationKey e \<noteq> orchRetryCommandPublicationKey e'"
  "orchRetryCommandPublicationKey e \<noteq> orchDeviceCommandPublicationKey e'"
  "orchDeviceCommandPublicationKey e \<noteq> kDeviceCommands" "orchRetryCommandPublicationKey e \<noteq> kDeviceCommands"
  by (simp_all add: key_defs kDeviceCommands_def)

lemma books_published:
  assumes "books v" "\<not> key_exists (v kDevice) (marker e)" "mf \<noteq> []" "ev_event_id event = e @ '':command''"
    "marker \<in> {orchDeviceCommandPublicationKey, orchRetryCommandPublicationKey}"
  shows "books (v(kDevice := apply_rcmds [RXadd kDeviceCommands (eventFields event), RHmset (marker e) mf] (v kDevice)))"
    (is "books ?v")
proof -
  have c: "command_count ?v e' = command_count v e' + of_bool (e' = e)" for e'
    using assms(4) by (auto simp: command_count_def stream_entries_def set_hash_def eventFields_def)
  have k: "key_exists (?v kDevice) k = (key_exists (v kDevice) k \<or> k = marker e)" if "k \<noteq> kDeviceCommands" for k
    using that put_fields_not_Nil [OF assms(3)] by (simp add: key_exists_def set_hash_def)
  show ?thesis
    using assms(1,2,5) c k by (auto simp: books_def simp del: apply_rcmds_simps fun_upd_apply)
qed

lemma keeps_books_command:
  assumes "redis_laws R view" "mf \<noteq> []" "ev_event_id event = e @ '':command''"
    "marker \<in> {orchDeviceCommandPublicationKey, orchRetryCommandPublicationKey}"
  shows "keeps (\<lambda>s. books (view s)) (appendEventOnce R kDevice (marker e) mf kDeviceCommands event)"
proof (cases "validateEvent event")
  case (Inr u)
  show ?thesis
  proof (rule keepsI)
    fix s r s' assume b: "books (view s)" and run: "appendEventOnce R kDevice (marker e) mf kDeviceCommands event s = (r, s')"
    let ?cmds = "[RXadd kDeviceCommands (eventFields event), RHmset (marker e) mf]"
    have "once_outcome view kDevice (marker e) (\<lambda>_. ?cmds) s r s'"
      using once_effectD [OF once_appendEventOnce [OF assms(1)] run] Inr by simp
    then have "view s' = view s \<or> \<not> key_exists (view s kDevice) (marker e) \<and>
        view s' = (view s)(kDevice := apply_rcmds ?cmds (view s kDevice))"
      by (cases r) (auto simp: takes_effect_def commits_def split: if_splits)
    then show "books (view s')" using b books_published [OF b _ assms(2-4)] by auto
  qed
qed (simp add: appendEventOnce_def thenS_throwing)

lemmas keeps_books_commands =
  keeps_books_command [where marker = orchDeviceCommandPublicationKey, simplified]
  keeps_books_command [where marker = orchRetryCommandPublicationKey, simplified]

lemmas keeps_books_silent = keeps_silent [where Q = books]

lemma keeps_books_calls:
  assumes "redis_laws R view"
  shows "keeps (\<lambda>s. books (view s)) (getHash R db key)"
    "keeps (\<lambda>s. books (view s)) (next_messages R db stream grp consumer idle)"
    "keeps (\<lambda>s. books (view s)) (ack_true R db stream grp message)"
    "keeps (\<lambda>s. books (view s)) (putHashIfAbsent R kDevice (orchConfigBatchKey e) fs)"
    "keeps (\<lambda>s. books (view s)) (putVersionedHashesAtomicallyIfMarkerAbsent R kAppl marker mf hashes)"
    "keeps (\<lambda>s. books (view s)) (putVersionedHashesAtomicallyIfMarkerAbsent R kDevice
       (orchDeviceStatePublicationKey e) mf (app_entries connectionDeviceKey event commands applications))"
    "keeps (\<lambda>s. books (view s)) (putVersionedHashesAtomicallyIfMarkerAbsent R kDevice
       (orchTimeoutDevicePublicationKey e) mf (app_entries connectionDeviceKey event commands applications))"
    "keeps (\<lambda>s. books (view s)) (putVersionedHashesAtomicallyIfMarkerAbsent R kDevice
       (orchRetryDevicePublicationKey e) mf (app_entries connectionDeviceKey event commands applications))"
    "keeps (\<lambda>s. books (view s)) (putVersionedHashesAtomicallyIfMarkerAbsent R kDevice
       (orchResultDevicePublicationKey e) mf [(connectionDeviceKey dev i, h)])"
    "keeps (\<lambda>s. books (view s)) (replaceHashAndAppendEventOnce R kAlarm marker mf key fs stream event)"
    "keeps (\<lambda>s. books (view s)) (incrementHashFieldsOnce R kCounters marker mf key incs)"
    "keeps (\<lambda>s. books (view s)) (appendEventOnce R kDevice (orchRetryPublicationKey e) mf kDeviceRetries event)"
proof -
  have entries: "key_family ` insert m (fst ` set (app_entries connectionDeviceKey event commands applications)) \<inter>
      book_families = {}" if "key_family m \<notin> book_families" for m
    using that by (auto simp: app_entries_def book_families_def dest!: set_zip_leftD)
  note w = keeps_books_write [OF only_writes_putVersioned [OF assms]]
  show "keeps (\<lambda>s. books (view s)) (getHash R db key)"
    "keeps (\<lambda>s. books (view s)) (next_messages R db stream grp consumer idle)"
    "keeps (\<lambda>s. books (view s)) (ack_true R db stream grp message)"
    by (rule keeps_silent, rule silent_reading_calls [OF assms])+
  show "keeps (\<lambda>s. books (view s)) (putHashIfAbsent R kDevice (orchConfigBatchKey e) fs)"
    by (rule keeps_books_write [OF only_writes_putHashIfAbsent [OF assms]]) (simp add: book_families_def)
  show "keeps (\<lambda>s. books (view s)) (putVersionedHashesAtomicallyIfMarkerAbsent R kAppl marker mf hashes)"
    by (rule w) simp
  show "keeps (\<lambda>s. books (view s)) (putVersionedHashesAtomicallyIfMarkerAbsent R kDevice
       (orchDeviceStatePublicationKey e) mf (app_entries connectionDeviceKey event commands applications))"
    "keeps (\<lambda>s. books (view s)) (putVersionedHashesAtomicallyIfMarkerAbsent R kDevice
       (orchTimeoutDevicePublicationKey e) mf (app_entries connectionDeviceKey event commands applications))"
    "keeps (\<lambda>s. books (view s)) (putVersionedHashesAtomicallyIfMarkerAbsent R kDevice
       (orchRetryDevicePublicationKey e) mf (app_entries connectionDeviceKey event commands applications))"
    by (rule w, rule disjI2, rule entries, simp add: book_families_def)+
  show "keeps (\<lambda>s. books (view s)) (putVersionedHashesAtomicallyIfMarkerAbsent R kDevice
       (orchResultDevicePublicationKey e) mf [(connectionDeviceKey dev i, h)])"
    by (rule w) (simp add: book_families_def)
  show "keeps (\<lambda>s. books (view s)) (replaceHashAndAppendEventOnce R kAlarm marker mf key fs stream event)"
    by (rule keeps_books_write [OF only_writes_replaceHashAndAppendEventOnce [OF assms]]) simp
  show "keeps (\<lambda>s. books (view s)) (incrementHashFieldsOnce R kCounters marker mf key incs)"
    by (rule keeps_books_write [OF only_writes_incrementHashFieldsOnce [OF assms]]) simp
  show "keeps (\<lambda>s. books (view s)) (appendEventOnce R kDevice (orchRetryPublicationKey e) mf kDeviceRetries event)"
    by (rule keeps_books_write [OF only_writes_appendEventOnce [OF assms]]) (simp add: book_families_def)
qed

text \<open>Every handler keeps the books, whatever it reads and wherever it stops.\<close>

lemma keeps_books_alarms:
  assumes "redis_laws R view" "silent view now"
  shows "keeps (\<lambda>s. books (view s)) (publishTimeoutAlarm R J now event error_message)"
    "keeps (\<lambda>s. books (view s)) (clearTimeoutAlarm R J now event)"
  unfolding publishTimeoutAlarm_def clearTimeoutAlarm_def
  by (intro keeps_rules keeps_books_calls [OF assms(1)] keeps_books_silent [OF assms(2)])+

lemma keeps_books_prepare:
  assumes "redis_laws R view"
  shows "keeps (\<lambda>s. books (view s)) (prepare_batch R J event)"
proof -
  have "keeps (\<lambda>s. books (view s)) (loadDesiredSnapshot R event)"
    unfolding loadDesiredSnapshot_def by (intro keeps_rules keeps_books_calls [OF assms])
  then have "keeps (\<lambda>s. books (view s)) (select_commands R event commands)" for commands
    by (induction commands) (auto intro!: keeps_rules keeps_books_calls [OF assms])
  then show ?thesis
    unfolding prepare_batch_def by (intro keeps_rules keeps_books_calls [OF assms])
qed

lemma marker_fields_not_Nil: "smap_of_list (kv # kvs) \<noteq> []"
proof
  assume "smap_of_list (kv # kvs) = []"
  then have "map_of (kv # kvs) (fst kv) = None" by (metis map_of.simps(1) map_of_smap_of_list)
  then show False by (cases kv) simp
qed

lemma keeps_books_config:
  assumes "redis_laws R view" "silent view now" "\<And>p. silent view (after_phase p)"
  shows "keeps (\<lambda>s. books (view s)) (processConfigOne R J now self consumer after_phase)"
  unfolding processConfigOne_def publish_batch_def start_application_def
  by (intro keeps_rules keeps_books_calls [OF assms(1)] keeps_books_prepare [OF assms(1)] keeps_books_silent [OF assms(2)] keeps_books_silent [OF assms(3)]
      keeps_books_commands [OF assms(1) marker_fields_not_Nil])
     (simp_all add: batch_event_def)

lemma keeps_books_timeout:
  assumes "redis_laws R view" "silent view now" "\<And>p. silent view (after_phase p)"
  shows "keeps (\<lambda>s. books (view s)) (handleTimeoutResult R J now self message command_id error_message after_phase)"
proof -
  have "keeps (\<lambda>s. books (view s)) (timeout_applications R event command_id error_message metadata commands)"
    for event metadata commands
    by (induction commands) (auto intro!: keeps_rules keeps_books_calls [OF assms(1)])
  then show ?thesis
    unfolding handleTimeoutResult_def load_metadata_def timeout_metadata_def schedule_retry_event_def
    by (intro keeps_rules keeps_books_calls [OF assms(1)] keeps_books_alarms [OF assms(1,2)] keeps_books_silent [OF assms(2)] keeps_books_silent [OF assms(3)])
qed

lemma keeps_books_result:
  assumes "redis_laws R view" "silent view now" "\<And>p. silent view (after_phase p)"
  shows "keeps (\<lambda>s. books (view s)) (processResultOne R J now self consumer after_phase)"
  unfolding processResultOne_def applyResult_def publish_result_def
  by (intro keeps_rules keeps_books_calls [OF assms(1)] keeps_books_alarms [OF assms(1,2)] keeps_books_silent [OF assms(2)] keeps_books_silent [OF assms(3)]
      keeps_books_timeout [OF assms])

lemma keeps_books_retry:
  assumes "redis_laws R view" "silent view now" "\<And>p. silent view (after_phase p)"
  shows "keeps (\<lambda>s. books (view s)) (processRetryOne R J now self consumer after_phase)"
proof -
  have "keeps (\<lambda>s. books (view s)) (retry_applications R event cid fid attempt started commands)"
    for event cid fid attempt started commands
    by (induction commands) (auto intro!: keeps_rules keeps_books_calls [OF assms(1)])
  then show ?thesis
    unfolding processRetryOne_def publish_retry_def
    by (intro keeps_rules keeps_books_calls [OF assms(1)] keeps_books_silent [OF assms(2)] keeps_books_silent [OF assms(3)]
        keeps_books_commands [OF assms(1) marker_fields_not_Nil])
       (simp_all add: batch_event_def)
qed

text \<open>Handler calls and their sequences; what a call returns or throws does not matter.\<close>

datatype orch_call = ConfigCall string | ResultCall string | RetryCall string

fun orch_step ::
  "'s redis_api \<Rightarrow> 'j json_api \<Rightarrow> ('s, u64) sexn \<Rightarrow> OrchestratorService \<Rightarrow> (string \<Rightarrow> ('s, unit) sexn) \<Rightarrow>
   orch_call \<Rightarrow> ('s, bool) sexn" where
  "orch_step R J now self after_phase (ConfigCall consumer) = processConfigOne R J now self consumer after_phase"
| "orch_step R J now self after_phase (ResultCall consumer) = processResultOne R J now self consumer after_phase"
| "orch_step R J now self after_phase (RetryCall consumer) = processRetryOne R J now self consumer after_phase"

definition orch_run ::
  "'s redis_api \<Rightarrow> 'j json_api \<Rightarrow> ('s, u64) sexn \<Rightarrow> OrchestratorService \<Rightarrow> (string \<Rightarrow> ('s, unit) sexn) \<Rightarrow>
   orch_call list \<Rightarrow> 's \<Rightarrow> 's" where
  "orch_run R J now self after_phase calls s =
     foldl (\<lambda>s call. snd (orch_step R J now self after_phase call s)) s calls"

lemma orch_run_keeps:
  assumes "\<And>call. keeps P (orch_step R J now self after_phase call)" "P s"
  shows "P (orch_run R J now self after_phase calls s)"
  unfolding orch_run_def using assms(2)
proof (induction calls arbitrary: s)
  case (Cons call calls)
  from Cons.prems have "P (snd (orch_step R J now self after_phase call s))"
    using assms(1) [of call] by (simp add: keeps_def)
  from Cons.IH [OF this] show ?case by simp
qed simp

text \<open>C9: device commands are published exactly once. Start from a store without device commands and let the
  orchestrator handle configuration events, results and retries in any order, with any consumers, on a
  server that may fail, lose transactions or report conflicts at any call. Then for every event the command
  stream holds its command as often as there are publication markers for it: at most once from the
  configuration handler and at most once from the retry handler.\<close>

theorem commands_published_exactly_once:
  assumes "redis_laws R view" "silent view now" "\<And>p. silent view (after_phase p)"
    "stream_entries (view s kDevice) kDeviceCommands = []"
    "\<And>e. \<not> key_exists (view s kDevice) (orchDeviceCommandPublicationKey e)"
    "\<And>e. \<not> key_exists (view s kDevice) (orchRetryCommandPublicationKey e)"
    "s' = orch_run R J now self after_phase calls s"
  shows "command_count (view s') event_id =
     of_bool (key_exists (view s' kDevice) (orchDeviceCommandPublicationKey event_id)) +
     of_bool (key_exists (view s' kDevice) (orchRetryCommandPublicationKey event_id))"
proof -
  have "keeps (\<lambda>s. books (view s)) (orch_step R J now self after_phase call)" for call
    using keeps_books_config [OF assms(1-3)] keeps_books_result [OF assms(1-3)] keeps_books_retry [OF assms(1-3)]
    by (cases call) simp_all
  moreover have "books (view s)" using assms(4-6) by (simp add: books_def command_count_def)
  ultimately have "books (view s')" unfolding assms(7) by (rule orch_run_keeps)
  then show ?thesis by (simp add: books_def)
qed

theorem commands_published_exactly_once_witness:
  "command_count (rr_dbs (orch_run ref_redis ref_json_api (returnS 7)
      \<lparr>pending_min_idle = 5000, retry_policy = default_ApplyRetryPolicy\<rparr> (\<lambda>_. returnS ())
      [ConfigCall ''c'', RetryCall ''c'', ResultCall ''c''] empty_redis)) ''e1'' \<le> 2"
  by (subst commands_published_exactly_once [OF redis_laws_ref _ _ _ _ _ refl])
     (simp_all add: empty_redis_def stream_entries_def key_exists_def)

end
