(* ===== verification/Syncd_Ports.thy ===== *)
theory Syncd_Ports
  imports Connection_State_Machine Device_Api Device_Command Redis_Repository
begin

text \<open>
  The southbound daemon (\<open>cpp/src/syncd_service.cpp\<close>), first part: the payloads, the port states it
  polls, and the port alarms. The definitions take the Redis server \<open>R\<close>, the JSON library \<open>J\<close>, the device
  backend \<open>D\<close> and the clock \<open>now\<close> as parameters over one state, and \<open>power_text\<close>, the conversion of a
  double to a text by the standard library.
\<close>

section \<open>Payloads and names\<close>

definition kSyncdConsumerGroup :: string where
  "kSyncdConsumerGroup = ''ocs-syncd''"

definition kFaultConsumerGroup :: string where
  "kFaultConsumerGroup = ''ocs-syncd-faults''"

text \<open>\<open>contains\<close>, and \<open>contains\<close> together with a comparison of the value.\<close>

definition has_field :: "(string, string) smap \<Rightarrow> string \<Rightarrow> bool" where
  "has_field fs k \<longleftrightarrow> map_of fs k \<noteq> None"

definition field_is :: "(string, string) smap \<Rightarrow> string \<Rightarrow> string \<Rightarrow> bool" where
  "field_is fs k v \<longleftrightarrow> map_of fs k = Some v"

definition bool_text :: "bool \<Rightarrow> string" where
  "bool_text b = (if b then ''true'' else ''false'')"

text \<open>The designated initialiser of an event: version 1 and the given members.\<close>

definition new_event ::
  "string \<Rightarrow> string \<Rightarrow> u64 \<Rightarrow> string \<Rightarrow> string \<Rightarrow> string \<Rightarrow> string \<Rightarrow> u64 \<Rightarrow> string \<Rightarrow> EventEnvelope" where
  "new_event event_id request_id t device resource_type resource_id operation version payload =
     \<lparr>ev_event_schema_version = 1, ev_event_id = event_id, ev_request_id = request_id, ev_timestamp_ns = t,
      ev_device = device, ev_resource_type = resource_type, ev_resource_id = resource_id,
      ev_operation = operation, ev_desired_version = version, ev_payload = payload\<rparr>"

definition resultPayload :: "'j json_api \<Rightarrow> ApplyResult \<Rightarrow> string \<Rightarrow> string result" where
  "resultPayload J res command_id = jdump J (jobject J
     [(''success'', jbool J (ApplyResult_ok res)),
      (''error_code'', jstring J (ErrorCode_toString (err_code (ar_error res)))),
      (''error_message'', jstring J (err_message (ar_error res))),
      (''command_id'', jstring J command_id)])"

definition durableConnectionJson :: "'j json_api \<Rightarrow> AppliedConnection \<Rightarrow> 'j" where
  "durableConnectionJson J c = jobject J
     [(''id'', jstring J (ac_id c)),
      (''input_port'', ju16 J (ac_input_port c)),
      (''output_port'', ju16 J (ac_output_port c)),
      (''applied_version'', junsigned J (ac_applied_version c))]"

definition durableResultPayload :: "'j json_api \<Rightarrow> ApplyResult \<Rightarrow> string result" where
  "durableResultPayload J res = jdump J (jobject J
     [(''success'', jbool J (ApplyResult_ok res)),
      (''error_code'', jstring J (ErrorCode_toString (err_code (ar_error res)))),
      (''error_message'', jstring J (err_message (ar_error res))),
      (''connections'', jarray J (map (durableConnectionJson J) (ar_connections res)))])"

definition decodeDurableConnection :: "'j json_api \<Rightarrow> 'j \<Rightarrow> AppliedConnection result" where
  "decodeDurableConnection J connection =
     bindE (bindE (jat J connection ''id'') (jget_string J)) (\<lambda>cid.
     bindE (bindE (jat J connection ''input_port'') (jget_u16 J)) (\<lambda>input.
     bindE (bindE (jat J connection ''output_port'') (jget_u16 J)) (\<lambda>output.
     bindE (bindE (jat J connection ''applied_version'') (jget_u64 J)) (\<lambda>version.
     Inr \<lparr>ac_id = cid, ac_input_port = input, ac_output_port = output, ac_applied_version = version\<rparr>))))"

definition decodeDurableResult :: "'j json_api \<Rightarrow> string \<Rightarrow> ApplyResult result" where
  "decodeDurableResult J payload =
     bindE (jparse J payload) (\<lambda>v.
     bindE (bindE (jat J v ''error_code'') (jget_string J)) (\<lambda>code.
     bindE (bindE (jat J v ''error_message'') (jget_string J)) (\<lambda>error_message.
     bindE (jat J v ''connections'') (\<lambda>connections.
     bindE (mapE (decodeDurableConnection J) (jelems J connections)) (\<lambda>decoded.
     Inr \<lparr>ar_error = \<lparr>err_code = errorCodeFromString code, err_message = error_message\<rparr>,
          ar_connections = decoded\<rparr>)))))"

definition statePayload :: "'j json_api \<Rightarrow> (string, string) smap \<Rightarrow> string result" where
  "statePayload J fs = jdump J (jobject J (map (\<lambda>(k, v). (k, jstring J v)) fs))"

definition syncd_snapshotPort :: "(string, string) smap \<Rightarrow> string \<Rightarrow> PortId result" where
  "syncd_snapshotPort snapshot field =
     (case map_of snapshot field of
        None \<Rightarrow> Inl (Invalid_argument (''device connection snapshot is missing '' @ field))
      | Some t \<Rightarrow>
          bindE (stoull t) (\<lambda>parsed.
          if parsed = 0 \<or> parsed > 65535
          then Inl (Invalid_argument (''device connection snapshot has invalid '' @ field))
          else Inr (ucast parsed)))"

definition syncd_isGenerationRecovery :: "string \<Rightarrow> bool" where
  "syncd_isGenerationRecovery command_id = starts_with command_id ''hwsim-recovery:''"

definition syncd_isReconciliation :: "string \<Rightarrow> bool" where
  "syncd_isReconciliation command_id = starts_with command_id ''reconcile:''"

definition portDirectionName :: "PortDirection \<Rightarrow> string" where
  "portDirectionName direction = (if direction = kInput then ''input'' else ''output'')"

definition portResourceType :: "PortDirection \<Rightarrow> string" where
  "portResourceType direction = (if direction = kInput then ''input-port'' else ''output-port'')"

fun portOperStatusName :: "PortOperStatus \<Rightarrow> string" where
  "portOperStatusName kUp = ''UP''"
| "portOperStatusName kDown = ''DOWN''"
| "portOperStatusName kLowPower = ''LOW_POWER''"
| "portOperStatusName kFault = ''FAULT''"
| "portOperStatusName kUnknown = ''UNKNOWN''"

definition portUnavailable :: "PortState \<Rightarrow> bool" where
  "portUnavailable port \<longleftrightarrow> \<not> ps_admin_enabled port \<or> ps_oper_status port \<noteq> kUp"

definition managedFaultType :: "string \<Rightarrow> FaultType result" where
  "managedFaultType v =
     (if v = ''NEXT_APPLY_ERROR'' then Inr kNextApplyError
      else if v = ''NEXT_APPLY_TIMEOUT'' then Inr kNextApplyTimeout
      else if v = ''INPUT_PORT_DOWN'' then Inr kInputPortDown
      else if v = ''OUTPUT_PORT_DOWN'' then Inr kOutputPortDown
      else if v = ''ALL'' then Inr kAll
      else Inl (Invalid_argument ''unsupported managed fault type''))"

section \<open>Port alarms\<close>

definition publishPortAlarm ::
  "'s redis_api \<Rightarrow> 'j json_api \<Rightarrow> ('s, u64) sexn \<Rightarrow> DeviceInfo \<Rightarrow> PortState \<Rightarrow> string \<Rightarrow> nat \<Rightarrow> ('s, unit) sexn" where
  "publishPortAlarm R J now info port activation_id affected_connections =
     (let direction = portDirectionName (ps_direction port);
          port_id = to_string_u16 (ps_id port);
          alarm_id = portDownAlarmId direction port_id;
          alarm_key = activeAlarmKey (di_name info) alarm_id;
          marker_key = syncdPortAlarmPublicationKey activation_id in
      bindS (getHash R kAlarm marker_key) (\<lambda>marker.
      thenS
        (if marker \<noteq> [] then returnS ()
         else
           bindS now (\<lambda>t.
           let fs = smap_of_list
             [(''id'', alarm_id), (''active'', ''true''), (''severity'', ''MAJOR''),
              (''resource_type'', portResourceType (ps_direction port)), (''resource_id'', port_id),
              (''direction'', direction), (''port_id'', port_id),
              (''affected_connection_count'', nat_to_string affected_connections),
              (''error_code'', ErrorCode_toString (if ps_admin_enabled port then kPortDown else kPortDisabled)),
              (''error_message'', ''port is not operationally available''),
              (''activation_id'', activation_id), (''first_raised_ns'', to_string_u64 t),
              (''last_change_ns'', to_string_u64 t)] in
           bindS (liftE (statePayload J fs)) (\<lambda>payload.
           thenS (replaceHashAndAppendEventOnce R kAlarm marker_key [(''activation_id'', activation_id)]
                    alarm_key fs kAlarmEvents
                    (new_event (activation_id @ '':alarm'') activation_id t (di_name info) ''alarm'' alarm_id
                       ''UPSERT'' 0 payload))
           (returnS ()))))
      (thenS (incrementHashFieldsOnce R kCounters (syncdPortAlarmCounterPublicationKey activation_id False)
                [(''activation_id'', activation_id)] (deviceCountersKey (di_name info))
                [(''active_alarms'', 1), (''port_down_total'', 1)])
      (returnS ()))))"

definition clearPortAlarm ::
  "'s redis_api \<Rightarrow> 'j json_api \<Rightarrow> ('s, u64) sexn \<Rightarrow> DeviceInfo \<Rightarrow> PortState \<Rightarrow> string \<Rightarrow> ('s, unit) sexn" where
  "clearPortAlarm R J now info port activation_id =
     (let direction = portDirectionName (ps_direction port);
          port_id = to_string_u16 (ps_id port);
          alarm_id = portDownAlarmId direction port_id;
          alarm_key = activeAlarmKey (di_name info) alarm_id;
          marker_key = syncdPortAlarmClearPublicationKey activation_id in
      bindS (getHash R kAlarm marker_key) (\<lambda>marker.
      bindS
        (if marker \<noteq> [] then returnS (Some marker)
         else
           bindS (getHash R kAlarm alarm_key) (\<lambda>active.
           if active = [] then returnS None
           else
             bindS now (\<lambda>t.
             let cleared = put_fields [(''active'', ''false''), (''last_change_ns'', to_string_u64 t)] active in
             bindS (liftE (statePayload J cleared)) (\<lambda>payload.
             thenS (replaceHashAndAppendEventOnce R kAlarm marker_key [(''activation_id'', activation_id)]
                      alarm_key [] kAlarmEvents
                      (new_event (activation_id @ '':alarm-clear'') activation_id t (di_name info) ''alarm''
                         alarm_id ''REMOVE'' 0 payload))
             (bindS (getHash R kAlarm marker_key) (\<lambda>stored. returnS (Some stored))))))) (\<lambda>stored.
      case stored of
        None \<Rightarrow> returnS ()
      | Some m \<Rightarrow>
          if m = [] then returnS ()
          else
            thenS (incrementHashFieldsOnce R kCounters (syncdPortAlarmCounterPublicationKey activation_id True)
                     [(''activation_id'', activation_id)] (deviceCountersKey (di_name info))
                     [(''active_alarms'', -1)])
            (returnS ()))))"

section \<open>Port states\<close>

definition port_fields :: "(double \<Rightarrow> string) \<Rightarrow> DeviceInfo \<Rightarrow> PortState \<Rightarrow> (string, string) smap" where
  "port_fields power_text info port = smap_of_list
     [(''device'', di_name info),
      (''id'', to_string_u16 (ps_id port)),
      (''direction'', portDirectionName (ps_direction port)),
      (''admin_enabled'', bool_text (ps_admin_enabled port)),
      (''oper_status'', portOperStatusName (ps_oper_status port)),
      (''optical_power_dbm'', power_text (ps_optical_power_dbm port))]"

text \<open>The first half of \<open>publishPortState\<close>: the state hash and its event.\<close>

definition publish_port_change ::
  "'s redis_api \<Rightarrow> 'j json_api \<Rightarrow> ('s, u64) sexn \<Rightarrow> (double \<Rightarrow> string) \<Rightarrow> DeviceInfo \<Rightarrow> PortState \<Rightarrow> ('s, unit) sexn" where
  "publish_port_change R J now power_text info port =
     (let direction = portDirectionName (ps_direction port);
          port_id = to_string_u16 (ps_id port);
          state_key = (if ps_direction port = kInput then inputPortStateKey (di_name info) port_id
                       else outputPortStateKey (di_name info) port_id);
          fs = port_fields power_text info port in
      bindS (getHash R kState state_key) (\<lambda>previous.
      if previous \<noteq> [] \<and> \<not> list_ex (\<lambda>(k, v). \<not> field_is previous k v) fs then returnS ()
      else
        bindS now (\<lambda>t.
        let changed = insert_or_assign ''last_change_ns'' (to_string_u64 t) fs in
        if previous = [] then putHash R kState state_key changed
        else
          bindS (liftE (statePayload J changed)) (\<lambda>payload.
          replaceHashAndAppendEvent R kState state_key changed kStateEvents
            (new_event (''syncd-port:'' @ di_name info @ '':'' @ direction @ '':'' @ port_id @ '':'' @ to_string_u64 t)
               (''syncd-port-health:'' @ di_name info) t (di_name info) (portResourceType (ps_direction port))
               port_id ''UPSERT'' 0 payload)))))"

text \<open>The second half: the fault record of the port and its alarm.\<close>

definition track_port_fault ::
  "'s redis_api \<Rightarrow> 'j json_api \<Rightarrow> ('s, u64) sexn \<Rightarrow> DeviceInfo \<Rightarrow> PortState \<Rightarrow> nat \<Rightarrow> ('s, unit) sexn" where
  "track_port_fault R J now info port affected_connections =
     (let direction = portDirectionName (ps_direction port);
          port_id = to_string_u16 (ps_id port);
          fault_key = syncdPortFaultKey (di_name info) direction port_id in
      bindS (getHash R kDevice fault_key) (\<lambda>fault.
      let idle = (fault = [] \<or> \<not> has_field fault ''status'' \<or> field_is fault ''status'' ''RECOVERED'') in
      if portUnavailable port then
        bindS
          (if \<not> idle then returnS fault
           else
             bindS now (\<lambda>t.
             bindS now (\<lambda>raised.
             let new_fault = smap_of_list
               [(''device'', di_name info), (''direction'', direction), (''port_id'', port_id),
                (''activation_id'', ''port-fault:'' @ di_name info @ '':'' @ direction @ '':'' @ port_id @ '':'' @
                   to_string_u64 t),
                (''status'', ''ACTIVE''), (''raised_at_ns'', to_string_u64 raised)] in
             thenS (putHash R kDevice fault_key new_fault) (returnS new_fault)))) (\<lambda>current.
        bindS (liftE (map_at current ''activation_id'')) (\<lambda>activation_id.
        publishPortAlarm R J now info port activation_id affected_connections))
      else if idle then returnS ()
      else
        bindS (liftE (map_at fault ''activation_id'')) (\<lambda>activation_id.
        thenS (clearPortAlarm R J now info port activation_id)
        (bindS now (\<lambda>t.
         let cleared = insert_or_assign ''cleared_at_ns'' (to_string_u64 t) fault in
         bindS
           (if field_is cleared ''status'' ''ACTIVE'' then returnS (insert_or_assign ''status'' ''CLEARED'' cleared)
            else
              (case (field_is cleared ''status'' ''RECOVERY_PUBLISHED'', map_of cleared ''command_id'') of
                 (True, Some command_id) \<Rightarrow>
                   bindS (getHash R kDevice (processedDeviceCommandKey command_id)) (\<lambda>processed.
                   returnS (if processed \<noteq> []
                            then insert_or_assign ''status''
                                   (if field_is processed ''applied'' ''true'' then ''RECOVERED'' else ''CLEARED'') cleared
                            else insert_or_assign ''cleared'' ''true'' cleared))
               | _ \<Rightarrow> returnS cleared)) (\<lambda>updated.
         putHash R kDevice fault_key updated))))))"

definition publishPortState ::
  "'s redis_api \<Rightarrow> 'j json_api \<Rightarrow> ('s, u64) sexn \<Rightarrow> (double \<Rightarrow> string) \<Rightarrow> DeviceInfo \<Rightarrow> PortState \<Rightarrow> nat \<Rightarrow> ('s, unit) sexn" where
  "publishPortState R J now power_text info port affected_connections =
     thenS (publish_port_change R J now power_text info port)
       (track_port_fault R J now info port affected_connections)"

definition affected_by :: "AppliedConnection list \<Rightarrow> PortState \<Rightarrow> nat" where
  "affected_by actual port = length (filter (\<lambda>c.
     if ps_direction port = kInput then ac_input_port c = ps_id port else ac_output_port c = ps_id port) actual)"

text \<open>
  The loop over the ports of a direction. Its counter is a 16-bit \<open>PortId\<close>: for 65535 ports the
  condition \<open>id <= count\<close> always holds. The fuel is the number of values of the counter, so a run that
  uses it up has been through all of them.
\<close>

fun poll_loop ::
  "nat \<Rightarrow> 's redis_api \<Rightarrow> 'j json_api \<Rightarrow> 's OcsDeviceApi \<Rightarrow> ('s, u64) sexn \<Rightarrow> (double \<Rightarrow> string) \<Rightarrow> DeviceInfo \<Rightarrow>
   AppliedConnection list \<Rightarrow> PortDirection \<Rightarrow> PortId \<Rightarrow> PortId \<Rightarrow> ('s, PortId list) sexn" where
  "poll_loop 0 R J D now power_text info actual direction i count =
     (if i \<le> count then throwS Never_returns else returnS [])"
| "poll_loop (Suc fuel) R J D now power_text info actual direction i count =
     (if i \<le> count then
        bindS (if direction = kInput then api_getInputPortState D i else api_getOutputPortState D i) (\<lambda>port.
        thenS (publishPortState R J now power_text info port (affected_by actual port))
        (bindS (poll_loop fuel R J D now power_text info actual direction (i + 1) count) (\<lambda>unavailable.
         returnS (if portUnavailable port then i # unavailable else unavailable))))
      else returnS [])"

definition pollPortStates ::
  "'s redis_api \<Rightarrow> 'j json_api \<Rightarrow> 's OcsDeviceApi \<Rightarrow> ('s, u64) sexn \<Rightarrow> (double \<Rightarrow> string) \<Rightarrow> DeviceInfo \<Rightarrow>
   AppliedConnection list \<Rightarrow> ('s, AppliedConnection list) sexn" where
  "pollPortStates R J D now power_text info actual =
     bindS (poll_loop (2 ^ 16) R J D now power_text info actual kInput 1 (di_input_port_count info)) (\<lambda>inputs.
     bindS (poll_loop (2 ^ 16) R J D now power_text info actual kOutput 1 (di_output_port_count info)) (\<lambda>outputs.
     returnS (filter (\<lambda>c. ac_input_port c \<notin> set inputs \<and> ac_output_port c \<notin> set outputs) actual)))"

definition portFaults ::
  "'s redis_api \<Rightarrow> string \<Rightarrow> ('s, (string \<times> (string, string) smap) list) sexn" where
  "portFaults R device =
     bindS (scanKeys R kDevice (syncdPortFaultPattern device) 4096) (\<lambda>keys.
     bindS (mapS (\<lambda>key. bindS (getHash R kDevice key) (\<lambda>fs. returnS (key, fs))) keys) (\<lambda>faults.
     returnS (filter (\<lambda>(key, fs). fs \<noteq> []) faults)))"

text \<open>Updating those hashes that satisfy a condition, each with its own timestamp.\<close>

fun stamp_matching ::
  "('s, u64) sexn \<Rightarrow> ((string, string) smap \<Rightarrow> bool) \<Rightarrow> (string \<Rightarrow> (string, string) smap \<Rightarrow> (string, string) smap) \<Rightarrow>
   (string \<times> (string, string) smap) list \<Rightarrow> ('s, (string \<times> (string, string) smap) list) sexn" where
  "stamp_matching now p f [] = returnS []"
| "stamp_matching now p f ((key, fs) # rest) =
     (if p fs then
        bindS now (\<lambda>t.
        bindS (stamp_matching now p f rest) (\<lambda>updates.
        returnS ((key, f (to_string_u64 t) fs) # updates)))
      else stamp_matching now p f rest)"

definition associatePortFaults ::
  "'s redis_api \<Rightarrow> ('s, u64) sexn \<Rightarrow> DeviceInfo \<Rightarrow> string \<Rightarrow> ('s, unit) sexn" where
  "associatePortFaults R now info command_id =
     bindS (portFaults R (di_name info)) (\<lambda>faults.
     bindS (stamp_matching now
              (\<lambda>fault. field_is fault ''status'' ''ACTIVE'' \<or> field_is fault ''status'' ''CLEARED'')
              (\<lambda>t fault. put_fields [(''status'', ''RECOVERY_PUBLISHED''), (''command_id'', command_id),
                 (''recovery_published_at_ns'', t)] fault) faults) (\<lambda>updates.
     if updates = [] then returnS () else putHashesAtomically R kDevice updates))"

end
