(* ===== verification/Syncd_Recovery.thy ===== *)
theory Syncd_Recovery
  imports Syncd_Ports Reconciler
begin

text \<open>
  The southbound daemon, second part: the drift alarm, recovery after the device has restarted with a new
  generation, and the reconciliation of desired and actual connections. An \<open>unordered_map\<close> is a sorted
  association list: where the code iterates over one, its order is unspecified and the model takes the
  order of the keys.
\<close>

section \<open>Device state and drift alarm\<close>

definition publishHwsimHeartbeat :: "'s redis_api \<Rightarrow> ('s, u64) sexn \<Rightarrow> bool \<Rightarrow> ('s, unit) sexn" where
  "publishHwsimHeartbeat R now online =
     bindS now (\<lambda>t.
     putHash R kState (serviceStateKey ''ocs-hwsim'')
       (smap_of_list [(''service'', ''ocs-hwsim''), (''status'', if online then ''ONLINE'' else ''OFFLINE''),
          (''last_seen_ns'', to_string_u64 t)]))"

definition device_fields :: "DeviceInfo \<Rightarrow> string \<Rightarrow> string \<Rightarrow> Error \<Rightarrow> (string, string) smap" where
  "device_fields info count_text status error = smap_of_list
     [(''name'', di_name info),
      (''oper_status'', status),
      (''device_generation'', to_string_u64 (di_generation info)),
      (''actual_connection_count'', count_text),
      (''last_error_code'', if Error_ok error then [] else ErrorCode_toString (err_code error)),
      (''last_error_message'', err_message error)]"

definition publishDeviceState ::
  "'s redis_api \<Rightarrow> 'j json_api \<Rightarrow> ('s, u64) sexn \<Rightarrow> DeviceInfo \<Rightarrow> u64 \<Rightarrow> string \<Rightarrow> Error \<Rightarrow> ('s, unit) sexn" where
  "publishDeviceState R J now info actual_connection_count status error =
     (let fs = device_fields info (to_string_u64 actual_connection_count) status error in
      bindS now (\<lambda>t.
      bindS (liftE (statePayload J fs)) (\<lambda>payload.
      replaceHashAndAppendEvent R kState (deviceStateKey (di_name info)) fs kStateEvents
        (new_event (''syncd-device:'' @ di_name info @ '':'' @ to_string_u64 (di_generation info) @ '':'' @ status @
             '':'' @ to_string_u64 t)
           (''syncd-device-health:'' @ di_name info) t (di_name info) ''device'' (di_name info) ''UPSERT'' 0 payload))))"

definition publishDriftAlarm ::
  "'s redis_api \<Rightarrow> 'j json_api \<Rightarrow> ('s, u64) sexn \<Rightarrow> DeviceInfo \<Rightarrow> string \<Rightarrow> u64 \<Rightarrow> nat \<Rightarrow> ('s, unit) sexn" where
  "publishDriftAlarm R J now info command_id desired_version drift_count =
     (let alarm_id = desiredActualDriftAlarmId;
          alarm_key = activeAlarmKey (di_name info) alarm_id;
          marker_key = syncdDriftAlarmPublicationKey command_id in
      bindS (getHash R kAlarm marker_key) (\<lambda>marker.
      bindS
        (if marker \<noteq> [] then returnS marker
         else
           bindS (getHash R kAlarm alarm_key) (\<lambda>active.
           bindS now (\<lambda>t.
           let activation_id = (case map_of active ''activation_id'' of None \<Rightarrow> command_id | Some a \<Rightarrow> a);
               fs = smap_of_list
                 [(''id'', alarm_id), (''active'', ''true''), (''severity'', ''MAJOR''),
                  (''resource_type'', ''device''), (''resource_id'', di_name info),
                  (''desired_version'', to_string_u64 desired_version),
                  (''error_code'', ErrorCode_toString kApplyFailed),
                  (''error_message'', ''desired and actual connection matrices differ''),
                  (''drift_count'', nat_to_string drift_count),
                  (''activation_id'', activation_id),
                  (''first_raised_ns'',
                     case map_of active ''first_raised_ns'' of None \<Rightarrow> to_string_u64 t | Some f \<Rightarrow> f),
                  (''last_change_ns'', to_string_u64 t)] in
           bindS (liftE (statePayload J fs)) (\<lambda>payload.
           thenS (replaceHashAndAppendEventOnce R kAlarm marker_key
                    (smap_of_list [(''command_id'', command_id), (''activation_id'', activation_id),
                       (''activated'', bool_text (active = []))])
                    alarm_key fs kAlarmEvents
                    (new_event (command_id @ '':alarm'') command_id t (di_name info) ''alarm'' alarm_id ''UPSERT''
                       desired_version payload))
           (getHash R kAlarm marker_key))))) (\<lambda>stored.
      bindS (liftE (map_at stored ''activated'')) (\<lambda>activated.
      if activated = ''true'' then
        bindS (liftE (map_at stored ''activation_id'')) (\<lambda>activation_id.
        thenS (incrementHashFieldsOnce R kCounters
                 (syncdDriftAlarmCounterPublicationKey (di_name info) activation_id False)
                 [(''activation_id'', activation_id)] (deviceCountersKey (di_name info)) [(''active_alarms'', 1)])
        (returnS ()))
      else returnS ()))))"

definition clearDriftAlarm ::
  "'s redis_api \<Rightarrow> 'j json_api \<Rightarrow> ('s, u64) sexn \<Rightarrow> DeviceInfo \<Rightarrow> string \<Rightarrow> u64 \<Rightarrow> ('s, unit) sexn" where
  "clearDriftAlarm R J now info command_id desired_version =
     (let alarm_id = desiredActualDriftAlarmId;
          alarm_key = activeAlarmKey (di_name info) alarm_id;
          marker_key = syncdDriftAlarmClearPublicationKey command_id in
      bindS (getHash R kAlarm marker_key) (\<lambda>marker.
      bindS (getHash R kAlarm alarm_key) (\<lambda>active.
      if marker = [] \<and> active = [] then returnS ()
      else
        bindS
          (if marker \<noteq> [] then returnS marker
           else
             bindS now (\<lambda>t.
             let cleared = put_fields [(''active'', ''false''), (''last_change_ns'', to_string_u64 t)] active in
             bindS (liftE (map_at cleared ''activation_id'')) (\<lambda>activation_id.
             bindS (liftE (statePayload J cleared)) (\<lambda>payload.
             thenS (replaceHashAndAppendEventOnce R kAlarm marker_key
                      (smap_of_list [(''command_id'', command_id), (''activation_id'', activation_id),
                         (''cleared'', ''true'')])
                      alarm_key [] kAlarmEvents
                      (new_event (command_id @ '':alarm-clear'') command_id t (di_name info) ''alarm'' alarm_id
                         ''REMOVE'' desired_version payload))
             (getHash R kAlarm marker_key))))) (\<lambda>stored.
        bindS (liftE (map_at stored ''activation_id'')) (\<lambda>activation_id.
        thenS (incrementHashFieldsOnce R kCounters
                 (syncdDriftAlarmCounterPublicationKey (di_name info) activation_id True)
                 [(''activation_id'', activation_id)] (deviceCountersKey (di_name info)) [(''active_alarms'', -1)])
        (returnS ()))))))"

section \<open>Recovery after a new generation\<close>

text \<open>Whether the last published state of a connection reported it present.\<close>

definition was_present :: "(string, string) smap \<Rightarrow> bool" where
  "was_present previous =
     (if has_field previous ''actual_present'' then field_is previous ''actual_present'' ''true''
      else has_field previous ''applied_version'' \<and> \<not> field_is previous ''applied_version'' ''0'')"

definition active_change :: "bool \<Rightarrow> bool \<Rightarrow> int" where
  "active_change was_active is_active = (if was_active = is_active then 0 else if is_active then 1 else -1)"

definition connection_fields ::
  "string \<Rightarrow> string \<Rightarrow> PortId \<Rightarrow> PortId \<Rightarrow> u64 \<Rightarrow> u64 \<Rightarrow> bool \<Rightarrow> string \<Rightarrow> string \<Rightarrow> string \<Rightarrow> (string, string) smap" where
  "connection_fields device cid input output desired_version applied_version present status code error_message =
     smap_of_list
       [(''device'', device), (''id'', cid), (''input_port'', to_string_u16 input),
        (''output_port'', to_string_u16 output), (''desired_version'', to_string_u64 desired_version),
        (''applied_version'', to_string_u64 applied_version), (''actual_present'', bool_text present),
        (''apply_status'', status), (''last_error_code'', code), (''last_error_message'', error_message)]"

definition recovery_id :: "DeviceInfo \<Rightarrow> string" where
  "recovery_id info = ''hwsim-recovery:'' @ di_name info @ '':'' @ to_string_u64 (di_generation info)"

text \<open>
  The publication of one refreshed state: the change it makes to the number of active connections, as
  recorded by whoever published it.
\<close>

definition publish_refreshed ::
  "'s redis_api \<Rightarrow> 'j json_api \<Rightarrow> ('s, u64) sexn \<Rightarrow> DeviceInfo \<Rightarrow> string \<Rightarrow> string \<Rightarrow> u64 \<Rightarrow> (string, string) smap \<Rightarrow>
   int \<Rightarrow> ('s, int) sexn" where
  "publish_refreshed R J now info cid operation version refreshed delta =
     (let publication_key = syncdGenerationStatePublicationKey (di_name info) (di_generation info) cid in
      bindS now (\<lambda>t.
      bindS (liftE (statePayload J refreshed)) (\<lambda>payload.
      bindS (replaceHashAndAppendEventOnce R kState publication_key
               (smap_of_list [(''device_generation'', to_string_u64 (di_generation info)), (''connection_id'', cid),
                  (''active_delta'', to_string_int delta)])
               (connectionStateKey (di_name info) cid) refreshed kStateEvents
               (new_event (recovery_id info @ '':actual:'' @ cid) (recovery_id info) t (di_name info) ''connection''
                  cid operation version payload)) (\<lambda>published.
      if published then returnS delta
      else bindS (getHash R kState publication_key) (\<lambda>stored.
           liftE (bindE (map_at stored ''active_delta'') stoll))))))"

definition snapshot_command :: "(string, string) smap \<Rightarrow> string \<Rightarrow> ConnectionCommand result" where
  "snapshot_command snapshot cid =
     bindE (bindE (map_at snapshot ''desired_version'') stoull) (\<lambda>version.
     let command = \<lparr>cc_operation = kUpsert, cc_id = cid, cc_input_port = 0, cc_output_port = 0,
                    cc_desired_version = version\<rparr> in
     if field_is snapshot ''operation'' ''REMOVE'' then Inr (command\<lparr>cc_operation := kRemove\<rparr>)
     else
       bindE (syncd_snapshotPort snapshot ''input_port'') (\<lambda>input.
       bindE (syncd_snapshotPort snapshot ''output_port'') (\<lambda>output.
       Inr (command\<lparr>cc_input_port := input, cc_output_port := output\<rparr>))))"

definition snapshot_matches :: "ConnectionCommand \<Rightarrow> AppliedConnection option \<Rightarrow> bool" where
  "snapshot_matches command found =
     (if cc_operation command = kRemove then found = None
      else (case found of
          None \<Rightarrow> False
        | Some a \<Rightarrow> ac_input_port a = cc_input_port command \<and> ac_output_port a = cc_output_port command \<and>
                    ac_applied_version a = cc_desired_version command))"

definition refreshed_state ::
  "DeviceInfo \<Rightarrow> ConnectionCommand \<Rightarrow> AppliedConnection option \<Rightarrow> (string, string) smap \<times> string" where
  "refreshed_state info command found =
     (case found of
        None \<Rightarrow>
          if cc_operation command = kRemove then ([], ''REMOVE'')
          else (connection_fields (di_name info) (cc_id command) (cc_input_port command) (cc_output_port command)
                  (cc_desired_version command) 0 False ''FAILED'' (ErrorCode_toString kDeviceNotReady)
                  ''actual state was lost when the device generation changed'', ''UPSERT'')
      | Some a \<Rightarrow>
          let matches = snapshot_matches command found in
          (connection_fields (di_name info) (cc_id command) (ac_input_port a) (ac_output_port a)
             (cc_desired_version command) (ac_applied_version a) True
             (if matches then ''ACTIVE'' else ''FAILED'')
             (if matches then [] else ErrorCode_toString kApplyFailed)
             (if matches then [] else ''actual state differs after device restart''), ''UPSERT''))"

text \<open>The loop over the recorded connections: the commands to publish, the change of active connections and
  the actual connections nobody recorded.\<close>

fun recover_recorded ::
  "'s redis_api \<Rightarrow> 'j json_api \<Rightarrow> ('s, u64) sexn \<Rightarrow> DeviceInfo \<Rightarrow> string list \<Rightarrow>
   (string, AppliedConnection) smap \<Rightarrow> ('s, ConnectionCommand list \<times> int \<times> (string, AppliedConnection) smap) sexn" where
  "recover_recorded R J now info [] actual_by_id = returnS ([], 0, actual_by_id)"
| "recover_recorded R J now info (key # keys) actual_by_id =
     bindS (getHash R kDevice key) (\<lambda>snapshot.
     case map_of snapshot ''id'' of
       None \<Rightarrow> recover_recorded R J now info keys actual_by_id
     | Some cid \<Rightarrow>
         if \<not> has_field snapshot ''desired_version'' then recover_recorded R J now info keys actual_by_id
         else
           bindS (liftE (snapshot_command snapshot cid)) (\<lambda>command.
           let found = map_of actual_by_id cid in
           bindS (getHash R kState (connectionStateKey (di_name info) cid)) (\<lambda>previous.
           bindS (publish_refreshed R J now info cid (snd (refreshed_state info command found))
                    (cc_desired_version command) (fst (refreshed_state info command found))
                    (active_change (was_present previous) (found \<noteq> None))) (\<lambda>delta.
           bindS (recover_recorded R J now info keys (map_erase cid actual_by_id)) (\<lambda>(commands, deltas, rest).
           returnS (if snapshot_matches command found then commands else command # commands,
                    delta + deltas, rest))))))"

text \<open>The loop over the actual connections that are left: they are to be removed.\<close>

fun recover_unrecorded ::
  "'s redis_api \<Rightarrow> 'j json_api \<Rightarrow> ('s, u64) sexn \<Rightarrow> DeviceInfo \<Rightarrow> (string, AppliedConnection) smap \<Rightarrow>
   ('s, ConnectionCommand list \<times> int) sexn" where
  "recover_unrecorded R J now info [] = returnS ([], 0)"
| "recover_unrecorded R J now info ((cid, a) # rest) =
     bindS (getHash R kState (connectionStateKey (di_name info) cid)) (\<lambda>previous.
     bindS (publish_refreshed R J now info cid ''UPSERT'' (ac_applied_version a)
              (connection_fields (di_name info) cid (ac_input_port a) (ac_output_port a) (ac_applied_version a)
                 (ac_applied_version a) True ''FAILED'' (ErrorCode_toString kApplyFailed)
                 ''unexpected actual state after device restart'')
              (if field_is previous ''actual_present'' ''true'' then 0 else 1)) (\<lambda>delta.
     bindS (recover_unrecorded R J now info rest) (\<lambda>(commands, deltas).
     returnS (\<lparr>cc_operation = kRemove, cc_id = cid, cc_input_port = 0, cc_output_port = 0,
               cc_desired_version = max (ac_applied_version a) 1\<rparr> # commands, delta + deltas))))"

definition highest_version :: "ConnectionCommand list \<Rightarrow> u64" where
  "highest_version commands = foldl (\<lambda>v c. max v (cc_desired_version c)) 1 commands"

definition scheduleGenerationRecovery ::
  "'s redis_api \<Rightarrow> 'j json_api \<Rightarrow> ('s, u64) sexn \<Rightarrow> DeviceInfo \<Rightarrow> AppliedConnection list \<Rightarrow> ('s, unit) sexn" where
  "scheduleGenerationRecovery R J now info actual =
     (let recovery_key = syncdGenerationRecoveryKey (di_name info) (di_generation info);
          generation = to_string_u64 (di_generation info) in
      bindS (getHash R kDevice recovery_key) (\<lambda>recovery.
      if recovery \<noteq> [] then returnS ()
      else
        bindS (scanKeys R kDevice (connectionDevicePattern (di_name info)) 4096) (\<lambda>keys.
        bindS (recover_recorded R J now info keys (index_by_id actual)) (\<lambda>(recorded, delta1, rest).
        bindS (recover_unrecorded R J now info rest) (\<lambda>(unrecorded, delta2).
        thenS (incrementHashFieldsOnce R kCounters
                 (syncdGenerationCountersPublicationKey (di_name info) (di_generation info))
                 [(''device_generation'', generation)] (deviceCountersKey (di_name info))
                 [(''active_connections'', delta1 + delta2)])
        (let commands = sort_key cc_id (recorded @ unrecorded);
             command_id = recovery_id info @ '':command'';
             batch = \<lparr>batch_commands = commands,
                      batch_options = \<lparr>opt_atomic = True, opt_timeout = 1000, opt_operation_id = command_id\<rparr>\<rparr> in
         if commands = [] then
           thenS (putHashIfAbsent R kDevice recovery_key
                    (smap_of_list [(''device'', di_name info), (''device_generation'', generation),
                       (''recovery_required'', ''false'')]))
           (returnS ())
         else
           bindS (liftE (encodeDeviceCommand J batch)) (\<lambda>payload.
           thenS (putHash R kDevice (orchConfigBatchKey (recovery_id info))
                    (smap_of_list [(''payload'', payload), (''device_generation'', generation)]))
           (bindS now (\<lambda>t.
            thenS (appendEventOnce R kDevice recovery_key
                     (smap_of_list [(''device'', di_name info), (''device_generation'', generation),
                        (''command_id'', command_id), (''recovery_required'', ''true'')])
                     kDeviceCommands
                     (new_event command_id (recovery_id info) t (di_name info)
                        (if length commands = 1 then ''connection'' else ''connection-batch'')
                        (if length commands = 1 then cc_id (hd commands) else di_name info)
                        ''GENERATION_RECOVERY'' (highest_version commands) payload))
            (returnS ()))))))))))"

end
