(* ===== verification/Syncd_Reconcile.thy ===== *)
theory Syncd_Reconcile
  imports Syncd_Recovery
begin

text \<open>
  The southbound daemon, third part: when all orchestrated work is settled, the desired connections are
  compared with the actual ones and, where they differ or an earlier failure has to be confirmed, one
  command with the full desired snapshot is published.
\<close>

section \<open>Loading and settling\<close>

definition desired_of :: "string \<Rightarrow> (string, string) smap \<Rightarrow> ConnectionCommand result" where
  "desired_of key snapshot =
     (let cid = (case map_of snapshot ''id'' of
            Some i \<Rightarrow> i
          | None \<Rightarrow> drop (case rfind_char key (CHR ''|'') of None \<Rightarrow> 0 | Some separator \<Rightarrow> separator + 1) key) in
      if cid = [] \<or> \<not> has_field snapshot ''desired_version''
      then Inl (Invalid_argument ''desired connection snapshot is missing identity or version'')
      else
        bindE (syncd_snapshotPort snapshot ''input_port'') (\<lambda>input.
        bindE (syncd_snapshotPort snapshot ''output_port'') (\<lambda>output.
        bindE (bindE (map_at snapshot ''desired_version'') stoull) (\<lambda>version.
        Inr \<lparr>cc_operation = kUpsert, cc_id = cid, cc_input_port = input, cc_output_port = output,
             cc_desired_version = version\<rparr>))))"

fun load_desired :: "'s redis_api \<Rightarrow> string list \<Rightarrow> ('s, ConnectionCommand list) sexn" where
  "load_desired R [] = returnS []"
| "load_desired R (key # keys) =
     bindS (getHash R kConfig key) (\<lambda>snapshot.
     if snapshot = [] then load_desired R keys
     else
       bindS (liftE (desired_of key snapshot)) (\<lambda>command.
       bindS (load_desired R keys) (\<lambda>commands. returnS (command # commands))))"

definition loadDesiredConnections :: "'s redis_api \<Rightarrow> string \<Rightarrow> ('s, ConnectionCommand list) sexn" where
  "loadDesiredConnections R device =
     bindS (scanKeys R kConfig (connectionConfigPattern device) 4096) (load_desired R)"

definition commands_by_id :: "ConnectionCommand list \<Rightarrow> (string, ConnectionCommand) smap" where
  "commands_by_id commands = foldl (\<lambda>m c. emplace (cc_id c) c m) [] commands"

text \<open>One recorded connection: \<open>None\<close> when it is not settled, else the desired ones that are still unseen.\<close>

definition settle_one ::
  "(string, string) smap \<Rightarrow> (string, ConnectionCommand) smap \<Rightarrow> (string, ConnectionCommand) smap option result" where
  "settle_one snapshot desired_by_id =
     (case (map_of snapshot ''id'', map_of snapshot ''desired_version'', map_of snapshot ''apply_status'') of
        (Some cid, Some version, Some status) \<Rightarrow>
          (case map_of desired_by_id cid of
             None \<Rightarrow> Inr (if field_is snapshot ''operation'' ''REMOVE'' \<and> status = ''FAILED''
                          then Some desired_by_id else None)
           | Some command \<Rightarrow>
               if status \<noteq> ''ACTIVE'' \<and> status \<noteq> ''FAILED'' then Inr None
               else
                 bindE (stoull version) (\<lambda>v.
                 if v \<noteq> cc_desired_version command then Inr None
                 else
                   bindE (syncd_snapshotPort snapshot ''input_port'') (\<lambda>input.
                   if input \<noteq> cc_input_port command then Inr None
                   else
                     bindE (syncd_snapshotPort snapshot ''output_port'') (\<lambda>output.
                     if output \<noteq> cc_output_port command then Inr None
                     else Inr (Some (map_erase cid desired_by_id))))))
      | _ \<Rightarrow> Inr None)"

fun settle_loop ::
  "'s redis_api \<Rightarrow> string list \<Rightarrow> (string, ConnectionCommand) smap \<Rightarrow> ('s, bool) sexn" where
  "settle_loop R [] desired_by_id = returnS (desired_by_id = [])"
| "settle_loop R (key # keys) desired_by_id =
     bindS (getHash R kDevice key) (\<lambda>snapshot.
     bindS (liftE (settle_one snapshot desired_by_id)) (\<lambda>settled.
     case settled of None \<Rightarrow> returnS False | Some rest \<Rightarrow> settle_loop R keys rest))"

definition orchestrationSettled ::
  "'s redis_api \<Rightarrow> string \<Rightarrow> ConnectionCommand list \<Rightarrow> ('s, bool) sexn" where
  "orchestrationSettled R device desired =
     bindS (scanKeys R kDevice (connectionDevicePattern device) 4096) (\<lambda>keys.
     settle_loop R keys (commands_by_id desired))"

section \<open>Extending a converged plan\<close>

definition mismatched :: "ConnectionCommand \<Rightarrow> AppliedConnection \<Rightarrow> ConnectionDrift" where
  "mismatched command a =
     \<lparr>drift_id = cc_id command, drift_kind = kMismatched, drift_desired = command, drift_actual = a\<rparr>"

definition failed_status :: "(string, string) smap \<Rightarrow> bool" where
  "failed_status snapshot = field_is snapshot ''apply_status'' ''FAILED''"

text \<open>Desired connections that are there but recorded as failed.\<close>

fun failed_desired ::
  "'s redis_api \<Rightarrow> DeviceInfo \<Rightarrow> (string, AppliedConnection) smap \<Rightarrow> ConnectionCommand list \<Rightarrow>
   ('s, ConnectionDrift list) sexn" where
  "failed_desired R info actual_by_id [] = returnS []"
| "failed_desired R info actual_by_id (command # commands) =
     (case map_of actual_by_id (cc_id command) of
        None \<Rightarrow> failed_desired R info actual_by_id commands
      | Some a \<Rightarrow>
          bindS (getHash R kDevice (connectionDeviceKey (di_name info) (cc_id command))) (\<lambda>device_state.
          bindS (getHash R kState (connectionStateKey (di_name info) (cc_id command))) (\<lambda>confirmed_state.
          bindS (failed_desired R info actual_by_id commands) (\<lambda>drifts.
          returnS (if failed_status device_state \<or> failed_status confirmed_state
                   then mismatched command a # drifts else drifts)))))"

text \<open>Removals that are recorded as failed although the connection is gone.\<close>

definition failed_removal ::
  "string set \<Rightarrow> (string, AppliedConnection) smap \<Rightarrow> (string, string) smap \<Rightarrow> (string \<times> string) option" where
  "failed_removal desired_ids actual_by_id snapshot =
     (case (map_of snapshot ''id'', map_of snapshot ''desired_version'') of
        (Some cid, Some version) \<Rightarrow>
          if cid \<in> desired_ids \<or> \<not> field_is snapshot ''operation'' ''REMOVE'' \<or> \<not> failed_status snapshot \<or>
             map_of actual_by_id cid \<noteq> None
          then None else Some (cid, version)
      | _ \<Rightarrow> None)"

fun failed_removals ::
  "'s redis_api \<Rightarrow> string set \<Rightarrow> (string, AppliedConnection) smap \<Rightarrow> string list \<Rightarrow> ('s, ConnectionCommand list) sexn" where
  "failed_removals R desired_ids actual_by_id [] = returnS []"
| "failed_removals R desired_ids actual_by_id (key # keys) =
     bindS (getHash R kDevice key) (\<lambda>snapshot.
     case failed_removal desired_ids actual_by_id snapshot of
       None \<Rightarrow> failed_removals R desired_ids actual_by_id keys
     | Some (cid, version_text) \<Rightarrow>
         bindS (liftE (stoull version_text)) (\<lambda>version.
         bindS (failed_removals R desired_ids actual_by_id keys) (\<lambda>removals.
         returnS (\<lparr>cc_operation = kRemove, cc_id = cid, cc_input_port = 0, cc_output_port = 0,
                   cc_desired_version = version\<rparr> # removals))))"

definition missing_removal :: "ConnectionCommand \<Rightarrow> ConnectionDrift" where
  "missing_removal removal =
     \<lparr>drift_id = cc_id removal, drift_kind = kMissing, drift_desired = removal, drift_actual = no_connection\<rparr>"

text \<open>The plan with the failures to confirm, and whether there are any.\<close>

definition confirm_failures ::
  "'s redis_api \<Rightarrow> DeviceInfo \<Rightarrow> ConnectionCommand list \<Rightarrow> AppliedConnection list \<Rightarrow> ReconciliationPlan \<Rightarrow>
   ('s, ReconciliationPlan \<times> bool) sexn" where
  "confirm_failures R info desired actual plan =
     (if \<not> converged plan then returnS (plan, False)
      else
        bindS (failed_desired R info (index_by_id actual) desired) (\<lambda>drifts.
        bindS (scanKeys R kDevice (connectionDevicePattern (di_name info)) 4096) (\<lambda>keys.
        bindS (failed_removals R (cc_id ` set desired) (index_by_id actual) keys) (\<lambda>removals.
        let batch = plan_full_snapshot plan in
        returnS (plan\<lparr>plan_full_snapshot :=
                        batch\<lparr>batch_commands := sort_key cc_id (batch_commands batch @ removals)\<rparr>,
                      plan_drifts := sort_key drift_id (drifts @ map missing_removal removals)\<rparr>,
                 drifts \<noteq> [] \<or> removals \<noteq> [])))))"

text \<open>After a cleared port fault: the failed connections of a converged plan.\<close>

fun port_failures ::
  "'s redis_api \<Rightarrow> DeviceInfo \<Rightarrow> (string, ConnectionCommand) smap \<Rightarrow> (string, AppliedConnection) smap \<Rightarrow>
   ConnectionCommand list \<Rightarrow> ('s, ConnectionDrift list) sexn" where
  "port_failures R info desired_by_id actual_by_id [] = returnS []"
| "port_failures R info desired_by_id actual_by_id (command # commands) =
     bindS (getHash R kState (connectionStateKey (di_name info) (cc_id command))) (\<lambda>snapshot.
     bindS (port_failures R info desired_by_id actual_by_id commands) (\<lambda>drifts.
     returnS (if \<not> failed_status snapshot then drifts
              else (case (map_of desired_by_id (cc_id command), map_of actual_by_id (cc_id command)) of
                  (Some d, Some a) \<Rightarrow> (mismatched d a)\<lparr>drift_id := cc_id command\<rparr> # drifts
                | _ \<Rightarrow> drifts))))"

definition confirm_ports ::
  "'s redis_api \<Rightarrow> ('s, u64) sexn \<Rightarrow> DeviceInfo \<Rightarrow> ConnectionCommand list \<Rightarrow> AppliedConnection list \<Rightarrow>
   (string \<times> (string, string) smap) list \<Rightarrow> ReconciliationPlan \<Rightarrow> ('s, ReconciliationPlan) sexn" where
  "confirm_ports R now info desired actual faults plan =
     bindS (port_failures R info (commands_by_id desired) (index_by_id actual) desired) (\<lambda>drifts.
     let extended = plan\<lparr>plan_drifts := sort_key drift_id (plan_drifts plan @ drifts)\<rparr> in
     if \<not> converged extended then returnS extended
     else
       bindS (stamp_matching now (\<lambda>fault. field_is fault ''status'' ''CLEARED'')
                (\<lambda>t fault. put_fields [(''status'', ''RECOVERED''), (''recovered_at_ns'', t)] fault) faults) (\<lambda>recovered.
       thenS (if recovered = [] then returnS () else putHashesAtomically R kDevice recovered)
       (returnS extended)))"

section \<open>Publishing a reconciliation\<close>

definition drifted_fields :: "DeviceInfo \<Rightarrow> ConnectionDrift \<Rightarrow> (string, string) smap" where
  "drifted_fields info drift =
     (let is_active = (drift_kind drift \<noteq> kMissing) in
      connection_fields (di_name info) (drift_id drift)
        (if is_active then ac_input_port (drift_actual drift) else cc_input_port (drift_desired drift))
        (if is_active then ac_output_port (drift_actual drift) else cc_output_port (drift_desired drift))
        (cc_desired_version (drift_desired drift))
        (if is_active then ac_applied_version (drift_actual drift) else 0) is_active ''DRIFTED''
        (ErrorCode_toString kApplyFailed) ''desired and actual connection state differ'')"

definition publish_drift ::
  "'s redis_api \<Rightarrow> 'j json_api \<Rightarrow> ('s, u64) sexn \<Rightarrow> DeviceInfo \<Rightarrow> string \<Rightarrow> ConnectionDrift \<Rightarrow> ('s, int) sexn" where
  "publish_drift R J now info command_id drift =
     (let cid = drift_id drift;
          state_key = connectionStateKey (di_name info) cid;
          version = cc_desired_version (drift_desired drift);
          drifted = drifted_fields info drift;
          reconciling = insert_or_assign ''apply_status'' ''RECONCILING'' drifted;
          drift_marker = syncdReconciliationStatePublicationKey command_id cid ''DRIFTED'' in
      bindS (getHash R kState state_key) (\<lambda>previous.
      if failed_status previous \<or> field_is previous ''apply_status'' ''RETRY_WAIT'' then returnS 0
      else
        let delta = active_change (was_present previous) (drift_kind drift \<noteq> kMissing) in
        thenS (liftE (if field_is previous ''apply_status'' ''ACTIVE'' then requireTransition kActive kDrifted
                      else Inr ()))
        (bindS now (\<lambda>t1.
         bindS (liftE (statePayload J drifted)) (\<lambda>payload1.
         bindS (replaceHashAndAppendEventOnce R kState drift_marker
                  (smap_of_list [(''command_id'', command_id), (''connection_id'', cid),
                     (''active_delta'', to_string_int delta)])
                  state_key drifted kStateEvents
                  (new_event (command_id @ '':drifted:'' @ cid) command_id t1 (di_name info) ''connection'' cid
                     ''UPSERT'' version payload1)) (\<lambda>published.
         bindS (if published then returnS delta
                else bindS (getHash R kState drift_marker) (\<lambda>stored.
                     liftE (bindE (map_at stored ''active_delta'') stoll))) (\<lambda>change.
         thenS (liftE (requireTransition kDrifted kReconciling))
         (bindS now (\<lambda>t2.
          bindS (liftE (statePayload J reconciling)) (\<lambda>payload2.
          thenS (replaceHashAndAppendEventOnce R kState
                   (syncdReconciliationStatePublicationKey command_id cid ''RECONCILING'')
                   (smap_of_list [(''command_id'', command_id), (''connection_id'', cid)])
                   state_key reconciling kStateEvents
                   (new_event (command_id @ '':reconciling:'' @ cid) command_id t2 (di_name info) ''connection'' cid
                      ''UPSERT'' version payload2))
          (returnS change)))))))))))"

definition publishReconciliationState ::
  "'s redis_api \<Rightarrow> 'j json_api \<Rightarrow> ('s, u64) sexn \<Rightarrow> DeviceInfo \<Rightarrow> ReconciliationPlan \<Rightarrow> string \<Rightarrow> ('s, unit) sexn" where
  "publishReconciliationState R J now info plan command_id =
     bindS (mapS (publish_drift R J now info command_id) (plan_drifts plan)) (\<lambda>deltas.
     thenS (incrementHashFieldsOnce R kCounters (syncdReconciliationCountersPublicationKey command_id)
              [(''command_id'', command_id)] (deviceCountersKey (di_name info))
              [(''active_connections'', sum_list deltas), (''drift_detected_total'', 1), (''reconciliation_total'', 1)])
     (returnS ()))"

text \<open>A converged plan closes an open reconciliation.\<close>

definition close_reconciliation ::
  "'s redis_api \<Rightarrow> 'j json_api \<Rightarrow> ('s, u64) sexn \<Rightarrow> DeviceInfo \<Rightarrow> (string, string) smap \<Rightarrow> ('s, unit) sexn" where
  "close_reconciliation R J now info control =
     (if has_field control ''status'' \<and> \<not> field_is control ''status'' ''CONVERGED'' then
        bindS (liftE (map_at control ''command_id'')) (\<lambda>command_id.
        bindS (liftE (case map_of control ''desired_version'' of None \<Rightarrow> Inr 0 | Some t \<Rightarrow> stoull t)) (\<lambda>version.
        thenS (clearDriftAlarm R J now info command_id version)
        (bindS now (\<lambda>t.
         putHash R kDevice (syncdReconciliationKey (di_name info))
           (put_fields [(''status'', ''CONVERGED''), (''converged_at_ns'', to_string_u64 t)] control)))))
      else returnS ())"

text \<open>
  The control record of the reconciliation to publish: the open one when it has the same commands, else a
  new one; \<open>None\<close> when the open one is already published.
\<close>

definition open_reconciliation ::
  "'s redis_api \<Rightarrow> ('s, u64) sexn \<Rightarrow> DeviceInfo \<Rightarrow> ConnectionCommand list \<Rightarrow> string \<Rightarrow> bool \<Rightarrow> bool \<Rightarrow>
   (string, string) smap \<Rightarrow> ('s, (string \<times> (string, string) smap) option) sexn" where
  "open_reconciliation R now info commands signature port_recovery state_recovery control =
     (let failed = field_is control ''status'' ''FAILED'';
          reopen_failed_port_recovery = (port_recovery \<and> failed);
          reopen_failed_state_recovery =
            (state_recovery \<and> failed \<and> \<not> field_is control ''reason'' ''CONFIRMED_STATE_RECOVERY'') in
      if \<not> reopen_failed_port_recovery \<and> \<not> reopen_failed_state_recovery \<and>
         field_is control ''signature'' signature \<and> has_field control ''status'' \<and>
         \<not> field_is control ''status'' ''CONVERGED''
      then
        if \<not> field_is control ''status'' ''PUBLISHING'' then returnS None
        else bindS (liftE (map_at control ''command_id'')) (\<lambda>command_id. returnS (Some (command_id, control)))
      else
        bindS now (\<lambda>t.
        let command_id = ''reconcile:'' @ di_name info @ '':'' @ to_string_u64 t @ '':command'' in
        bindS now (\<lambda>started.
        let new_control = smap_of_list
          [(''device'', di_name info), (''device_generation'', to_string_u64 (di_generation info)),
           (''command_id'', command_id), (''desired_version'', to_string_u64 (highest_version commands)),
           (''signature'', signature),
           (''reason'', if port_recovery then ''PORT_RECOVERY''
                        else if state_recovery then ''CONFIRMED_STATE_RECOVERY'' else ''DESIRED_ACTUAL_DRIFT''),
           (''status'', ''PUBLISHING''), (''started_at_ns'', to_string_u64 started)] in
        thenS (putHash R kDevice (syncdReconciliationKey (di_name info)) new_control)
        (returnS (Some (command_id, new_control))))))"

text \<open>\<open>substr(0, size() - 8)\<close>: a shorter id wraps around and stays whole.\<close>

definition drop_suffix :: "string \<Rightarrow> string" where
  "drop_suffix command_id = (if length command_id < 8 then command_id else take (length command_id - 8) command_id)"

definition publish_reconciliation ::
  "'s redis_api \<Rightarrow> 'j json_api \<Rightarrow> ('s, u64) sexn \<Rightarrow> DeviceInfo \<Rightarrow> ReconciliationPlan \<Rightarrow> string \<Rightarrow>
   (string, string) smap \<Rightarrow> ('s, unit) sexn" where
  "publish_reconciliation R J now info plan command_id control =
     (let snapshot = plan_full_snapshot plan;
          batch = snapshot\<lparr>batch_options := (batch_options snapshot)\<lparr>opt_operation_id := command_id\<rparr>\<rparr>;
          commands = batch_commands batch;
          generation = to_string_u64 (di_generation info);
          prepared_id = drop_suffix command_id in
      thenS (associatePortFaults R now info command_id)
      (thenS (publishReconciliationState R J now info plan command_id)
      (bindS (liftE (bindE (map_at control ''desired_version'') stoull)) (\<lambda>version.
       thenS (publishDriftAlarm R J now info command_id version (length (plan_drifts plan)))
       (bindS (liftE (encodeDeviceCommand J batch)) (\<lambda>payload.
        thenS (putHash R kDevice (orchConfigBatchKey prepared_id)
                 (smap_of_list [(''payload'', payload), (''device_generation'', generation)]))
        (bindS now (\<lambda>t.
         thenS (appendEventOnce R kDevice (syncdReconciliationCommandPublicationKey command_id)
                  (smap_of_list [(''command_id'', command_id), (''device_generation'', generation),
                     (''desired_version'', to_string_u64 version)])
                  kDeviceCommands
                  (new_event command_id prepared_id t (di_name info)
                     (if length commands = 1 then ''connection'' else ''connection-batch'')
                     (if length commands = 1 then cc_id (hd commands) else di_name info)
                     ''RECONCILE'' version payload))
         (bindS now (\<lambda>published_at.
          putHash R kDevice (syncdReconciliationKey (di_name info))
            (put_fields [(''status'', ''PUBLISHED''), (''published_at_ns'', to_string_u64 published_at)] control)))))))))))"

definition reconcileDevice ::
  "'s redis_api \<Rightarrow> 'j json_api \<Rightarrow> ('s, u64) sexn \<Rightarrow> DeviceInfo \<Rightarrow> AppliedConnection list \<Rightarrow> ('s, unit) sexn" where
  "reconcileDevice R J now info actual =
     bindS (loadDesiredConnections R (di_name info)) (\<lambda>desired.
     bindS (orchestrationSettled R (di_name info) desired) (\<lambda>settled.
     if \<not> settled then returnS ()
     else
       bindS (liftE (buildReconciliationPlan desired actual)) (\<lambda>plan.
       bindS (confirm_failures R info desired actual plan) (\<lambda>(plan1, state_recovery).
       bindS (portFaults R (di_name info)) (\<lambda>faults.
       let port_recovery = list_ex (\<lambda>(key, fault). field_is fault ''status'' ''CLEARED'') faults in
       bindS (if converged plan1 \<and> port_recovery then confirm_ports R now info desired actual faults plan1
              else returnS plan1) (\<lambda>plan2.
       bindS (getHash R kDevice (syncdReconciliationKey (di_name info))) (\<lambda>control.
       if converged plan2 then close_reconciliation R J now info control
       else
         bindS (liftE (encodeDeviceCommand J (plan_full_snapshot plan2))) (\<lambda>signature.
         bindS (open_reconciliation R now info (batch_commands (plan_full_snapshot plan2)) signature
                  port_recovery state_recovery control) (\<lambda>opened.
         case opened of
           None \<Rightarrow> returnS ()
         | Some (command_id, new_control) \<Rightarrow>
             publish_reconciliation R J now info plan2 command_id new_control)))))))))"

end
