(* ===== verification/Syncd.thy ===== *)
theory Syncd
  imports Syncd_Reconcile "HOL-Library.Signed_Division"
begin

text \<open>
  The southbound daemon, last part: the service object and its operations. The state of a computation is
  the object: the members \<open>device_name_\<close> and \<open>device_generation_\<close> beside the world, which holds the Redis
  server and the device. Methods that do not touch the members are computations on the world.
\<close>

section \<open>The service object\<close>

record 's SyncdService =
  sy_world :: 's
  sy_device_name :: string
  sy_device_generation :: u64
  sy_pending_min_idle :: int

text \<open>Running a computation on the world.\<close>

definition worldS :: "('s, 'a) sexn \<Rightarrow> ('s SyncdService, 'a) sexn" where
  "worldS m sy = (case m (sy_world sy) of (r, s) \<Rightarrow> (r, sy\<lparr>sy_world := s\<rparr>))"

definition SyncdService_new :: "bool \<Rightarrow> int \<Rightarrow> 's \<Rightarrow> 's SyncdService result" where
  "SyncdService_new has_device idle world =
     (if \<not> has_device then Inl (Invalid_argument ''syncd device backend must not be null'')
      else if idle < 0 then Inl (Invalid_argument ''syncd pending minimum idle time must not be negative'')
      else Inr \<lparr>sy_world = world, sy_device_name = [], sy_device_generation = 0, sy_pending_min_idle = idle\<rparr>)"

definition set_identity :: "DeviceInfo \<Rightarrow> ('s SyncdService, unit) sexn" where
  "set_identity info = modifyS (\<lambda>sy. sy\<lparr>sy_device_name := di_name info, sy_device_generation := di_generation info\<rparr>)"

section \<open>Processing a command\<close>

definition empty_batch :: DeviceCommandBatch where
  "empty_batch = \<lparr>batch_commands = [], batch_options = default_ApplyOptions\<rparr>"

definition recoverPreparedBatch ::
  "'s redis_api \<Rightarrow> 'j json_api \<Rightarrow> EventEnvelope \<Rightarrow> ('s, DeviceCommandBatch) sexn" where
  "recoverPreparedBatch R J command_event =
     (if \<not> ends_with (ev_event_id command_event) '':command'' then returnS empty_batch
      else
        bindS (getHash R kDevice (orchConfigBatchKey
                 (take (length (ev_event_id command_event) - 8) (ev_event_id command_event)))) (\<lambda>prepared.
        case map_of prepared ''payload'' of
          None \<Rightarrow> returnS empty_batch
        | Some payload \<Rightarrow> liftE (decodeDeviceCommand J payload)))"

definition isAlreadyProcessed :: "'s redis_api \<Rightarrow> EventEnvelope \<Rightarrow> ('s, bool) sexn" where
  "isAlreadyProcessed R command_event =
     bindS (getHash R kDevice (processedDeviceCommandKey (ev_event_id command_event))) (\<lambda>fs. returnS (fs \<noteq> []))"

definition syncd_acknowledge :: "'s redis_api \<Rightarrow> string \<Rightarrow> ('s, unit) sexn" where
  "syncd_acknowledge R message_id =
     bindS (acknowledge R kDevice kDeviceCommands kSyncdConsumerGroup message_id) (\<lambda>n.
     if n \<noteq> 1 then throwS (Runtime_error ''syncd failed to acknowledge processed device command'') else returnS ())"

text \<open>Whether a version record of this generation covers a version.\<close>

definition version_covers :: "u64 \<Rightarrow> u64 \<Rightarrow> (string, string) smap \<Rightarrow> bool result" where
  "version_covers generation version record =
     (case (map_of record ''last_successful_version'', map_of record ''device_generation'') of
        (Some last_text, Some generation_text) \<Rightarrow>
          bindE (stoull generation_text) (\<lambda>g.
          if g \<noteq> generation then Inr False
          else bindE (stoull last_text) (\<lambda>l. Inr (version \<le> l)))
      | _ \<Rightarrow> Inr False)"

fun all_covered :: "'s redis_api \<Rightarrow> u64 \<Rightarrow> string \<Rightarrow> ConnectionCommand list \<Rightarrow> ('s, bool) sexn" where
  "all_covered R generation device [] = returnS True"
| "all_covered R generation device (command # commands) =
     bindS (getHash R kDevice (syncdConnectionVersionKey device (cc_id command))) (\<lambda>record.
     bindS (liftE (version_covers generation (cc_desired_version command) record)) (\<lambda>covered.
     if covered then all_covered R generation device commands else returnS False))"

definition isStaleVersion ::
  "'s redis_api \<Rightarrow> u64 \<Rightarrow> EventEnvelope \<Rightarrow> DeviceCommandBatch \<Rightarrow> ('s, bool) sexn" where
  "isStaleVersion R generation command_event batch =
     (if syncd_isGenerationRecovery (ev_event_id command_event) \<or> syncd_isReconciliation (ev_event_id command_event)
      then returnS False
      else all_covered R generation (ev_device command_event) (batch_commands batch))"

text \<open>The version records that an applied batch leaves.\<close>

fun version_records ::
  "'s redis_api \<Rightarrow> u64 \<Rightarrow> EventEnvelope \<Rightarrow> ConnectionCommand list \<Rightarrow> ('s, (string \<times> (string, string) smap) list) sexn" where
  "version_records R generation command_event [] = returnS []"
| "version_records R generation command_event (command # commands) =
     (let version_key = syncdConnectionVersionKey (ev_device command_event) (cc_id command) in
      bindS (getHash R kDevice version_key) (\<lambda>existing.
      bindS (liftE (version_covers generation (cc_desired_version command) existing)) (\<lambda>covered.
      bindS (version_records R generation command_event commands) (\<lambda>records.
      returnS (if covered then records
               else (version_key, smap_of_list
                 [(''last_successful_version'', to_string_u64 (cc_desired_version command)),
                  (''last_command_id'', ev_event_id command_event),
                  (''device_generation'', to_string_u64 generation),
                  (''operation'', operationName (cc_operation command))]) # records)))))"

text \<open>The control and fault records a finished reconciliation leaves.\<close>

definition reconciliation_records ::
  "'s redis_api \<Rightarrow> ('s, u64) sexn \<Rightarrow> EventEnvelope \<Rightarrow> bool \<Rightarrow> ('s, (string \<times> (string, string) smap) list) sexn" where
  "reconciliation_records R now command_event applied =
     (let command_id = ev_event_id command_event;
          key = syncdReconciliationKey (ev_device command_event) in
      bindS (getHash R kDevice key) (\<lambda>control.
      bindS (if field_is control ''command_id'' command_id then
               bindS now (\<lambda>t.
               returnS [(key, put_fields [(''status'', if applied then ''APPLIED'' else ''FAILED''),
                                          (''completed_at_ns'', to_string_u64 t)] control)])
             else returnS []) (\<lambda>controls.
      if \<not> applied then returnS controls
      else
        thenS (incrementHashFieldsOnce R kCounters (syncdReconciliationSuccessCountersPublicationKey command_id)
                 [(''command_id'', command_id)] (deviceCountersKey (ev_device command_event))
                 [(''reconciliation_success_total'', 1)])
        (bindS (portFaults R (ev_device command_event)) (\<lambda>faults.
         bindS (stamp_matching now (\<lambda>fault. field_is fault ''command_id'' command_id)
                  (\<lambda>t fault. put_fields [(''status'', ''RECOVERED''), (''recovered_at_ns'', t)] fault) faults) (\<lambda>recovered.
         returnS (controls @ recovered)))))))"

definition markProcessed ::
  "'s redis_api \<Rightarrow> ('s, u64) sexn \<Rightarrow> u64 \<Rightarrow> EventEnvelope \<Rightarrow> DeviceCommandBatch \<Rightarrow> bool \<Rightarrow> ('s, unit) sexn" where
  "markProcessed R now generation command_event batch applied =
     bindS now (\<lambda>t.
     let processed = (processedDeviceCommandKey (ev_event_id command_event), smap_of_list
           [(''command_id'', ev_event_id command_event), (''device'', ev_device command_event),
            (''resource_id'', ev_resource_id command_event),
            (''desired_version'', to_string_u64 (ev_desired_version command_event)),
            (''processed_at_ns'', to_string_u64 t), (''applied'', bool_text applied)]) in
     bindS (if applied then version_records R generation command_event (batch_commands batch) else returnS []) (\<lambda>versions.
     bindS (if syncd_isReconciliation (ev_event_id command_event)
            then reconciliation_records R now command_event applied else returnS []) (\<lambda>others.
     putHashesAtomically R kDevice (processed # versions @ others))))"

text \<open>
  After a failed apply: if the device nevertheless shows exactly what the batch asks for, on ports that are
  up, the result becomes a success. \<open>None\<close> keeps the failure.
\<close>

fun confirm_commands ::
  "'s OcsDeviceApi \<Rightarrow> (string, AppliedConnection) smap \<Rightarrow> ConnectionCommand list \<Rightarrow>
   ('s, AppliedConnection list option) sexn" where
  "confirm_commands D actual_by_id [] = returnS (Some [])"
| "confirm_commands D actual_by_id (command # commands) =
     (let found = map_of actual_by_id (cc_id command) in
      if cc_operation command = kRemove then
        if found \<noteq> None then returnS None else confirm_commands D actual_by_id commands
      else
        (case found of
           None \<Rightarrow> returnS None
         | Some a \<Rightarrow>
             if ac_input_port a \<noteq> cc_input_port command \<or> ac_output_port a \<noteq> cc_output_port command \<or>
                ac_applied_version a \<noteq> cc_desired_version command
             then returnS None
             else
               bindS (api_getInputPortState D (cc_input_port command)) (\<lambda>input.
               bindS (api_getOutputPortState D (cc_output_port command)) (\<lambda>output.
               if portUnavailable input \<or> portUnavailable output then returnS None
               else
                 bindS (confirm_commands D actual_by_id commands) (\<lambda>confirmed.
                 returnS (map_option ((#) a) confirmed))))))"

definition confirmAppliedResult ::
  "'s OcsDeviceApi \<Rightarrow> DeviceCommandBatch \<Rightarrow> ApplyResult \<Rightarrow> ('s, ApplyResult) sexn" where
  "confirmAppliedResult D batch res =
     (if ApplyResult_ok res \<or> batch_commands batch = [] then returnS res
      else
        catch_std
          (bindS (api_getConnections D) (\<lambda>actual.
           bindS (confirm_commands D (index_by_id actual) (batch_commands batch)) (\<lambda>confirmed.
           returnS (case confirmed of
               None \<Rightarrow> res
             | Some connections \<Rightarrow> \<lparr>ar_error = Error_success, ar_connections = connections\<rparr>))))
          (\<lambda>_. returnS res))"

section \<open>Publishing the outcome\<close>

text \<open>A port fault that leaves a confirmed connection as it is.\<close>

definition confirmed_unchanged ::
  "ConnectionCommand \<Rightarrow> ApplyResult \<Rightarrow> (string, string) smap \<Rightarrow> bool result" where
  "confirmed_unchanged command res previous =
     (if err_code (ar_error res) = kPortDown \<and> cc_operation command = kUpsert \<and> was_present previous \<and>
         field_is previous ''apply_status'' ''ACTIVE'' \<and> has_field previous ''input_port'' then
        bindE (syncd_snapshotPort previous ''input_port'') (\<lambda>input.
        if input \<noteq> cc_input_port command \<or> \<not> has_field previous ''output_port'' then Inr False
        else
          bindE (syncd_snapshotPort previous ''output_port'') (\<lambda>output.
          if output \<noteq> cc_output_port command \<or> \<not> has_field previous ''desired_version'' then Inr False
          else
            bindE (bindE (map_at previous ''desired_version'') stoull) (\<lambda>desired.
            if desired \<noteq> cc_desired_version command \<or> \<not> has_field previous ''applied_version'' then Inr False
            else bindE (bindE (map_at previous ''applied_version'') stoull) (\<lambda>applied.
                 Inr (applied = cc_desired_version command)))))
      else Inr False)"

text \<open>The new state hash of a connection and the operation of its event.\<close>

definition outcome_state ::
  "EventEnvelope \<Rightarrow> ConnectionCommand \<Rightarrow> ApplyResult \<Rightarrow> (string, string) smap \<Rightarrow>
   ((string, string) smap \<times> string) result" where
  "outcome_state command_event command res stored =
     (if ApplyResult_ok res \<and> cc_operation command = kRemove then Inr ([], ''REMOVE'')
      else if \<not> ApplyResult_ok res then
        let base = (if stored \<noteq> [] then stored
                    else smap_of_list
                      [(''device'', ev_device command_event), (''id'', cc_id command),
                       (''input_port'', to_string_u16 (cc_input_port command)),
                       (''output_port'', to_string_u16 (cc_output_port command)),
                       (''applied_version'', ''0''), (''actual_present'', ''false'')]) in
        Inr (put_fields
               [(''desired_version'', to_string_u64 (cc_desired_version command)), (''apply_status'', ''FAILED''),
                (''last_error_code'', ErrorCode_toString (err_code (ar_error res))),
                (''last_error_message'', err_message (ar_error res))] base, ''UPSERT'')
      else
        (case find (\<lambda>c. ac_id c = cc_id command) (ar_connections res) of
           None \<Rightarrow> Inl (Runtime_error ''successful device apply omitted connection result'')
         | Some applied \<Rightarrow>
             Inr (connection_fields (ev_device command_event) (cc_id command) (cc_input_port command)
                    (cc_output_port command) (cc_desired_version command) (ac_applied_version applied) True ''ACTIVE''
                    (ErrorCode_toString (err_code (ar_error res))) (err_message (ar_error res)), ''UPSERT'')))"

text \<open>A publication that only leaves its marker, and the change its marker records.\<close>

definition mark_unchanged ::
  "'s redis_api \<Rightarrow> EventEnvelope \<Rightarrow> ConnectionCommand \<Rightarrow> string \<Rightarrow> ('s, int) sexn" where
  "mark_unchanged R command_event command reason =
     (let publication_key = syncdStatePublicationKey (ev_event_id command_event) (cc_id command) in
      thenS (putHashIfAbsent R kState publication_key
               (smap_of_list [(''command_id'', ev_event_id command_event), (''connection_id'', cc_id command),
                  (''active_delta'', ''0''), (reason, ''true'')]))
      (bindS (getHash R kState publication_key) (\<lambda>stored.
       liftE (bindE (map_at stored ''active_delta'') stoll))))"

definition publish_command_state ::
  "'s redis_api \<Rightarrow> 'j json_api \<Rightarrow> ('s, u64) sexn \<Rightarrow> EventEnvelope \<Rightarrow> ApplyResult \<Rightarrow> ConnectionCommand \<Rightarrow> ('s, int) sexn" where
  "publish_command_state R J now command_event res command =
     (let publication_key = syncdStatePublicationKey (ev_event_id command_event) (cc_id command);
          state_key = connectionStateKey (ev_device command_event) (cc_id command) in
      bindS (getHash R kState publication_key) (\<lambda>published.
      if published \<noteq> [] then liftE (bindE (map_at published ''active_delta'') stoll)
      else
        bindS (getHash R kState state_key) (\<lambda>previous.
        bindS (liftE (case map_of previous ''desired_version'' of
            None \<Rightarrow> Inr False
          | Some t \<Rightarrow> bindE (stoull t) (\<lambda>v. Inr (v > cc_desired_version command)))) (\<lambda>superseded.
        if superseded then mark_unchanged R command_event command ''superseded''
        else
          bindS (liftE (confirmed_unchanged command res previous)) (\<lambda>unchanged.
          if unchanged then mark_unchanged R command_event command ''confirmed_unchanged''
          else
            bindS (if \<not> ApplyResult_ok res then getHash R kState state_key else returnS []) (\<lambda>stored.
            bindS (liftE (outcome_state command_event command res stored)) (\<lambda>(state, operation).
            bindS now (\<lambda>t.
            bindS (liftE (statePayload J state)) (\<lambda>payload.
            let is_active = (if ApplyResult_ok res then cc_operation command \<noteq> kRemove else was_present previous);
                delta = active_change (was_present previous) is_active in
            bindS (replaceHashAndAppendEventOnce R kState publication_key
                     (smap_of_list [(''command_id'', ev_event_id command_event), (''connection_id'', cc_id command),
                        (''active_delta'', to_string_int delta)])
                     state_key state kStateEvents
                     (new_event (ev_event_id command_event @ '':state:'' @ cc_id command) (ev_request_id command_event) t
                        (ev_device command_event) ''connection'' (cc_id command) operation
                        (cc_desired_version command) payload)) (\<lambda>published_now.
            if published_now then returnS delta
            else bindS (getHash R kState publication_key) (\<lambda>marker.
                 liftE (bindE (map_at marker ''active_delta'') stoll))))))))))))"

definition publishState ::
  "'s redis_api \<Rightarrow> 'j json_api \<Rightarrow> ('s, u64) sexn \<Rightarrow> EventEnvelope \<Rightarrow> DeviceCommandBatch \<Rightarrow> ApplyResult \<Rightarrow> ('s, int) sexn" where
  "publishState R J now command_event batch res =
     bindS (mapS (publish_command_state R J now command_event res) (batch_commands batch)) (\<lambda>deltas.
     returnS (sum_list deltas))"

definition publish_command_result ::
  "'s redis_api \<Rightarrow> 'j json_api \<Rightarrow> ('s, u64) sexn \<Rightarrow> EventEnvelope \<Rightarrow> ApplyResult \<Rightarrow> ConnectionCommand \<Rightarrow> ('s, unit) sexn" where
  "publish_command_result R J now command_event res command =
     bindS (getHash R kState (syncdStatePublicationKey (ev_event_id command_event) (cc_id command))) (\<lambda>publication.
     let command_result =
       (if field_is publication ''confirmed_unchanged'' ''true''
        then \<lparr>ar_error = Error_success,
              ar_connections = [\<lparr>ac_id = cc_id command, ac_input_port = cc_input_port command,
                ac_output_port = cc_output_port command, ac_applied_version = cc_desired_version command\<rparr>]\<rparr>
        else res) in
     bindS now (\<lambda>t.
     bindS (liftE (resultPayload J command_result (ev_event_id command_event))) (\<lambda>payload.
     thenS (appendEventOnce R kDevice (syncdResultPublicationKey (ev_event_id command_event) (cc_id command))
              (smap_of_list [(''command_id'', ev_event_id command_event), (''connection_id'', cc_id command)])
              kDeviceResults
              (new_event (ev_event_id command_event @ '':result:'' @ cc_id command) (ev_request_id command_event) t
                 (ev_device command_event) ''connection'' (cc_id command) ''APPLY_RESULT''
                 (cc_desired_version command) payload))
     (returnS ()))))"

definition publishResult ::
  "'s redis_api \<Rightarrow> 'j json_api \<Rightarrow> ('s, u64) sexn \<Rightarrow> EventEnvelope \<Rightarrow> DeviceCommandBatch \<Rightarrow> ApplyResult \<Rightarrow> ('s, unit) sexn" where
  "publishResult R J now command_event batch res =
     (if batch_commands batch = [] then
        bindS now (\<lambda>t.
        bindS (liftE (resultPayload J res (ev_event_id command_event))) (\<lambda>payload.
        thenS (appendEventOnce R kDevice
                 (syncdResultPublicationKey (ev_event_id command_event) (ev_resource_id command_event))
                 (smap_of_list [(''command_id'', ev_event_id command_event),
                    (''connection_id'', ev_resource_id command_event)])
                 kDeviceResults
                 (new_event (ev_event_id command_event @ '':result'') (ev_request_id command_event) t
                    (ev_device command_event) (ev_resource_type command_event) (ev_resource_id command_event)
                    ''APPLY_RESULT'' (ev_desired_version command_event) payload))
        (returnS ())))
      else forS (batch_commands batch) (publish_command_result R J now command_event res))"

section \<open>The command handler\<close>

definition decode_or_recover ::
  "'s redis_api \<Rightarrow> 'j json_api \<Rightarrow> EventEnvelope \<Rightarrow> ('s, DeviceCommandBatch) sexn" where
  "decode_or_recover R J event =
     catch_std
       (bindS (liftE (decodeDeviceCommand J (ev_payload event))) (\<lambda>batch.
        returnS (batch\<lparr>batch_options := (batch_options batch)\<lparr>opt_operation_id := ev_event_id event\<rparr>\<rparr>)))
       (\<lambda>error.
        bindS (catch_std (recoverPreparedBatch R J event) (\<lambda>_. returnS empty_batch)) (\<lambda>batch.
        bindS (liftE (durableResultPayload J
                 \<lparr>ar_error = \<lparr>err_code = kProtocolMalformed, err_message = what error\<rparr>, ar_connections = []\<rparr>)) (\<lambda>payload.
        thenS (putHash R kDevice (deviceApplyResultKey (ev_event_id event))
                 (smap_of_list [(''payload'', payload), (''latency_ms'', ''0'')]))
        (returnS batch))))"

definition failed_apply :: "ErrorCode \<Rightarrow> string \<Rightarrow> ApplyResult" where
  "failed_apply code error_message = \<lparr>ar_error = \<lparr>err_code = code, err_message = error_message\<rparr>, ar_connections = []\<rparr>"

text \<open>The device call, and whether a batch was sent to the device.\<close>

definition apply_to_device ::
  "'s OcsDeviceApi \<Rightarrow> EventEnvelope \<Rightarrow> DeviceCommandBatch \<Rightarrow> ('s SyncdService, ApplyResult \<times> bool) sexn" where
  "apply_to_device D event batch =
     catch_std
       (bindS (worldS (api_getDeviceInfo D)) (\<lambda>info.
        thenS (set_identity info)
        (if di_name info \<noteq> ev_device event
         then returnS (failed_apply kDeviceNotReady ''command device does not match the connected device backend'', False)
         else
           bindS (catch_std (worldS (api_applyConnections D (batch_commands batch) (batch_options batch)))
                    (\<lambda>error. returnS (failed_apply kProtocolMalformed (what error)))) (\<lambda>res.
           returnS (res, True)))))
       (\<lambda>error. returnS (failed_apply kDeviceNotReady (what error), False))"

text \<open>
  The durable result of a command without one: \<open>None\<close> when the command is stale, in which case it is
  marked and acknowledged. The times are those of the steady clock, in nanoseconds.
\<close>

definition apply_command ::
  "'s redis_api \<Rightarrow> 'j json_api \<Rightarrow> 's OcsDeviceApi \<Rightarrow> ('s, u64) sexn \<Rightarrow> ('s, int) sexn \<Rightarrow> (string \<Rightarrow> ('s, unit) sexn) \<Rightarrow>
   StreamMessage \<Rightarrow> DeviceCommandBatch \<Rightarrow> ('s SyncdService, (string, string) smap option) sexn" where
  "apply_command R J D now steady after_phase message batch =
     (let event = msg_event message;
          attempt_key = deviceApplyAttemptKey (ev_event_id event);
          result_key = deviceApplyResultKey (ev_event_id event) in
      bindS (worldS (getHash R kDevice attempt_key)) (\<lambda>attempt.
      bindS (getS sy_device_generation) (\<lambda>generation.
      bindS (if attempt \<noteq> [] then returnS False else worldS (isStaleVersion R generation event batch)) (\<lambda>stale.
      if stale then
        thenS (worldS (markProcessed R now generation event batch False))
        (thenS (worldS (syncd_acknowledge R (msg_id message))) (returnS None))
      else
        bindS (worldS now) (\<lambda>t.
        bindS (liftE (encodeDeviceCommand J batch)) (\<lambda>encoded.
        thenS (worldS (putHashIfAbsent R kDevice attempt_key
                 (smap_of_list [(''command_id'', ev_event_id event), (''device'', ev_device event),
                    (''started_at_ns'', to_string_u64 t), (''payload'', encoded)])))
        (bindS (worldS steady) (\<lambda>apply_started.
         bindS (apply_to_device D event batch) (\<lambda>(res, apply_attempted).
         bindS (if apply_attempted \<and> \<not> ApplyResult_ok res then worldS (confirmAppliedResult D batch res)
                else returnS res) (\<lambda>final.
         thenS (worldS (after_phase ''device-apply''))
         (bindS (worldS steady) (\<lambda>apply_ended.
          let elapsed = (apply_ended - apply_started) sdiv 1000;
              latency_ms = (elapsed + 999) sdiv 1000 in
          bindS (liftE (durableResultPayload J final)) (\<lambda>payload.
          thenS (worldS (putHash R kDevice result_key
                   (smap_of_list [(''payload'', payload), (''latency_ms'', to_string_int latency_ms)])))
          (bindS (worldS (getHash R kDevice result_key)) (\<lambda>stored. returnS (Some stored))))))))))))))))"

definition counter_increments :: "ApplyResult \<Rightarrow> int \<Rightarrow> (string, int) smap" where
  "counter_increments res active_delta =
     (let base = smap_of_list
        [(''device_apply_total'', 1),
         (if ApplyResult_ok res then ''device_apply_success_total'' else ''device_apply_failure_total'', 1),
         (''active_connections'', active_delta)] in
      if err_code (ar_error res) = kApplyTimeout then insert_or_assign ''device_apply_timeout_total'' 1 base else base)"

text \<open>Everything that follows the durable result.\<close>

definition publish_outcome ::
  "'s redis_api \<Rightarrow> 'j json_api \<Rightarrow> ('s, u64) sexn \<Rightarrow> (string \<Rightarrow> ('s, unit) sexn) \<Rightarrow> u64 \<Rightarrow> EventEnvelope \<Rightarrow>
   DeviceCommandBatch \<Rightarrow> (string, string) smap \<Rightarrow> ('s, unit) sexn" where
  "publish_outcome R J now after_phase generation event batch stored =
     (case map_of stored ''payload'' of
        None \<Rightarrow> throwS (Runtime_error ''durable device apply result is missing payload'')
      | Some payload \<Rightarrow>
          bindS (liftE (decodeDurableResult J payload)) (\<lambda>res.
          thenS (after_phase ''apply-result'')
          (bindS (publishState R J now event batch res) (\<lambda>active_delta.
           thenS (after_phase ''state'')
           (bindS (liftE (case map_of stored ''latency_ms'' of None \<Rightarrow> Inr 0 | Some t \<Rightarrow> stoll t)) (\<lambda>latency.
            thenS (recordApplyCountersOnce R kCounters (syncdCountersPublicationKey (ev_event_id event))
                     [(''command_id'', ev_event_id event)] (deviceCountersKey (ev_device event))
                     (counter_increments res active_delta) latency)
            (thenS (after_phase ''counters'')
            (thenS (publishResult R J now event batch res)
            (thenS (after_phase ''result'')
            (thenS (markProcessed R now generation event batch (ApplyResult_ok res))
            (after_phase ''processed'')))))))))))"

definition processOne ::
  "'s redis_api \<Rightarrow> 'j json_api \<Rightarrow> 's OcsDeviceApi \<Rightarrow> ('s, u64) sexn \<Rightarrow> ('s, int) sexn \<Rightarrow> string \<Rightarrow>
   ('s, unit) sexn \<Rightarrow> (string \<Rightarrow> ('s, unit) sexn) \<Rightarrow> ('s SyncdService, bool) sexn" where
  "processOne R J D now steady consumer before_ack after_phase =
     bindS (getS sy_pending_min_idle) (\<lambda>idle.
     bindS (worldS (next_messages R kDevice kDeviceCommands kSyncdConsumerGroup consumer idle)) (\<lambda>messages.
     case messages of
       [] \<Rightarrow> returnS False
     | message # _ \<Rightarrow>
         let event = msg_event message;
             ack = thenS (worldS (syncd_acknowledge R (msg_id message))) (returnS True) in
         bindS (worldS (isAlreadyProcessed R event)) (\<lambda>processed.
         if processed then ack
         else
           bindS (worldS (decode_or_recover R J event)) (\<lambda>batch.
           bindS (worldS (getHash R kDevice (deviceApplyResultKey (ev_event_id event)))) (\<lambda>stored.
           bindS (if stored \<noteq> [] then returnS (Some stored)
                  else apply_command R J D now steady after_phase message batch) (\<lambda>applied.
           case applied of
             None \<Rightarrow> returnS True
           | Some result_fields \<Rightarrow>
               bindS (getS sy_device_generation) (\<lambda>generation.
               thenS (worldS (publish_outcome R J now after_phase generation event batch result_fields))
               (thenS (worldS before_ack) ack))))))))"

section \<open>Fault commands\<close>

definition run_fault ::
  "'j json_api \<Rightarrow> 's OcsDeviceApi \<Rightarrow> EventEnvelope \<Rightarrow> ('s, FaultResult) sexn" where
  "run_fault J D event =
     (if ev_resource_type event \<noteq> ''fault'' \<or> (ev_operation event \<noteq> ''INJECT'' \<and> ev_operation event \<noteq> ''CLEAR'')
      then throwS (Invalid_argument ''invalid fault command envelope'')
      else
        bindS (liftE (jparse J (ev_payload event))) (\<lambda>payload.
        bindS (liftE (bindE (jat J payload ''operation'') (jget_string J))) (\<lambda>operation.
        if operation \<noteq> ev_operation event
        then throwS (Invalid_argument ''fault payload operation does not match envelope'')
        else
          bindS (liftE (bindE (bindE (jat J payload ''fault_type'') (jget_string J)) managedFaultType)) (\<lambda>type.
          bindS (liftE (bindE (jat J payload ''port_id'') (jget_u64 J))) (\<lambda>raw_port.
          if raw_port > 65535 then throwS (Invalid_argument ''fault port is outside the supported range'')
          else if (type = kInputPortDown \<or> type = kOutputPortDown) \<and> raw_port = 0
          then throwS (Invalid_argument ''port fault requires a positive port'')
          else if type = kAll \<and> operation \<noteq> ''CLEAR''
          then throwS (Invalid_argument ''ALL is only valid for clear'')
          else
            bindS (api_getDeviceInfo D) (\<lambda>info.
            if di_name info \<noteq> ev_device event
            then returnS \<lparr>fr_error = \<lparr>err_code = kDeviceNotReady,
                   err_message = ''fault device does not match the connected backend''\<rparr>\<rparr>
            else
              let fault = \<lparr>fs_type = type, fs_port_id = ucast raw_port\<rparr> in
              if operation = ''INJECT'' then api_injectFault D fault else api_clearFault D fault))))))"

text \<open>The three \<open>catch\<close> clauses.\<close>

fun fault_error_of :: "exn \<Rightarrow> Error" where
  "fault_error_of (Json_error m) = \<lparr>err_code = kProtocolMalformed, err_message = m\<rparr>"
| "fault_error_of (Invalid_argument m) = \<lparr>err_code = kInvalidArgument, err_message = m\<rparr>"
| "fault_error_of e = \<lparr>err_code = kDeviceNotReady, err_message = what e\<rparr>"

definition processFaultOne ::
  "'s redis_api \<Rightarrow> 'j json_api \<Rightarrow> 's OcsDeviceApi \<Rightarrow> ('s, u64) sexn \<Rightarrow> int \<Rightarrow> string \<Rightarrow> ('s, bool) sexn" where
  "processFaultOne R J D now idle consumer =
     bindS (next_messages R kDevice kFaultCommands kFaultConsumerGroup consumer idle) (\<lambda>messages.
     case messages of
       [] \<Rightarrow> returnS False
     | message # _ \<Rightarrow>
         let event = msg_event message;
             result_key = faultResultKey (ev_event_id event) in
         bindS (getHash R kDevice result_key) (\<lambda>stored.
         thenS
           (if stored \<noteq> [] then returnS ()
            else
              bindS (catch_std (run_fault J D event) (\<lambda>error. returnS \<lparr>fr_error = fault_error_of error\<rparr>)) (\<lambda>res.
              bindS now (\<lambda>t.
              thenS (putHashIfAbsent R kDevice result_key
                       (smap_of_list
                          [(''command_id'', ev_event_id event), (''device'', ev_device event),
                           (''success'', bool_text (Error_ok (fr_error res))),
                           (''error_code'', ErrorCode_toString (err_code (fr_error res))),
                           (''error_message'', err_message (fr_error res)),
                           (''completed_at_ns'', to_string_u64 t)]))
              (returnS ()))))
         (bindS (acknowledge R kDevice kFaultCommands kFaultConsumerGroup (msg_id message)) (\<lambda>n.
          if n \<noteq> 1 then throwS (Runtime_error ''syncd failed to acknowledge processed fault command'')
          else returnS True))))"

section \<open>Polling and initialisation\<close>

text \<open>\<open>state.find(field) == end || stoull(..) != v\<close>.\<close>

definition number_differs :: "(string, string) smap \<Rightarrow> string \<Rightarrow> u64 \<Rightarrow> bool result" where
  "number_differs fs field v =
     (case map_of fs field of None \<Rightarrow> Inr True | Some t \<Rightarrow> bindE (stoull t) (\<lambda>n. Inr (n \<noteq> v)))"

definition check_identity :: "DeviceInfo \<Rightarrow> ('s SyncdService, unit) sexn" where
  "check_identity info =
     bindS (getS sy_device_name) (\<lambda>name.
     if name \<noteq> [] \<and> di_name info \<noteq> name
     then throwS (Runtime_error ''connected device identity changed after handshake'') else returnS ())"

definition recovery_pending :: "'s redis_api \<Rightarrow> DeviceInfo \<Rightarrow> ('s, bool) sexn" where
  "recovery_pending R info =
     bindS (getHash R kDevice (syncdGenerationRecoveryKey (di_name info) (di_generation info))) (\<lambda>recovery.
     case (field_is recovery ''recovery_required'' ''true'', map_of recovery ''command_id'') of
       (True, Some command_id) \<Rightarrow>
         bindS (getHash R kDevice (processedDeviceCommandKey command_id)) (\<lambda>processed. returnS (processed = []))
     | _ \<Rightarrow> returnS False)"

definition poll_body ::
  "'s redis_api \<Rightarrow> 'j json_api \<Rightarrow> 's OcsDeviceApi \<Rightarrow> ('s, u64) sexn \<Rightarrow> (double \<Rightarrow> string) \<Rightarrow> ('s SyncdService, bool) sexn" where
  "poll_body R J D now power_text =
     bindS (worldS (api_getDeviceInfo D)) (\<lambda>info.
     thenS (check_identity info)
     (bindS (worldS (api_getConnections D)) (\<lambda>actual.
      bindS (worldS (pollPortStates R J D now power_text info actual)) (\<lambda>effective_actual.
      bindS (worldS (getHash R kState (deviceStateKey (di_name info)))) (\<lambda>state.
      bindS (liftE (number_differs state ''device_generation'' (di_generation info))) (\<lambda>generation_changed.
      bindS (liftE (number_differs state ''actual_connection_count'' (of_nat (length actual)))) (\<lambda>count_changed.
      thenS (set_identity info)
      (thenS
        (if generation_changed then worldS (scheduleGenerationRecovery R J now info actual)
         else bindS (worldS (recovery_pending R info)) (\<lambda>pending.
              if pending then returnS () else worldS (reconcileDevice R J now info effective_actual)))
      (thenS
        (if generation_changed \<or> count_changed \<or> \<not> field_is state ''oper_status'' ''READY''
         then worldS (publishDeviceState R J now info (of_nat (length actual)) ''READY'' Error_success)
         else returnS ())
      (thenS (worldS (publishHwsimHeartbeat R now True)) (returnS True)))))))))))"

definition poll_failed ::
  "'s redis_api \<Rightarrow> 'j json_api \<Rightarrow> ('s, u64) sexn \<Rightarrow> exn \<Rightarrow> ('s SyncdService, bool) sexn" where
  "poll_failed R J now error =
     bindS (getS sy_device_name) (\<lambda>name.
     bindS (getS sy_device_generation) (\<lambda>generation.
     if name = [] then returnS False
     else
       bindS (worldS (getHash R kState (deviceStateKey name))) (\<lambda>state.
       thenS
         (if field_is state ''oper_status'' ''FAILED'' then returnS ()
          else
            bindS (liftE (case map_of state ''actual_connection_count'' of None \<Rightarrow> Inr 0 | Some t \<Rightarrow> stoull t)) (\<lambda>count.
            worldS (publishDeviceState R J now
              \<lparr>di_name = name, di_input_port_count = 0, di_output_port_count = 0, di_model = [],
               di_serial_number = [], di_firmware_version = [], di_generation = generation\<rparr>
              count ''FAILED'' \<lparr>err_code = kDeviceNotReady, err_message = what error\<rparr>)))
       (thenS (worldS (publishHwsimHeartbeat R now False)) (returnS False)))))"

definition pollDevice ::
  "'s redis_api \<Rightarrow> 'j json_api \<Rightarrow> 's OcsDeviceApi \<Rightarrow> ('s, u64) sexn \<Rightarrow> (double \<Rightarrow> string) \<Rightarrow> ('s SyncdService, bool) sexn" where
  "pollDevice R J D now power_text = catch_std (poll_body R J D now power_text) (poll_failed R J now)"

definition pollDeviceLiveness ::
  "'s redis_api \<Rightarrow> 's OcsDeviceApi \<Rightarrow> ('s, u64) sexn \<Rightarrow> ('s SyncdService, bool) sexn" where
  "pollDeviceLiveness R D now =
     catch_std
       (bindS (worldS (api_getDeviceInfo D)) (\<lambda>info.
        thenS (check_identity info)
        (thenS (worldS (publishHwsimHeartbeat R now True)) (returnS True))))
       (\<lambda>_. thenS (worldS (publishHwsimHeartbeat R now False)) (returnS False))"

definition initial_counters :: "(string, string) smap" where
  "initial_counters = map (\<lambda>k. (k, ''0''))
     [''active_alarms'', ''active_connections'', ''config_rejected_total'', ''config_requests_total'',
      ''device_apply_failure_total'', ''device_apply_success_total'', ''device_apply_timeout_total'',
      ''device_apply_total'', ''drift_detected_total'', ''last_apply_latency_ms'', ''max_apply_latency_ms'',
      ''port_down_total'', ''reconciliation_success_total'', ''reconciliation_total'']"

definition device_inventory :: "DeviceInfo \<Rightarrow> (string, string) smap" where
  "device_inventory info = smap_of_list
     [(''name'', di_name info), (''input_port_count'', to_string_u16 (di_input_port_count info)),
      (''output_port_count'', to_string_u16 (di_output_port_count info)), (''admin_status'', ''ENABLED''),
      (''model'', di_model info), (''serial_number'', di_serial_number info),
      (''firmware_version'', di_firmware_version info)]"

definition syncd_initialize ::
  "'s redis_api \<Rightarrow> 'j json_api \<Rightarrow> 's OcsDeviceApi \<Rightarrow> ('s, u64) sexn \<Rightarrow> (double \<Rightarrow> string) \<Rightarrow> ('s SyncdService, unit) sexn" where
  "syncd_initialize R J D now power_text =
     thenS (worldS (createConsumerGroup R kDevice kDeviceCommands kSyncdConsumerGroup ''0-0''))
     (thenS (worldS (createConsumerGroup R kDevice kFaultCommands kFaultConsumerGroup ''0-0''))
     (bindS (worldS (api_getDeviceInfo D)) (\<lambda>info.
      let key = deviceConfigKey (di_name info) in
      thenS (worldS (putHashIfAbsent R kConfig key (device_inventory info)))
      (bindS (worldS (getHash R kConfig key)) (\<lambda>configured.
       if \<not> field_is configured ''name'' (di_name info) \<or>
          \<not> field_is configured ''input_port_count'' (to_string_u16 (di_input_port_count info)) \<or>
          \<not> field_is configured ''output_port_count'' (to_string_u16 (di_output_port_count info))
       then throwS (Runtime_error ''configured device inventory does not match backend identity'')
       else
         thenS (set_identity info)
         (thenS (worldS (ensureHashFields R kCounters (deviceCountersKey (di_name info)) initial_counters))
         (bindS (worldS (api_getConnections D)) (\<lambda>actual.
          thenS (worldS (pollPortStates R J D now power_text info actual))
          (thenS (worldS (publishHwsimHeartbeat R now True))
          (bindS (worldS (getHash R kState (deviceStateKey (di_name info)))) (\<lambda>existing.
           let ready = worldS (publishDeviceState R J now info (of_nat (length actual)) ''READY'' Error_success) in
           if existing = [] then
             worldS (putHash R kState (deviceStateKey (di_name info))
               (device_fields info (nat_to_string (length actual)) ''READY'' Error_success))
           else
             bindS (liftE (number_differs existing ''device_generation'' (di_generation info))) (\<lambda>changed.
             if changed then thenS (worldS (scheduleGenerationRecovery R J now info actual)) ready
             else if \<not> field_is existing ''oper_status'' ''READY'' then ready
             else returnS ()))))))))))))"

end
