(* ===== verification/Syncd_Properties.thy ===== *)
theory Syncd_Properties
  imports Syncd Device_Properties
begin

text \<open>
  Properties of the southbound daemon. The first section shows that the service keeps every invariant of the
  world that the Redis calls, the device calls and the clock keep, whatever they return; the crossbar of the
  simulated device behind the service is such an invariant.
\<close>

section \<open>Invariants of the world\<close>

text \<open>Every command of a server, and every call of a backend, keeps a property of the state.\<close>

definition redis_keeps :: "('s \<Rightarrow> bool) \<Rightarrow> 's redis_api \<Rightarrow> bool" where
  "redis_keeps P R \<longleftrightarrow>
     (\<forall>db. keeps P (rd_ping R db) \<and> keeps P (rd_unwatch R db) \<and> keeps P (rd_flushdb R db)) \<and>
     (\<forall>db k. keeps P (rd_watch R db k) \<and> keeps P (rd_exists R db k) \<and> keeps P (rd_hgetall R db k) \<and>
        keeps P (rd_del R db k)) \<and>
     (\<forall>db k f. keeps P (rd_hget R db k f)) \<and>
     (\<forall>db cmds. keeps P (rd_exec R db cmds)) \<and>
     (\<forall>db k f n. keeps P (rd_hincrby R db k f n)) \<and>
     (\<forall>db stream fs. keeps P (rd_xadd R db stream fs)) \<and>
     (\<forall>db cursor pattern n. keeps P (rd_scan R db cursor pattern n)) \<and>
     (\<forall>db stream grp start. keeps P (rd_xgroup_create R db stream grp start)) \<and>
     (\<forall>db grp consumer stream n. keeps P (rd_xreadgroup R db grp consumer stream n)) \<and>
     (\<forall>db stream grp. keeps P (rd_pending_count R db stream grp)) \<and>
     (\<forall>db m. keeps P m \<longrightarrow> keeps P (rd_eval R db m)) \<and>
     (\<forall>db stream grp n. keeps P (rd_xpending R db stream grp n)) \<and>
     (\<forall>db stream grp consumer idle ids. keeps P (rd_xclaim R db stream grp consumer idle ids)) \<and>
     (\<forall>db stream grp i. keeps P (rd_xack R db stream grp i))"

text \<open>The calls of a backend, by what they may change: questions, faults with the arguments the daemon checks, batches.\<close>

definition backend_queries :: "('s \<Rightarrow> bool) \<Rightarrow> 's OcsDeviceApi \<Rightarrow> bool" where
  "backend_queries P D \<longleftrightarrow>
     keeps P (api_getDeviceInfo D) \<and> keeps P (api_getConnections D) \<and>
     (\<forall>i. keeps P (api_getInputPortState D i) \<and> keeps P (api_getOutputPortState D i))"

definition managed_fault :: "bool \<Rightarrow> FaultSpec \<Rightarrow> bool" where
  "managed_fault inject f \<longleftrightarrow>
     fs_type f \<noteq> kOutOfBandDrift \<and> (fs_type f \<in> {kInputPortDown, kOutputPortDown} \<longrightarrow> fs_port_id f \<noteq> 0) \<and>
     (inject \<longrightarrow> fs_type f \<noteq> kAll)"

definition backend_faults :: "('s \<Rightarrow> bool) \<Rightarrow> 's OcsDeviceApi \<Rightarrow> bool" where
  "backend_faults P D \<longleftrightarrow>
     (\<forall>f. managed_fault True f \<longrightarrow> keeps P (api_injectFault D f)) \<and>
     (\<forall>f. managed_fault False f \<longrightarrow> keeps P (api_clearFault D f))"

definition backend_keeps :: "('s \<Rightarrow> bool) \<Rightarrow> 's OcsDeviceApi \<Rightarrow> bool" where
  "backend_keeps P D \<longleftrightarrow>
     backend_queries P D \<and> (\<forall>f. keeps P (api_injectFault D f) \<and> keeps P (api_clearFault D f)) \<and>
     (\<forall>cs options. keeps P (api_applyConnections D cs options))"

lemma backend_keepsD: "backend_keeps P D \<Longrightarrow> backend_queries P D" "backend_keeps P D \<Longrightarrow> backend_faults P D"
  by (simp_all add: backend_keeps_def backend_faults_def)

lemma keeps_catch_std: "keeps P m \<Longrightarrow> (\<And>e. keeps P (h e)) \<Longrightarrow> keeps P (catch_std m h)"
  unfolding catch_std_def by (intro keeps_rules)

lemma keeps_worldS: "keeps P m \<Longrightarrow> keeps (\<lambda>sy. P (sy_world sy)) (worldS m)"
  by (auto simp: keeps_def worldS_def split: prod.splits)

lemma keeps_watch_loop: "keeps P body \<Longrightarrow> keeps P (watch_loop n message body)"
  by (induction n) (auto intro!: keeps_rules)

lemma keeps_redis_calls:
  assumes "redis_keeps P R"
  shows "keeps P (rd_unwatch R db)" "keeps P (rd_watch R db k)" "keeps P (rd_exists R db k)"
    "keeps P (rd_hgetall R db k)" "keeps P (rd_hget R db k f)" "keeps P (rd_exec R db cmds)"
    "keeps P (rd_scan R db cursor pattern n)" "keeps P (rd_xgroup_create R db stream grp start)"
    "keeps P (rd_xreadgroup R db grp consumer stream n)" "keeps P (rd_pending_count R db stream grp)"
    "keeps P m \<Longrightarrow> keeps P (rd_eval R db m)" "keeps P (rd_xpending R db stream grp n)"
    "keeps P (rd_xclaim R db stream grp consumer idle ids)" "keeps P (rd_xack R db stream grp i)"
  using assms by (simp_all add: redis_keeps_def)

lemma keeps_unless_marked:
  "redis_keeps P R \<Longrightarrow> keeps P body \<Longrightarrow> keeps P (unless_marked R db marker keys body)"
  unfolding unless_marked_def by (intro keeps_rules keeps_redis_calls; assumption)

lemma keeps_exec:
  "redis_keeps P R \<Longrightarrow> keeps P (exec_watched R db cmds)" "redis_keeps P R \<Longrightarrow> keeps P (exec_unwatched R db cmds)"
  unfolding exec_watched_def exec_unwatched_def by (intro keeps_rules keeps_redis_calls; assumption)+

lemma keeps_scan_loop: "redis_keeps P R \<Longrightarrow> keeps P (scan_loop R db pattern bound n cursor acc)"
  by (induction n arbitrary: cursor acc) (auto intro!: keeps_rules keeps_redis_calls split: prod.splits)

lemma keeps_repository_calls:
  assumes "redis_keeps P R"
  shows "keeps P (getHash R db key)" "keeps P (putHash R db key fs)" "keeps P (putHashIfAbsent R db key fs)"
    "keeps P (replaceHashAndAppendEvent R db key fs stream event)"
    "keeps P (replaceHashAndAppendEventOnce R db marker mf key fs stream event)"
    "keeps P (appendEventOnce R db marker mf stream event)"
    "keeps P (incrementHashFieldsOnce R db marker mf key incs)"
    "keeps P (recordApplyCountersOnce R db marker mf key incs latency)"
    "keeps P (putVersionedHashesAtomicallyIfMarkerAbsent R db marker mf hashes)"
    "keeps P (putHashesAtomically R db hashes)" "keeps P (ensureHashFields R db key fs)"
    "keeps P (scanKeys R db pattern bound)" "keeps P (next_messages R db stream grp consumer idle)"
    "keeps P (acknowledge R db stream grp i)" "keeps P (createConsumerGroup R db stream grp start)"
proof -
  note rules = keeps_rules keeps_redis_calls [OF assms] keeps_watch_loop keeps_unless_marked [OF assms]
    keeps_exec [OF assms] keeps_scan_loop [OF assms]
  show "keeps P (getHash R db key)" unfolding getHash_def by (intro rules)
  show "keeps P (putHash R db key fs)" unfolding putHash_def by (intro rules)
  show "keeps P (putHashIfAbsent R db key fs)" unfolding putHashIfAbsent_def by (intro rules)
  show "keeps P (replaceHashAndAppendEvent R db key fs stream event)"
    unfolding replaceHashAndAppendEvent_def by (intro rules)
  show "keeps P (replaceHashAndAppendEventOnce R db marker mf key fs stream event)"
    unfolding replaceHashAndAppendEventOnce_def by (intro rules)
  show "keeps P (appendEventOnce R db marker mf stream event)" unfolding appendEventOnce_def by (intro rules)
  show "keeps P (incrementHashFieldsOnce R db marker mf key incs)"
    unfolding incrementHashFieldsOnce_def by (intro rules)
  show "keeps P (recordApplyCountersOnce R db marker mf key incs latency)"
    unfolding recordApplyCountersOnce_def by (intro rules)
  show "keeps P (putVersionedHashesAtomicallyIfMarkerAbsent R db marker mf hashes)"
    unfolding putVersionedHashesAtomicallyIfMarkerAbsent_def version_allows_def by (intro rules)
  show "keeps P (putHashesAtomically R db hashes)" unfolding putHashesAtomically_def by (intro rules)
  show "keeps P (ensureHashFields R db key fs)" unfolding ensureHashFields_def by (intro rules)
  show "keeps P (scanKeys R db pattern bound)" unfolding scanKeys_def by (intro rules)
  show "keeps P (acknowledge R db stream grp i)" unfolding acknowledge_def by (intro rules)
  show "keeps P (next_messages R db stream grp consumer idle)"
    unfolding next_messages_def claimPending_def readGroupIfNoPending_def kReadGroupIfNoPendingScript_def Let_def
    by (intro rules)
  have "keeps P (case e of Reply_error m \<Rightarrow> if contains_text m ''BUSYGROUP'' then returnS () else throwS e
      | _ \<Rightarrow> throwS e)" for e by (cases e) auto
  then show "keeps P (createConsumerGroup R db stream grp start)"
    unfolding createConsumerGroup_def by (intro rules)
qed

lemma keeps_stamp_matching: "keeps P now \<Longrightarrow> keeps P (stamp_matching now p f faults)"
  by (induction now p f faults rule: stamp_matching.induct) (auto intro!: keeps_rules)

lemma keeps_portFaults: "redis_keeps P R \<Longrightarrow> keeps P (portFaults R device)"
  unfolding portFaults_def by (intro keeps_rules keeps_repository_calls; assumption)

lemma keeps_alarms:
  assumes "redis_keeps P R" "keeps P now"
  shows "keeps P (publishPortAlarm R J now info port activation_id n)"
    "keeps P (clearPortAlarm R J now info port activation_id)"
    "keeps P (publishDriftAlarm R J now info command_id version n)"
    "keeps P (clearDriftAlarm R J now info command_id version)"
    "keeps P (publishHwsimHeartbeat R now online)"
    "keeps P (publishDeviceState R J now info count status error)"
  unfolding publishPortAlarm_def clearPortAlarm_def publishDriftAlarm_def clearDriftAlarm_def
    publishHwsimHeartbeat_def publishDeviceState_def
  by (intro keeps_rules keeps_repository_calls [OF assms(1)] assms(2))+

lemma keeps_publishPortState:
  assumes "redis_keeps P R" "keeps P now"
  shows "keeps P (publishPortState R J now power_text info port n)"
  unfolding publishPortState_def publish_port_change_def track_port_fault_def
  by (intro keeps_rules keeps_repository_calls [OF assms(1)] keeps_alarms [OF assms] assms(2))
     (auto split: bool.splits option.splits intro!: keeps_rules keeps_repository_calls [OF assms(1)])

lemma keeps_backend_calls:
  assumes "backend_queries P D"
  shows "keeps P (api_getDeviceInfo D)" "keeps P (api_getConnections D)"
    "keeps P (api_getInputPortState D i)" "keeps P (api_getOutputPortState D i)"
  using assms by (simp_all add: backend_queries_def)

lemma keeps_pollPortStates:
  assumes "redis_keeps P R" "keeps P now" "backend_queries P D"
  shows "keeps P (pollPortStates R J D now power_text info actual)"
proof -
  have "keeps P (poll_loop fuel R J D now power_text info actual direction i count)" for fuel direction i count
  proof (induction fuel arbitrary: i)
    case (Suc fuel)
    then show ?case
      unfolding poll_loop.simps
      by (intro keeps_rules keeps_backend_calls [OF assms(3)] keeps_publishPortState [OF assms(1,2)])
  qed auto
  then show ?thesis unfolding pollPortStates_def by (intro keeps_rules)
qed

lemma keeps_recovery:
  assumes "redis_keeps P R" "keeps P now"
  shows "keeps P (scheduleGenerationRecovery R J now info actual)"
proof -
  have pub: "keeps P (publish_refreshed R J now info cid op version refreshed delta)" for cid op version refreshed delta
    unfolding publish_refreshed_def by (intro keeps_rules keeps_repository_calls [OF assms(1)] assms(2))
  have rec: "keeps P (recover_recorded R J now info keys by_id)" for keys by_id
    by (induction keys arbitrary: by_id)
       (auto simp: Let_def intro!: keeps_rules keeps_repository_calls [OF assms(1)] pub)
  have unrec: "keeps P (recover_unrecorded R J now info rest)" for rest
  proof (induction rest)
    case (Cons e rest)
    then show ?case by (cases e) (auto intro!: keeps_rules keeps_repository_calls [OF assms(1)] pub)
  qed auto
  show ?thesis
    unfolding scheduleGenerationRecovery_def
    by (intro keeps_rules keeps_repository_calls [OF assms(1)] assms(2) rec unrec)
qed

lemma keeps_reconcile:
  assumes "redis_keeps P R" "keeps P now"
  shows "keeps P (reconcileDevice R J now info actual)"
proof -
  note rules = keeps_rules keeps_repository_calls [OF assms(1)] assms(2) keeps_alarms [OF assms]
    keeps_stamp_matching [OF assms(2)] keeps_portFaults [OF assms(1)]
  have load: "keeps P (load_desired R keys)" for keys by (induction keys) (auto intro!: rules)
  have settle: "keeps P (settle_loop R keys by_id)" for keys by_id
    by (induction keys arbitrary: by_id) (auto intro!: rules)
  have fd: "keeps P (failed_desired R info by_id commands)" for by_id commands
    by (induction commands) (auto intro!: rules)
  have fr: "keeps P (failed_removals R ids by_id keys)" for ids by_id keys
    by (induction keys) (auto intro!: rules)
  have pf: "keeps P (port_failures R info by_id by_id' commands)" for by_id by_id' commands
    by (induction commands) (auto intro!: rules)
  have drift: "keeps P (publish_drift R J now info command_id drift)" for command_id drift
    unfolding publish_drift_def by (intro rules)
  have pub: "keeps P (publish_reconciliation R J now info plan command_id control)" for plan command_id control
    unfolding publish_reconciliation_def publishReconciliationState_def associatePortFaults_def by (intro rules drift)
  have cports: "keeps P (confirm_ports R now info desired actual faults plan)" for desired faults plan
    unfolding confirm_ports_def by (intro rules pf)
  have cfail: "keeps P (confirm_failures R info desired actual plan)" for desired plan
    unfolding confirm_failures_def by (intro rules fd fr)
  have close: "keeps P (close_reconciliation R J now info control)" for control
    unfolding close_reconciliation_def by (intro rules)
  have opened: "keeps P (open_reconciliation R now info commands signature b b' control)"
    for commands signature b b' control
    unfolding open_reconciliation_def by (intro rules)
  show ?thesis
    unfolding reconcileDevice_def loadDesiredConnections_def orchestrationSettled_def
    by (intro rules load settle cfail cports close opened pub)
qed

lemma keeps_mark:
  assumes "redis_keeps P R" "keeps P now"
  shows "keeps P (markProcessed R now generation event batch applied)" "keeps P (syncd_acknowledge R i)"
    "keeps P (isStaleVersion R generation event batch)" "keeps P (isAlreadyProcessed R event)"
proof -
  note rules = keeps_rules keeps_repository_calls [OF assms(1)] assms(2)
    keeps_stamp_matching [OF assms(2)] keeps_portFaults [OF assms(1)]
  have "keeps P (version_records R generation event commands)" for commands
    by (induction commands) (auto simp: Let_def intro!: rules)
  then show "keeps P (markProcessed R now generation event batch applied)"
    unfolding markProcessed_def reconciliation_records_def by (intro rules)
  show "keeps P (syncd_acknowledge R i)" unfolding syncd_acknowledge_def by (intro rules)
  have "keeps P (all_covered R generation device commands)" for device commands
    by (induction commands) (auto intro!: rules)
  then show "keeps P (isStaleVersion R generation event batch)" unfolding isStaleVersion_def by (intro rules)
  show "keeps P (isAlreadyProcessed R event)" unfolding isAlreadyProcessed_def by (intro rules)
qed

lemma keeps_publish_outcome:
  assumes "redis_keeps P R" "keeps P now" "\<And>p. keeps P (after_phase p)"
  shows "keeps P (publish_outcome R J now after_phase generation event batch stored)"
proof -
  note rules = keeps_rules keeps_repository_calls [OF assms(1)] assms(2,3) keeps_mark [OF assms(1,2)]
  have "keeps P (publish_command_state R J now event res command)" for res command
    unfolding publish_command_state_def mark_unchanged_def by (intro rules)
  then show ?thesis
    unfolding publish_outcome_def publishState_def publishResult_def publish_command_result_def by (intro rules)
qed

lemma keeps_confirm:
  assumes "backend_queries P D"
  shows "keeps P (confirmAppliedResult D batch res)"
proof -
  have "keeps P (confirm_commands D by_id commands)" for by_id commands
    by (induction commands) (auto simp: Let_def intro!: keeps_rules keeps_backend_calls [OF assms])
  then show ?thesis
    unfolding confirmAppliedResult_def by (intro keeps_rules keeps_catch_std keeps_backend_calls [OF assms])
qed

lemma keeps_members: "keeps (\<lambda>sy. P (sy_world sy)) (set_identity info)" "keeps (\<lambda>sy. P (sy_world sy)) (check_identity info)"
  unfolding set_identity_def check_identity_def by (auto intro!: keeps_rules keeps_modifyS)

lemma keeps_decode_or_recover: "redis_keeps P R \<Longrightarrow> keeps P (decode_or_recover R J event)"
  unfolding decode_or_recover_def recoverPreparedBatch_def
  by (intro keeps_rules keeps_catch_std keeps_repository_calls; assumption)

lemma keeps_processOne:
  assumes "redis_keeps P R" "keeps P now" "backend_keeps P D" "keeps P steady" "keeps P before_ack"
    "\<And>p. keeps P (after_phase p)"
  shows "keeps (\<lambda>sy. P (sy_world sy)) (processOne R J D now steady consumer before_ack after_phase)"
proof -
  note q = backend_keepsD(1) [OF assms(3)]
  note calls = keeps_repository_calls [OF assms(1)] keeps_mark [OF assms(1,2)] keeps_backend_calls [OF q]
    keeps_confirm [OF q] keeps_publish_outcome [OF assms(1,2,6)] keeps_decode_or_recover [OF assms(1)] assms(2,4-6)
  have "keeps P (api_applyConnections D cs options)" for cs options using assms(3) by (simp add: backend_keeps_def)
  then have app: "keeps (\<lambda>sy. P (sy_world sy)) (apply_to_device D event batch)" for event batch
    unfolding apply_to_device_def by (intro keeps_rules keeps_catch_std keeps_members keeps_worldS calls)
  show ?thesis
    unfolding processOne_def apply_command_def
    by (intro keeps_rules keeps_worldS calls app)
qed

lemma managed_faultI:
  assumes "managedFaultType v = Inr type" "\<not> 65535 < raw"
    "\<not> ((type = kInputPortDown \<or> type = kOutputPortDown) \<and> raw = 0)" "\<not> (type = kAll \<and> operation \<noteq> ''CLEAR'')"
    "inject \<Longrightarrow> operation = ''INJECT''"
  shows "managed_fault inject \<lparr>fs_type = type, fs_port_id = ucast (raw :: u64)\<rparr>"
proof -
  have "unat raw < 2 ^ 16" using assms(2) by (simp add: word_less_nat_alt)
  then have "unat (ucast raw :: PortId) = unat raw" by (simp add: unsigned_ucast_eq take_bit_nat_eq_self)
  then have "(ucast raw :: PortId) = 0 \<longleftrightarrow> raw = 0" by (metis unsigned_0 unsigned_eq_0_iff)
  with assms show ?thesis by (auto simp: managed_fault_def managedFaultType_def split: if_splits)
qed

lemma keeps_run_fault:
  assumes "backend_queries P D" "backend_faults P D"
  shows "keeps P (run_fault J D event)"
proof -
  have inject: "keeps P (api_injectFault D \<lparr>fs_type = type, fs_port_id = ucast raw\<rparr>)"
    if "managedFaultType v = Inr type" "\<not> 65535 < (raw :: u64)"
      "\<not> ((type = kInputPortDown \<or> type = kOutputPortDown) \<and> raw = 0)" "\<not> (type = kAll \<and> operation \<noteq> ''CLEAR'')"
      "operation = ''INJECT''" for v type raw operation
    using assms(2) managed_faultI [OF that(1-4), of True] that(5) by (simp add: backend_faults_def)
  have clear: "keeps P (api_clearFault D \<lparr>fs_type = type, fs_port_id = ucast raw\<rparr>)"
    if "managedFaultType v = Inr type" "\<not> 65535 < (raw :: u64)"
      "\<not> ((type = kInputPortDown \<or> type = kOutputPortDown) \<and> raw = 0)" "\<not> (type = kAll \<and> operation \<noteq> ''CLEAR'')"
    for v type raw operation
    using assms(2) managed_faultI [OF that, of False] by (simp add: backend_faults_def)
  have type: "yields P (liftE (bindE m managedFaultType)) (\<lambda>type. \<exists>v. managedFaultType v = Inr type)" for m
    by (rule yields_liftE) (auto simp: exn_simps)
  show ?thesis
    unfolding run_fault_def Let_def
    by (intro keeps_if keeps_pure keeps_bindS_yields [OF type] keeps_bindS keeps_backend_calls [OF assms(1)];
        elim exE; (rule inject | rule clear); assumption)
qed

lemma keeps_processFaultOne:
  assumes "redis_keeps P R" "keeps P now" "backend_queries P D" "backend_faults P D"
  shows "keeps P (processFaultOne R J D now idle consumer)"
  unfolding processFaultOne_def
  by (intro keeps_rules keeps_catch_std keeps_repository_calls [OF assms(1)] keeps_run_fault [OF assms(3,4)] assms(2))

lemma keeps_polls:
  assumes "redis_keeps P R" "keeps P now" "backend_queries P D"
  shows "keeps (\<lambda>sy. P (sy_world sy)) (pollDevice R J D now power_text)"
    "keeps (\<lambda>sy. P (sy_world sy)) (pollDeviceLiveness R D now)"
    "keeps (\<lambda>sy. P (sy_world sy)) (syncd_initialize R J D now power_text)"
proof -
  note calls = keeps_repository_calls [OF assms(1)] keeps_backend_calls [OF assms(3)]
    keeps_alarms [OF assms(1,2)] keeps_pollPortStates [OF assms] keeps_recovery [OF assms(1,2)]
    keeps_reconcile [OF assms(1,2)] assms(2)
  have pend: "keeps P (recovery_pending R info)" for info
    unfolding recovery_pending_def
    by (auto split: bool.splits option.splits intro!: keeps_rules keeps_repository_calls [OF assms(1)])
  show "keeps (\<lambda>sy. P (sy_world sy)) (pollDevice R J D now power_text)"
    unfolding pollDevice_def poll_body_def poll_failed_def
    by (intro keeps_rules keeps_catch_std keeps_members keeps_worldS calls pend)
  show "keeps (\<lambda>sy. P (sy_world sy)) (pollDeviceLiveness R D now)"
    unfolding pollDeviceLiveness_def by (intro keeps_rules keeps_catch_std keeps_members keeps_worldS calls)
  show "keeps (\<lambda>sy. P (sy_world sy)) (syncd_initialize R J D now power_text)"
    unfolding syncd_initialize_def by (intro keeps_rules keeps_members keeps_worldS calls)
qed

section \<open>The durable result\<close>

lemma decodeDurableConnection_json:
  "json_laws J \<Longrightarrow> decodeDurableConnection J (durableConnectionJson J c) = Inr c"
  by (simp add: decodeDurableConnection_def durableConnectionJson_def json_at json_get)

lemma durableConnectionJson_norm: "json_laws J \<Longrightarrow> jnorm J (durableConnectionJson J c) = durableConnectionJson J c"
  by (simp add: durableConnectionJson_def json_norm)

text \<open>C29: the durable result of an apply survives its storage: what a restarted daemon reads back is the
  result it stored, with its error and every connection.\<close>

theorem durable_result_roundtrip:
  assumes "json_laws J" "durableResultPayload J res = Inr stored"
  shows "decodeDurableResult J stored = Inr res"
proof -
  let ?v = "jobject J
     [(''success'', jbool J (ApplyResult_ok res)),
      (''error_code'', jstring J (ErrorCode_toString (err_code (ar_error res)))),
      (''error_message'', jstring J (err_message (ar_error res))),
      (''connections'', jarray J (map (durableConnectionJson J) (ar_connections res)))]"
  have p: "jparse J stored = Inr ?v"
    using json_parse_dump [OF assms(1)] assms
    by (simp add: durableResultPayload_def json_norm durableConnectionJson_norm comp_def)
  have "mapE (decodeDurableConnection J) (map (durableConnectionJson J) cs) = Inr cs" for cs
    by (induction cs) (simp_all add: decodeDurableConnection_json [OF assms(1)])
  with p assms(1) show ?thesis by (simp add: decodeDurableResult_def json_at json_get)
qed

theorem durable_result_roundtrip_witness:
  "\<exists>stored. durableResultPayload ref_json_api (failed_apply kApplyTimeout ''late'') = Inr stored \<and>
     decodeDurableResult ref_json_api stored = Inr (failed_apply kApplyTimeout ''late'')"
proof -
  obtain stored where "durableResultPayload ref_json_api (failed_apply kApplyTimeout ''late'') = Inr stored"
    by (simp add: durableResultPayload_def jdump_ref)
  with durable_result_roundtrip [OF json_laws_ref this] show ?thesis by blast
qed

section \<open>Confirming a failed apply\<close>

text \<open>A port that the device has reported as usable, in some state it went through.\<close>

definition reported_up :: "('s, PortState) sexn \<Rightarrow> bool" where
  "reported_up m \<longleftrightarrow> (\<exists>s port s'. m s = (Inr port, s') \<and> \<not> portUnavailable port)"

definition confirmed_by :: "'s OcsDeviceApi \<Rightarrow> AppliedConnection list \<Rightarrow> ConnectionCommand \<Rightarrow> bool" where
  "confirmed_by D actual c =
     (if cc_operation c = kRemove then cc_id c \<notin> ac_id ` set actual
      else applied_of c \<in> set actual \<and> reported_up (api_getInputPortState D (cc_input_port c)) \<and>
           reported_up (api_getOutputPortState D (cc_output_port c)))"

lemma map_of_index_by_id_Some: "map_of (index_by_id cs) i = find (\<lambda>c. ac_id c = i) cs"
proof -
  have "map_of (foldl (\<lambda>m c. emplace (ac_id c) c m) m cs) i =
      (case map_of m i of Some a \<Rightarrow> Some a | None \<Rightarrow> find (\<lambda>c. ac_id c = i) cs)" for m
    by (induction cs arbitrary: m) (auto split: option.splits)
  from this [of "[]"] show ?thesis by (simp add: index_by_id_def)
qed

lemma confirm_commands_sound:
  "confirm_commands D (index_by_id actual) commands s = (Inr (Some connections), s') \<Longrightarrow>
   (\<forall>c \<in> set commands. confirmed_by D actual c) \<and>
   connections = map applied_of (filter (\<lambda>c. cc_operation c \<noteq> kRemove) commands)"
proof (induction commands arbitrary: s connections s')
  case (Cons c commands)
  show ?case
  proof (cases "cc_operation c = kRemove")
    case True
    with Cons.prems have "find (\<lambda>a. ac_id a = cc_id c) actual = None"
      "confirm_commands D (index_by_id actual) commands s = (Inr (Some connections), s')"
      by (auto simp: map_of_index_by_id_Some returnS_def Let_def split: if_splits)
    with Cons.IH [OF this(2)] True show ?thesis by (auto simp: confirmed_by_def find_None_iff)
  next
    case False
    with Cons.prems obtain a rest s1 where a: "find (\<lambda>a. ac_id a = cc_id c) actual = Some a"
      "ac_input_port a = cc_input_port c" "ac_output_port a = cc_output_port c"
      "ac_applied_version a = cc_desired_version c" "connections = a # rest"
      "reported_up (api_getInputPortState D (cc_input_port c))" "reported_up (api_getOutputPortState D (cc_output_port c))"
      "confirm_commands D (index_by_id actual) commands s1 = (Inr (Some rest), s')"
      by (auto simp: map_of_index_by_id_Some returnS_def Let_def bindS_Inr reported_up_def
          split: option.splits if_splits) blast
    from a(1) have "a \<in> set actual" "ac_id a = cc_id c"
      by (auto simp: find_Some_iff)
    moreover from this(2) a(2-4) have "a = applied_of c" unfolding applied_of_def by (intro AppliedConnection.equality) simp_all
    ultimately have "applied_of c \<in> set actual" "a = applied_of c" by simp_all
    with Cons.IH [OF a(8)] a(5-7) False show ?thesis by (auto simp: confirmed_by_def)
  qed
qed (simp add: returnS_def)

text \<open>C28: a failed apply is turned into a success only on evidence. If the daemon reports a failed batch as
  applied, the device has just answered with a list of connections in which every UPSERT of the batch is
  present with its ports and version and every REMOVE is gone, it has reported both ports of every UPSERT as
  usable, and the connections in the result are exactly those the batch asks for, in its order; otherwise the
  failure is reported unchanged. No exception of a device call gets out.\<close>

theorem confirmation_is_sound:
  assumes "confirmAppliedResult D batch res s = (r, s')" "\<not> ApplyResult_ok res"
  shows "r = Inr res \<or> (\<exists>e. r = Inl e \<and> \<not> std_exception e) \<or>
    (\<exists>confirmed actual s1. r = Inr confirmed \<and> ApplyResult_ok confirmed \<and>
       api_getConnections D s = (Inr actual, s1) \<and>
       (\<forall>c \<in> set (batch_commands batch). confirmed_by D actual c) \<and>
       ar_connections confirmed = map applied_of (filter (\<lambda>c. cc_operation c \<noteq> kRemove) (batch_commands batch)))"
proof (cases "batch_commands batch = []")
  case True
  with assms show ?thesis by (simp add: confirmAppliedResult_def returnS_def)
next
  case False
  let ?m = "bindS (api_getConnections D) (\<lambda>actual.
     bindS (confirm_commands D (index_by_id actual) (batch_commands batch)) (\<lambda>confirmed.
     returnS (case confirmed of None \<Rightarrow> res
       | Some connections \<Rightarrow> \<lparr>ar_error = Error_success, ar_connections = connections\<rparr>)))"
  obtain q s1 where q: "?m s = (q, s1)" by (rule prod.exhaust)
  show ?thesis
  proof (cases q)
    case (Inl e)
    with q assms False show ?thesis
      by (auto simp: confirmAppliedResult_def catch_std_def catchS_def returnS_def throwS_def split: if_splits)
  next
    case (Inr x)
    with q assms False have x: "r = Inr x"
      by (simp add: confirmAppliedResult_def catch_std_def catchS_def)
    from q Inr obtain actual s2 confirmed s3 where c: "api_getConnections D s = (Inr actual, s2)"
      "confirm_commands D (index_by_id actual) (batch_commands batch) s2 = (Inr confirmed, s3)"
      "x = (case confirmed of None \<Rightarrow> res
         | Some connections \<Rightarrow> \<lparr>ar_error = Error_success, ar_connections = connections\<rparr>)"
      by (auto simp: bindS_Inr returnS_def)
    show ?thesis
    proof (cases confirmed)
      case (Some connections)
      with c confirm_commands_sound x show ?thesis by (fastforce simp: ApplyResult_ok_def)
    qed (use c x in simp)
  qed
qed

theorem confirmation_is_sound_witness:
  "\<exists>confirmed. fst (confirmAppliedResult InProcessSimBackend
       \<lparr>batch_commands = [upsert ''a'' 1 2 5], batch_options = atomic_op ''op9''\<rparr>
       (failed_apply kApplyTimeout ''late'') example_connected) = Inr confirmed \<and> ApplyResult_ok confirmed \<and>
     confirmed_by InProcessSimBackend (getConnections example_connected) (upsert ''a'' 1 2 5)"
proof -
  let ?batch = "\<lparr>batch_commands = [upsert ''a'' 1 2 5], batch_options = atomic_op ''op9''\<rparr>"
  let ?m = "confirmAppliedResult InProcessSimBackend ?batch (failed_apply kApplyTimeout ''late'') example_connected"
  have ok: "case fst ?m of Inr r \<Rightarrow> ApplyResult_ok r | Inl e \<Rightarrow> False" by code_simp
  have no: "\<not> ApplyResult_ok (failed_apply kApplyTimeout ''late'')" by code_simp
  obtain r s' where m: "?m = (r, s')" by (rule prod.exhaust)
  from confirmation_is_sound [OF m no] ok no show ?thesis
    unfolding m by (auto simp: InProcessSimBackend_def)
qed

section \<open>Polling the ports\<close>

text \<open>One pass of the loop over the ports of a direction.\<close>

definition poll_port ::
  "'s redis_api \<Rightarrow> 'j json_api \<Rightarrow> 's OcsDeviceApi \<Rightarrow> ('s, u64) sexn \<Rightarrow> (double \<Rightarrow> string) \<Rightarrow> DeviceInfo \<Rightarrow>
   AppliedConnection list \<Rightarrow> PortDirection \<Rightarrow> PortId \<Rightarrow> ('s, PortState) sexn" where
  "poll_port R J D now power_text info actual direction i =
     bindS (if direction = kInput then api_getInputPortState D i else api_getOutputPortState D i) (\<lambda>port.
     thenS (publishPortState R J now power_text info port (affected_by actual port)) (returnS port))"

definition unavailable_of :: "PortId list \<Rightarrow> PortState list \<Rightarrow> PortId list" where
  "unavailable_of ids ports = map fst (filter (\<lambda>(i, port). portUnavailable port) (zip ids ports))"

lemma counter_le:
  fixes count :: u16
  assumes "count \<noteq> 65535" "i \<le> unat count + 1"
  shows "(of_nat i :: u16) \<le> count \<longleftrightarrow> i \<le> unat count"
proof -
  have "unat count < 65535"
    using unsigned_less [of count, where 'a = nat] assms(1) by (simp add: word_unat_eq_iff)
  then have "unat (of_nat i :: u16) = i"
    using assms(2) by (simp add: unsigned_of_nat take_bit_nat_eq_self)
  then show ?thesis by (simp add: word_le_nat_alt)
qed

lemma poll_pass:
  "bindS (if direction = kInput then api_getInputPortState D i else api_getOutputPortState D i) (\<lambda>port.
     thenS (publishPortState R J now power_text info port (affected_by actual port))
       (bindS (bindS m (\<lambda>ports. returnS (unavailable_of ids ports))) (\<lambda>unavailable.
        returnS (if portUnavailable port then i # unavailable else unavailable)))) =
   bindS (bindS (poll_port R J D now power_text info actual direction i) (\<lambda>port.
          bindS m (\<lambda>ports. returnS (port # ports))))
     (\<lambda>ports. returnS (unavailable_of (i # ids) ports))"
  by (auto simp: poll_port_def thenS_def unavailable_of_def bindS_def returnS_def fun_eq_iff split: prod.splits sum.splits)

lemma poll_loop_mapS:
  assumes "count \<noteq> 65535" "unat count + 1 - i \<le> fuel" "i \<le> unat count + 1"
  shows "poll_loop fuel R J D now power_text info actual direction (of_nat i) count =
    bindS (mapS (poll_port R J D now power_text info actual direction) (map of_nat [i..<unat count + 1]))
      (\<lambda>ports. returnS (unavailable_of (map of_nat [i..<unat count + 1]) ports))"
  using assms(2,3)
proof (induction fuel arbitrary: i)
  case 0
  then have "i = unat count + 1" by simp
  moreover from this have "\<not> (of_nat i :: u16) \<le> count" using counter_le [OF assms(1), of i] by simp
  ultimately show ?case by (simp add: bindS_def returnS_def unavailable_of_def fun_eq_iff del: of_nat_add)
next
  case (Suc fuel)
  note le = counter_le [OF assms(1) Suc.prems(2)]
  show ?case
  proof (cases "i \<le> unat count")
    case True
    have ih: "poll_loop fuel R J D now power_text info actual direction (of_nat i + 1) count =
      bindS (mapS (poll_port R J D now power_text info actual direction) (map of_nat [Suc i..<unat count + 1]))
        (\<lambda>ports. returnS (unavailable_of (map of_nat [Suc i..<unat count + 1]) ports))"
      using Suc.IH [of "Suc i"] Suc.prems True by (simp add: add.commute)
    have upt: "[i..<unat count + 1] = i # [Suc i..<unat count + 1]" using True by (simp add: upt_conv_Cons)
    show ?thesis
      unfolding upt list.map mapS.simps poll_loop.simps ih poll_pass using le True by simp
  next
    case False
    then have "[i..<unat count + 1] = []" by simp
    then show ?thesis using le False by (simp add: bindS_def returnS_def unavailable_of_def fun_eq_iff)
  qed
qed

text \<open>With 65535 ports the condition always holds, so no pass of the loop ends it.\<close>

lemma poll_loop_wraps:
  "fst (poll_loop fuel R J D now power_text info actual direction i 65535 s) \<noteq> Inr unavailable"
proof (induction fuel arbitrary: i s unavailable)
  case 0
  have "i \<le> (65535 :: u16)" using unsigned_less [of i, where 'a = nat] by (simp add: word_le_nat_alt)
  then show ?case by (simp add: throwS_def)
next
  case (Suc fuel)
  have "i \<le> (65535 :: u16)" using unsigned_less [of i, where 'a = nat] by (simp add: word_le_nat_alt)
  with Suc show ?case
    by (auto simp: bindS_def thenS_def returnS_def split: prod.splits sum.splits if_splits) (metis fst_conv)+
qed

text \<open>C30: Polling the ports of a direction returns whenever every device and Redis call does, except for a
  device with 65535 ports. For any other count the loop visits the ports 1 to the count in order, each
  exactly once, and collects those that are not available; for 65535 ports the 16-bit counter wraps and the
  loop returns no value, whatever the device and Redis answer.\<close>

theorem polling_visits_each_port_once:
  "if count = 65535
   then \<forall>s unavailable.
     fst (poll_loop (2 ^ 16) R J D now power_text info actual direction 1 count s) \<noteq> Inr unavailable
   else poll_loop (2 ^ 16) R J D now power_text info actual direction 1 count =
     bindS (mapS (poll_port R J D now power_text info actual direction) (map of_nat [1..<unat count + 1]))
       (\<lambda>ports. returnS (unavailable_of (map of_nat [1..<unat count + 1]) ports))"
proof (cases "count = 65535")
  case False
  moreover have "unat count < 2 ^ 16" using unsigned_less [of count, where 'a = nat] by simp
  ultimately show ?thesis
    using poll_loop_mapS [of count 1 "2 ^ 16", unfolded of_nat_1] by (simp del: upt_Suc)
qed (simp only: if_True poll_loop_wraps not_False_eq_True simp_thms)

end
