(* ===== verification/Syncd_Durability.thy ===== *)
theory Syncd_Durability
  imports Orchestrator_Properties Syncd_Properties
begin

text \<open>
  What the daemon's durable records promise: a command whose result is stored is not sent to the device
  again.
\<close>

section \<open>A command with a durable result is not applied again\<close>

lemma bindS_cong_run:
  "(\<And>x s'. m s = (Inr x, s') \<Longrightarrow> f x s' = g x s') \<Longrightarrow> bindS m f s = bindS m g s"
  by (simp add: bindS_def split: prod.splits sum.splits)

lemma if_cong_run: "m s = n s \<Longrightarrow> (if b then k else m) s = (if b then k else n) s"
  by simp

lemma worldS_run: "worldS m sy = (r, sy') \<longleftrightarrow> (\<exists>s. m (sy_world sy) = (r, s) \<and> sy' = sy\<lparr>sy_world := s\<rparr>)"
  by (auto simp: worldS_def split: prod.splits)

lemma getHash_run:
  assumes "redis_laws R view" "getHash R db key s = (Inr fs, s')"
  shows "view s' = view s \<and> map_of fs = map_of (db_hashes (view s db) key)"
proof -
  from assms(2) obtain l where l: "rd_hgetall R db key s = (Inr l, s')" "fs = smap_of_list l"
    by (auto simp: getHash_def bindS_Inr returnS_def)
  with hgetall_law [OF assms(1) l(1)] silentD [OF silent_reads(4) [OF assms(1)] l(1)] show ?thesis
    by (simp add: map_of_smap_of_list)
qed

lemma putHash_run:
  assumes "redis_laws R view" "putHash R db key fs s = (Inr (), s')" "fs \<noteq> []"
  shows "db_hashes (view s' db) key \<noteq> []"
proof -
  from assms(2) have "rd_exec R db (replace_cmds key fs) s = (Inr True, s')"
    by (auto simp: putHash_def exec_unwatched_def bindS_Inr returnS_def throwS_def split: if_splits)
  with exec_law [OF assms(1)] have "commits view db (replace_cmds key fs) s s'" by blast
  with assms(3) show ?thesis
    by (simp add: commits_def replace_cmds_def apply_rcmds_def set_hash_def put_fields_not_Nil)
qed

lemma emplace_not_Nil: "emplace k v m \<noteq> []"
proof
  assume "emplace k v m = []"
  then have "map_of (emplace k v m) k = None" by (simp only: map_of.simps)
  then show False by (simp split: option.splits)
qed

text \<open>A command that cannot be decoded gets its result stored; so decoding leaves a stored result stored.\<close>

lemma decode_or_recover_stores:
  assumes "decode_or_recover R J event s = (Inr batch, s')" "decodeDeviceCommand J (ev_payload event) = Inl e"
  shows "\<exists>s1 fs. fs \<noteq> [] \<and> putHash R kDevice (deviceApplyResultKey (ev_event_id event)) fs s1 = (Inr (), s')"
proof -
  have "bindS (liftE (decodeDeviceCommand J (ev_payload event))) f s = (Inl e, s)" for f :: "_ \<Rightarrow> ('a, DeviceCommandBatch) sexn"
    using assms(2) by (simp add: bindS_def liftE_def)
  with assms(1) show ?thesis
    unfolding decode_or_recover_def
    by (subst (asm) catch_std_def)
       (auto simp: catchS_def bindS_Inr thenS_def throwS_def returnS_def smap_of_list_def split: if_splits,
        metis emplace_not_Nil)
qed

lemma decode_or_recover_keeps_result:
  assumes "redis_laws R view" "decode_or_recover R J event s = (Inr batch, s')"
    "db_hashes (view s kDevice) (deviceApplyResultKey (ev_event_id event)) \<noteq> []"
  shows "db_hashes (view s' kDevice) (deviceApplyResultKey (ev_event_id event)) \<noteq> []"
proof (cases "decodeDeviceCommand J (ev_payload event)")
  case (Inr b)
  with assms(2,3) show ?thesis
    by (auto simp: decode_or_recover_def catch_std_def catchS_def bindS_def liftE_def returnS_def)
next
  case (Inl e)
  from decode_or_recover_stores [OF assms(2) Inl] putHash_run [OF assms(1)] show ?thesis by blast
qed

text \<open>C12: once the durable result of a command is stored, handling the command again, after a crash at
  whatever point, does not touch the device: the whole run of the handler is the same for every device
  backend, so the device is neither asked to apply the batch a second time nor asked anything else.\<close>

theorem stored_result_not_reapplied:
  fixes sy :: "'s SyncdService"
  assumes "redis_laws R view"
    "next_messages R kDevice kDeviceCommands kSyncdConsumerGroup consumer (sy_pending_min_idle sy) (sy_world sy) =
       (Inr (message # rest), s)"
    "db_hashes (view s kDevice) (deviceApplyResultKey (ev_event_id (msg_event message))) \<noteq> []"
  shows "processOne R J D now steady consumer before_ack after_phase sy =
    processOne R J D' now steady consumer before_ack after_phase sy"
proof -
  let ?event = "msg_event message" and ?sy = "sy\<lparr>sy_world := s\<rparr>"
  let ?key = "deviceApplyResultKey (ev_event_id ?event)"
  have messages: "worldS (next_messages R kDevice kDeviceCommands kSyncdConsumerGroup consumer (sy_pending_min_idle sy)) sy =
      (Inr (message # rest), ?sy)"
    using assms(2) by (simp add: worldS_run)
  have bindS_get: "bindS (getS f) g sy = g (f sy) sy" for f :: "_ \<Rightarrow> 'x" and g :: "_ \<Rightarrow> ('s SyncdService, 'y) sexn"
    by (simp add: bindS_def getS_def)
  have bindS_messages: "bindS (worldS (next_messages R kDevice kDeviceCommands kSyncdConsumerGroup consumer
      (sy_pending_min_idle sy))) g sy = g (message # rest) ?sy" for g :: "_ \<Rightarrow> ('s SyncdService, 'y) sexn"
    by (simp add: bindS_def messages)
  have stored: "fs \<noteq> []" if "worldS (getHash R kDevice ?key) sy2 = (Inr fs, sy3)"
    "db_hashes (view (sy_world sy2) kDevice) ?key \<noteq> []" for fs sy2 sy3
    using that getHash_run [OF assms(1)] by (fastforce simp: worldS_run)
  have decoded: "db_hashes (view (sy_world sy2) kDevice) ?key \<noteq> []"
    if "worldS (isAlreadyProcessed R ?event) ?sy = (Inr p, sy1)" "worldS (decode_or_recover R J ?event) sy1 = (Inr b, sy2)"
    for p b sy1 sy2
  proof -
    have "silent view (isAlreadyProcessed R ?event)"
      unfolding isAlreadyProcessed_def by (intro silent_bindS silent_reading_calls [OF assms(1)] silent_pure)
    with that(1) have "view (sy_world sy1) = view s" by (auto simp: worldS_run dest: silentD)
    with that(2) assms(3) show ?thesis
      using decode_or_recover_keeps_result [OF assms(1), of J ?event "sy_world sy1"] by (auto simp: worldS_run)
  qed
  have present: "fs \<noteq> []"
    if "worldS (isAlreadyProcessed R ?event) ?sy = (Inr p, sy1)" "worldS (decode_or_recover R J ?event) sy1 = (Inr b, sy2)"
      "worldS (getHash R kDevice ?key) sy2 = (Inr fs, sy3)" for p b fs sy1 sy2 sy3
    by (rule stored [OF that(3) decoded [OF that(1,2)]])
  show ?thesis
    unfolding processOne_def bindS_get bindS_messages list.case Let_def
    by (rule bindS_cong_run, rule if_cong_run, (rule bindS_cong_run)+, frule (2) present, simp)
qed

text \<open>A backend without a device, and a server with a pending command whose result is stored.\<close>

definition unreachable_backend :: "string \<Rightarrow> 's OcsDeviceApi" where
  "unreachable_backend reason =
     (let broken = Runtime_error reason in
      \<lparr>api_getDeviceInfo = throwS broken, api_getHealth = throwS broken,
       api_applyConnections = (\<lambda>cs options. throwS broken), api_getConnections = throwS broken,
       api_getInputPortState = (\<lambda>i. throwS broken), api_getOutputPortState = (\<lambda>i. throwS broken),
       api_reset = (\<lambda>mode s. None), api_injectFault = (\<lambda>f. throwS broken), api_clearFault = (\<lambda>f. throwS broken)\<rparr>)"

definition example_delivered :: ref_redis_state where
  "example_delivered = empty_redis\<lparr>
     rr_dbs := (\<lambda>db. \<lparr>db_hashes = (\<lambda>k. if k = deviceApplyResultKey ''e1'' then [(''latency_ms'', ''0'')] else []),
                     db_streams = Map.empty\<rparr>),
     rr_pending := (\<lambda>db stream. if stream = kDeviceCommands then [(''1-0'', eventFields example_event)] else [])\<rparr>"

lemma example_delivered_message:
  "\<exists>s. next_messages ref_redis kDevice kDeviceCommands kSyncdConsumerGroup ''w'' 0 example_delivered =
     (Inr [\<lparr>msg_id = ''1-0'', msg_event = example_event\<rparr>], s) \<and>
     db_hashes (rr_dbs s kDevice) (deviceApplyResultKey (ev_event_id example_event)) \<noteq> []"
  by (simp add: next_messages_def claimPending_def claimable_def parse_items_def bindS_def getS_def liftE_def returnS_def
      ref_redis_def example_delivered_def empty_redis_def example_event_def parseEvent_eventFields)

theorem stored_result_not_reapplied_witness:
  "processOne ref_redis ref_json_api (unreachable_backend ''a'') (returnS 7) (returnS 0) ''w'' (returnS ()) (\<lambda>_. returnS ())
     \<lparr>sy_world = example_delivered, sy_device_name = [], sy_device_generation = 0, sy_pending_min_idle = 0\<rparr> =
   processOne ref_redis ref_json_api (unreachable_backend ''b'') (returnS 7) (returnS 0) ''w'' (returnS ()) (\<lambda>_. returnS ())
     \<lparr>sy_world = example_delivered, sy_device_name = [], sy_device_generation = 0, sy_pending_min_idle = 0\<rparr>"
proof -
  obtain s where "next_messages ref_redis kDevice kDeviceCommands kSyncdConsumerGroup ''w'' 0 example_delivered =
      (Inr [\<lparr>msg_id = ''1-0'', msg_event = example_event\<rparr>], s)"
    "db_hashes (rr_dbs s kDevice) (deviceApplyResultKey (ev_event_id example_event)) \<noteq> []"
    using example_delivered_message by blast
  then show ?thesis
    by (intro stored_result_not_reapplied [where message = "\<lparr>msg_id = ''1-0'', msg_event = example_event\<rparr>"
        and rest = "[]" and s = s, OF redis_laws_ref]) simp_all
qed

end
