(* ===== verification/System.thy ===== *)
theory System
  imports Orchestrator_Properties Syncd_Properties
begin

text \<open>
  The services together: one world of a Redis server and a device, on which orchestrator and daemon make
  their calls in any interleaving. The device is the simulated one behind the in-process backend.
\<close>

section \<open>A world of server and device\<close>

definition on_server :: "('r, 'a) sexn \<Rightarrow> ('r \<times> 'd, 'a) sexn" where
  "on_server m w = (case m (fst w) of (x, r) \<Rightarrow> (x, (r, snd w)))"

definition on_device :: "('d, 'a) sexn \<Rightarrow> ('r \<times> 'd, 'a) sexn" where
  "on_device m w = (case m (snd w) of (x, d) \<Rightarrow> (x, (fst w, d)))"

definition device_of_world :: "'d OcsDeviceApi \<Rightarrow> ('r \<times> 'd) OcsDeviceApi" where
  "device_of_world D =
     \<lparr>api_getDeviceInfo = on_device (api_getDeviceInfo D),
      api_getHealth = on_device (api_getHealth D),
      api_applyConnections = (\<lambda>cs options. on_device (api_applyConnections D cs options)),
      api_getConnections = on_device (api_getConnections D),
      api_getInputPortState = (\<lambda>i. on_device (api_getInputPortState D i)),
      api_getOutputPortState = (\<lambda>i. on_device (api_getOutputPortState D i)),
      api_reset = (\<lambda>mode w. map_option (\<lambda>(x, d). (x, (fst w, d))) (api_reset D mode (snd w))),
      api_injectFault = (\<lambda>f. on_device (api_injectFault D f)),
      api_clearFault = (\<lambda>f. on_device (api_clearFault D f))\<rparr>"

text \<open>A script runs on the server: the device it sees is the one at the call and is not changed.\<close>

definition server_of_world :: "'r redis_api \<Rightarrow> ('r \<times> 'd) redis_api" where
  "server_of_world R =
     \<lparr>rd_ping = (\<lambda>db. on_server (rd_ping R db)),
      rd_watch = (\<lambda>db k. on_server (rd_watch R db k)),
      rd_unwatch = (\<lambda>db. on_server (rd_unwatch R db)),
      rd_exists = (\<lambda>db k. on_server (rd_exists R db k)),
      rd_hget = (\<lambda>db k f. on_server (rd_hget R db k f)),
      rd_hgetall = (\<lambda>db k. on_server (rd_hgetall R db k)),
      rd_exec = (\<lambda>db cmds. on_server (rd_exec R db cmds)),
      rd_hincrby = (\<lambda>db k f n. on_server (rd_hincrby R db k f n)),
      rd_del = (\<lambda>db k. on_server (rd_del R db k)),
      rd_xadd = (\<lambda>db stream fs. on_server (rd_xadd R db stream fs)),
      rd_scan = (\<lambda>db cursor pattern n. on_server (rd_scan R db cursor pattern n)),
      rd_xgroup_create = (\<lambda>db stream grp start. on_server (rd_xgroup_create R db stream grp start)),
      rd_xreadgroup = (\<lambda>db grp consumer stream n. on_server (rd_xreadgroup R db grp consumer stream n)),
      rd_pending_count = (\<lambda>db stream grp. on_server (rd_pending_count R db stream grp)),
      rd_eval = (\<lambda>db m w. on_server (rd_eval R db (\<lambda>r. case m (r, snd w) of (x, w') \<Rightarrow> (x, fst w'))) w),
      rd_xpending = (\<lambda>db stream grp n. on_server (rd_xpending R db stream grp n)),
      rd_xclaim = (\<lambda>db stream grp consumer idle ids. on_server (rd_xclaim R db stream grp consumer idle ids)),
      rd_xack = (\<lambda>db stream grp i. on_server (rd_xack R db stream grp i)),
      rd_flushdb = (\<lambda>db. on_server (rd_flushdb R db))\<rparr>"

lemma on_server_device [simp]: "snd (snd (on_server m w)) = snd w"
  by (simp add: on_server_def split: prod.splits)

lemma keeps_on_server: "keeps (\<lambda>w. Q (snd w)) (on_server m)"
  by (simp add: keeps_def)

lemma keeps_on_device: "keeps Q m \<Longrightarrow> keeps (\<lambda>w. Q (snd w)) (on_device m)"
  by (auto simp: keeps_def on_device_def split: prod.splits)

lemma server_keeps_device: "redis_keeps (\<lambda>w. Q (snd w)) (server_of_world R)"
  by (simp add: redis_keeps_def server_of_world_def keeps_on_server) (simp add: keeps_def)

lemma device_keeps:
  "backend_keeps Q D \<Longrightarrow> backend_keeps (\<lambda>w. Q (snd w)) (device_of_world D)"
  by (simp add: backend_keeps_def backend_queries_def device_of_world_def keeps_on_device)

text \<open>The calls of the in-process backend are steps of the device, or reads.\<close>

lemma in_process_keeps: "backend_keeps device_reachable InProcessSimBackend"
proof -
  have step: "keeps device_reachable m" if "\<And>d r d'. m d = (r, d') \<Longrightarrow> device_step d d'" for m :: "(SimulatedOcsDevice, 'a) sexn"
    using that by (intro keepsI) (blast intro: device_reachable.stepped)
  have "keeps device_reachable (applyConnections cs options)" for cs options by (rule step) (rule apply_step)
  moreover have "keeps device_reachable (injectFault f)" "keeps device_reachable (clearFault f)" for f
    by (rule step, erule inject_step) (rule step, erule clear_step)
  ultimately show ?thesis by (simp add: backend_keeps_def backend_queries_def InProcessSimBackend_def keeps_def)
qed

section \<open>The orchestrator keeps what the server keeps\<close>

lemma keeps_orch_step:
  assumes "redis_keeps P R" "keeps P now" "\<And>p. keeps P (after_phase p)"
  shows "keeps P (orch_step R J now self after_phase call)"
proof -
  note rules = keeps_rules keeps_repository_calls [OF assms(1)] assms(2,3)
  have alarms: "keeps P (publishTimeoutAlarm R J now event error_message)"
    "keeps P (clearTimeoutAlarm R J now event)" for event error_message
    unfolding publishTimeoutAlarm_def clearTimeoutAlarm_def by (intro rules)+
  have ack: "keeps P (ack_true R db stream grp message)" for db stream grp message
    unfolding ack_true_def by (intro rules)
  have snap: "keeps P (loadDesiredSnapshot R event)" for event
    unfolding loadDesiredSnapshot_def by (intro rules)
  have sel: "keeps P (select_commands R event commands)" for event commands
    by (induction commands) (auto intro!: rules snap)
  have tapp: "keeps P (timeout_applications R event command_id error_message metadata commands)"
    for event command_id error_message metadata commands by (induction commands) (auto intro!: rules)
  have rapp: "keeps P (retry_applications R event cid fid attempt started commands)"
    for event cid fid attempt started commands by (induction commands) (auto intro!: rules)
  have "keeps P (processConfigOne R J now self consumer after_phase)" for consumer
    unfolding processConfigOne_def prepare_batch_def publish_batch_def start_application_def
    by (intro rules ack sel)
  moreover have "keeps P (handleTimeoutResult R J now self message command_id error_message after_phase)"
    for message command_id error_message
    unfolding handleTimeoutResult_def load_metadata_def timeout_metadata_def schedule_retry_event_def
    by (intro rules tapp alarms)
  then have "keeps P (processResultOne R J now self consumer after_phase)" for consumer
    unfolding processResultOne_def applyResult_def publish_result_def by (intro rules ack alarms)
  moreover have "keeps P (processRetryOne R J now self consumer after_phase)" for consumer
    unfolding processRetryOne_def publish_retry_def by (intro rules ack rapp)
  ultimately show ?thesis by (cases call) simp_all
qed

section \<open>Runs of the system\<close>

text \<open>The calls of the two processes. The hooks the tests install are left out.\<close>

datatype system_call =
    OrchCall orch_call
  | SyncdInitialize
  | SyncdPoll
  | SyncdLiveness
  | SyncdCommand string
  | SyncdFault string

type_synonym 'r system = "('r \<times> SimulatedOcsDevice) SyncdService"

fun system_step ::
  "'r redis_api \<Rightarrow> 'j json_api \<Rightarrow> ('r, u64) sexn \<Rightarrow> ('r, int) sexn \<Rightarrow> (double \<Rightarrow> string) \<Rightarrow> OrchestratorService \<Rightarrow>
   system_call \<Rightarrow> 'r system \<Rightarrow> 'r system" where
  "system_step R J now steady power_text orch (OrchCall call) sy =
     snd (worldS (orch_step (server_of_world R) J (on_server now) orch (\<lambda>_. returnS ()) call) sy)"
| "system_step R J now steady power_text orch SyncdInitialize sy =
     snd (syncd_initialize (server_of_world R) J (device_of_world InProcessSimBackend) (on_server now) power_text sy)"
| "system_step R J now steady power_text orch SyncdPoll sy =
     snd (pollDevice (server_of_world R) J (device_of_world InProcessSimBackend) (on_server now) power_text sy)"
| "system_step R J now steady power_text orch SyncdLiveness sy =
     snd (pollDeviceLiveness (server_of_world R) (device_of_world InProcessSimBackend) (on_server now) sy)"
| "system_step R J now steady power_text orch (SyncdCommand consumer) sy =
     snd (processOne (server_of_world R) J (device_of_world InProcessSimBackend) (on_server now) (on_server steady)
            consumer (returnS ()) (\<lambda>_. returnS ()) sy)"
| "system_step R J now steady power_text orch (SyncdFault consumer) sy =
     snd (worldS (processFaultOne (server_of_world R) J (device_of_world InProcessSimBackend) (on_server now)
            (sy_pending_min_idle sy) consumer) sy)"

lemma system_step_reachable:
  assumes "device_reachable (snd (sy_world sy))"
  shows "device_reachable (snd (sy_world (system_step R J now steady power_text orch call sy)))"
proof -
  note r = server_keeps_device [where Q = device_reachable and R = R]
    and n = keeps_on_server [where Q = device_reachable and m = now]
    and d = device_keeps [OF in_process_keeps]
  note q = backend_keepsD [OF d]
  have run: "keeps (\<lambda>sy. device_reachable (snd (sy_world sy))) m \<Longrightarrow> device_reachable (snd (sy_world (snd (m sy))))"
    for m :: "('a system, bool) sexn"
    using assms by (simp add: keeps_def)
  show ?thesis
  proof (cases call)
    case SyncdInitialize
    then show ?thesis using assms keeps_polls(3) [OF r n q(1), of J power_text] by (simp add: keeps_def)
  qed (simp_all only: system_step.simps,
      (intro run keeps_worldS keeps_orch_step keeps_polls keeps_processOne keeps_processFaultOne r n d q keeps_on_server
         keeps_pure)+)
qed

text \<open>The crossbar stays one to one in the whole system. Whatever the Redis server, the JSON library
  and the clocks do (no hypothesis restricts them: they may lose data, throw or answer nonsense), and in
  whatever order the orchestrator and the southbound daemon handle configuration events, results, retries,
  device commands, fault commands and polls, no two connections of the device share an input or an output
  port.\<close>

lemma system_keeps_crossbar:
  assumes "device_reachable (snd (sy_world sy))"
    "d = snd (sy_world (foldl (\<lambda>sy call. system_step R J now steady power_text orch call sy) sy calls))"
  shows "distinct (map ac_input_port (getConnections d)) \<and> distinct (map ac_output_port (getConnections d))"
proof -
  have "device_reachable (snd (sy_world (foldl (\<lambda>sy call. system_step R J now steady power_text orch call sy) sy calls)))"
    using assms(1) by (induction calls arbitrary: sy) (simp_all add: system_step_reachable)
  then show ?thesis
    using device_ok_reachable unfolding assms(2) by (auto simp: device_ok_def connections_ok_def one_to_one_def)
qed

end
