(* ===== verification/Uds_Lifecycle.thy ===== *)
theory Uds_Lifecycle
  imports Uds_Loopback
begin

text \<open>
  The life of the device server (\<open>cpp/src/uds_server.cpp\<close>): starting and stopping it, the thread that
  accepts connections and one thread per client. The system calls are a parameter. Starting runs alone and
  is one operation; stopping and the threads interleave, so they are steps of a transition relation, cut at
  the points where another thread can see the difference.
\<close>

section \<open>Model\<close>

record 'w server_os =
  so_lstat :: "string \<Rightarrow> 'w \<Rightarrow> (int \<times> bool) \<times> 'w"
  so_socket :: "'w \<Rightarrow> int \<times> 'w"
  so_connect :: "int \<Rightarrow> string \<Rightarrow> 'w \<Rightarrow> int \<times> 'w"
  so_close :: "int \<Rightarrow> 'w \<Rightarrow> 'w"
  so_unlink :: "string \<Rightarrow> 'w \<Rightarrow> int \<times> 'w"
  so_create_directories :: "string \<Rightarrow> 'w \<Rightarrow> bool \<times> 'w"
  so_remove :: "string \<Rightarrow> 'w \<Rightarrow> 'w"
  so_bind :: "int \<Rightarrow> string \<Rightarrow> 'w \<Rightarrow> int \<times> 'w"
  so_chmod :: "string \<Rightarrow> int \<Rightarrow> 'w \<Rightarrow> int \<times> 'w"
  so_listen :: "int \<Rightarrow> int \<Rightarrow> 'w \<Rightarrow> int \<times> 'w"
  so_accept4 :: "int \<Rightarrow> 'w \<Rightarrow> int \<times> 'w"
  so_shutdown :: "int \<Rightarrow> 'w \<Rightarrow> 'w"
  so_recv :: "int \<Rightarrow> nat \<Rightarrow> 'w \<Rightarrow> (int \<times> u8 list) \<times> 'w"
  so_send :: "int \<Rightarrow> u8 list \<Rightarrow> 'w \<Rightarrow> int \<times> 'w"
  so_errno :: "'w \<Rightarrow> int"
  so_strerror :: "int \<Rightarrow> string"
  so_ENOENT :: int
  so_ECONNREFUSED :: int
  so_EINTR :: int

text \<open>
  \<open>so_lstat\<close> also tells whether the file is a socket, \<open>so_create_directories\<close> whether it set the error
  code; \<open>so_recv\<close> returns with \<open>MSG_TRUNC\<close> the real length of the packet and the bytes that fit. The thread
  of a client is in \<open>recv\<close> when \<open>cw_receiving\<close> is set, before its test of the stop token when it is not, and
  over when \<open>cw_done\<close> is set; an exception that leaves it ends the process.
\<close>

record ClientWorker =
  cw_fd :: int
  cw_done :: bool
  cw_stop_requested :: bool
  cw_receiving :: bool

datatype accept_thread = No_thread | Before_load | Before_accept int | Ended

datatype stop_phase = Not_stopping | Joining_worker | Joining_clients

record 'w UdsServerProcess =
  up_socket_path :: string
  up_server :: UdsServer
  up_listen_fd :: int
  up_owns_socket :: bool
  up_worker :: accept_thread
  up_stop_requested :: bool
  up_client_workers :: "ClientWorker list"
  up_stopping :: stop_phase
  up_terminated :: bool
  up_world :: 'w

definition UdsServer_new :: "string \<Rightarrow> SimulatedOcsDevice option \<Rightarrow> 'w \<Rightarrow> 'w UdsServerProcess result" where
  "UdsServer_new socket_path device w =
     (case device of
        None \<Rightarrow> Inl (Invalid_argument ''simulated device must not be null'')
      | Some d \<Rightarrow> Inr \<lparr>up_socket_path = socket_path,
            up_server = \<lparr>srv_device = d, srv_drop_next_apply_reply = False\<rparr>,
            up_listen_fd = - 1, up_owns_socket = False, up_worker = No_thread, up_stop_requested = False,
            up_client_workers = [], up_stopping = Not_stopping, up_terminated = False, up_world = w\<rparr>)"

definition running :: "'w UdsServerProcess \<Rightarrow> bool" where
  "running p \<longleftrightarrow> up_listen_fd p \<ge> 0"

definition dropNextApplyReplyForTest :: "'w UdsServerProcess \<Rightarrow> 'w UdsServerProcess" where
  "dropNextApplyReplyForTest p = p\<lparr>up_server := (up_server p)\<lparr>srv_drop_next_apply_reply := True\<rparr>\<rparr>"

text \<open>A system call, its error text, and a call without a result.\<close>

definition os_call :: "('w \<Rightarrow> 'a \<times> 'w) \<Rightarrow> ('w, 'a) sexn" where
  "os_call f w = (case f w of (x, w') \<Rightarrow> (Inr x, w'))"

definition os_do :: "('w \<Rightarrow> 'w) \<Rightarrow> ('w, unit) sexn" where
  "os_do f w = (Inr (), f w)"

definition internal_errno :: "'w server_os \<Rightarrow> ('w, Error) sexn" where
  "internal_errno os = getS (\<lambda>w. makeError kInternalError (so_strerror os (so_errno os w)))"

definition removeStaleSocket :: "'w server_os \<Rightarrow> string \<Rightarrow> ('w, Error) sexn" where
  "removeStaleSocket os socket_path =
     bindS (os_call (so_lstat os socket_path)) (\<lambda>(status, is_socket).
     if status < 0 then
       bindS (getS (so_errno os)) (\<lambda>e. if e = so_ENOENT os then returnS Error_success else internal_errno os)
     else if \<not> is_socket then returnS (makeError kInvalidArgument ''UDS path exists and is not a socket'')
     else
       bindS (os_call (so_socket os)) (\<lambda>probe_fd.
       if probe_fd < 0 then internal_errno os
       else
         bindS (os_call (so_connect os probe_fd socket_path)) (\<lambda>connect_result.
         bindS (getS (so_errno os)) (\<lambda>connect_error.
         thenS (os_do (so_close os probe_fd))
         (if connect_result = 0 then returnS (makeError kInvalidArgument ''UDS socket is already active'')
          else if connect_error \<noteq> so_ECONNREFUSED os \<and> connect_error \<noteq> so_ENOENT os
          then returnS (makeError kInternalError (so_strerror os connect_error))
          else
            bindS (os_call (so_unlink os socket_path)) (\<lambda>unlinked.
            bindS (getS (so_errno os)) (\<lambda>e.
            if unlinked < 0 \<and> e \<noteq> so_ENOENT os then internal_errno os else returnS Error_success)))))))"

text \<open>\<open>std::filesystem::path::parent_path\<close> of a POSIX path.\<close>

definition parent_path :: "string \<Rightarrow> string" where
  "parent_path path =
     (case rfind_char path (CHR ''/'') of
        None \<Rightarrow> []
      | Some i \<Rightarrow>
          (case dropWhile (\<lambda>c. c = CHR ''/'') (rev (take i path)) of
             [] \<Rightarrow> ''/''
           | stripped \<Rightarrow> rev stripped))"

text \<open>\<open>start\<close> up to the listening socket: its descriptor or the error.\<close>

definition open_socket :: "'w server_os \<Rightarrow> string \<Rightarrow> ('w, Error + int) sexn" where
  "open_socket os socket_path =
     bindS (os_call (so_socket os)) (\<lambda>server_fd.
     if server_fd < 0 then bindS (internal_errno os) (\<lambda>e. returnS (Inl e))
     else
       bindS (os_call (so_bind os server_fd socket_path)) (\<lambda>bound.
       if bound < 0 then
         bindS (internal_errno os) (\<lambda>e. thenS (os_do (so_close os server_fd)) (returnS (Inl e)))
       else
         bindS (os_call (so_chmod os socket_path 432)) (\<lambda>mode.
         bindS (if mode < 0 then returnS mode else os_call (so_listen os server_fd 8)) (\<lambda>listening.
         if listening < 0 then
           bindS (internal_errno os) (\<lambda>e.
           thenS (os_do (so_close os server_fd))
           (thenS (os_do (so_remove os socket_path)) (returnS (Inl e))))
         else returnS (Inr server_fd)))))"

definition prepare_path :: "'w server_os \<Rightarrow> string \<Rightarrow> ('w, Error) sexn" where
  "prepare_path os socket_path =
     (if socket_path = [] \<or> length socket_path \<ge> sun_path_size
      then returnS (makeError kInvalidArgument ''UDS socket path is invalid'')
      else
        bindS (if parent_path socket_path = [] then returnS False
               else os_call (so_create_directories os (parent_path socket_path))) (\<lambda>failed.
        if failed then returnS (makeError kInternalError ''failed to create UDS runtime directory'')
        else removeStaleSocket os socket_path))"

definition start_world :: "'w server_os \<Rightarrow> string \<Rightarrow> ('w, Error + int) sexn" where
  "start_world os socket_path =
     bindS (prepare_path os socket_path) (\<lambda>e.
     if \<not> Error_ok e then returnS (Inl e) else open_socket os socket_path)"

definition start :: "'w server_os \<Rightarrow> 'w UdsServerProcess \<Rightarrow> Error \<times> 'w UdsServerProcess" where
  "start os p =
     (if running p then (makeError kInvalidArgument ''UDS server is already running'', p)
      else
        (case start_world os (up_socket_path p) (up_world p) of
           (Inr (Inr server_fd), w) \<Rightarrow>
             (Error_success, p\<lparr>up_world := w, up_listen_fd := server_fd, up_owns_socket := True,
                up_worker := Before_load, up_stop_requested := False\<rparr>)
         | (Inr (Inl e), w) \<Rightarrow> (e, p\<lparr>up_world := w\<rparr>)
         | (Inl e, w) \<Rightarrow> (makeError kInternalError (what e), p\<lparr>up_world := w\<rparr>)))"

text \<open>\<open>stop\<close> in three parts: before joining the worker, before joining the clients, the rest.\<close>

definition stop_begin :: "'w server_os \<Rightarrow> 'w UdsServerProcess \<Rightarrow> 'w UdsServerProcess" where
  "stop_begin os p =
     (let fd = up_listen_fd p in
      p\<lparr>up_stop_requested := True, up_listen_fd := - 1, up_stopping := Joining_worker,
        up_world := (if fd \<ge> 0 then so_close os fd (so_shutdown os fd (up_world p)) else up_world p)\<rparr>)"

definition stop_clients :: "'w server_os \<Rightarrow> 'w UdsServerProcess \<Rightarrow> 'w UdsServerProcess" where
  "stop_clients os p =
     p\<lparr>up_stopping := Joining_clients, up_worker := No_thread,
       up_world := foldl (\<lambda>w c. if cw_done c then w else so_shutdown os (cw_fd c) w) (up_world p) (up_client_workers p),
       up_client_workers := map (\<lambda>c. c\<lparr>cw_stop_requested := True\<rparr>) (up_client_workers p)\<rparr>"

definition stop_end :: "'w server_os \<Rightarrow> 'w UdsServerProcess \<Rightarrow> 'w UdsServerProcess" where
  "stop_end os p =
     (let q = p\<lparr>up_client_workers := [], up_owns_socket := False, up_stopping := Not_stopping\<rparr> in
      if \<not> up_owns_socket p then q
      else
        (case so_lstat os (up_socket_path p) (up_world p) of ((status, is_socket), w) \<Rightarrow>
           q\<lparr>up_world := (if status = 0 \<and> is_socket then snd (so_unlink os (up_socket_path p) w) else w)\<rparr>))"

text \<open>One pass of \<open>acceptLoop\<close>, cut between reading the descriptor and \<open>accept4\<close>.\<close>

definition accept_load :: "'w UdsServerProcess \<Rightarrow> 'w UdsServerProcess" where
  "accept_load p = p\<lparr>up_worker :=
     (if up_stop_requested p \<or> up_listen_fd p < 0 then Ended else Before_accept (up_listen_fd p))\<rparr>"

definition accept_client :: "'w server_os \<Rightarrow> int \<Rightarrow> 'w UdsServerProcess \<Rightarrow> 'w UdsServerProcess" where
  "accept_client os server_fd p =
     (case so_accept4 os server_fd (up_world p) of (client_fd, w) \<Rightarrow>
        if client_fd < 0 then
          p\<lparr>up_world := w, up_worker := (if so_errno os w = so_EINTR os then Before_load else Ended)\<rparr>
        else
          p\<lparr>up_world := w,
            up_client_workers := filter (\<lambda>c. \<not> cw_done c) (up_client_workers p) @
              [\<lparr>cw_fd = client_fd, cw_done = False, cw_stop_requested = False, cw_receiving = False\<rparr>],
            up_worker := (if up_stop_requested p then Ended else Before_load)\<rparr>)"

text \<open>
  The thread of a client. Its end: the flag is set and the descriptor closed. \<open>serveClient\<close> is cut between
  the test of the stop token and \<open>recv\<close>, which blocks: a pass receives a packet, serves it and sends the
  answer, and the thread is back at its test, or leaves the loop. An exception that leaves the thread
  terminates the process. A request that never returns, which only a device outside its invariant has,
  keeps the thread where it is.
\<close>

definition client_end :: "'w server_os \<Rightarrow> nat \<Rightarrow> 'w UdsServerProcess \<Rightarrow> 'w UdsServerProcess" where
  "client_end os i p =
     (let c = up_client_workers p ! i in
      p\<lparr>up_client_workers := (up_client_workers p)[i := c\<lparr>cw_done := True\<rparr>],
        up_world := so_close os (cw_fd c) (up_world p)\<rparr>)"

definition client_receiving :: "bool \<Rightarrow> nat \<Rightarrow> 'w UdsServerProcess \<Rightarrow> 'w UdsServerProcess" where
  "client_receiving b i p =
     p\<lparr>up_client_workers := (up_client_workers p)[i := (up_client_workers p ! i)\<lparr>cw_receiving := b\<rparr>]\<rparr>"

definition client_check :: "'w server_os \<Rightarrow> nat \<Rightarrow> 'w UdsServerProcess \<Rightarrow> 'w UdsServerProcess" where
  "client_check os i p =
     (if cw_stop_requested (up_client_workers p ! i) then client_end os i p else client_receiving True i p)"

definition client_receive :: "'j json_api \<Rightarrow> 'w server_os \<Rightarrow> nat \<Rightarrow> 'w UdsServerProcess \<Rightarrow> 'w UdsServerProcess" where
  "client_receive J os i p =
     (let fd = cw_fd (up_client_workers p ! i); buffer_size = kHeaderSize + kMaxPayloadSize in
      case so_recv os fd buffer_size (up_world p) of ((received, bytes), w) \<Rightarrow>
        if received \<le> 0 then client_end os i (p\<lparr>up_world := w\<rparr>)
        else if nat received > buffer_size then client_end os i (p\<lparr>up_world := w\<rparr>)
        else
          (case serve_packet J (take (nat received) bytes) (up_server p) of
             None \<Rightarrow> p\<lparr>up_world := w\<rparr>
           | Some (Inl e, s) \<Rightarrow> p\<lparr>up_world := w, up_server := s, up_terminated := True\<rparr>
           | Some (Inr None, s) \<Rightarrow> client_end os i (p\<lparr>up_world := w, up_server := s\<rparr>)
           | Some (Inr (Some reply), s) \<Rightarrow>
               (case so_send os fd reply w of (sent, w') \<Rightarrow>
                  let q = p\<lparr>up_world := w', up_server := s\<rparr> in
                  if sent \<noteq> int (length reply) then client_end os i q else client_receiving False i q)))"

end
