(* ===== verification/Processes.thy ===== *)
theory Processes
  imports System Uds_Lifecycle
begin

text \<open>
  The entry points: \<open>cpp/ocs-orch/main.cpp\<close>, \<open>cpp/ocs-syncd/main.cpp\<close>, \<open>cpp/ocs-hwsim/main.cpp\<close> and
  \<open>cpp/ocs-hwsimctl/main.cpp\<close>. What a process gets from its surroundings is a parameter: its environment
  variables, the flag that the signal handler clears, the steady clock, sleeping and the console. A main loop
  runs until the flag is cleared, so its model has fuel: the number of passes. A run that is not over by then
  ends with \<open>Never_returns\<close>, and what holds for every fuel holds for every run of the process.
\<close>

section \<open>Surroundings\<close>

record 's process_api =
  pr_getenv :: "string \<Rightarrow> string option"
  pr_running :: "('s, bool) sexn"
  pr_steady :: "('s, int) sexn"
  pr_sleep :: "int \<Rightarrow> ('s, unit) sexn"
  pr_cerr :: "string \<Rightarrow> ('s, unit) sexn"

text \<open>Times of the steady clock are in nanoseconds.\<close>

definition ms :: "int \<Rightarrow> int" where
  "ms n = n * 1000000"

definition newline :: string where
  "newline = [CHR 0x0A]"

text \<open>\<open>catch\<close> around a whole \<open>main\<close>: a message and exit code 1.\<close>

definition exit_on_exception :: "'s process_api \<Rightarrow> string \<Rightarrow> ('s, unit) sexn \<Rightarrow> ('s, int) sexn" where
  "exit_on_exception P name m =
     catch_std (thenS m (returnS 0))
       (\<lambda>e. thenS (pr_cerr P (name @ '' failed: '' @ what e @ newline)) (returnS 1))"

section \<open>ocs-orch\<close>

definition environmentInteger :: "'s process_api \<Rightarrow> string \<Rightarrow> int \<Rightarrow> int \<Rightarrow> int result" where
  "environmentInteger P name fallback maximum =
     (case pr_getenv P name of
        None \<Rightarrow> Inr fallback
      | Some configured \<Rightarrow>
          bindE (stoll configured) (\<lambda>v.
          if v < 0 \<or> v > maximum then Inl (Invalid_argument (name @ '' is outside the supported range''))
          else Inr v))"

definition retryPolicy :: "'s process_api \<Rightarrow> ApplyRetryPolicy result" where
  "retryPolicy P =
     bindE (environmentInteger P ''OCS_ORCH_APPLY_MAX_RETRIES'' 3 100) (\<lambda>retries.
     bindE (environmentInteger P ''OCS_ORCH_APPLY_RETRY_BASE_MS'' 100 3600000) (\<lambda>base.
     bindE (environmentInteger P ''OCS_ORCH_APPLY_RETRY_MAX_MS'' 5000 3600000) (\<lambda>maximum.
     Inr \<lparr>max_retries = of_int retries, base_backoff = base, max_backoff = maximum\<rparr>)))"

text \<open>One pass of the loop: it returns the time of the next heartbeat.\<close>

definition orch_pass ::
  "'s process_api \<Rightarrow> 's redis_api \<Rightarrow> 'j json_api \<Rightarrow> ('s, u64) sexn \<Rightarrow> OrchestratorService \<Rightarrow> int \<Rightarrow> ('s, int) sexn" where
  "orch_pass P R J now service next_heartbeat =
     bindS (pr_steady P) (\<lambda>t.
     bindS (if t \<ge> next_heartbeat then thenS (publishHeartbeat R now) (returnS (t + ms 250))
            else returnS next_heartbeat) (\<lambda>next.
     bindS (processConfigOne R J now service ''orch-main-config'' (\<lambda>_. returnS ())) (\<lambda>processed_config.
     bindS (processResultOne R J now service ''orch-main-result'' (\<lambda>_. returnS ())) (\<lambda>processed_result.
     bindS (processRetryOne R J now service ''orch-main-retry'' (\<lambda>_. returnS ())) (\<lambda>processed_retry.
     thenS (if \<not> processed_config \<and> \<not> processed_result \<and> \<not> processed_retry then pr_sleep P 20 else returnS ())
     (returnS next))))))"

text \<open>A loop \<open>while (running.load())\<close>; its pass takes and returns the local variables.\<close>

fun while_running :: "nat \<Rightarrow> ('s, bool) sexn \<Rightarrow> ('l \<Rightarrow> ('s, 'l) sexn) \<Rightarrow> 'l \<Rightarrow> ('s, unit) sexn" where
  "while_running 0 running_flag pass locals = throwS Never_returns"
| "while_running (Suc fuel) running_flag pass locals =
     bindS running_flag (\<lambda>continue.
     if continue then bindS (pass locals) (while_running fuel running_flag pass) else returnS ())"

text \<open>
  The Redis client of an endpoint is a parameter. The arguments are those of the command line, the name of
  the program included.
\<close>

definition orch_main ::
  "nat \<Rightarrow> 's process_api \<Rightarrow> (RedisEndpoint \<Rightarrow> 's redis_api) \<Rightarrow> 'j json_api \<Rightarrow> ('s, u64) sexn \<Rightarrow> string list \<Rightarrow> ('s, int) sexn" where
  "orch_main fuel P redis_at J now argv =
     (if length argv \<noteq> 2 then
        thenS (pr_cerr P (''usage: ocs-orch REDIS_ENDPOINT'' @ newline)) (returnS 2)
      else
        exit_on_exception P ''ocs-orch''
          (bindS (liftE (parseRedisEndpoint (argv ! 1))) (\<lambda>endpoint.
           bindS (liftE (bindE (retryPolicy P) (OrchestratorService_new 5000))) (\<lambda>service.
           thenS (initialize (redis_at endpoint) now)
           (bindS (pr_steady P) (\<lambda>started.
            while_running fuel (pr_running P) (orch_pass P (redis_at endpoint) J now service) (started + ms 250)))))))"

section \<open>ocs-syncd\<close>

definition pendingMinIdle :: "'s process_api \<Rightarrow> int result" where
  "pendingMinIdle P =
     (case pr_getenv P ''OCS_SYNCD_PENDING_MIN_IDLE_MS'' of
        None \<Rightarrow> Inr 5000
      | Some configured \<Rightarrow>
          bindE (stoll configured) (\<lambda>v.
          if v < 0 \<or> v > 3600000
          then Inl (Invalid_argument ''OCS_SYNCD_PENDING_MIN_IDLE_MS is outside 0..3600000'') else Inr v))"

definition devicePollInterval :: "'s process_api \<Rightarrow> int result" where
  "devicePollInterval P =
     (case pr_getenv P ''OCS_SYNCD_DEVICE_POLL_MS'' of
        None \<Rightarrow> Inr 250
      | Some configured \<Rightarrow>
          bindE (stoll configured) (\<lambda>v.
          if v < 10 \<or> v > 3600000
          then Inl (Invalid_argument ''OCS_SYNCD_DEVICE_POLL_MS is outside 10..3600000'') else Inr v))"

text \<open>
  The thread of the heartbeat: its pass keeps the flag that a failure has been reported. The stop token is
  read like the flag of a main loop. The function is \<open>noexcept\<close> and catches everything.
\<close>

definition heartbeat_pass :: "'s process_api \<Rightarrow> 's redis_api \<Rightarrow> ('s, u64) sexn \<Rightarrow> bool \<Rightarrow> ('s, bool) sexn" where
  "heartbeat_pass P R now failure_reported =
     bindS
       (catch_std
          (bindS now (\<lambda>t.
           thenS (putHash R kState (serviceStateKey ''ocs-syncd'')
                    (smap_of_list [(''service'', ''ocs-syncd''), (''status'', ''ONLINE''), (''last_seen_ns'', to_string_u64 t)]))
           (returnS False)))
          (\<lambda>error.
           if failure_reported then returnS True
           else thenS (pr_cerr P (''ocs-syncd heartbeat failed: '' @ what error @ newline)) (returnS True))) (\<lambda>reported.
     thenS (pr_sleep P 250) (returnS reported))"

definition publishProcessHeartbeat ::
  "nat \<Rightarrow> 's process_api \<Rightarrow> ('s, bool) sexn \<Rightarrow> 's redis_api \<Rightarrow> ('s, u64) sexn \<Rightarrow> ('s, unit) sexn" where
  "publishProcessHeartbeat fuel P not_stopped R now =
     catch_std (while_running fuel not_stopped (heartbeat_pass P R now) False)
       (\<lambda>error. pr_cerr P (''ocs-syncd heartbeat stopped: '' @ what error @ newline))"

text \<open>The test hook: \<open>std::_Exit\<close> ends the process at once, so the flag needs no reset.\<close>

definition crash_hook :: "'s process_api \<Rightarrow> ('s, unit) sexn" where
  "crash_hook P =
     (if pr_getenv P ''OCS_SYNCD_CRASH_BEFORE_ACK_ONCE'' \<noteq> None
      then thenS (pr_cerr P (''ocs-syncd test crash before ACK'' @ newline)) (throwS (Exit_process 86))
      else returnS ())"

definition syncd_pass ::
  "'s process_api \<Rightarrow> 's redis_api \<Rightarrow> 'j json_api \<Rightarrow> 's OcsDeviceApi \<Rightarrow> ('s, u64) sexn \<Rightarrow> (double \<Rightarrow> string) \<Rightarrow> int \<Rightarrow>
   int \<times> int \<Rightarrow> ('s SyncdService, int \<times> int) sexn" where
  "syncd_pass P R J D now power_text poll_interval locals =
     (case locals of (next_poll, next_liveness_probe) \<Rightarrow>
      bindS (worldS (pr_steady P)) (\<lambda>t.
      bindS (if t \<ge> next_liveness_probe then thenS (pollDeviceLiveness R D now) (returnS (t + ms 250))
             else returnS next_liveness_probe) (\<lambda>next_probe.
      bindS (if t \<ge> next_poll then thenS (pollDevice R J D now power_text) (returnS (t + ms poll_interval))
             else returnS next_poll) (\<lambda>next.
      bindS (getS sy_pending_min_idle) (\<lambda>idle.
      bindS (worldS (processFaultOne R J D now idle ''syncd-main-fault'')) (\<lambda>processed_fault.
      bindS (processOne R J D now (pr_steady P) ''syncd-main'' (crash_hook P) (\<lambda>_. returnS ())) (\<lambda>processed_command.
      thenS (if \<not> processed_fault \<and> \<not> processed_command then worldS (pr_sleep P 20) else returnS ())
      (returnS (next, next_probe)))))))))"

text \<open>The service from its construction on, on a world with the backend in it.\<close>

definition syncd_service ::
  "nat \<Rightarrow> 's process_api \<Rightarrow> 's redis_api \<Rightarrow> 'j json_api \<Rightarrow> 's OcsDeviceApi \<Rightarrow> ('s, u64) sexn \<Rightarrow> (double \<Rightarrow> string) \<Rightarrow>
   ('s, unit) sexn" where
  "syncd_service fuel P R J D now power_text w =
     (case bindE (pendingMinIdle P) (\<lambda>idle. SyncdService_new True idle w) of
        Inl e \<Rightarrow> (Inl e, w)
      | Inr service \<Rightarrow>
          (case thenS (syncd_initialize R J D now power_text)
                (bindS (liftE (devicePollInterval P)) (\<lambda>poll_interval.
                 bindS (worldS (pr_steady P)) (\<lambda>t1.
                 bindS (worldS (pr_steady P)) (\<lambda>t2.
                 while_running fuel (worldS (pr_running P)) (syncd_pass P R J D now power_text poll_interval)
                   (t1 + ms poll_interval, t2 + ms 250))))) service of
             (r, service') \<Rightarrow> (r, sy_world service')))"

text \<open>A backend lives as long as the block that constructs it; its destructor closes the socket.\<close>

definition with_backend :: "'w os_api \<Rightarrow> string \<Rightarrow> ('r \<times> 'w UdsDeviceBackend, 'a) sexn \<Rightarrow> ('r \<times> 'w, 'a) sexn" where
  "with_backend os socket_path m w =
     (case UdsDeviceBackend_new socket_path 1000 (snd w) of
        Inl e \<Rightarrow> (Inl e, w)
      | Inr b \<Rightarrow>
          (case m (fst w, b) of (x, (r, b')) \<Rightarrow> (x, (r, be_world (snd (closeLocked os b'))))))"

text \<open>Surroundings as part of a world that also holds the other end of the socket.\<close>

definition process_of_world :: "'r process_api \<Rightarrow> ('r \<times> 'd) process_api" where
  "process_of_world P =
     \<lparr>pr_getenv = pr_getenv P, pr_running = on_server (pr_running P), pr_steady = on_server (pr_steady P),
      pr_sleep = (\<lambda>n. on_server (pr_sleep P n)), pr_cerr = (\<lambda>t. on_server (pr_cerr P t))\<rparr>"

text \<open>
  The heartbeat thread is started here and stopped at the end; it shares only the Redis server with the
  main thread, and \<open>publishProcessHeartbeat\<close> is its program.
\<close>

definition syncd_main ::
  "nat \<Rightarrow> 'r process_api \<Rightarrow> (RedisEndpoint \<Rightarrow> 'r redis_api) \<Rightarrow> 'j json_api \<Rightarrow> 'w os_api \<Rightarrow> ('r, u64) sexn \<Rightarrow>
   (double \<Rightarrow> string) \<Rightarrow> string list \<Rightarrow> ('r \<times> 'w, int) sexn" where
  "syncd_main fuel P redis_at J os now power_text argv =
     (if length argv \<noteq> 3 then
        thenS (on_server (pr_cerr P (''usage: ocs-syncd REDIS_ENDPOINT HWSIM_SOCKET'' @ newline))) (returnS 2)
      else
        exit_on_exception (process_of_world P) ''ocs-syncd''
          (bindS (liftE (parseRedisEndpoint (argv ! 1))) (\<lambda>endpoint.
           with_backend os (argv ! 2)
             (syncd_service fuel (process_of_world P) (server_of_world (redis_at endpoint)) J
                (device_of_world (UdsBackend_api J os)) (on_server now) power_text))))"

section \<open>ocs-hwsim\<close>

definition defaultDeviceInfo :: "u64 \<Rightarrow> DeviceInfo" where
  "defaultDeviceInfo generation =
     \<lparr>di_name = ''ocs0'', di_input_port_count = 16, di_output_port_count = 16, di_model = ''SIM-16X16'',
      di_serial_number = ''SIM-0001'', di_firmware_version = ''sim-1.0.0'', di_generation = generation\<rparr>"

text \<open>
  The process up to its waiting loop: the exit code and message of a failed start, or the running server and
  the message that it is ready. Waiting and the final \<open>stop\<close> are steps of the server. The outer option is the
  constructor of the device, which may not return.
\<close>

definition hwsim_boot ::
  "'w server_os \<Rightarrow> u64 \<Rightarrow> string list \<Rightarrow> 'w \<Rightarrow> ((int \<times> string) + 'w UdsServerProcess \<times> string) result option" where
  "hwsim_boot os t argv w =
     (let socket_path = (if length argv > 1 then argv ! 1 else ''/tmp/mini-ocs/ocs-hwsim.sock'') in
      map_option (\<lambda>device.
        bindE device (\<lambda>d.
        bindE (UdsServer_new socket_path (Some d) w) (\<lambda>server.
        case start os server of (error, server') \<Rightarrow>
          if \<not> Error_ok error
          then Inr (Inl (1, ''ocs-hwsim failed: '' @ ErrorCode_toString (err_code error) @ '': '' @ err_message error @ newline))
          else Inr (Inr (server', ''ocs-hwsim ready socket='' @ socket_path @ '' generation='' @
                 to_string_u64 (di_generation (getDeviceInfo (srv_device (up_server server')))) @ newline)))))
      (SimulatedOcsDevice_new (defaultDeviceInfo t)))"

section \<open>ocs-hwsimctl\<close>

text \<open>The exit code and what is written, to standard output or to standard error.\<close>

datatype console = Cout string | Cerr string

definition hwsimctl_faultType :: "string \<Rightarrow> FaultType result" where
  "hwsimctl_faultType v =
     (if v = ''INPUT_PORT_DOWN'' then Inr kInputPortDown
      else if v = ''OUTPUT_PORT_DOWN'' then Inr kOutputPortDown
      else Inl (Invalid_argument ''fault must be INPUT_PORT_DOWN or OUTPUT_PORT_DOWN''))"

definition hwsimctl_health :: "'j json_api \<Rightarrow> 'w os_api \<Rightarrow> ('w UdsDeviceBackend, int \<times> console) sexn" where
  "hwsimctl_health J os =
     bindS (uds_getDeviceInfo J os) (\<lambda>info.
     bindS (uds_getHealth J os) (\<lambda>health.
     returnS (if dh_status health \<noteq> kReady \<or> \<not> Error_ok (dh_last_error health) \<or> di_generation info = 0
              then (1, Cerr (''ocs-hwsim is not ready'' @ newline))
              else (0, Cout (''READY device='' @ di_name info @ '' generation='' @ to_string_u64 (di_generation info) @ newline)))))"

definition hwsimctl_fault ::
  "'j json_api \<Rightarrow> 'w os_api \<Rightarrow> string \<Rightarrow> FaultSpec \<Rightarrow> ('w UdsDeviceBackend, int \<times> console) sexn" where
  "hwsimctl_fault J os operation fault =
     bindS (if operation = ''inject'' then uds_fault J os fault False
            else if operation = ''clear'' then uds_fault J os fault True
            else throwS (Invalid_argument ''operation must be inject or clear'')) (\<lambda>res.
     returnS (if \<not> Error_ok (fr_error res)
              then (1, Cerr (ErrorCode_toString (err_code (fr_error res)) @ '': '' @ err_message (fr_error res) @ newline))
              else (0, Cout (''OK'' @ newline))))"

definition parse_port :: "string \<Rightarrow> PortId result" where
  "parse_port t =
     bindE (stoul t) (\<lambda>parsed.
     if parsed = 0 \<or> parsed > 65535 then Inl (Invalid_argument ''port ID is outside 1..65535'') else Inr (ucast parsed))"

definition hwsimctl_main ::
  "'j json_api \<Rightarrow> 'w os_api \<Rightarrow> string list \<Rightarrow> (unit \<times> 'w, int \<times> console) sexn" where
  "hwsimctl_main J os argv =
     (if length argv = 3 \<and> argv ! 2 = ''health'' then
        catch_std (with_backend os (argv ! 1) (on_device (hwsimctl_health J os)))
          (\<lambda>error. returnS (1, Cerr (''ocs-hwsimctl health failed: '' @ what error @ newline)))
      else if length argv \<noteq> 5 then
        returnS (2, Cerr (''usage: ocs-hwsimctl HWSIM_SOCKET health'' @ newline @
          ''       ocs-hwsimctl HWSIM_SOCKET inject|clear FAULT PORT_ID'' @ newline))
      else
        catch_std
          (bindS (liftE (hwsimctl_faultType (argv ! 3))) (\<lambda>type.
           bindS (liftE (parse_port (argv ! 4))) (\<lambda>port_id.
           with_backend os (argv ! 1)
             (on_device (hwsimctl_fault J os (argv ! 2) \<lparr>fs_type = type, fs_port_id = port_id\<rparr>)))))
          (\<lambda>error. returnS (2, Cerr (''ocs-hwsimctl failed: '' @ what error @ newline))))"

end
