(* ===== verification/Uds_Lifecycle_Properties.thy ===== *)
theory Uds_Lifecycle_Properties
  imports Uds_Lifecycle Uds_Properties
begin

text \<open>
  The device server as a concurrent program: the transition relation of its threads, the invariant of the
  reachable states, and what starting and stopping promise.
\<close>

section \<open>The threads\<close>

text \<open>
  A step of a thread of the process: of the one that starts and stops the server, of the accepting thread, or
  of a client. A client that is in \<open>recv\<close> when the stop is requested may still serve a packet. After an
  exception has left a client thread there is no process any more.
\<close>

inductive thread_step :: "'j json_api \<Rightarrow> 'w server_os \<Rightarrow> 'w UdsServerProcess \<Rightarrow> 'w UdsServerProcess \<Rightarrow> bool"
  for J :: "'j json_api" and os :: "'w server_os" where
  start_step: "\<not> up_terminated p \<Longrightarrow> up_stopping p = Not_stopping \<Longrightarrow> thread_step J os p (snd (start os p))"
| stop_begin_step: "\<not> up_terminated p \<Longrightarrow> up_stopping p = Not_stopping \<Longrightarrow> thread_step J os p (stop_begin os p)"
| stop_clients_step: "\<not> up_terminated p \<Longrightarrow> up_stopping p = Joining_worker \<Longrightarrow> up_worker p \<in> {No_thread, Ended} \<Longrightarrow>
    thread_step J os p (stop_clients os p)"
| stop_end_step: "\<not> up_terminated p \<Longrightarrow> up_stopping p = Joining_clients \<Longrightarrow> list_all cw_done (up_client_workers p) \<Longrightarrow>
    thread_step J os p (stop_end os p)"
| load_step: "\<not> up_terminated p \<Longrightarrow> up_worker p = Before_load \<Longrightarrow> thread_step J os p (accept_load p)"
| accept_step: "\<not> up_terminated p \<Longrightarrow> up_worker p = Before_accept fd \<Longrightarrow> thread_step J os p (accept_client os fd p)"
| check_step: "\<not> up_terminated p \<Longrightarrow> i < length (up_client_workers p) \<Longrightarrow> \<not> cw_done (up_client_workers p ! i) \<Longrightarrow>
    \<not> cw_receiving (up_client_workers p ! i) \<Longrightarrow> thread_step J os p (client_check os i p)"
| receive_step: "\<not> up_terminated p \<Longrightarrow> i < length (up_client_workers p) \<Longrightarrow> \<not> cw_done (up_client_workers p ! i) \<Longrightarrow>
    cw_receiving (up_client_workers p ! i) \<Longrightarrow> thread_step J os p (client_receive J os i p)"
| drop_step: "\<not> up_terminated p \<Longrightarrow> thread_step J os p (dropNextApplyReplyForTest p)"

text \<open>
  The environment may change the world at any time, so \<open>recv\<close> may deliver any bytes.
\<close>

inductive server_step :: "'j json_api \<Rightarrow> 'w server_os \<Rightarrow> 'w UdsServerProcess \<Rightarrow> 'w UdsServerProcess \<Rightarrow> bool"
  for J :: "'j json_api" and os :: "'w server_os" where
  thread: "thread_step J os p q \<Longrightarrow> server_step J os p q"
| environment: "\<not> up_terminated p \<Longrightarrow> server_step J os p (p\<lparr>up_world := w\<rparr>)"

inductive server_reachable :: "'j json_api \<Rightarrow> 'w server_os \<Rightarrow> 'w UdsServerProcess \<Rightarrow> bool"
  for J :: "'j json_api" and os :: "'w server_os" where
  created: "device_ok d \<Longrightarrow> UdsServer_new path (Some d) w = Inr p \<Longrightarrow> server_reachable J os p"
| stepped: "server_reachable J os p \<Longrightarrow> server_step J os p q \<Longrightarrow> server_reachable J os q"

lemma server_reachable_thread: "server_reachable J os p \<Longrightarrow> thread_step J os p q \<Longrightarrow> server_reachable J os q"
  by (blast intro: server_reachable.stepped thread)

text \<open>The control part of the invariant.\<close>

definition lifecycle_ok :: "'w UdsServerProcess \<Rightarrow> bool" where
  "lifecycle_ok p =
     (case up_stopping p of
        Not_stopping \<Rightarrow>
          if up_listen_fd p \<ge> 0 then up_owns_socket p \<and> up_worker p \<noteq> No_thread \<and> \<not> up_stop_requested p \<and>
            (\<forall>fd. up_worker p = Before_accept fd \<longrightarrow> fd = up_listen_fd p)
          else up_listen_fd p = - 1 \<and> \<not> up_owns_socket p \<and> up_worker p = No_thread \<and> up_client_workers p = []
      | Joining_worker \<Rightarrow>
          up_listen_fd p = - 1 \<and> up_stop_requested p \<and>
          (up_owns_socket p \<longleftrightarrow> up_worker p \<noteq> No_thread) \<and> (up_worker p = No_thread \<longrightarrow> up_client_workers p = [])
      | Joining_clients \<Rightarrow>
          up_listen_fd p = - 1 \<and> up_worker p = No_thread \<and> list_all cw_stop_requested (up_client_workers p))"

lemma open_socket_fd: "open_socket os path w = (Inr (Inr fd), w') \<Longrightarrow> fd \<ge> 0"
  by (auto simp: open_socket_def bindS_Inr thenS_def returnS_def os_call_def os_do_def getS_def internal_errno_def
      split: if_splits prod.splits)

lemma start_world_fd: "start_world os path w = (Inr (Inr fd), w') \<Longrightarrow> fd \<ge> 0"
  by (auto simp: start_world_def bindS_Inr returnS_def split: if_splits dest: open_socket_fd)

lemma open_socket_error: "open_socket os path w = (Inr (Inl e), w') \<Longrightarrow> \<not> Error_ok e"
  by (auto simp: open_socket_def bindS_Inr thenS_def returnS_def os_call_def os_do_def getS_def internal_errno_def
      split: if_splits prod.splits)

lemma start_world_error: "start_world os path w = (Inr (Inl e), w') \<Longrightarrow> \<not> Error_ok e"
  by (auto simp: start_world_def bindS_Inr returnS_def split: if_splits dest: open_socket_error)

lemma lifecycle_ok_start: "up_stopping p = Not_stopping \<Longrightarrow> lifecycle_ok p \<Longrightarrow> lifecycle_ok (snd (start os p))"
  by (auto simp: start_def lifecycle_ok_def running_def dest: start_world_fd split: prod.splits sum.splits if_splits)

lemma lifecycle_ok_stop:
  "up_stopping p = Not_stopping \<Longrightarrow> lifecycle_ok p \<Longrightarrow> lifecycle_ok (stop_begin os p)"
  "up_stopping p = Joining_worker \<Longrightarrow> lifecycle_ok p \<Longrightarrow> lifecycle_ok (stop_clients os p)"
  "up_stopping p = Joining_clients \<Longrightarrow> lifecycle_ok p \<Longrightarrow> lifecycle_ok (stop_end os p)"
  by (auto simp: lifecycle_ok_def stop_begin_def stop_clients_def stop_end_def Let_def list_all_iff
      split: prod.splits if_splits)

text \<open>The ways a pass of a client ends, and the worlds its two system calls lead to.\<close>

definition recv_send :: "'w server_os \<Rightarrow> int \<Rightarrow> 'w \<Rightarrow> 'w \<Rightarrow> bool" where
  "recv_send os fd w w' \<longleftrightarrow>
     (let w1 = snd (so_recv os fd (kHeaderSize + kMaxPayloadSize) w) in w' = w1 \<or> (\<exists>reply. w' = snd (so_send os fd reply w1)))"

lemma client_receive_cases:
  assumes "device_ok (srv_device (up_server p))"
  obtains
    (thrown) s w where "client_receive J os i p = p\<lparr>up_world := w, up_server := s, up_terminated := True\<rparr>"
      "device_ok (srv_device s)"
  | (ended) s w where "client_receive J os i p = client_end os i (p\<lparr>up_world := w, up_server := s\<rparr>)"
      "device_ok (srv_device s)" "recv_send os (cw_fd (up_client_workers p ! i)) (up_world p) w"
  | (served) s w where "client_receive J os i p = client_receiving False i (p\<lparr>up_world := w, up_server := s\<rparr>)"
      "device_ok (srv_device s)" "recv_send os (cw_fd (up_client_workers p ! i)) (up_world p) w"
proof -
  let ?fd = "cw_fd (up_client_workers p ! i)" and ?n = "kHeaderSize + kMaxPayloadSize"
  obtain received bytes w where recv: "so_recv os ?fd ?n (up_world p) = ((received, bytes), w)"
    by (metis prod.exhaust)
  show thesis
  proof (cases "received \<le> 0 \<or> nat received > ?n")
    case True
    with recv assms ended [of "up_server p" w] show ?thesis
      by (auto simp: client_receive_def Let_def recv_send_def)
  next
    case False
    obtain r s where serve: "serve_packet J (take (nat received) bytes) (up_server p) = Some (r, s)"
      and ok: "device_ok (srv_device s)"
      using serve_packet_device [OF assms] by blast
    show ?thesis
    proof (cases r)
      case (Inl e)
      with False recv serve ok thrown [of s w] show ?thesis by (simp add: client_receive_def Let_def)
    next
      case (Inr answer)
      show ?thesis
      proof (cases answer)
        case None
        with Inr False recv serve ok ended [of s w] show ?thesis
          by (simp add: client_receive_def Let_def recv_send_def)
      next
        case (Some reply)
        obtain sent w' where send: "so_send os ?fd reply w = (sent, w')" by (rule prod.exhaust)
        then have "recv_send os ?fd (up_world p) w'"
          unfolding recv_send_def Let_def recv snd_conv by (metis snd_conv)
        with Some Inr False recv serve ok send ended [of s w'] served [of s w'] show ?thesis
          by (cases "sent = int (length reply)") (simp_all add: client_receive_def Let_def)
      qed
    qed
  qed
qed

lemma lifecycle_ok_accept:
  "lifecycle_ok p \<Longrightarrow> up_worker p = Before_load \<Longrightarrow> lifecycle_ok (accept_load p)"
  "lifecycle_ok p \<Longrightarrow> up_worker p = Before_accept fd \<Longrightarrow> lifecycle_ok (accept_client os fd p)"
  by (auto simp: lifecycle_ok_def accept_load_def accept_client_def split: stop_phase.splits prod.splits if_splits)

lemma lifecycle_ok_client:
  assumes "lifecycle_ok p" "i < length (up_client_workers p)"
  shows "lifecycle_ok (client_end os i (p\<lparr>up_world := w, up_server := s\<rparr>))"
    "lifecycle_ok (client_receiving b i (p\<lparr>up_world := w, up_server := s\<rparr>))"
    "lifecycle_ok (p\<lparr>up_world := w, up_server := s, up_terminated := b\<rparr>)"
  using assms
  by (auto simp: lifecycle_ok_def client_end_def client_receiving_def Let_def list_all_length nth_list_update
      split: stop_phase.splits if_splits)

lemma start_server [simp]: "up_server (snd (start os p)) = up_server p"
  by (simp add: start_def split: prod.splits sum.splits)

lemma client_check_cases:
  obtains "client_check os i p = client_end os i (p\<lparr>up_world := up_world p, up_server := up_server p\<rparr>)"
  | "client_check os i p = client_receiving True i (p\<lparr>up_world := up_world p, up_server := up_server p\<rparr>)"
  by (cases "cw_stop_requested (up_client_workers p ! i)") (simp_all add: client_check_def)

lemma client_server [simp]:
  "up_server (client_end os i p) = up_server p" "up_server (client_receiving b i p) = up_server p"
  by (simp_all add: client_end_def client_receiving_def Let_def)

lemma thread_step_invariant:
  assumes "thread_step J os p q" "device_ok (srv_device (up_server p))" "lifecycle_ok p"
  shows "device_ok (srv_device (up_server q)) \<and> lifecycle_ok q"
  using assms
proof (induction rule: thread_step.induct)
  case (check_step p i)
  then show ?case
    by (cases rule: client_check_cases [of os i p]) (simp_all only: lifecycle_ok_client client_server, simp_all)
next
  case (receive_step p i)
  from receive_step.prems(1) show ?case
    by (cases rule: client_receive_cases [where J = J and os = os and i = i])
       (use receive_step in \<open>simp_all add: lifecycle_ok_client\<close>)
next
  case (drop_step p)
  then show ?case by (auto simp: dropNextApplyReplyForTest_def lifecycle_ok_def split: stop_phase.splits)
next
  case (accept_step p fd)
  then show ?case by (simp add: lifecycle_ok_accept) (simp add: accept_client_def split: prod.splits)
next
  case (stop_end_step p)
  then show ?case by (simp add: lifecycle_ok_stop) (simp add: stop_end_def Let_def split: prod.splits)
qed (simp_all add: lifecycle_ok_start lifecycle_ok_stop lifecycle_ok_accept,
     simp_all add: stop_begin_def stop_clients_def accept_load_def Let_def)

lemma server_invariant:
  assumes "server_reachable J os p"
  shows "device_ok (srv_device (up_server p)) \<and> lifecycle_ok p"
  using assms
proof (induction rule: server_reachable.induct)
  case (created d path w p)
  then show ?case by (auto simp: UdsServer_new_def lifecycle_ok_def)
next
  case (stepped p q)
  from stepped.hyps(2) stepped.IH show ?case
    by (induction rule: server_step.induct) (auto dest: thread_step_invariant simp: lifecycle_ok_def split: stop_phase.splits)
qed

text \<open>C7: with any number of clients, whatever bytes they send and however their threads interleave with
  each other, with accepting, starting and stopping, the device behind the server keeps its invariant: no two
  connections share a port. Outside of a stop the server runs exactly when it owns the socket file, and when
  it does not run no client thread is left.\<close>

theorem concurrent_clients_keep_crossbar:
  assumes "server_reachable J os p"
  shows "distinct (map ac_input_port (getConnections (srv_device (up_server p)))) \<and>
    distinct (map ac_output_port (getConnections (srv_device (up_server p)))) \<and>
    (up_stopping p = Not_stopping \<longrightarrow>
       running p = up_owns_socket p \<and> (\<not> running p \<longrightarrow> up_client_workers p = []))"
  using server_invariant [OF assms]
  by (auto simp: device_ok_def connections_ok_def one_to_one_def lifecycle_ok_def running_def split: if_splits)

text \<open>
  A small Unix: socket files, and the descriptors that have been shut down, on which \<open>accept4\<close> and \<open>recv\<close>
  return at once. Every other call succeeds, and each client sends the same bytes.
\<close>

record unix_world =
  ux_files :: "string list"
  ux_shut :: "int list"

definition unix_os :: "unix_world server_os" where
  "unix_os = \<lparr>so_lstat = (\<lambda>path w. (if path \<in> set (ux_files w) then (0, True) else (- 1, False), w)),
     so_socket = (\<lambda>w. (3, w)), so_connect = (\<lambda>fd path w. (0, w)), so_close = (\<lambda>fd w. w),
     so_unlink = (\<lambda>path w. (if path \<in> set (ux_files w) then 0 else - 1, w\<lparr>ux_files := removeAll path (ux_files w)\<rparr>)),
     so_create_directories = (\<lambda>path w. (False, w)),
     so_remove = (\<lambda>path w. w\<lparr>ux_files := removeAll path (ux_files w)\<rparr>),
     so_bind = (\<lambda>fd path w. (0, w\<lparr>ux_files := path # ux_files w\<rparr>)), so_chmod = (\<lambda>path mode w. (0, w)),
     so_listen = (\<lambda>fd n w. (0, w)), so_accept4 = (\<lambda>fd w. (if fd \<in> set (ux_shut w) then - 1 else 4, w)),
     so_shutdown = (\<lambda>fd w. w\<lparr>ux_shut := fd # ux_shut w\<rparr>),
     so_recv = (\<lambda>fd n w. (if fd \<in> set (ux_shut w) then (0, []) else (3, [1, 2, 3]), w)),
     so_send = (\<lambda>fd bytes w. (int (length bytes), w)),
     so_errno = (\<lambda>w. 2), so_strerror = (\<lambda>e. []), so_ENOENT = 2, so_ECONNREFUSED = 111, so_EINTR = 4\<rparr>"

definition fresh_unix :: unix_world where
  "fresh_unix = \<lparr>ux_files = [], ux_shut = []\<rparr>"

definition example_server :: "unix_world UdsServerProcess" where
  "example_server = projr (UdsServer_new ''/tmp/s'' (Some example_connected) fresh_unix)"

text \<open>A server with a client whose thread is in \<open>recv\<close>, and whose accepting thread waits for the next one.\<close>

definition example_serving :: "unix_world UdsServerProcess" where
  "example_serving = accept_load (client_check unix_os 0
     (accept_client unix_os 3 (accept_load (snd (start unix_os example_server)))))"

lemma example_serving_reachable: "server_reachable J unix_os example_serving"
proof -
  let ?started = "snd (start unix_os example_server)"
  let ?accepted = "accept_client unix_os 3 (accept_load ?started)"
  have new: "server_reachable J unix_os example_server"
    by (rule server_reachable.created [where d = example_connected])
       (use device_ok_reachable example_reachable in \<open>simp_all add: example_server_def UdsServer_new_def\<close>)
  have "\<not> up_terminated example_server" "up_stopping example_server = Not_stopping"
    by (simp_all add: example_server_def UdsServer_new_def)
  note 1 = server_reachable_thread [OF new start_step [OF this]]
  have "\<not> up_terminated ?started" "up_worker ?started = Before_load" by code_simp+
  note 2 = server_reachable_thread [OF 1 load_step [OF this]]
  have "\<not> up_terminated (accept_load ?started)" "up_worker (accept_load ?started) = Before_accept 3" by code_simp+
  note 3 = server_reachable_thread [OF 2 accept_step [OF this]]
  have "\<not> up_terminated ?accepted" "0 < length (up_client_workers ?accepted)"
    "\<not> cw_done (up_client_workers ?accepted ! 0)" "\<not> cw_receiving (up_client_workers ?accepted ! 0)" by code_simp+
  note 4 = server_reachable_thread [OF 3 check_step [OF this]]
  have "\<not> up_terminated (client_check unix_os 0 ?accepted)" "up_worker (client_check unix_os 0 ?accepted) = Before_load"
    by code_simp+
  from server_reachable_thread [OF 4 load_step [OF this]] show ?thesis by (simp add: example_serving_def)
qed

theorem concurrent_clients_keep_crossbar_witness:
  "up_client_workers example_serving \<noteq> [] \<and>
   distinct (map ac_output_port (getConnections (srv_device (up_server (client_receive ref_json_api unix_os 0 example_serving)))))"
proof -
  have "\<not> up_terminated example_serving" "0 < length (up_client_workers example_serving)"
    "\<not> cw_done (up_client_workers example_serving ! 0)" "cw_receiving (up_client_workers example_serving ! 0)"
    by code_simp+
  from server_reachable_thread [OF example_serving_reachable receive_step [OF this]]
  have "server_reachable ref_json_api unix_os (client_receive ref_json_api unix_os 0 example_serving)" .
  from concurrent_clients_keep_crossbar [OF this] \<open>0 < length _\<close> show ?thesis by auto
qed

section \<open>Stopping\<close>

text \<open>
  What stopping relies on of the operating system: \<open>accept4\<close> and \<open>recv\<close> on a descriptor that has been shut
  down return (\<open>shut\<close> tells which), and no call that a server makes during a stop undoes a shutdown; \<open>lstat\<close>
  only looks, and \<open>unlink\<close> that reports success has removed the file.
\<close>

definition socket_file :: "'w server_os \<Rightarrow> string \<Rightarrow> 'w \<Rightarrow> bool" where
  "socket_file os path w \<longleftrightarrow> fst (so_lstat os path w) = (0, True)"

locale stop_calls =
  fixes os :: "'w server_os" and shut :: "int \<Rightarrow> 'w \<Rightarrow> bool"
  assumes shutdown_shuts: "shut fd (so_shutdown os fd w)"
    and shutdown_keeps: "shut fd w \<Longrightarrow> shut fd (so_shutdown os fd' w)"
    and close_keeps: "shut fd w \<Longrightarrow> shut fd (so_close os fd' w)"
    and recv_keeps: "shut fd w \<Longrightarrow> shut fd (snd (so_recv os fd' n w))"
    and send_keeps: "shut fd w \<Longrightarrow> shut fd (snd (so_send os fd' bytes w))"
    and lstat_looks: "socket_file os path (snd (so_lstat os path w)) = socket_file os path w"
    and unlink_removes: "fst (so_unlink os path w) = 0 \<Longrightarrow> \<not> socket_file os path (snd (so_unlink os path w))"
begin

lemma recv_send_keeps: "recv_send os fd' w w' \<Longrightarrow> shut fd w \<Longrightarrow> shut fd w'"
  by (auto simp: recv_send_def Let_def recv_keeps send_keeps)

lemma shutdown_clients:
  defines "after \<equiv> foldl (\<lambda>w c. if cw_done c then w else so_shutdown os (cw_fd c) w)"
  shows "shut fd w \<Longrightarrow> shut fd (after w cs)" "c \<in> set cs \<Longrightarrow> \<not> cw_done c \<Longrightarrow> shut (cw_fd c) (after w cs)"
proof -
  have keeps: "shut fd w \<Longrightarrow> shut fd (after w cs)" for fd w cs
    unfolding after_def by (induction cs arbitrary: w) (simp_all add: shutdown_keeps)
  then show "shut fd w \<Longrightarrow> shut fd (after w cs)" .
  have step: "after w (x # xs) = after (if cw_done x then w else so_shutdown os (cw_fd x) w) xs" for w x xs
    by (simp add: after_def)
  show "c \<in> set cs \<Longrightarrow> \<not> cw_done c \<Longrightarrow> shut (cw_fd c) (after w cs)"
    by (induction cs arbitrary: w) (auto simp: step intro: keeps shutdown_shuts)
qed

end

interpretation unix: stop_calls unix_os "\<lambda>fd w. fd \<in> set (ux_shut w)"
  by unfold_locales (auto simp: unix_os_def socket_file_def split: if_splits)

text \<open>
  The steps that are bound to happen during a stop, each thread being scheduled: those of \<open>stop\<close> itself, and
  those of the other threads that do not block. A thread in \<open>accept4\<close> or \<open>recv\<close> goes on for certain only if
  its descriptor has been shut down.
\<close>

inductive shutdown_step ::
    "'j json_api \<Rightarrow> 'w server_os \<Rightarrow> (int \<Rightarrow> 'w \<Rightarrow> bool) \<Rightarrow> 'w UdsServerProcess \<Rightarrow> 'w UdsServerProcess \<Rightarrow> bool"
  for J :: "'j json_api" and os :: "'w server_os" and shut :: "int \<Rightarrow> 'w \<Rightarrow> bool" where
  join_worker: "up_stopping p = Joining_worker \<Longrightarrow> up_worker p \<in> {No_thread, Ended} \<Longrightarrow> shutdown_step J os shut p (stop_clients os p)"
| join_clients: "up_stopping p = Joining_clients \<Longrightarrow> list_all cw_done (up_client_workers p) \<Longrightarrow> shutdown_step J os shut p (stop_end os p)"
| load: "up_stopping p = Joining_worker \<Longrightarrow> up_worker p = Before_load \<Longrightarrow> shutdown_step J os shut p (accept_load p)"
| accept: "up_stopping p = Joining_worker \<Longrightarrow> up_worker p = Before_accept fd \<Longrightarrow> shut fd (up_world p) \<Longrightarrow>
    shutdown_step J os shut p (accept_client os fd p)"
| check: "up_stopping p = Joining_clients \<Longrightarrow> i < length (up_client_workers p) \<Longrightarrow> \<not> cw_done (up_client_workers p ! i) \<Longrightarrow>
    \<not> cw_receiving (up_client_workers p ! i) \<Longrightarrow> shutdown_step J os shut p (client_check os i p)"
| receive: "up_stopping p = Joining_clients \<Longrightarrow> i < length (up_client_workers p) \<Longrightarrow> \<not> cw_done (up_client_workers p ! i) \<Longrightarrow>
    cw_receiving (up_client_workers p ! i) \<Longrightarrow> shut (cw_fd (up_client_workers p ! i)) (up_world p) \<Longrightarrow>
    shutdown_step J os shut p (client_receive J os i p)"

lemma shutdown_step_thread: "shutdown_step J os shut p q \<Longrightarrow> \<not> up_terminated p \<Longrightarrow> thread_step J os p q"
  by (induction rule: shutdown_step.induct) (auto intro: thread_step.intros)

text \<open>
  A stop from its call on: \<open>stop_run J os shut p q\<close> holds when \<open>stop\<close> was called in \<open>p\<close>, a reachable state, and
  after some steps of the threads and of the environment, in any order, the process is in \<open>q\<close>. The
  environment does not undo a shutdown.
\<close>

inductive stop_run ::
    "'j json_api \<Rightarrow> 'w server_os \<Rightarrow> (int \<Rightarrow> 'w \<Rightarrow> bool) \<Rightarrow> 'w UdsServerProcess \<Rightarrow> 'w UdsServerProcess \<Rightarrow> bool"
  for J :: "'j json_api" and os :: "'w server_os" and shut :: "int \<Rightarrow> 'w \<Rightarrow> bool" and p :: "'w UdsServerProcess" where
  called: "server_reachable J os p \<Longrightarrow> \<not> up_terminated p \<Longrightarrow> up_stopping p = Not_stopping \<Longrightarrow> stop_run J os shut p (stop_begin os p)"
| threads: "stop_run J os shut p q \<Longrightarrow> up_stopping q \<noteq> Not_stopping \<Longrightarrow> thread_step J os q r \<Longrightarrow> stop_run J os shut p r"
| world: "stop_run J os shut p q \<Longrightarrow> up_stopping q \<noteq> Not_stopping \<Longrightarrow> \<not> up_terminated q \<Longrightarrow>
    (\<And>fd. shut fd (up_world q) \<Longrightarrow> shut fd w) \<Longrightarrow> stop_run J os shut p (q\<lparr>up_world := w\<rparr>)"

lemma stop_run_reachable: "stop_run J os shut p q \<Longrightarrow> server_reachable J os q"
  by (induction rule: stop_run.induct)
     (blast intro: server_reachable_thread stop_begin_step server_reachable.stepped environment)+

text \<open>How far a stop has come: its phase, the accepting thread, the client threads.\<close>

fun thread_rank :: "accept_thread \<Rightarrow> nat" where
  "thread_rank No_thread = 0"
| "thread_rank Ended = 1"
| "thread_rank Before_load = 2"
| "thread_rank (Before_accept fd) = 3"

fun phase_rank :: "stop_phase \<Rightarrow> nat" where
  "phase_rank Not_stopping = 0"
| "phase_rank Joining_clients = 1"
| "phase_rank Joining_worker = 2"

definition client_rank :: "ClientWorker \<Rightarrow> nat" where
  "client_rank c = (if cw_done c then 0 else if cw_receiving c then 2 else 1)"

definition stop_rank :: "'w UdsServerProcess \<Rightarrow> nat \<times> nat \<times> nat" where
  "stop_rank p = (phase_rank (up_stopping p), thread_rank (up_worker p),
     if up_stopping p = Joining_clients then sum_list (map client_rank (up_client_workers p)) else 0)"

definition stop_order :: "('w UdsServerProcess \<times> 'w UdsServerProcess) set" where
  "stop_order = inv_image (less_than <*lex*> less_than <*lex*> less_than) stop_rank"

lemma sum_list_update_less:
  fixes f :: "'a \<Rightarrow> nat"
  shows "i < length xs \<Longrightarrow> f c < f (xs ! i) \<Longrightarrow> sum_list (map f (xs[i := c])) < sum_list (map f xs)"
  by (induction xs arbitrary: i) (auto split: nat.splits)

lemma client_progress:
  assumes "i < length (up_client_workers p)" "\<not> cw_done (up_client_workers p ! i)" "up_stopping p = Joining_clients"
  shows "(client_end os i (p\<lparr>up_world := w, up_server := s\<rparr>), p) \<in> stop_order"
    "cw_receiving (up_client_workers p ! i) \<Longrightarrow> (client_receiving False i (p\<lparr>up_world := w, up_server := s\<rparr>), p) \<in> stop_order"
  using assms
  by (auto simp: stop_order_def stop_rank_def client_end_def client_receiving_def client_rank_def Let_def
      intro!: sum_list_update_less)

lemma client_rank_other:
  assumes "up_stopping p = Joining_worker"
  shows "stop_rank (client_end os i (p\<lparr>up_world := w, up_server := s\<rparr>)) = stop_rank p"
    "stop_rank (client_receiving b i (p\<lparr>up_world := w, up_server := s\<rparr>)) = stop_rank p"
  using assms by (simp_all add: stop_rank_def client_end_def client_receiving_def Let_def)

text \<open>
  During a stop no step of any thread moves it backwards; each step that is bound to happen moves it on,
  unless an exception ends the process.
\<close>

lemma thread_step_rank:
  assumes "thread_step J os p q" "up_stopping p \<noteq> Not_stopping" "device_ok (srv_device (up_server p))" "lifecycle_ok p"
  shows "(q, p) \<in> stop_order \<or> stop_rank q = stop_rank p"
  using assms
proof (induction rule: thread_step.induct)
  case (check_step p i)
  then show ?case
  proof (cases "up_stopping p")
    case Joining_clients
    with check_step have "cw_stop_requested (up_client_workers p ! i)" by (simp add: lifecycle_ok_def list_all_length)
    with check_step Joining_clients client_progress(1) [of i p os "up_server p" "up_world p"] show ?thesis
      by (simp add: client_check_def)
  next
    case Joining_worker
    then show ?thesis by (cases rule: client_check_cases [of os i p]) (simp_all only: client_rank_other simp_thms)
  qed simp
next
  case (receive_step p i)
  show ?case
    using receive_step.prems(2)
  proof (cases rule: client_receive_cases [where J = J and os = os and i = i])
    case (thrown s w)
    then show ?thesis by (simp add: stop_rank_def)
  qed (use receive_step client_progress [of i p] client_rank_other [of p] in \<open>cases "up_stopping p"; simp\<close>)+
qed (auto simp: stop_order_def stop_rank_def stop_clients_def stop_end_def accept_load_def accept_client_def
      lifecycle_ok_def dropNextApplyReplyForTest_def Let_def split: prod.splits stop_phase.splits)

lemma shutdown_step_rank:
  assumes "shutdown_step J os shut p q" "device_ok (srv_device (up_server p))" "lifecycle_ok p" "\<not> up_terminated q"
  shows "(q, p) \<in> stop_order"
  using assms
proof (induction rule: shutdown_step.induct)
  case (check p i)
  then have "cw_stop_requested (up_client_workers p ! i)" by (simp add: lifecycle_ok_def list_all_length)
  with check client_progress(1) [of i p os "up_server p" "up_world p"] show ?case by (simp add: client_check_def)
next
  case (receive p i)
  from receive.prems(1) show ?case
    by (cases rule: client_receive_cases [where J = J and os = os and i = i])
       (use receive client_progress [of i p] in simp_all)
qed (auto simp: stop_order_def stop_rank_def stop_clients_def stop_end_def accept_load_def accept_client_def
      lifecycle_ok_def Let_def split: prod.splits)

text \<open>The invariant of a stop: threads that block have been woken, and the socket file is still owned.\<close>

definition stop_ok :: "(int \<Rightarrow> 'w \<Rightarrow> bool) \<Rightarrow> 'w UdsServerProcess \<Rightarrow> bool" where
  "stop_ok shut p =
     (case up_stopping p of
        Not_stopping \<Rightarrow> True
      | Joining_worker \<Rightarrow> (\<forall>fd. up_worker p = Before_accept fd \<longrightarrow> shut fd (up_world p))
      | Joining_clients \<Rightarrow> (\<forall>c \<in> set (up_client_workers p). \<not> cw_done c \<and> cw_receiving c \<longrightarrow> shut (cw_fd c) (up_world p)))"

context stop_calls
begin

lemma stop_ok_begin: "up_stopping p = Not_stopping \<Longrightarrow> lifecycle_ok p \<Longrightarrow> stop_ok shut (stop_begin os p)"
  by (auto simp: stop_ok_def stop_begin_def lifecycle_ok_def Let_def intro!: close_keeps shutdown_shuts split: if_splits)

lemma stop_ok_client:
  assumes "stop_ok shut p" "i < length (up_client_workers p)" "\<And>fd. shut fd (up_world p) \<Longrightarrow> shut fd w"
  shows "stop_ok shut (client_end os i (p\<lparr>up_world := w, up_server := s\<rparr>))"
    "stop_ok shut (client_receiving False i (p\<lparr>up_world := w, up_server := s\<rparr>))"
    "stop_ok shut (p\<lparr>up_world := w, up_server := s, up_terminated := b\<rparr>)"
  using assms
  by (auto simp: stop_ok_def client_end_def client_receiving_def Let_def close_keeps
      split: stop_phase.splits dest!: set_update_subset_insert [THEN subsetD])

lemma stop_ok_step:
  assumes "thread_step J os p q" "up_stopping p \<noteq> Not_stopping" "stop_ok shut p"
    "device_ok (srv_device (up_server p))" "lifecycle_ok p" "\<not> up_terminated q"
  shows "stop_ok shut q"
  using assms
proof (induction rule: thread_step.induct)
  case (stop_clients_step p)
  then show ?case by (auto simp: stop_ok_def stop_clients_def intro!: shutdown_clients(2))
next
  case (check_step p i)
  show ?case
  proof (cases "cw_stop_requested (up_client_workers p ! i)")
    case True
    then show ?thesis
      using stop_ok_client(1) [OF check_step.prems(2) check_step.hyps(2), where w = "up_world p" and s = "up_server p"]
      by (simp add: client_check_def)
  next
    case False
    then have "up_stopping p = Joining_worker"
      using check_step by (cases "up_stopping p") (auto simp: lifecycle_ok_def list_all_length)
    with check_step.prems(2) False show ?thesis by (simp add: stop_ok_def client_check_def client_receiving_def)
  qed
next
  case (receive_step p i)
  note keep = recv_send_keeps [of "cw_fd (up_client_workers p ! i)" "up_world p"]
  from receive_step.prems(3) show ?case
    by (cases rule: client_receive_cases [where J = J and os = os and i = i])
       (use receive_step stop_ok_client [OF receive_step.prems(2) receive_step.hyps(2)] keep in auto)
qed (auto simp: stop_ok_def stop_end_def accept_load_def accept_client_def lifecycle_ok_def
      dropNextApplyReplyForTest_def Let_def split: prod.splits stop_phase.splits if_splits)

lemma stop_run_ok:
  assumes "stop_run J os shut p q" "\<not> up_terminated q"
  shows "stop_ok shut q"
  using assms
proof (induction rule: stop_run.induct)
  case called
  then show ?case using server_invariant stop_ok_begin by blast
next
  case (threads q r)
  then have "\<not> up_terminated q" by (auto elim: thread_step.cases)
  with threads server_invariant [OF stop_run_reachable [OF threads.hyps(1)]] show ?case
    using stop_ok_step by blast
next
  case (world q w)
  then show ?case by (auto simp: stop_ok_def split: stop_phase.splits)
qed

lemma shutdown_progress:
  assumes "stop_ok shut p" "up_stopping p \<noteq> Not_stopping"
  shows "\<exists>q. shutdown_step J os shut p q"
proof (cases "up_stopping p")
  case Joining_worker
  show ?thesis
    by (cases "up_worker p") (use Joining_worker assms in \<open>auto simp: stop_ok_def intro: shutdown_step.intros\<close>)
next
  case Joining_clients
  show ?thesis
  proof (cases "list_all cw_done (up_client_workers p)")
    case False
    then obtain i where "i < length (up_client_workers p)" "\<not> cw_done (up_client_workers p ! i)"
      by (auto simp: list_all_length)
    with Joining_clients assms show ?thesis
      using nth_mem by (cases "cw_receiving (up_client_workers p ! i)") (fastforce simp: stop_ok_def intro: shutdown_step.intros)+
  qed (use Joining_clients in \<open>blast intro: shutdown_step.intros\<close>)
qed (use assms in simp)

end

text \<open>Only the end of the stop gives the socket file up, and it looks for it first.\<close>

definition file_gone :: "'w server_os \<Rightarrow> string \<Rightarrow> 'w \<Rightarrow> bool" where
  "file_gone os path w \<longleftrightarrow> \<not> socket_file os path w \<or> (\<exists>w'. fst (so_unlink os path w') \<noteq> 0 \<and> w = snd (so_unlink os path w'))"

lemma thread_step_socket:
  assumes "stop_calls os shut" "thread_step J os p q" "up_stopping p \<noteq> Not_stopping" "up_owns_socket p"
  shows "if up_stopping q = Not_stopping then file_gone os (up_socket_path q) (up_world q) else up_owns_socket q"
  using assms(2-4)
proof (induction rule: thread_step.induct)
  case (stop_end_step p)
  obtain status is_socket w where look: "so_lstat os (up_socket_path p) (up_world p) = ((status, is_socket), w)"
    by (metis prod.exhaust)
  note laws = stop_calls.lstat_looks [OF assms(1), of "up_socket_path p" "up_world p"]
    stop_calls.unlink_removes [OF assms(1), of "up_socket_path p" w]
  have "file_gone os (up_socket_path p) (if status = 0 \<and> is_socket then snd (so_unlink os (up_socket_path p) w) else w)"
    using laws look by (auto simp: file_gone_def socket_file_def)
  with look stop_end_step show ?case by (simp add: stop_end_def Let_def)
next
  case (check_step p i)
  then show ?case by (simp add: client_check_def client_end_def client_receiving_def Let_def)
next
  case (receive_step p i)
  then show ?case
    by (auto simp: client_receive_def client_end_def client_receiving_def Let_def split: prod.splits option.splits sum.splits)
qed (auto simp: stop_clients_def accept_load_def accept_client_def dropNextApplyReplyForTest_def split: prod.splits)

lemma stop_run_socket:
  assumes "stop_calls os shut" "stop_run J os shut p q" "up_owns_socket p"
  shows "if up_stopping q = Not_stopping then file_gone os (up_socket_path q) (up_world q) else up_owns_socket q"
  using assms(2,3)
proof (induction rule: stop_run.induct)
  case called
  then show ?case by (simp add: stop_begin_def Let_def)
next
  case (threads q r)
  then show ?case using thread_step_socket [OF assms(1) threads.hyps(3,2)] by simp
qed simp

lemma stop_run_requested:
  assumes "stop_run J os shut p q"
  shows "if up_stopping q = Not_stopping then up_listen_fd q < 0 else True"
  using assms
proof (induction rule: stop_run.induct)
  case (threads q r)
  note inv = server_invariant [OF stop_run_reachable [OF threads.hyps(1)]]
  from threads.hyps(3,2) inv show ?case
  proof (induction rule: thread_step.induct)
    case (receive_step p i)
    then show ?case
      by (auto simp: client_receive_def client_end_def client_receiving_def Let_def split: prod.splits option.splits sum.splits)
  qed (auto simp: stop_clients_def stop_end_def accept_load_def accept_client_def dropNextApplyReplyForTest_def
      client_check_def client_end_def client_receiving_def lifecycle_ok_def Let_def split: prod.splits)
qed (simp_all add: stop_begin_def Let_def)

text \<open>C31: a stop comes to its end and cleans up. From the call of \<open>stop\<close> on a reachable server, whatever the
  threads and the environment do in between: as long as the stop is not over, some step of it is bound to
  happen, because the descriptors on which the accepting thread and the clients may be blocked have been shut
  down; each such step moves the stop on in a well-founded order (unless an exception ends the process) and
  no other step moves it back, so it ends after finitely many of them. When it is over the server does not
  run, its accepting thread and its clients are gone, and if it was running its socket file does not exist
  any more, except where the operating system has refused to unlink it.\<close>

theorem stop_completes:
  fixes os :: "'w server_os"
  assumes "stop_calls os shut" "stop_run J os shut p q" "\<not> up_terminated q"
  shows "wf (stop_order :: ('w UdsServerProcess \<times> 'w UdsServerProcess) set) \<and>
    (if up_stopping q = Not_stopping
     then \<not> running q \<and> up_worker q = No_thread \<and> up_client_workers q = [] \<and> \<not> up_owns_socket q \<and>
       (running p \<longrightarrow> file_gone os (up_socket_path q) (up_world q))
     else (\<exists>r. shutdown_step J os shut q r) \<and>
       (\<forall>r. shutdown_step J os shut q r \<longrightarrow> stop_run J os shut p r \<and> (up_terminated r \<or> (r, q) \<in> stop_order)) \<and>
       (\<forall>r. thread_step J os q r \<longrightarrow> (r, q) \<in> stop_order \<or> stop_rank r = stop_rank q))"
proof (rule conjI)
  show "wf (stop_order :: ('w UdsServerProcess \<times> 'w UdsServerProcess) set)" by (simp add: stop_order_def wf_lex_prod)
  have inv: "device_ok (srv_device (up_server q))" "lifecycle_ok q"
    using server_invariant stop_run_reachable [OF assms(2)] by blast+
  show "if up_stopping q = Not_stopping
     then \<not> running q \<and> up_worker q = No_thread \<and> up_client_workers q = [] \<and> \<not> up_owns_socket q \<and>
       (running p \<longrightarrow> file_gone os (up_socket_path q) (up_world q))
     else (\<exists>r. shutdown_step J os shut q r) \<and>
       (\<forall>r. shutdown_step J os shut q r \<longrightarrow> stop_run J os shut p r \<and> (up_terminated r \<or> (r, q) \<in> stop_order)) \<and>
       (\<forall>r. thread_step J os q r \<longrightarrow> (r, q) \<in> stop_order \<or> stop_rank r = stop_rank q)"
  proof (cases "up_stopping q = Not_stopping")
    case True
    have p: "lifecycle_ok p" "up_stopping p = Not_stopping"
      using assms(2) by (induction rule: stop_run.induct) (use server_invariant in blast)+
    then have "running p \<Longrightarrow> up_owns_socket p" by (simp add: lifecycle_ok_def running_def)
    with True inv stop_run_requested [OF assms(2)] stop_run_socket [OF assms(1,2)] show ?thesis
      by (auto simp: lifecycle_ok_def running_def)
  next
    case False
    have "\<exists>r. shutdown_step J os shut q r"
      using stop_calls.shutdown_progress [OF assms(1) stop_calls.stop_run_ok [OF assms] False] .
    moreover have "stop_run J os shut p r" if "shutdown_step J os shut q r" for r
      using stop_run.threads [OF assms(2) False shutdown_step_thread [OF that assms(3)]] .
    ultimately show ?thesis
      using False thread_step_rank [OF _ False inv] shutdown_step_rank [OF _ inv] by (metis (full_types))
  qed
qed

theorem stop_completes_witness:
  "running example_serving \<and>
   (\<exists>r. shutdown_step ref_json_api unix_os (\<lambda>fd w. fd \<in> set (ux_shut w)) (stop_begin unix_os example_serving) r \<and>
      (r, stop_begin unix_os example_serving) \<in> stop_order)"
proof -
  let ?q = "stop_begin unix_os example_serving"
  have c: "\<not> up_terminated example_serving" "up_stopping example_serving = Not_stopping"
    "\<not> up_terminated ?q" "up_stopping ?q \<noteq> Not_stopping" "running example_serving" "up_worker ?q = Before_accept 3"
    "\<not> up_terminated (accept_client unix_os 3 ?q)" "3 \<in> set (ux_shut (up_world ?q))" "up_stopping ?q = Joining_worker"
    by code_simp+
  have run: "stop_run ref_json_api unix_os (\<lambda>fd w. fd \<in> set (ux_shut w)) example_serving ?q"
    by (rule stop_run.called [OF example_serving_reachable c(1,2)])
  have "shutdown_step ref_json_api unix_os (\<lambda>fd w. fd \<in> set (ux_shut w)) ?q (accept_client unix_os 3 ?q)"
    by (rule shutdown_step.accept [OF c(9,6)]) (rule c(8))
  with stop_completes [OF unix.stop_calls_axioms run c(3)] c(4,5,7) show ?thesis by auto
qed

section \<open>Starting\<close>

text \<open>The operating system with the list of open sockets beside the world.\<close>

definition beside :: "('w \<Rightarrow> 'a \<times> 'w) \<Rightarrow> 'w \<times> int list \<Rightarrow> 'a \<times> 'w \<times> int list" where
  "beside f wl = (case f (fst wl) of (x, w) \<Rightarrow> (x, w, snd wl))"

definition tracked :: "'w server_os \<Rightarrow> ('w \<times> int list) server_os" where
  "tracked os = \<lparr>so_lstat = (\<lambda>path. beside (so_lstat os path)),
     so_socket = (\<lambda>wl. case so_socket os (fst wl) of (fd, w) \<Rightarrow> (fd, w, if fd \<ge> 0 then fd # snd wl else snd wl)),
     so_connect = (\<lambda>fd path. beside (so_connect os fd path)),
     so_close = (\<lambda>fd wl. (so_close os fd (fst wl), remove1 fd (snd wl))),
     so_unlink = (\<lambda>path. beside (so_unlink os path)),
     so_create_directories = (\<lambda>path. beside (so_create_directories os path)),
     so_remove = (\<lambda>path wl. (so_remove os path (fst wl), snd wl)),
     so_bind = (\<lambda>fd path. beside (so_bind os fd path)), so_chmod = (\<lambda>path mode. beside (so_chmod os path mode)),
     so_listen = (\<lambda>fd n. beside (so_listen os fd n)), so_accept4 = (\<lambda>fd. beside (so_accept4 os fd)),
     so_shutdown = (\<lambda>fd wl. (so_shutdown os fd (fst wl), snd wl)),
     so_recv = (\<lambda>fd n. beside (so_recv os fd n)), so_send = (\<lambda>fd bytes. beside (so_send os fd bytes)),
     so_errno = (\<lambda>wl. so_errno os (fst wl)), so_strerror = so_strerror os, so_ENOENT = so_ENOENT os,
     so_ECONNREFUSED = so_ECONNREFUSED os, so_EINTR = so_EINTR os\<rparr>"

text \<open>A computation that returns, with the sockets open before and a property of its value and those open after.\<close>

definition sockets :: "int list \<Rightarrow> ('a \<Rightarrow> int list \<Rightarrow> bool) \<Rightarrow> ('w \<times> int list, 'a) sexn \<Rightarrow> bool" where
  "sockets fds G m \<longleftrightarrow> (\<forall>w. \<exists>x w' fds'. m (w, fds) = (Inr x, (w', fds')) \<and> G x fds')"

lemma socketsD: "sockets fds G m \<Longrightarrow> m (w, fds) = (r, (w', fds')) \<Longrightarrow> \<exists>x. r = Inr x \<and> G x fds'"
  unfolding sockets_def by (metis Pair_inject)

lemma sockets_bind_gen:
  assumes "sockets fds H m" "\<And>x fds'. H x fds' \<Longrightarrow> sockets fds' G (f x)"
  shows "sockets fds G (bindS m f)"
  unfolding sockets_def
proof
  fix w
  from assms(1) obtain x w' fds' where x: "m (w, fds) = (Inr x, (w', fds'))" "H x fds'"
    unfolding sockets_def by blast
  from assms(2) [OF x(2)] show "\<exists>x w' fds'. bindS m f (w, fds) = (Inr x, (w', fds')) \<and> G x fds'"
    by (simp add: bindS_def x(1) sockets_def)
qed

lemma sockets_bind: "sockets fds (\<lambda>x l. l = fds) m \<Longrightarrow> (\<And>x. sockets fds G (f x)) \<Longrightarrow> sockets fds G (bindS m f)"
  by (auto intro: sockets_bind_gen)

lemma sockets_return: "G x fds \<Longrightarrow> sockets fds G (returnS x)"
  by (simp add: sockets_def returnS_def)

lemma sockets_if: "(b \<Longrightarrow> sockets fds G m) \<Longrightarrow> (\<not> b \<Longrightarrow> sockets fds G n) \<Longrightarrow> sockets fds G (if b then m else n)"
  by simp

lemma sockets_case_prod: "(\<And>x y. sockets fds G (f x y)) \<Longrightarrow> sockets fds G (case z of (x, y) \<Rightarrow> f x y)"
  by (cases z) simp

lemma sockets_calls:
  "sockets fds (\<lambda>x l. l = fds) (getS f)"
  "sockets fds (\<lambda>x l. l = fds) (os_call (beside g))"
  "sockets fds (\<lambda>x l. \<not> Error_ok x \<and> l = fds) (internal_errno os)"
  by (auto simp: sockets_def getS_def os_call_def beside_def internal_errno_def split: prod.splits)

lemma sockets_weaken: "sockets fds G m \<Longrightarrow> (\<And>x l. G x l \<Longrightarrow> H x l) \<Longrightarrow> sockets fds H m"
  unfolding sockets_def by metis

lemma sockets_close:
  assumes "sockets fds G n"
  shows "sockets (fd # fds) G (thenS (os_do (so_close (tracked os) fd)) n)"
    "sockets fds G (thenS (os_do (so_remove (tracked os) path)) n)"
  using assms by (simp_all add: sockets_def thenS_def bindS_def os_do_def tracked_def)

lemma sockets_open:
  assumes "\<And>fd. sockets fds G (f fd)" "\<And>fd. fd \<ge> 0 \<Longrightarrow> sockets (fd # fds) G (g fd)"
  shows "sockets fds G (bindS (os_call (so_socket (tracked os))) (\<lambda>fd. if fd < 0 then f fd else g fd))"
  by (rule sockets_bind_gen [where H = "\<lambda>fd l. l = (if fd \<ge> 0 then fd # fds else fds)"])
     (use assms in \<open>auto simp: sockets_def os_call_def tracked_def split: prod.splits if_splits\<close>)

lemma tracked_beside:
  "so_lstat (tracked os) path = beside (so_lstat os path)"
  "so_connect (tracked os) fd path = beside (so_connect os fd path)"
  "so_unlink (tracked os) path = beside (so_unlink os path)"
  "so_create_directories (tracked os) path = beside (so_create_directories os path)"
  "so_bind (tracked os) fd path = beside (so_bind os fd path)"
  "so_chmod (tracked os) path mode = beside (so_chmod os path mode)"
  "so_listen (tracked os) fd n = beside (so_listen os fd n)"
  by (simp_all add: tracked_def)

lemma sockets_errno: "sockets fds (\<lambda>x l. l = fds) (internal_errno os)"
  by (rule sockets_weaken [OF sockets_calls(3)]) simp

lemmas sockets_rules = sockets_open sockets_bind sockets_return sockets_if sockets_case_prod
  sockets_calls(1,2) sockets_errno sockets_close

lemma removeStaleSocket_sockets: "sockets fds (\<lambda>x l. l = fds) (removeStaleSocket (tracked os) path)"
  unfolding removeStaleSocket_def tracked_beside
  by (intro sockets_rules refl)

lemma prepare_path_sockets: "sockets fds (\<lambda>x l. l = fds) (prepare_path (tracked os) path)"
  unfolding prepare_path_def tracked_beside
  by (intro sockets_rules removeStaleSocket_sockets refl)

definition opened :: "int list \<Rightarrow> Error + int \<Rightarrow> int list \<Rightarrow> bool" where
  "opened fds r fds' = (case r of Inl e \<Rightarrow> \<not> Error_ok e \<and> fds' = fds | Inr fd \<Rightarrow> fd \<ge> 0 \<and> fds' = fd # fds)"

lemma open_socket_sockets: "sockets fds (opened fds) (open_socket (tracked os) path)"
proof -
  have fail: "sockets l (opened fds) (bindS (internal_errno (tracked os)) f)"
    if "\<And>e. \<not> Error_ok e \<Longrightarrow> sockets l (opened fds) (f e)" for l f
    by (rule sockets_bind_gen [OF sockets_calls(3)]) (use that in auto)
  show ?thesis
    unfolding open_socket_def tracked_beside
    by (intro fail sockets_rules | simp add: opened_def)+
qed

lemma start_world_sockets: "sockets fds (opened fds) (start_world (tracked os) path)"
  unfolding start_world_def
  by (rule sockets_bind [OF prepare_path_sockets]) (auto intro!: sockets_rules open_socket_sockets simp: opened_def)

text \<open>C32: starting the server leaves no socket behind when it fails. Whatever the system calls answer, it ends
  without an exception; an error leaves the server as it was, with every socket opened on the way closed
  again, the probe of a stale socket file included; success leaves exactly one new open socket, the one the
  server listens on, and only then is the accepting thread started.\<close>

theorem start_releases_sockets:
  assumes "start (tracked os) p = (e, q)" "up_world p = (w, fds)"
  shows "if Error_ok e
    then \<not> running p \<and> running q \<and> snd (up_world q) = up_listen_fd q # fds \<and> up_owns_socket q \<and> up_worker q = Before_load
    else q = p\<lparr>up_world := up_world q\<rparr> \<and> snd (up_world q) = fds"
proof (cases "running p")
  case True
  with assms show ?thesis by (auto simp: start_def)
next
  case False
  obtain r w' fds' where s: "start_world (tracked os) (up_socket_path p) (w, fds) = (r, (w', fds'))"
    by (metis prod.exhaust)
  from socketsD [OF start_world_sockets s] obtain x where "r = Inr x" "opened fds x fds'" by blast
  with s assms False show ?thesis by (auto simp: start_def running_def opened_def split: sum.splits)
qed

theorem start_releases_sockets_witness:
  "snd (up_world (snd (start (tracked (unix_os\<lparr>so_listen := (\<lambda>fd n w. (- 1, w))\<rparr>))
     (projr (UdsServer_new ''/tmp/s'' (Some example_connected) (fresh_unix, [0, 1, 2 :: int])))))) = [0, 1, 2]"
proof -
  let ?os = "tracked (unix_os\<lparr>so_listen := (\<lambda>fd n w. (- 1, w))\<rparr>)"
  let ?p = "projr (UdsServer_new ''/tmp/s'' (Some example_connected) (fresh_unix, [0, 1, 2 :: int]))"
  obtain e q where s: "start ?os ?p = (e, q)" by (rule prod.exhaust)
  moreover have "\<not> Error_ok (fst (start ?os ?p))" by code_simp
  moreover have "up_world ?p = (fresh_unix, [0, 1, 2 :: int])" by code_simp
  ultimately show ?thesis using start_releases_sockets [OF s] by simp
qed

end
