(* ===== verification/Processes_Properties.thy ===== *)
theory Processes_Properties
  imports Processes Uds_Lifecycle_Properties
begin

text \<open>
  Properties of the processes: the deployed southbound daemon with its socket keeps the crossbar of the
  device at the other end whatever Redis and the transport do, the exit codes, and what can be configured.
\<close>

section \<open>The socket backend keeps what the system calls keep\<close>

definition os_keeps :: "('w \<Rightarrow> bool) \<Rightarrow> 'w os_api \<Rightarrow> bool" where
  "os_keeps Q os \<longleftrightarrow> (\<forall>w. Q w \<longrightarrow>
     Q (snd (os_socket os w)) \<and> (\<forall>fd name tv. Q (snd (os_setsockopt os fd name tv w))) \<and>
     (\<forall>fd path. Q (snd (os_connect os fd path w))) \<and> (\<forall>fd. Q (os_close os fd w)) \<and>
     (\<forall>fd bytes. Q (snd (os_send os fd bytes w))) \<and> (\<forall>fd n. Q (snd (os_recv os fd n w))))"

lemma keeps_os_calls:
  assumes "os_keeps Q os"
  shows "keeps (\<lambda>b. Q (be_world b)) (syscall (os_socket os))"
    "keeps (\<lambda>b. Q (be_world b)) (syscall (os_setsockopt os fd name tv))"
    "keeps (\<lambda>b. Q (be_world b)) (syscall (os_connect os fd path))"
    "keeps (\<lambda>b. Q (be_world b)) (syscall (os_send os fd bytes))"
    "keeps (\<lambda>b. Q (be_world b)) (syscall (os_recv os fd n))"
    "keeps (\<lambda>b. Q (be_world b)) (closeLocked os)"
    "keeps (\<lambda>b. Q (be_world b)) (modifyS (\<lambda>b. b\<lparr>be_world := os_close os fd (be_world b)\<rparr>))"
    "keeps (\<lambda>b. Q (be_world b)) next_request_id" "keeps (\<lambda>b. Q (be_world b)) (errno_of os)"
    "keeps (\<lambda>b. Q (be_world b)) (modifyS (\<lambda>b. b\<lparr>be_device_generation := g\<rparr>))"
    "keeps (\<lambda>b. Q (be_world b)) (modifyS (\<lambda>b. b\<lparr>be_socket_fd := fd\<rparr>))"
  using assms
  by (simp_all add: os_keeps_def closeLocked_def next_request_id_def errno_of_def keeps_def modifyS_def getS_def
      syscall_def case_prod_beta del: split_paired_All)

lemma keeps_exchange:
  assumes "os_keeps Q os"
  shows "keeps (\<lambda>b. Q (be_world b)) (exchangeLocked J os rq rt payload)"
proof -
  note rules = keeps_rules keeps_os_calls [OF assms]
  have "keeps (\<lambda>b. Q (be_world b)) (receiveLocked J os request rt)" for request rt
    unfolding receiveLocked_def by (intro rules)
  then have send: "keeps (\<lambda>b. Q (be_world b)) (sendAndReceiveLocked J os request rt)" for request rt
    unfolding sendAndReceiveLocked_def by (intro rules)
  have "keeps (\<lambda>b. Q (be_world b)) (helloLocked J os)" unfolding helloLocked_def by (intro rules send)
  then have conn: "keeps (\<lambda>b. Q (be_world b)) (ensureConnectedLocked J os)"
    unfolding ensureConnectedLocked_def by (intro rules)
  have req: "keeps (\<lambda>b. Q (be_world b)) (requestLocked J os rq rt payload)"
    unfolding requestLocked_def by (intro rules send)
  have "keeps (\<lambda>b. Q (be_world b)) (retryLocked J os rq rt payload response)" for response
    unfolding retryLocked_def by (intro rules conn req)
  then show ?thesis unfolding exchangeLocked_def by (intro rules conn req)
qed

lemma socket_backend_keeps:
  assumes "os_keeps Q os"
  shows "backend_keeps (\<lambda>b. Q (be_world b)) (UdsBackend_api J os)"
proof -
  note rules = keeps_rules keeps_exchange [OF assms]
  have "keeps (\<lambda>b. Q (be_world b)) (query J os rq rt payload decoder)" for rq rt payload and decoder :: "string \<Rightarrow> 'x result"
    unfolding query_def by (intro rules)
  note q = this
  show ?thesis
    unfolding backend_keeps_def backend_queries_def UdsBackend_api_def
    by (auto simp: uds_getDeviceInfo_def uds_getConnections_def uds_getPortState_def uds_applyConnections_def
        uds_fault_def intro!: rules q)
qed

section \<open>The daemon keeps what its surroundings keep\<close>

definition process_keeps :: "('s \<Rightarrow> bool) \<Rightarrow> 's process_api \<Rightarrow> bool" where
  "process_keeps P A \<longleftrightarrow> keeps P (pr_running A) \<and> keeps P (pr_steady A) \<and>
     (\<forall>n. keeps P (pr_sleep A n)) \<and> (\<forall>t. keeps P (pr_cerr A t))"

lemma keeps_process_calls:
  assumes "process_keeps P A"
  shows "keeps P (pr_running A)" "keeps P (pr_steady A)" "keeps P (pr_sleep A n)" "keeps P (pr_cerr A t)"
    "keeps P (crash_hook A)"
  using assms by (auto simp: process_keeps_def crash_hook_def intro!: keeps_rules)

lemma keeps_while_running:
  "keeps P flag \<Longrightarrow> (\<And>l. keeps P (pass l)) \<Longrightarrow> keeps P (while_running fuel flag pass l)"
  by (induction fuel arbitrary: l) (auto intro!: keeps_rules)

text \<open>The service, with what is to be known of its command handler as a premise.\<close>

lemma keeps_syncd_service_gen:
  assumes "redis_keeps P R" "keeps P now" "backend_queries P D" "backend_faults P D" "process_keeps P A"
    and cmd: "\<And>c. keeps (\<lambda>sy. P (sy_world sy)) (processOne R J D now (pr_steady A) c (crash_hook A) (\<lambda>_. returnS ()))"
  shows "keeps P (syncd_service fuel A R J D now power_text)"
proof -
  let ?Q = "\<lambda>sy. P (sy_world sy)"
  note calls = keeps_rules keeps_worldS keeps_process_calls [OF assms(5)] keeps_polls [OF assms(1-3)]
    keeps_processFaultOne [OF assms(1-4)] keeps_while_running
  have "keeps ?Q (syncd_pass A R J D now power_text interval l)" for interval l
    unfolding syncd_pass_def by (intro calls cmd)
  then have main: "keeps ?Q (thenS (syncd_initialize R J D now power_text)
      (bindS (liftE (devicePollInterval A)) (\<lambda>poll_interval.
       bindS (worldS (pr_steady A)) (\<lambda>t1. bindS (worldS (pr_steady A)) (\<lambda>t2.
       while_running fuel (worldS (pr_running A)) (syncd_pass A R J D now power_text poll_interval)
         (t1 + ms poll_interval, t2 + ms 250))))))"
    by (intro calls)
  show ?thesis
  proof (rule keepsI)
    fix w r w' assume w: "syncd_service fuel A R J D now power_text w = (r, w')" "P w"
    show "P w'"
    proof (cases "bindE (pendingMinIdle A) (\<lambda>idle. SyncdService_new True idle w)")
      case (Inr service)
      then have "sy_world service = w"
        by (auto simp: SyncdService_new_def exn_simps split: if_splits)
      with w Inr keepsD [OF main, of service] show ?thesis
        by (auto simp: syncd_service_def split: prod.splits)
    qed (use w in \<open>simp add: syncd_service_def\<close>)
  qed
qed

lemma keeps_syncd_service:
  assumes "redis_keeps P R" "keeps P now" "backend_keeps P D" "process_keeps P A"
  shows "keeps P (syncd_service fuel A R J D now power_text)"
  by (intro keeps_syncd_service_gen keeps_processOne backend_keepsD assms keeps_process_calls [OF assms(4)] keeps_pure)

section \<open>The deployed daemon\<close>

text \<open>
  The other end of the socket: a system call of the daemon may let the server handle any number of packets
  with any contents, from the daemon and from other clients, and nothing else changes the device.
\<close>

definition served :: "'j json_api \<Rightarrow> UdsServer \<Rightarrow> UdsServer \<Rightarrow> bool" where
  "served J s s' \<longleftrightarrow> (\<exists>packet r. serve_packet J packet s = Some (r, s'))"

definition transport_ok :: "'j json_api \<Rightarrow> ('w \<Rightarrow> UdsServer) \<Rightarrow> 'w os_api \<Rightarrow> bool" where
  "transport_ok J server os \<longleftrightarrow> (\<forall>w.
     (served J)\<^sup>*\<^sup>* (server w) (server (snd (os_socket os w))) \<and>
     (\<forall>fd name tv. (served J)\<^sup>*\<^sup>* (server w) (server (snd (os_setsockopt os fd name tv w)))) \<and>
     (\<forall>fd path. (served J)\<^sup>*\<^sup>* (server w) (server (snd (os_connect os fd path w)))) \<and>
     (\<forall>fd. (served J)\<^sup>*\<^sup>* (server w) (server (os_close os fd w))) \<and>
     (\<forall>fd bytes. (served J)\<^sup>*\<^sup>* (server w) (server (snd (os_send os fd bytes w)))) \<and>
     (\<forall>fd n. (served J)\<^sup>*\<^sup>* (server w) (server (snd (os_recv os fd n w)))))"

lemma served_device: "served J s s' \<Longrightarrow> device_ok (srv_device s) \<Longrightarrow> device_ok (srv_device s')"
  using serve_packet_device [of s J] by (auto simp: served_def) (metis option.inject prod.inject)

lemma served_many_device: "(served J)\<^sup>*\<^sup>* s s' \<Longrightarrow> device_ok (srv_device s) \<Longrightarrow> device_ok (srv_device s')"
  by (induction rule: rtranclp_induct) (auto intro: served_device)

lemma transport_keeps:
  assumes "transport_ok J server os"
  shows "os_keeps (\<lambda>w. device_ok (srv_device (server w))) os"
  using assms unfolding transport_ok_def os_keeps_def by (meson served_many_device)

lemma loopback_transport: "transport_ok J lw_server (loopback J)"
proof -
  have "(served J)\<^sup>*\<^sup>* (lw_server w) (lw_server (loop_deliver J bytes w))" for bytes w
    by (auto simp: loop_deliver_def served_def split: option.splits sum.splits prod.splits intro!: r_into_rtranclp, blast+)
  then show ?thesis
    by (simp add: transport_ok_def loopback_def split: option.splits)
qed

lemma keeps_syncd_main:
  fixes os :: "'w os_api" and P :: "'r process_api"
  assumes "os_keeps Q os"
  shows "keeps (\<lambda>w. Q (snd w)) (syncd_main fuel P redis_at J os now power_text argv)"
proof -
  let ?Q = "\<lambda>w. Q (be_world (snd w))"
  have proc: "process_keeps (\<lambda>w. Q' (snd w)) (process_of_world P)" for Q' :: "'x \<Rightarrow> bool"
    by (simp add: process_keeps_def process_of_world_def keeps_on_server)
  have service: "keeps ?Q (syncd_service fuel (process_of_world P) (server_of_world (redis_at endpoint)) J
      (device_of_world (UdsBackend_api J os)) (on_server now) power_text)" for endpoint
    by (intro keeps_syncd_service server_keeps_device keeps_on_server proc
        device_keeps [OF socket_backend_keeps [OF assms]])
  have backend: "keeps (\<lambda>w. Q (snd w)) (with_backend os path m)" if "keeps ?Q m" for path and m :: "('r \<times> 'w UdsDeviceBackend, unit) sexn"
  proof (rule keepsI)
    fix w r w' assume w: "Q (snd w)" "with_backend os path m w = (r, w')"
    show "Q (snd w')"
    proof (cases "UdsDeviceBackend_new path 1000 (snd w)")
      case (Inr b)
      then have b: "be_world b = snd w" by (auto simp: UdsDeviceBackend_new_def split: if_splits)
      obtain x r' b' where m: "m (fst w, b) = (x, (r', b'))" by (metis prod.exhaust)
      have "Q (be_world b')" using keepsD [OF that _ m] b w(1) by simp
      then have "Q (be_world (snd (closeLocked os b')))"
        using keeps_os_calls(6) [OF assms] by (simp add: keeps_def)
      with w(2) Inr m show ?thesis by (auto simp: with_backend_def)
    qed (use w in \<open>simp add: with_backend_def\<close>)
  qed
  show ?thesis
    unfolding syncd_main_def exit_on_exception_def
    by (intro keeps_rules keeps_catch_std keeps_on_server keeps_process_calls [OF proc] backend service)
qed

text \<open>The device at the other end of the socket keeps its crossbar in every run of \<open>ocs-syncd\<close>, whatever
  Redis answers and whatever packets other clients send in between; the server enforces this on any client.\<close>

lemma deployed_daemon_keeps_crossbar:
  assumes "transport_ok J server os" "device_ok (srv_device (server (snd w)))"
    "d = srv_device (server (snd (snd (syncd_main fuel P redis_at J os now power_text argv w))))"
  shows "distinct (map ac_input_port (getConnections d)) \<and> distinct (map ac_output_port (getConnections d))"
proof -
  have "device_ok d"
    using keepsD [OF keeps_syncd_main [OF transport_keeps [OF assms(1)]], of w] assms(2,3) by (metis prod.collapse)
  then show ?thesis by (auto simp: device_ok_def connections_ok_def one_to_one_def)
qed

text \<open>Surroundings in which the process is told to stop at once.\<close>

definition idle_process :: "'s process_api" where
  "idle_process = \<lparr>pr_getenv = (\<lambda>_. None), pr_running = returnS False, pr_steady = returnS 0,
     pr_sleep = (\<lambda>_. returnS ()), pr_cerr = (\<lambda>_. returnS ())\<rparr>"

section \<open>Exit codes and configuration\<close>

text \<open>A console that takes every text.\<close>

definition console_ok :: "'s process_api \<Rightarrow> bool" where
  "console_ok P \<longleftrightarrow> (\<forall>t s. \<exists>s'. pr_cerr P t s = (Inr (), s'))"

lemma exit_on_exception_codes:
  assumes "console_ok P"
  shows "case exit_on_exception P name m s of
    (Inr code, s') \<Rightarrow> if code = 0 then m s = (Inr (), s') else code = 1 \<and> (\<exists>e s1. m s = (Inl e, s1) \<and> std_exception e)
  | (Inl e, s') \<Rightarrow> m s = (Inl e, s') \<and> \<not> std_exception e"
proof (cases "m s")
  case (Pair r s1)
  show ?thesis
  proof (cases r)
    case (Inl e)
    obtain s2 where "pr_cerr P (name @ '' failed: '' @ what e @ newline) s1 = (Inr (), s2)"
      using assms unfolding console_ok_def by blast
    with Pair Inl show ?thesis
      by (simp add: exit_on_exception_def catch_std_def catchS_def thenS_def bindS_def returnS_def throwS_def)
  qed (use Pair in \<open>simp add: exit_on_exception_def catch_std_def catchS_def thenS_def bindS_def returnS_def\<close>)
qed

lemma while_running_returns:
  "while_running fuel flag pass l s = (Inr u, s') \<Longrightarrow> \<exists>s1. flag s1 = (Inr False, s')"
  by (induction fuel arbitrary: l s) (auto simp: throwS_def bindS_Inr returnS_def split: if_splits)

text \<open>C35: the exit code of \<open>ocs-orch\<close> tells what happened. It is 2 exactly when the number of arguments is
  wrong; 0 only after the running flag has been read as cleared, that is after a signal; in every other case
  it is 1. No exception of a handler leaves the process.\<close>

theorem orch_exit_codes:
  assumes "console_ok P" "orch_main fuel P redis_at J now argv s = (r, s')"
  shows "case r of
      Inr code \<Rightarrow> code \<in> {0, 1, 2} \<and> (code = 2 \<longleftrightarrow> length argv \<noteq> 2) \<and>
        (code = 0 \<longrightarrow> (\<exists>s1. pr_running P s1 = (Inr False, s')))
    | Inl e \<Rightarrow> \<not> std_exception e"
proof (cases "length argv = 2")
  case False
  obtain s1 where "pr_cerr P (''usage: ocs-orch REDIS_ENDPOINT'' @ newline) s = (Inr (), s1)"
    using assms(1) unfolding console_ok_def by blast
  with False assms(2) show ?thesis by (auto simp: orch_main_def thenS_def bindS_def returnS_def)
next
  case True
  define m where "m = bindS (liftE (parseRedisEndpoint (argv ! 1))) (\<lambda>endpoint.
    bindS (liftE (bindE (retryPolicy P) (OrchestratorService_new 5000))) (\<lambda>service.
    thenS (initialize (redis_at endpoint) now) (bindS (pr_steady P) (\<lambda>started.
    while_running fuel (pr_running P) (orch_pass P (redis_at endpoint) J now service) (started + ms 250)))))"
  have "exit_on_exception P ''ocs-orch'' m s = (r, s')"
    using True assms(2) by (simp add: orch_main_def m_def)
  moreover have "\<exists>s1. pr_running P s1 = (Inr False, s2)" if "m s = (Inr (), s2)" for s2
    using that by (auto simp: m_def bindS_Inr thenS_def dest: while_running_returns)
  ultimately show ?thesis
    using exit_on_exception_codes [OF assms(1), where name = "''ocs-orch''" and m = m and s = s] True
    by (auto split: sum.splits if_splits)
qed

theorem orch_exit_codes_witness:
  "fst (orch_main 5 idle_process (\<lambda>_. ref_redis) ref_json_api (returnS 7) [''ocs-orch''] empty_redis) = Inr 2 \<and>
   (\<exists>code. fst (orch_main 5 idle_process (\<lambda>_. ref_redis) ref_json_api (returnS 7) [''ocs-orch'', ''redis''] empty_redis) = Inr code \<and>
      code \<noteq> 2)"
proof -
  have c: "console_ok idle_process" by (simp add: console_ok_def idle_process_def returnS_def)
  let ?m = "orch_main 5 idle_process (\<lambda>_. ref_redis) ref_json_api (returnS 7) [''ocs-orch'', ''redis''] empty_redis"
  have "\<exists>code. fst ?m = Inr code"
    by (simp add: orch_main_def exit_on_exception_def parseRedisEndpoint_def starts_with_def bindS_def liftE_def catch_std_def
        catchS_def thenS_def returnS_def idle_process_def)
  then obtain code s' where m: "?m = (Inr code, s')" by (metis fst_conv prod.exhaust)
  with orch_exit_codes [OF c m] show ?thesis
    by (simp add: orch_main_def [of _ _ _ _ _ "[''ocs-orch'']"] idle_process_def thenS_def bindS_def returnS_def)
qed

text \<open>C36: whatever the environment variables hold, a value that is accepted is within the bounds of its
  service: at most 100 retries and back-off times of at most one hour; with these the orchestrator is
  constructed exactly when the base time does not exceed the maximum. The southbound daemon is always
  constructed, and it polls at least every hour and at most every 10 ms.\<close>

theorem configuration_in_bounds:
  "(case retryPolicy P of Inl e \<Rightarrow> True | Inr policy \<Rightarrow>
      max_retries policy \<le> 100 \<and> 0 \<le> base_backoff policy \<and> base_backoff policy \<le> 3600000 \<and>
      0 \<le> max_backoff policy \<and> max_backoff policy \<le> 3600000 \<and>
      OrchestratorService_new 5000 policy =
        (if base_backoff policy \<le> max_backoff policy then Inr \<lparr>pending_min_idle = 5000, retry_policy = policy\<rparr>
         else Inl (Invalid_argument ''orch apply retry policy is outside supported bounds''))) \<and>
   (case pendingMinIdle P of Inl e \<Rightarrow> True | Inr idle \<Rightarrow>
      SyncdService_new True idle w =
        Inr \<lparr>sy_world = w, sy_device_name = [], sy_device_generation = 0, sy_pending_min_idle = idle\<rparr>) \<and>
   (case devicePollInterval P of Inl e \<Rightarrow> True | Inr interval \<Rightarrow> 10 \<le> interval \<and> interval \<le> 3600000)"
proof (intro conjI, goal_cases)
  case 1
  have env: "0 \<le> v \<and> v \<le> maximum" if "environmentInteger P name fallback maximum = Inr v" "0 \<le> fallback" "fallback \<le> maximum"
    for name fallback maximum v
    using that by (auto simp: environmentInteger_def exn_simps split: option.splits if_splits)
  have le: "(of_int n :: u64) \<le> 100" if "0 \<le> n" "n \<le> 100" for n :: int
    using that by (simp add: word_le_def uint_word_of_int take_bit_int_eq_self)
  show ?case
    by (auto simp: retryPolicy_def exn_simps OrchestratorService_new_def split: sum.splits dest!: env dest: le)
next
  case 2
  show ?case by (auto simp: pendingMinIdle_def SyncdService_new_def exn_simps split: sum.splits option.splits if_splits)
next
  case 3
  show ?case by (auto simp: devicePollInterval_def exn_simps split: sum.splits option.splits if_splits)
qed

section \<open>The device simulator and its tool\<close>

text \<open>An operating system on which the calls of a start succeed, the path being free.\<close>

definition calls_succeed :: "'w server_os \<Rightarrow> bool" where
  "calls_succeed os \<longleftrightarrow> (\<forall>w path fd n.
     fst (fst (so_lstat os path w)) < 0 \<and> so_errno os (snd (so_lstat os path w)) = so_ENOENT os \<and>
     \<not> fst (so_create_directories os path w) \<and> fst (so_socket os w) \<ge> 0 \<and> fst (so_bind os fd path w) \<ge> 0 \<and>
     fst (so_chmod os path n w) \<ge> 0 \<and> fst (so_listen os fd n w) \<ge> 0)"

lemma prepare_path_succeeds:
  assumes "calls_succeed os" "path \<noteq> []" "length path < 108"
  shows "\<exists>w'. prepare_path os path w = (Inr Error_success, w')"
proof -
  have stale: "\<exists>w'. removeStaleSocket os path w = (Inr Error_success, w')" for w
    using assms(1) unfolding calls_succeed_def
    by (auto simp: removeStaleSocket_def bindS_def os_call_def getS_def returnS_def split: prod.splits) (metis fst_conv snd_conv)+
  obtain failed w1 where c: "so_create_directories os (parent_path path) w = (failed, w1)" by (rule prod.exhaust)
  then have "\<not> failed" using assms(1) unfolding calls_succeed_def by (metis fst_conv)
  with c assms(2,3) stale show ?thesis
    by (simp add: prepare_path_def bindS_def os_call_def returnS_def sun_path_size_def)
qed

lemma open_socket_succeeds:
  assumes "calls_succeed os"
  shows "\<exists>fd w'. open_socket os path w = (Inr (Inr fd), w')"
proof -
  obtain fd w1 where 1: "so_socket os w = (fd, w1)" by (rule prod.exhaust)
  obtain b w2 where 2: "so_bind os fd path w1 = (b, w2)" by (rule prod.exhaust)
  obtain m w3 where 3: "so_chmod os path 432 w2 = (m, w3)" by (rule prod.exhaust)
  obtain l w4 where 4: "so_listen os fd 8 w3 = (l, w4)" by (rule prod.exhaust)
  have "\<not> fd < 0" "\<not> b < 0" "\<not> m < 0" "\<not> l < 0"
    using assms 1 2 3 4 unfolding calls_succeed_def by (metis fst_conv not_less)+
  with 1 2 3 4 show ?thesis by (simp add: open_socket_def bindS_def os_call_def returnS_def)
qed

lemma start_succeeds:
  assumes "calls_succeed os" "\<not> running p" "up_socket_path p \<noteq> []" "length (up_socket_path p) < 108"
  shows "Error_ok (fst (start os p))"
proof -
  obtain w1 where "prepare_path os (up_socket_path p) (up_world p) = (Inr Error_success, w1)"
    using prepare_path_succeeds [OF assms(1,3,4)] by blast
  moreover obtain fd w2 where "open_socket os (up_socket_path p) w1 = (Inr (Inr fd), w2)"
    using open_socket_succeeds [OF assms(1)] by blast
  ultimately show ?thesis using assms(2) by (simp add: start_def start_world_def bindS_def)
qed

text \<open>C34: the simulator comes up. Its start always returns, with exit code 1 or with a server. The exit code is
  only possible when the socket path is empty or too long or a system call fails: if the path is free and
  the calls succeed, the server is there. It then runs, in a state the server invariant covers, and its
  device has 16 input ports, 16 output ports, no connection, and the generation read from the clock.\<close>

theorem simulator_boots:
  "let path = (if length argv > 1 then argv ! 1 else ''/tmp/mini-ocs/ocs-hwsim.sock'') in
   \<exists>out. hwsim_boot os t argv w = Some (Inr out) \<and>
     (case out of
        Inl (code, message) \<Rightarrow> code = 1 \<and> \<not> (calls_succeed os \<and> path \<noteq> [] \<and> length path < 108)
      | Inr (p, message) \<Rightarrow> server_reachable J os p \<and> running p \<and> \<not> up_terminated p \<and> up_socket_path p = path \<and>
          di_input_port_count (getDeviceInfo (srv_device (up_server p))) = 16 \<and>
          di_output_port_count (getDeviceInfo (srv_device (up_server p))) = 16 \<and>
          di_generation (getDeviceInfo (srv_device (up_server p))) = t \<and>
          getConnections (srv_device (up_server p)) = [])"
proof -
  let ?info = "defaultDeviceInfo t"
  define path where "path = (if length argv > 1 then argv ! 1 else ''/tmp/mini-ocs/ocs-hwsim.sock'')"
  obtain d where d: "SimulatedOcsDevice_new ?info = Some (Inr d)" "getDeviceInfo d = ?info" "getConnections d = []"
    by (simp add: SimulatedOcsDevice_new_def defaultDeviceInfo_def makePorts_returns getDeviceInfo_def getConnections_def)
  obtain server where s: "UdsServer_new path (Some d) w = Inr server" by (simp add: UdsServer_new_def)
  have init: "up_stopping server = Not_stopping" "\<not> up_terminated server" "srv_device (up_server server) = d"
      "\<not> running server" "up_socket_path server = path"
    using s by (auto simp: UdsServer_new_def running_def)
  have "server_reachable J os server" by (rule server_reachable.created [OF device_ok_new [OF d(1)] s])
  then have reach: "server_reachable J os (snd (start os server))"
    using init by (intro server_reachable_thread [OF _ start_step])
  obtain error server' where st: "start os server = (error, server')" by (rule prod.exhaust)
  have up: "running server' \<and> \<not> up_terminated server' \<and> up_server server' = up_server server \<and> up_socket_path server' = path"
    if "Error_ok error"
    using st that init
    by (auto simp: start_def running_def split: if_splits prod.splits sum.splits dest: start_world_fd start_world_error)
  have "\<not> (calls_succeed os \<and> path \<noteq> [] \<and> length path < 108)" if "\<not> Error_ok error"
    using start_succeeds [of os server] init that st by auto
  with up reach st d s init show ?thesis
    unfolding hwsim_boot_def Let_def path_def [symmetric] by (simp add: defaultDeviceInfo_def)
qed

text \<open>An operating system without files.\<close>

definition bare_os :: "unix_world server_os" where
  "bare_os = unix_os\<lparr>so_lstat := (\<lambda>path w. ((- 1, False), w))\<rparr>"

theorem simulator_boots_witness:
  "\<exists>p message. hwsim_boot bare_os 9 [''ocs-hwsim'', ''/run/a''] fresh_unix = Some (Inr (Inr (p, message))) \<and> running p \<and>
     di_input_port_count (getDeviceInfo (srv_device (up_server p))) = 16"
proof -
  have bare: "calls_succeed bare_os" by (simp add: calls_succeed_def bare_os_def unix_os_def)
  from simulator_boots [of "[''ocs-hwsim'', ''/run/a'']" bare_os 9 fresh_unix ref_json_api, unfolded Let_def] show ?thesis
  proof (elim exE conjE, goal_cases)
    case (1 out)
    then show ?case using bare by (cases out) auto
  qed
qed

lemma remote_fault:
  assumes "json_laws J" "remote_ready J b" "fits (encodeFaultRequest J fault clear)" "fits (encodeFaultResult J r)"
    "(if clear then clearFault fault else injectFault fault) (remote_device b) = (Inr r, d')"
  shows "\<exists>b'. uds_fault J (loopback J) fault clear b = (Inr r, b') \<and> remote_device b' = d'"
proof -
  obtain p q where p: "encodeFaultRequest J fault clear = Inr p" "length p \<le> kMaxPayloadSize"
    and q: "encodeFaultResult J r = Inr q" "length q \<le> kMaxPayloadSize"
    using assms(3,4) by (blast elim: fits_cases)
  have "dispatch J (client_frame kInjectFault i g p) (remote_device b) =
      Some (Inr (reply_frame kFaultResult i (di_generation (getDeviceInfo (remote_device b))) q), d')" for i g
    using decodeFaultRequest_encode [OF assms(1) p(1)] assms(5) q(1)
    by (cases clear) (simp_all add: dispatch_def Let_def client_frame_def reply_with_def reply_frame_def default_Frame_def)
  from exchange_loop [OF assms(2) _ p(2) q(2) this] obtain b' f where
    "exchangeLocked J (loopback J) kInjectFault kFaultResult p b =
       (Inr \<lparr>dec_error = Error_success, dec_frame = Some f\<rparr>, b')" "frame_payload f = q"
    "lw_server (be_world b') = (lw_server (be_world b))\<lparr>srv_device := d'\<rparr>" by auto
  then show ?thesis
    using decodeFaultResult_encode [OF assms(1) q(1)]
    by (simp add: uds_fault_def bindS_def liftE_def p(1) remote_device_def)
qed

lemma parse_port_text: "port \<noteq> 0 \<Longrightarrow> parse_port (to_string_u16 port) = Inr port"
proof -
  assume "port \<noteq> 0"
  have "unat port < 2 ^ 16" using unsigned_less [of port, where 'a = nat] by simp
  then have "stoul (to_string_u16 port) = Inr (ucast port)"
    by (simp add: stoul_def to_string_u16_def)
  then show ?thesis using \<open>port \<noteq> 0\<close>
    by (simp add: parse_port_def ucast_port_range ucast_port_zero not_less word_unat_eq_iff unsigned_ucast_eq
        take_bit_word_eq_self)
qed

text \<open>The words of the tool's command line.\<close>

definition tool_arguments :: "string \<Rightarrow> bool \<Rightarrow> PortDirection \<Rightarrow> PortId \<Rightarrow> string list" where
  "tool_arguments path clear direction port =
     [''ocs-hwsimctl'', path, if clear then ''clear'' else ''inject'',
      if direction = kInput then ''INPUT_PORT_DOWN'' else ''OUTPUT_PORT_DOWN'', to_string_u16 port]"

definition tool_fault :: "PortDirection \<Rightarrow> PortId \<Rightarrow> FaultSpec" where
  "tool_fault direction port = \<lparr>fs_type = (if direction = kInput then kInputPortDown else kOutputPortDown), fs_port_id = port\<rparr>"

text \<open>C33: from the command line to the switch. Run against a simulator over a reliable socket, the fault tool
  leaves the device as the corresponding call on the device does, and its exit code is 0 if the device
  accepts the fault and 1 with the device's error on standard error if it does not.\<close>

theorem fault_tool_reaches_device:
  assumes "json_laws J" "path \<noteq> []" "length path < 108" "port \<noteq> 0"
    "\<not> srv_drop_next_apply_reply (lw_server w)" "fits (encodeDeviceInfo J (getDeviceInfo (srv_device (lw_server w))))"
    "fits (encodeFaultRequest J (tool_fault direction port) clear)" "fits (encodeFaultResult J r)"
    "(if clear then clearFault (tool_fault direction port) else injectFault (tool_fault direction port))
       (srv_device (lw_server w)) = (Inr r, d')"
  shows "\<exists>w'. hwsimctl_main J (loopback J) (tool_arguments path clear direction port) ((), w) =
      (Inr (if Error_ok (fr_error r) then (0, Cout (''OK'' @ newline))
            else (1, Cerr (ErrorCode_toString (err_code (fr_error r)) @ '': '' @ err_message (fr_error r) @ newline))), ((), w')) \<and>
    srv_device (lw_server w') = d'"
proof -
  let ?fault = "tool_fault direction port"
  obtain b where b: "UdsDeviceBackend_new path 1000 w = Inr b" "be_world b = w"
    using assms(2,3) by (simp add: UdsDeviceBackend_new_def sun_path_size_def)
  have ready: "remote_ready J b" "remote_device b = srv_device (lw_server w)"
    using assms(5,6) b(2) by (simp_all add: remote_ready_def remote_device_def)
  obtain b' where b': "uds_fault J (loopback J) ?fault clear b = (Inr r, b')" "remote_device b' = d'"
    using remote_fault [OF assms(1) ready(1) assms(7,8)] assms(9) ready(2) by metis
  have op: "hwsimctl_fault J (loopback J) (if clear then ''clear'' else ''inject'') ?fault b =
      (Inr (if Error_ok (fr_error r) then (0, Cout (''OK'' @ newline))
            else (1, Cerr (ErrorCode_toString (err_code (fr_error r)) @ '': '' @ err_message (fr_error r) @ newline))), b')"
    using b'(1) by (cases clear) (simp_all add: hwsimctl_fault_def bindS_def returnS_def)
  have "lw_server (be_world (snd (closeLocked (loopback J) b'))) = lw_server (be_world b')"
    by (simp add: closeLocked_def modifyS_def loopback_def)
  then have dev: "srv_device (lw_server (be_world (snd (closeLocked (loopback J) b')))) = d'"
    using b'(2) by (simp add: remote_device_def)
  have type: "hwsimctl_faultType (if direction = kInput then ''INPUT_PORT_DOWN'' else ''OUTPUT_PORT_DOWN'') =
      Inr (fs_type ?fault)"
    by (simp add: hwsimctl_faultType_def tool_fault_def)
  show ?thesis
    using op dev type parse_port_text [OF assms(4)] b(1)
    by (simp add: hwsimctl_main_def tool_arguments_def catch_std_def catchS_def bindS_def liftE_def with_backend_def
        on_device_def tool_fault_def)
qed

theorem fault_tool_reaches_device_witness:
  "\<exists>w'. hwsimctl_main ref_json_api (loopback ref_json_api) (tool_arguments ''/run/ocs.sock'' False kInput 1)
      ((), be_world (loop_client example_device)) = (Inr (0, Cout (''OK'' @ newline)), ((), w')) \<and>
     (Inr \<lparr>fr_error = Error_success\<rparr>, srv_device (lw_server w')) = injectFault (tool_fault kInput 1) example_device"
proof -
  have r: "fst (injectFault (tool_fault kInput 1) example_device) = Inr \<lparr>fr_error = Error_success\<rparr>" by code_simp
  then obtain d' where i: "injectFault (tool_fault kInput 1) example_device = (Inr \<lparr>fr_error = Error_success\<rparr>, d')"
    by (metis prod.collapse)
  have "\<not> srv_drop_next_apply_reply (lw_server (be_world (loop_client example_device)))"
    "srv_device (lw_server (be_world (loop_client example_device))) = example_device"
    by (simp_all add: loop_client_def connected_client_def)
  moreover have "fits (encodeDeviceInfo ref_json_api (getDeviceInfo example_device))"
    using remote_ready_example by (simp add: remote_ready_def remote_device_def loop_client_def connected_client_def)
  moreover have "fits (encodeFaultRequest ref_json_api (tool_fault kInput 1) False)"
    "fits (encodeFaultResult ref_json_api \<lparr>fr_error = Error_success\<rparr>)"
    by (simp_all add: fits_def encodeFaultRequest_def encodeFaultResult_def tool_fault_def errorJson_def kMaxPayloadSize_def
        ref_json_api_def ju16_def string_text_def int_text_def num_text_def nat_to_string_small nat_to_string_two)
  ultimately show ?thesis
    using fault_tool_reaches_device [OF json_laws_ref, of "''/run/ocs.sock''" 1 "be_world (loop_client example_device)"
        kInput False "\<lparr>fr_error = Error_success\<rparr>" d'] i by auto
qed

end
