(* ===== verification/Syncd_Write_Ahead.thy ===== *)
theory Syncd_Write_Ahead
  imports Syncd_Durability Processes_Properties
begin

text \<open>
  What the southbound daemon does to the device, in every run of its service (\<open>syncd_service\<close>, the part of
  \<open>cpp/ocs-syncd/main.cpp\<close> from the construction of the service on): a log of its calls shows that a batch is
  sent only after the attempt has been recorded in Redis, that it is executable, and that the device is never
  reset.
\<close>

section \<open>A log of the calls\<close>

text \<open>
  The world of the daemon with the calls that change the device written down beside it. A batch is written
  down with whether, at the moment of the call, an attempt was recorded for its operation id.
\<close>

datatype device_call =
    Apply_call "ConnectionCommand list" ApplyOptions bool
  | Fault_call bool FaultSpec
  | Reset_call ResetMode

type_synonym ('r, 'd) audit_world = "'r \<times> 'd \<times> device_call list"

definition on_audited :: "('d, 'a) sexn \<Rightarrow> (('r, 'd) audit_world, 'a) sexn" where
  "on_audited m w = (case m (fst (snd w)) of (x, d) \<Rightarrow> (x, (fst w, d, snd (snd w))))"

definition noted :: "device_call \<Rightarrow> (('r, 'd) audit_world, 'a) sexn \<Rightarrow> (('r, 'd) audit_world, 'a) sexn" where
  "noted call m w = m (fst w, fst (snd w), snd (snd w) @ [call])"

definition attempt_recorded :: "databases \<Rightarrow> string \<Rightarrow> bool" where
  "attempt_recorded dbs operation_id = key_exists (dbs kDevice) (deviceApplyAttemptKey operation_id)"

definition audited :: "('r \<Rightarrow> databases) \<Rightarrow> 'd OcsDeviceApi \<Rightarrow> ('r, 'd) audit_world OcsDeviceApi" where
  "audited view D =
     \<lparr>api_getDeviceInfo = on_audited (api_getDeviceInfo D),
      api_getHealth = on_audited (api_getHealth D),
      api_applyConnections = (\<lambda>cs options w.
        noted (Apply_call cs options (attempt_recorded (view (fst w)) (opt_operation_id options)))
          (on_audited (api_applyConnections D cs options)) w),
      api_getConnections = on_audited (api_getConnections D),
      api_getInputPortState = (\<lambda>i. on_audited (api_getInputPortState D i)),
      api_getOutputPortState = (\<lambda>i. on_audited (api_getOutputPortState D i)),
      api_reset = (\<lambda>mode w. map_option (\<lambda>(x, d). (x, (fst w, d, snd (snd w) @ [Reset_call mode]))) (api_reset D mode (fst (snd w)))),
      api_injectFault = (\<lambda>f. noted (Fault_call True f) (on_audited (api_injectFault D f))),
      api_clearFault = (\<lambda>f. noted (Fault_call False f) (on_audited (api_clearFault D f)))\<rparr>"

text \<open>A server that runs scripts as they are written, beside the device and the log.\<close>

definition audit_redis :: "'r redis_api \<Rightarrow> ('r \<times> 'x) redis_api" where
  "audit_redis R = (server_of_world R)\<lparr>rd_eval := (\<lambda>db m. m)\<rparr>"

lemma audit_redis_keeps: "redis_keeps (\<lambda>w. Q (snd w)) (audit_redis R)"
  using server_keeps_device [of Q R] by (simp add: redis_keeps_def audit_redis_def)

lemma silent_on_server: "silent view m \<Longrightarrow> silent (\<lambda>w. view (fst w)) (on_server m)"
  by (simp add: silent_def on_server_def split: prod.splits) (metis snd_conv)

lemma on_server_run: "on_server m w = (r, w') \<longleftrightarrow> m (fst w) = (r, fst w') \<and> snd w' = snd w"
  by (auto simp: on_server_def prod_eq_iff split: prod.splits)

lemma audit_redis_laws:
  assumes "redis_laws R view"
  shows "redis_laws (audit_redis R) (\<lambda>w. view (fst w))"
  unfolding redis_laws_def
proof (intro conjI allI impI)
qed (simp_all add: audit_redis_def server_of_world_def silent_on_server silent_reads [OF assms] on_server_run,
     auto dest: exists_law [OF assms] hget_law [OF assms] hgetall_law [OF assms] exec_law [OF assms] simp: commits_def)

section \<open>What the daemon may ask for\<close>

fun allowed :: "device_call \<Rightarrow> bool" where
  "allowed (Apply_call cs options recorded) \<longleftrightarrow>
     recorded \<and> cs \<noteq> [] \<and> 0 < opt_timeout options \<and>
     list_all (\<lambda>c. cc_operation c = kUpsert \<longrightarrow> cc_input_port c \<noteq> 0 \<and> cc_output_port c \<noteq> 0) cs"
| "allowed (Fault_call inject f) \<longleftrightarrow> managed_fault inject f"
| "allowed (Reset_call mode) \<longleftrightarrow> False"

abbreviation log_ok :: "('r, 'd) audit_world \<Rightarrow> bool" where
  "log_ok w \<equiv> list_all allowed (snd (snd w))"

lemma audit_redis_log: "redis_keeps log_ok (audit_redis R)"
  by (rule audit_redis_keeps [where Q = "\<lambda>x. list_all allowed (snd x)"])

lemma on_server_log: "keeps log_ok (on_server m)"
  by (rule keeps_on_server [where Q = "\<lambda>x. list_all allowed (snd x)"])

lemma keeps_on_audited: "keeps log_ok (on_audited m)"
  by (auto simp: keeps_def on_audited_def split: prod.splits)

lemma keeps_noted: "allowed call \<Longrightarrow> keeps log_ok (noted call (on_audited m))"
  by (auto simp: keeps_def noted_def on_audited_def split: prod.splits)

lemma audited_backend: "backend_queries log_ok (audited view D)" "backend_faults log_ok (audited view D)"
  by (simp_all add: backend_queries_def backend_faults_def audited_def keeps_on_audited keeps_noted)

section \<open>From a weaker to a stronger state\<close>

text \<open>A computation that leads from states with one property to states with another, whether it returns or throws.\<close>

definition leads :: "('s \<Rightarrow> bool) \<Rightarrow> ('s, 'a) sexn \<Rightarrow> ('s \<Rightarrow> bool) \<Rightarrow> bool" where
  "leads P m Q \<longleftrightarrow> (\<forall>s. P s \<longrightarrow> Q (snd (m s)))"

lemma leads_keeps: "leads Q m Q = keeps Q m"
  by (simp add: leads_def keeps_def)

lemma leads_weaken: "keeps Q m \<Longrightarrow> (\<And>s. P s \<Longrightarrow> Q s) \<Longrightarrow> leads P m Q"
  by (simp add: leads_def keeps_def)

lemma leads_bindS:
  assumes "\<And>s r s'. P s \<Longrightarrow> m s = (r, s') \<Longrightarrow> Q s' \<and> (\<forall>x. r = Inr x \<longrightarrow> T x s')" "\<And>x. leads (T x) (f x) Q"
  shows "leads P (bindS m f) Q"
  unfolding leads_def
proof (intro allI impI)
  fix s assume s: "P s"
  obtain r s' where m: "m s = (r, s')" by (rule prod.exhaust)
  from assms(1) [OF s m] assms(2) show "Q (snd (bindS m f s))"
    by (cases r) (auto simp: bindS_def m leads_def)
qed

lemma leads_bindS_keeps: "keeps P m \<Longrightarrow> (\<And>s. P s \<Longrightarrow> Q s) \<Longrightarrow> (\<And>x. leads P (f x) Q) \<Longrightarrow> leads P (bindS m f) Q"
  by (rule leads_bindS [where T = "\<lambda>_. P"]) (auto dest: keepsD)

lemma leads_thenS_keeps: "keeps P m \<Longrightarrow> (\<And>s. P s \<Longrightarrow> Q s) \<Longrightarrow> leads P n Q \<Longrightarrow> leads P (thenS m n) Q"
  by (simp add: thenS_def leads_bindS_keeps)

lemma leads_then_keeps: "leads P m Q \<Longrightarrow> (\<And>x. keeps Q (f x)) \<Longrightarrow> leads P (bindS m f) Q"
  by (rule leads_bindS [where T = "\<lambda>_. Q"]) (auto simp: leads_def keeps_def dest!: spec)

lemma leads_catch_std: "leads P m Q \<Longrightarrow> (\<And>e. keeps Q (h e)) \<Longrightarrow> leads P (catch_std m h) Q"
  by (auto simp: leads_def keeps_def catch_std_def catchS_def throwS_def split: prod.splits sum.splits)

lemma leads_if: "(b \<Longrightarrow> leads P m Q) \<Longrightarrow> (\<not> b \<Longrightarrow> leads P n Q) \<Longrightarrow> leads P (if b then m else n) Q"
  by simp

section \<open>The command handler\<close>

text \<open>A batch that the decoder has returned for an event.\<close>

definition batch_of_event :: "EventEnvelope \<Rightarrow> DeviceCommandBatch \<Rightarrow> bool" where
  "batch_of_event event batch \<longleftrightarrow>
     opt_operation_id (batch_options batch) = ev_event_id event \<and> batch_commands batch \<noteq> [] \<and>
     0 < opt_timeout (batch_options batch) \<and>
     list_all (\<lambda>c. cc_operation c = kUpsert \<longrightarrow> cc_input_port c \<noteq> 0 \<and> cc_output_port c \<noteq> 0) (batch_commands batch)"

lemma decodeDeviceCommand_executable:
  assumes "decodeDeviceCommand J payload = Inr b"
  shows "batch_commands b \<noteq> [] \<and> 0 < opt_timeout (batch_options b) \<and>
    list_all (\<lambda>c. cc_operation c = kUpsert \<longrightarrow> cc_input_port c \<noteq> 0 \<and> cc_output_port c \<noteq> 0) (batch_commands b)"
proof -
  from assms obtain commands where m: "mapE (decodeCommand J) (jelems J commands) = Inr (batch_commands b)"
    and b: "batch_commands b \<noteq> []" "0 < opt_timeout (batch_options b)"
    by (auto simp: decodeDeviceCommand_def exn_simps split: if_splits)
  have "cc_input_port c \<noteq> 0 \<and> cc_output_port c \<noteq> 0"
    if "c \<in> set (batch_commands b)" "cc_operation c = kUpsert" for c
  proof -
    from mapE_Inr_set [OF m that(1)] obtain j where "decodeCommand J j = Inr c" by blast
    with that(2) show ?thesis
      by (auto simp: decodeCommand_def exn_simps Let_def dest!: parsePort_nonzero split: if_splits)
  qed
  with b show ?thesis by (simp add: list_all_iff)
qed

lemma decode_or_recover_batch:
  assumes "redis_laws R view" "decode_or_recover R J event s = (Inr batch, s')"
  shows "batch_of_event event batch \<or> db_hashes (view s' kDevice) (deviceApplyResultKey (ev_event_id event)) \<noteq> []"
proof (cases "decodeDeviceCommand J (ev_payload event)")
  case (Inr b)
  with assms(2) have "batch = b\<lparr>batch_options := (batch_options b)\<lparr>opt_operation_id := ev_event_id event\<rparr>\<rparr>"
    by (simp add: decode_or_recover_def catch_std_def catchS_def bindS_def liftE_def returnS_def)
  with decodeDeviceCommand_executable [OF Inr] show ?thesis by (simp add: batch_of_event_def)
next
  case (Inl e)
  from decode_or_recover_stores [OF assms(2) Inl] putHash_run [OF assms(1)] show ?thesis by blast
qed

lemma putHashIfAbsent_recorded:
  assumes "redis_laws R view" "fs \<noteq> []" "putHashIfAbsent R db key fs s = (Inr b, s')"
  shows "key_exists (view s' db) key"
proof -
  have "once_effect view db key (\<lambda>_. [RHmset key fs]) (putHashIfAbsent R db key fs)"
    using assms(1,2) by (simp add: putHashIfAbsent_def once_loop attempts_exec)
  from once_effectD [OF this assms(3)] assms(2) show ?thesis
    by (cases b) (auto simp: takes_effect_def commits_def apply_rcmds_def set_hash_def key_exists_def put_fields_not_Nil)
qed

text \<open>The state of the service while an attempt is recorded.\<close>

abbreviation (input) attempting :: "('r \<Rightarrow> databases) \<Rightarrow> EventEnvelope \<Rightarrow> ('r, 'd) audit_world SyncdService \<Rightarrow> bool" where
  "attempting view event sy \<equiv> log_ok (sy_world sy) \<and> attempt_recorded (view (fst (sy_world sy))) (ev_event_id event)"

lemma keeps_attempting:
  "keeps (attempting view event) (worldS (api_getDeviceInfo (audited view D)))"
  "keeps (attempting view event) (set_identity info)"
  "silent view steady \<Longrightarrow> keeps (attempting view event) (worldS (on_server steady))"
  by (auto simp: keeps_def worldS_def audited_def on_audited_def on_server_def silent_def set_identity_def modifyS_def
      split: prod.splits) (metis snd_conv)

lemma apply_call_logged:
  assumes "batch_of_event event batch"
  shows "leads (attempting view event)
    (worldS (api_applyConnections (audited view D) (batch_commands batch) (batch_options batch))) (\<lambda>sy. log_ok (sy_world sy))"
  using assms
  by (auto simp: leads_def worldS_def audited_def noted_def on_audited_def batch_of_event_def split: prod.splits)

lemma apply_to_device_logged:
  assumes "batch_of_event event batch"
  shows "leads (attempting view event) (apply_to_device (audited view D) event batch) (\<lambda>sy. log_ok (sy_world sy))"
  unfolding apply_to_device_def
  by (intro leads_catch_std leads_bindS_keeps leads_thenS_keeps leads_if leads_then_keeps keeps_attempting
      apply_call_logged [OF assms] keeps_pure leads_weaken) simp_all

lemma attempt_then_apply:
  assumes "redis_laws R view" "silent view steady" "batch_of_event event batch" "fs \<noteq> []"
    "\<And>t y. keeps (\<lambda>sy. log_ok (sy_world sy)) (G t y)"
  shows "keeps (\<lambda>sy. log_ok (sy_world sy))
    (thenS (worldS (putHashIfAbsent (audit_redis R) kDevice (deviceApplyAttemptKey (ev_event_id event)) fs))
     (bindS (worldS (on_server steady)) (\<lambda>t. bindS (apply_to_device (audited view D) event batch) (G t))))"
  unfolding leads_keeps [symmetric] thenS_def
proof (rule leads_bindS [where T = "\<lambda>_. attempting view event"])
  fix sy r sy'
  let ?put = "putHashIfAbsent (audit_redis R) kDevice (deviceApplyAttemptKey (ev_event_id event)) fs"
  assume log: "log_ok (sy_world sy)" and run: "worldS ?put sy = (r, sy')"
  from run obtain w where w: "?put (sy_world sy) = (r, w)" "sy' = sy\<lparr>sy_world := w\<rparr>" by (auto simp: worldS_run)
  have "log_ok w" using keepsD [OF keeps_repository_calls(3) [OF audit_redis_log] log w(1)] .
  moreover have "attempt_recorded (view (fst w)) (ev_event_id event)" if "r = Inr x" for x
    using putHashIfAbsent_recorded [OF audit_redis_laws [OF assms(1)] assms(4) w(1) [unfolded that]]
    by (simp add: attempt_recorded_def)
  ultimately show "log_ok (sy_world sy') \<and> (\<forall>x. r = Inr x \<longrightarrow> attempting view event sy')"
    unfolding w(2) by simp
next
  show "leads (attempting view event)
      (bindS (worldS (on_server steady)) (\<lambda>t. bindS (apply_to_device (audited view D) event batch) (G t)))
      (\<lambda>sy. log_ok (sy_world sy))" for x
    by (intro leads_bindS_keeps keeps_attempting assms leads_then_keeps apply_to_device_logged) simp_all
qed

lemma smap_of_list_not_Nil: "smap_of_list (x # xs) \<noteq> []"
proof
  assume "smap_of_list (x # xs) = []"
  then have "map_of (smap_of_list (x # xs)) (fst x) = None" by (simp only: map_of.simps)
  then show False by (simp add: map_of_smap_of_list)
qed

lemma keeps_apply_command:
  assumes "redis_laws R view" "silent view steady" "batch_of_event (msg_event message) batch"
    "\<And>p. keeps log_ok (after_phase p)"
  shows "keeps (\<lambda>sy. log_ok (sy_world sy))
    (apply_command (audit_redis R) J (audited view D) (on_server now) (on_server steady) after_phase message batch)"
proof -
  note calls = keeps_repository_calls [OF audit_redis_log] keeps_mark [OF audit_redis_log on_server_log]
    keeps_confirm [OF audited_backend(1)] on_server_log assms(4)
  show ?thesis
    unfolding apply_command_def Let_def
    by (intro attempt_then_apply [OF assms(1-3)] smap_of_list_not_Nil keeps_rules keeps_worldS calls)
qed

lemma decode_then_apply:
  assumes "redis_laws R view" "silent view steady" "\<And>p. keeps log_ok (after_phase p)"
    "\<And>batch applied. keeps (\<lambda>sy. log_ok (sy_world sy)) (K batch applied)"
  shows "keeps (\<lambda>sy. log_ok (sy_world sy))
    (bindS (worldS (decode_or_recover (audit_redis R) J (msg_event message))) (\<lambda>batch.
     bindS (worldS (getHash (audit_redis R) kDevice (deviceApplyResultKey (ev_event_id (msg_event message))))) (\<lambda>stored.
     bindS (if stored \<noteq> [] then returnS (Some stored)
            else apply_command (audit_redis R) J (audited view D) (on_server now) (on_server steady) after_phase message batch)
       (K batch))))"
proof -
  let ?event = "msg_event message"
  define has_result where "has_result w \<longleftrightarrow> db_hashes (view (fst w) kDevice) (deviceApplyResultKey (ev_event_id ?event)) \<noteq> []"
    for w :: "('a, 'b) audit_world"
  note laws = audit_redis_laws [OF assms(1)]
  have decode: "log_ok (sy_world sy') \<and> (\<forall>batch. r = Inr batch \<longrightarrow>
      log_ok (sy_world sy') \<and> (batch_of_event ?event batch \<or> has_result (sy_world sy')))"
    if "log_ok (sy_world sy)" "worldS (decode_or_recover (audit_redis R) J ?event) sy = (r, sy')" for sy r sy'
  proof -
    from that(2) obtain w where w: "decode_or_recover (audit_redis R) J ?event (sy_world sy) = (r, w)" "sy' = sy\<lparr>sy_world := w\<rparr>"
      by (auto simp: worldS_run)
    have "log_ok w" using keepsD [OF keeps_decode_or_recover [OF audit_redis_log] that(1) w(1)] .
    moreover have "batch_of_event ?event batch \<or> has_result w" if "r = Inr batch" for batch
      using decode_or_recover_batch [OF laws w(1) [unfolded that]] by (simp add: has_result_def)
    ultimately show ?thesis unfolding w(2) by simp
  qed
  have get: "log_ok (sy_world sy') \<and> (\<forall>stored. r = Inr stored \<longrightarrow>
      log_ok (sy_world sy') \<and> (batch_of_event ?event batch \<or> stored \<noteq> []))"
    if "log_ok (sy_world sy) \<and> (batch_of_event ?event batch \<or> has_result (sy_world sy))"
      "worldS (getHash (audit_redis R) kDevice (deviceApplyResultKey (ev_event_id ?event))) sy = (r, sy')" for sy r sy' batch
  proof -
    let ?get = "getHash (audit_redis R) kDevice (deviceApplyResultKey (ev_event_id ?event))"
    from that(2) obtain w where w: "?get (sy_world sy) = (r, w)" "sy' = sy\<lparr>sy_world := w\<rparr>" by (auto simp: worldS_run)
    have "log_ok w" using keepsD [OF keeps_repository_calls(1) [OF audit_redis_log] conjunct1 [OF that(1)] w(1)] .
    moreover have "batch_of_event ?event batch \<or> stored \<noteq> []" if "r = Inr stored" for stored
      using getHash_run [OF laws w(1) [unfolded that]] \<open>log_ok (sy_world sy) \<and> _\<close> by (auto simp: has_result_def)
    ultimately show ?thesis unfolding w(2) by simp
  qed
  have act: "leads (\<lambda>sy. log_ok (sy_world sy) \<and> (batch_of_event ?event batch \<or> stored \<noteq> []))
      (bindS (if stored \<noteq> [] then returnS (Some stored)
        else apply_command (audit_redis R) J (audited view D) (on_server now) (on_server steady) after_phase message batch) (K batch))
      (\<lambda>sy. log_ok (sy_world sy))" for batch stored
  proof (cases "batch_of_event ?event batch \<or> stored \<noteq> []")
    case True
    then show ?thesis
      by (intro leads_weaken keeps_bindS keeps_if keeps_pure assms(4) keeps_apply_command [OF assms(1,2) _ assms(3)]) auto
  qed (simp add: leads_def)
  show ?thesis
    unfolding leads_keeps [symmetric]
    by (rule leads_bindS [OF decode leads_bindS [OF get act]])
qed

lemma keeps_processOne_logged:
  assumes "redis_laws R view" "silent view steady" "keeps log_ok before_ack" "\<And>p. keeps log_ok (after_phase p)"
  shows "keeps (\<lambda>sy. log_ok (sy_world sy))
    (processOne (audit_redis R) J (audited view D) (on_server now) (on_server steady) consumer before_ack after_phase)"
proof -
  note calls = keeps_repository_calls [OF audit_redis_log] keeps_mark [OF audit_redis_log on_server_log]
    keeps_publish_outcome [OF audit_redis_log on_server_log assms(4)] assms(3)
  show ?thesis
    unfolding processOne_def Let_def
    by (intro decode_then_apply [OF assms(1,2,4)] keeps_rules keeps_worldS calls)
qed

text \<open>C6: what the southbound daemon does to the switch, in every run of its service: with whatever environment,
  signals, events and polls, whatever the device backend answers or throws, wherever the run ends. Every
  batch it sends is written ahead: at the moment of the call Redis holds the record of an attempt under the
  operation id of the batch. Every such batch has commands and a positive timeout and connects real ports
  only. Every fault it injects or clears is one that may be managed: a port fault names a port, and only a
  clear may name all faults. It never resets the device. Redis is assumed to keep its laws, and reading the
  steady clock not to change the databases.\<close>

theorem apply_is_written_ahead:
  assumes "redis_laws R view" "silent view (pr_steady P)"
    "syncd_service fuel (process_of_world P) (audit_redis R) J (audited view D) (on_server now) power_text (r, d, []) =
       (res, (r', d', calls))"
  shows "\<forall>call \<in> set calls. case call of
      Apply_call cs options recorded \<Rightarrow> recorded \<and> cs \<noteq> [] \<and> 0 < opt_timeout options \<and>
        (\<forall>c \<in> set cs. cc_operation c = kUpsert \<longrightarrow> cc_input_port c \<noteq> 0 \<and> cc_output_port c \<noteq> 0)
    | Fault_call inject f \<Rightarrow> fs_type f \<noteq> kOutOfBandDrift \<and>
        (fs_type f \<in> {kInputPortDown, kOutputPortDown} \<longrightarrow> fs_port_id f \<noteq> 0) \<and> (inject \<longrightarrow> fs_type f \<noteq> kAll)
    | Reset_call mode \<Rightarrow> False"
proof -
  have proc: "process_keeps log_ok (process_of_world P :: ('a, 'b) audit_world process_api)"
    by (simp add: process_keeps_def process_of_world_def on_server_log)
  have steady: "pr_steady (process_of_world P :: ('a, 'b) audit_world process_api) = on_server (pr_steady P)"
    by (simp add: process_of_world_def)
  have "keeps log_ok (syncd_service fuel (process_of_world P) (audit_redis R) J (audited view D) (on_server now) power_text)"
    by (rule keeps_syncd_service_gen [OF audit_redis_log on_server_log audited_backend proc], unfold steady,
        intro keeps_processOne_logged assms keeps_process_calls [OF proc] keeps_pure)
  from keepsD [OF this _ assms(3)] have "list_all allowed calls" by simp
  then have allowed: "allowed call" if "call \<in> set calls" for call using that by (simp add: list_all_iff)
  show ?thesis
  proof
    fix call assume "call \<in> set calls"
    from allowed [OF this] show "case call of
        Apply_call cs options recorded \<Rightarrow> recorded \<and> cs \<noteq> [] \<and> 0 < opt_timeout options \<and>
          (\<forall>c \<in> set cs. cc_operation c = kUpsert \<longrightarrow> cc_input_port c \<noteq> 0 \<and> cc_output_port c \<noteq> 0)
      | Fault_call inject f \<Rightarrow> fs_type f \<noteq> kOutOfBandDrift \<and>
          (fs_type f \<in> {kInputPortDown, kOutputPortDown} \<longrightarrow> fs_port_id f \<noteq> 0) \<and> (inject \<longrightarrow> fs_type f \<noteq> kAll)
      | Reset_call mode \<Rightarrow> False"
      by (cases call) (auto simp: managed_fault_def list_all_iff)
  qed
qed

text \<open>A process that is not told to stop, and a server on which a command to connect is pending.\<close>

definition busy_process :: "'s process_api" where
  "busy_process = \<lparr>pr_getenv = (\<lambda>_. None), pr_running = returnS True, pr_steady = returnS 0,
     pr_sleep = (\<lambda>_. returnS ()), pr_cerr = (\<lambda>_. returnS ())\<rparr>"

definition example_commanded :: ref_redis_state where
  "example_commanded = empty_redis\<lparr>
     rr_pending := (\<lambda>db stream. if stream = kDeviceCommands
       then [(''1-0'', eventFields (example_event\<lparr>ev_payload := ref_text (batchJson ref_json_api
               \<lparr>batch_commands = [upsert ''a'' 1 2 5], batch_options = atomic_op []\<rparr>)\<rparr>))]
       else [])\<rparr>"

theorem apply_is_written_ahead_witness:
  "\<forall>passes. list_all (\<lambda>call. case call of Apply_call cs options recorded \<Rightarrow> recorded \<and> cs \<noteq> []
       | Fault_call inject f \<Rightarrow> True | Reset_call mode \<Rightarrow> False)
     (snd (snd (snd (syncd_service passes (process_of_world busy_process) (audit_redis ref_redis) ref_json_api
        (audited rr_dbs InProcessSimBackend) (on_server (returnS 7)) (\<lambda>_. ''0.0'') (example_commanded, example_device, [])))))"
proof
  fix passes
  let ?run = "syncd_service passes (process_of_world busy_process) (audit_redis ref_redis) ref_json_api
        (audited rr_dbs InProcessSimBackend) (on_server (returnS 7)) (\<lambda>_. ''0.0'') (example_commanded, example_device, [])"
  obtain res r d calls where run: "?run = (res, (r, d, calls))" by (metis prod.exhaust)
  have "silent rr_dbs (pr_steady busy_process)" by (simp add: busy_process_def)
  from apply_is_written_ahead [OF redis_laws_ref this run] run
  show "list_all (\<lambda>call. case call of Apply_call cs options recorded \<Rightarrow> recorded \<and> cs \<noteq> []
      | Fault_call inject f \<Rightarrow> True | Reset_call mode \<Rightarrow> False) (snd (snd (snd ?run)))"
    unfolding list_all_iff run snd_conv by (fastforce split: device_call.splits)
qed

end
