(* ===== verification/Spec2Isabelle.thy ===== *)
theory Spec2Isabelle
  imports Connection_State_Machine Device_Properties Reconciler Device_Command Uds_Properties
    Repository_Properties Orchestrator_Properties Syncd_Write_Ahead
begin

text \<open>
  \<^bold>\<open>mini-ocs-nos: a verification library for its C++ services.\<close>

  \<^bold>\<open>The program.\<close> A network operating system for an optical circuit switch. A gateway writes the
  desired cross connections into Redis and appends a configuration event. The orchestrator
  (\<open>cpp/src/orchestrator_service.cpp\<close>) turns events into device commands, tracks the lifecycle of
  every connection and retries commands that time out. The southbound daemon (\<open>syncd_service.cpp\<close>)
  takes device commands from a stream, applies them to a device and publishes state and results. The
  device is a simulated switch (\<open>simulated_ocs_device.cpp\<close>), in the process or behind a Unix socket
  (\<open>uds_server.cpp\<close>, \<open>uds_device_backend.cpp\<close>).

  \<^bold>\<open>How code becomes definitions.\<close> A struct or class is a record, an enum a datatype, a function or
  method a definition of the same name (with a prefix where names clash). Unsigned integers are words of
  their width. Exceptions are values of type \<open>exn\<close> in \<open>Prelude\<close>; code without effects returns
  \<open>'a result\<close>, code with effects is a state and exception computation \<open>sexn\<close> (\<open>State_Exn\<close>) in which
  changes made before a throw stay. \<open>std::map\<close> is a sorted association list (\<open>Std_Map\<close>) behind the
  locale \<open>ordered_map\<close>. A method under a mutex is one function on the state.

  \<^bold>\<open>Parameters.\<close> The JSON library, Redis with its client library, the operating system's sockets, the
  clocks and the text of a floating point number are not part of the repository. They are records of
  operations (\<open>Json\<close>, \<open>Redis_Server\<close>, \<open>Uds_Backend\<close>) or function arguments (\<open>now\<close>, \<open>steady\<close>,
  \<open>power_text\<close>). The southbound daemon takes its device backend as an argument too, as the code does. What
  the code relies on is a named predicate or locale: \<open>json_laws\<close> (what is dumped is read back), \<open>redis_laws\<close>
  (reads read, a transaction takes effect completely or not at all, and after an exception either may be the
  case), \<open>stop_calls\<close> (calls that block on a descriptor return once it is shut down; \<open>unlink\<close> that reports
  success has removed the file). Each has a concrete instance on which the hypotheses are shown to hold.

  \<^bold>\<open>Theories.\<close>
  \<^item> \<open>Errors\<close>, \<open>Device_Types\<close>: \<open>errors.*\<close>, \<open>connection.hpp\<close>, \<open>device_types.hpp\<close>.
  \<^item> \<open>Connection_State_Machine\<close>: the lifecycle table and its guard; the table is the step relation of
    \<open>docs/data-model.md\<close>, and a run is active only after an executing status.
  \<^item> \<open>Simulated_Device\<close>, \<open>Device_Properties\<close>: the switch and its invariant. Connections are one to one,
    the two port tables agree, a batch succeeds exactly when it should and otherwise changes nothing,
    replays answer the recorded result, a batch with an old version is rejected, the cache is bounded and
    evicts the oldest entry, construction ends in one of three ways, nothing throws.
  \<^item> \<open>Device_Api\<close>: the device interface as a record, its contract as the locale \<open>device_contract\<close>,
    interpreted on the in-process backend.
  \<^item> \<open>Reconciler\<close>: drift plans; executing a plan reaches the desired matrix from any actual one.
  \<^item> \<open>Uds_Codec\<close>, \<open>Uds_Json\<close>, \<open>Uds_Server\<close>, \<open>Uds_Backend\<close>, \<open>Uds_Loopback\<close>, \<open>Uds_Properties\<close>: the socket
    protocol. Framing and payloads are inverse, the server survives any bytes, mutating requests are sent
    at most once, and on a loopback transport the remote device refines the in-process one.
  \<^item> \<open>Uds_Lifecycle\<close>, \<open>Uds_Lifecycle_Properties\<close>: starting and stopping the device server, its accept loop
    and its client threads as a transition relation, cut where \<open>accept4\<close> and \<open>recv\<close> may block. Any
    interleaving keeps the crossbar; a stop comes to its end because it shuts down the descriptors the threads
    block on, and it removes the socket file; a failed start leaves no socket open.
  \<^item> \<open>Device_Command\<close>: the JSON form of command batches.
  \<^item> \<open>Redis_Keys\<close>, \<open>Redis_Server\<close>, \<open>Redis_Repository\<close>, \<open>Repository_Properties\<close>: the key schema and the
    repository. Marked publications take effect exactly once; versioned ones never overwrite newer state.
  \<^item> \<open>Orchestrator\<close>, \<open>Orchestrator_Properties\<close>: every handler of the orchestrator; which statuses let a
    command start, the backoff of retries, and the books of the command stream.
  \<^item> \<open>Syncd_Ports\<close>, \<open>Syncd_Recovery\<close>, \<open>Syncd_Reconcile\<close>, \<open>Syncd\<close>: the southbound daemon, in the order of
    its dependencies: payloads, port states and port alarms; the drift alarm and recovery after a restart of
    the device; reconciliation; the service object with its command, fault and polling handlers.
    \<open>Syncd_Properties\<close>: which operations keep a property of the world, durable results, the confirmation
    of a failed apply, and the polling loop. \<open>Syncd_Durability\<close>: a command with a stored result is not
    applied again.
  \<^item> \<open>System\<close>: both daemons over one Redis server and one device; every run keeps the crossbar one to one.
  \<^item> \<open>Processes\<close>, \<open>Processes_Properties\<close>: the four \<open>main.cpp\<close>, with environment variables, loops and exit
    codes. Accepted configuration is within bounds; the simulator comes up with its 16 by 16 device whenever
    the system calls succeed; the fault tool reaches the device.
  \<^item> \<open>Syncd_Write_Ahead\<close>: the service of the southbound daemon with a log of its calls on the device. No batch
    is sent before its attempt is recorded, every batch is executable, the device is never reset.

  \<^bold>\<open>Bounds and fuel.\<close> The optimistic transactions try eight times (\<open>kMaxWatchRetries\<close>) and a key scan
  reads at most 4096 pages, as in the code; the recursions count these down. The loop of \<open>makePorts\<close> has a
  16-bit counter that may wrap, so its model has fuel, and the theorem on construction says exactly when it
  ends. The polling loop of the southbound daemon has the same counter: its fuel is the number of values of
  the counter, running out of it is the exception \<open>Never_returns\<close>, which no handler catches, and the
  theorem on polling says exactly when that happens. The main loops of the processes have as fuel the number
  of their passes, and what is shown of them holds for every fuel. Where the code iterates over an \<open>unordered_map\<close> the
  order is unspecified and the model takes the order of the keys. The loop over a client connection consumes the packets it is given.

  \<^bold>\<open>Concurrency.\<close> Calls on the device are atomic, since the device holds its mutex over each call. The
  threads of the device server interleave as steps of a relation. The daemons are sequential programs that
  share the Redis server. What is shown without \<open>redis_laws\<close> holds whatever Redis answers, so whatever other
  processes write. Where \<open>redis_laws\<close> is assumed the databases change by the commands of the client only:
  these theorems are about the one active orchestrator and the one active southbound daemon that
  \<open>docs/limitations.md\<close> prescribes, and a transaction that reports a conflict is covered while what \<open>WATCH\<close>
  protects against, a write of another client in between, is not.

  \<^bold>\<open>Not modelled.\<close> Installing signal handlers (their effect is the flag the loops read), the connection
  options of the Redis client, the Python gateway and command line, protocol buffers, web console, scripts
  and tests.
\<close>

text \<open>C8: reconciliation closes the loop with the device. When the batch of a plan built from the
  device's own snapshot is applied under a fresh operation id and succeeds, the next plan for the same
  desired connections finds nothing to do.\<close>

theorem reconciliation_converges:
  assumes "device_reachable d" "\<forall>c \<in> set desired. cc_operation c = kUpsert"
    "buildReconciliationPlan desired (getConnections d) = Inr plan"
    "map_of (dev_apply_results d) (opt_operation_id options) = None"
    "applyConnections (batch_commands (plan_full_snapshot plan)) options d = (Inr r, d')" "ApplyResult_ok r"
  shows "\<exists>plan'. buildReconciliationPlan desired (getConnections d') = Inr plan' \<and> converged plan'"
proof -
  have ok: "device_ok d" by (rule device_ok_reachable [OF assms(1)])
  have ok': "device_ok d'" by (rule device_ok_applyConnections [OF ok assms(5)])
  have "distinct (map cc_id desired)" using assms(3) plan_defined_iff by blast
  then obtain plan' where p: "buildReconciliationPlan desired (getConnections d') = Inr plan'"
    using plan_defined_iff [of desired "getConnections d'"] distinct_getConnections [OF ok'] by blast
  have "conn_map (getConnections d') =
      foldl cmd_effect (conn_map (getConnections d)) (batch_commands (plan_full_snapshot plan))"
    by (rule in_process.succeeds [OF ok _ _ assms(6)])
       (use assms in \<open>simp_all add: InProcessSimBackend_def\<close>)
  also have "\<dots> = conn_map (map applied_of desired)"
    using plan_effect [OF assms(3,2)] .
  finally have "converged plan'" using plan_converged [OF p] by simp
  with p show ?thesis by blast
qed

definition switch_desired :: "ConnectionCommand list" where
  "switch_desired = [upsert ''b'' 1 1 6]"

definition switch_plan :: ReconciliationPlan where
  "switch_plan = projr (buildReconciliationPlan switch_desired (getConnections example_connected))"

lemma switch_plan: "buildReconciliationPlan switch_desired (getConnections example_connected) = Inr switch_plan"
proof -
  have "distinct (map cc_id switch_desired)" "distinct (map ac_id (getConnections example_connected))"
    by code_simp+
  then show ?thesis unfolding switch_plan_def using plan_defined_iff by (metis sum.sel(2))
qed

lemma switch_applied:
  "(case fst (applyConnections (batch_commands (plan_full_snapshot switch_plan)) (atomic_op ''op2'') example_connected) of
      Inr r \<Rightarrow> ApplyResult_ok r | Inl _ \<Rightarrow> False)"
  by code_simp

theorem reconciliation_converges_witness:
  "\<exists>d' plan'. buildReconciliationPlan switch_desired (getConnections d') = Inr plan' \<and> converged plan' \<and>
     d' = snd (applyConnections (batch_commands (plan_full_snapshot switch_plan)) (atomic_op ''op2'') example_connected)"
proof -
  obtain r d' where a: "applyConnections (batch_commands (plan_full_snapshot switch_plan)) (atomic_op ''op2'')
      example_connected = (r, d')" by (rule prod.exhaust)
  with switch_applied obtain q where q: "r = Inr q" "ApplyResult_ok q" by (auto split: sum.splits)
  have u: "\<forall>c \<in> set switch_desired. cc_operation c = kUpsert" by code_simp
  have c: "map_of (dev_apply_results example_connected) (opt_operation_id (atomic_op ''op2'')) = None" by code_simp
  from reconciliation_converges [OF example_reachable(2) u switch_plan c a [unfolded q(1)] q(2)] a
  show ?thesis by auto
qed

end
